(* ===== verification/Prelude.thy ===== *)
theory Prelude
  imports Main "HOL-Library.Word"
begin

section \<open>Prelude: machine types, Go errors, generic lemmas\<close>

text \<open>
  Types and facts that every component shares.  A Go function that returns \<open>(T, error)\<close> is
  modelled by the sum type \<open>go_error + 'a\<close>, with \<open>Inl\<close> for a non-nil error.  Unsigned machine
  integers are words of their width; an \<open>int64\<close> (and \<open>int\<close>, which is 64 bits wide on the
  platforms the server is built for) is an \<^typ>\<open>int\<close> on which every operation that
  can leave the range is wrapped explicitly with \<open>wrap64\<close>.  A Go string is a sequence of bytes,
  which is what \<^typ>\<open>string\<close> is.
\<close>

unbundle bit_operations_syntax

type_synonym byte = "8 word"
type_synonym bytes = "byte list"
type_synonym uint8 = "8 word"
type_synonym uint64 = "64 word"

text \<open>Instants are nanoseconds since the Unix epoch, as in Go's \<open>time\<close> package; \<open>unix\<close> is \<open>Time.Unix()\<close>.\<close>

type_synonym instant = int

definition second :: int where
  "second = 1000000000"

definition unix :: "instant \<Rightarrow> int" where
  "unix t = t div second"

definition unix_instant :: "int \<Rightarrow> instant" where
  "unix_instant s = s * second"

subsection \<open>Collections of rules\<close>

named_theorems go_defs \<open>definitions of small helpers, unfolded by the component proofs\<close>
named_theorems frame \<open>state components an operation leaves alone\<close>
named_theorems preserved \<open>an operation preserves a component's invariant\<close>

subsection \<open>Signed 64-bit arithmetic\<close>

definition wrap64 :: "int \<Rightarrow> int" where
  "wrap64 x = (x + 2 ^ 63) mod 2 ^ 64 - 2 ^ 63"

definition in_int64 :: "int \<Rightarrow> bool" where
  "in_int64 x \<longleftrightarrow> - (2 ^ 63) \<le> x \<and> x < 2 ^ 63"

lemma wrap64_id [simp]: "in_int64 x \<Longrightarrow> wrap64 x = x"
  by (simp add: wrap64_def in_int64_def)

lemma wrap64_range [simp]: "in_int64 (wrap64 x)"
  by (simp add: wrap64_def in_int64_def)

lemma wrap64_idem [simp]: "wrap64 (wrap64 x) = wrap64 x"
  by simp

lemma sint_wrap64: "sint (w :: uint64) = wrap64 (uint w)"
  by (simp add: sint_uint wrap64_def signed_take_bit_eq_take_bit_shift take_bit_eq_mod)

lemma sint_in_int64 [simp]: "in_int64 (sint (w :: uint64))"
  by (simp add: sint_wrap64)

text \<open>A conversion \<open>int64(u)\<close> reinterprets the bits; it is the identity below \<open>2^63\<close>.\<close>

lemma sint_uint64: "sint (w :: uint64) = (if uint w < 2 ^ 63 then uint w else uint w - 2 ^ 64)"
proof -
  have "0 \<le> uint w" and "uint w < 2 ^ 64"
    using uint_lt2p [of w] by simp_all
  then have "(uint w + 2 ^ 63) mod 2 ^ 64 =
      (if uint w < 2 ^ 63 then uint w + 2 ^ 63 else uint w + 2 ^ 63 - 2 ^ 64)"
    by (simp add: mod_pos_pos_trivial mod_pos_geq)
  then show ?thesis
    by (simp add: sint_wrap64 wrap64_def)
qed

subsection \<open>Errors\<close>

text \<open>
  \<open>ErrText m\<close> is \<open>errors.New(m)\<close>; \<open>ErrWrap p e\<close> is \<open>fmt.Errorf("p: %w", e)\<close>; \<open>AppError\<close> is
  \<open>domain.AppError\<close> with its code, its message and the error it wraps.
\<close>

datatype go_error =
    ErrText string
  | ErrWrap string go_error
  | AppError string string "go_error option"

type_synonym 'a result = "go_error + 'a"

text \<open>The first error of a sequence of computations is the result; a check that passes is \<open>Inr ()\<close>.\<close>

definition bind_result :: "'a result \<Rightarrow> ('a \<Rightarrow> 'b result) \<Rightarrow> 'b result" where
  "bind_result r f = (case r of Inl e \<Rightarrow> Inl e | Inr x \<Rightarrow> f x)"

definition wrap_err :: "string \<Rightarrow> 'a result \<Rightarrow> 'a result" where
  "wrap_err p r = (case r of Inl e \<Rightarrow> Inl (ErrWrap p e) | Inr x \<Rightarrow> Inr x)"

lemma bind_result_simps [simp]:
  "bind_result (Inl e) f = Inl e"
  "bind_result (Inr x) f = f x"
  by (simp_all add: bind_result_def)

lemma bind_result_Inr: "bind_result r f = Inr y \<longleftrightarrow> (\<exists>x. r = Inr x \<and> f x = Inr y)"
  by (cases r) simp_all

lemma bind_result_Inl:
  "bind_result r f = Inl e \<longleftrightarrow> r = Inl e \<or> (\<exists>x. r = Inr x \<and> f x = Inl e)"
  by (cases r) simp_all

lemma wrap_err_simps [simp]:
  "wrap_err p (Inl e) = Inl (ErrWrap p e)"
  "wrap_err p (Inr x) = Inr x"
  by (simp_all add: wrap_err_def)

lemma wrap_err_Inr [simp]: "wrap_err p r = Inr x \<longleftrightarrow> r = Inr x"
  by (cases r) simp_all

subsection \<open>Lists\<close>

lemma filter_map_cond:
  "(\<And>x. x \<in> set xs \<Longrightarrow> P (f x) = P x) \<Longrightarrow> filter P (map f xs) = map f (filter P xs)"
  by (induction xs) auto

lemma distinct_map_inj_on_key:
  "distinct (map k xs) \<Longrightarrow> x \<in> set xs \<Longrightarrow> y \<in> set xs \<Longrightarrow> k x = k y \<Longrightarrow> x = y"
  by (auto simp: distinct_map inj_on_def)

text \<open>An update of the rows with one key, seen through a selection by key.\<close>

lemma filter_update_key:
  assumes "\<And>r. K (u r) = K r"
  shows "filter (\<lambda>r. K r = c) (map (\<lambda>r. if K r = k then u r else r) rs) =
    (if c = k then map u (filter (\<lambda>r. K r = c) rs) else filter (\<lambda>r. K r = c) rs)"
  using assms by (induction rs) auto

end
