(* ===== verification/GoText.thy ===== *)
theory GoText
  imports Prelude
begin

section \<open>The parts of Go's standard library the server uses on text\<close>

text \<open>
  \<open>strings\<close> (case mapping, prefixes, splitting), \<open>encoding/hex\<close>, the decimal conversions of
  \<open>strconv\<close>, \<open>fmt\<close> and \<open>math/big\<close>, and the text of an error.  Case mapping is the ASCII part of
  Go's: bytes of multi-byte UTF-8 sequences are left alone.  The two conversions with a
  round trip (hex and decimal) come with both directions of it.
\<close>

subsection \<open>strings\<close>

definition ascii_lower :: "char \<Rightarrow> char" where
  "ascii_lower c = (let k = (of_char c :: nat) in if 65 \<le> k \<and> k \<le> 90 then char_of (k + 32) else c)"

definition ascii_upper :: "char \<Rightarrow> char" where
  "ascii_upper c = (let k = (of_char c :: nat) in if 97 \<le> k \<and> k \<le> 122 then char_of (k - 32) else c)"

definition to_lower :: "string \<Rightarrow> string" where
  "to_lower s = map ascii_lower s"

definition to_upper :: "string \<Rightarrow> string" where
  "to_upper s = map ascii_upper s"

definition equal_fold :: "string \<Rightarrow> string \<Rightarrow> bool" where
  "equal_fold s t \<longleftrightarrow> to_lower s = to_lower t"

definition has_prefix :: "string \<Rightarrow> string \<Rightarrow> bool" where
  "has_prefix s p \<longleftrightarrow> take (length p) s = p"

definition trim_prefix :: "string \<Rightarrow> string \<Rightarrow> string" where
  "trim_prefix s p = (if has_prefix s p then drop (length p) s else s)"

text \<open>\<open>strings.TrimSpace\<close> on the ASCII white space.\<close>

definition is_space :: "char \<Rightarrow> bool" where
  "is_space c \<longleftrightarrow> (of_char c :: nat) \<in> {9, 10, 11, 12, 13, 32}"

definition trim_space :: "string \<Rightarrow> string" where
  "trim_space s = rev (dropWhile is_space (rev (dropWhile is_space s)))"

text \<open>\<open>strings.Split(s, sep)\<close> for a one-byte separator: the fields between the separators.\<close>

fun split_on :: "char \<Rightarrow> string \<Rightarrow> string list" where
  "split_on c [] = [[]]"
| "split_on c (x # xs) =
     (if x = c then [] # split_on c xs
      else (case split_on c xs of [] \<Rightarrow> [[x]] | f # fs \<Rightarrow> (x # f) # fs))"

text \<open>\<open>strings.SplitN(s, ": ", 2)[0]\<close>: what comes before the first \<open>": "\<close>, or all of \<open>s\<close>.\<close>

fun before_colon :: "string \<Rightarrow> string" where
  "before_colon [] = []"
| "before_colon (x # xs) =
     (if has_prefix (x # xs) '': '' then [] else x # before_colon xs)"

definition replace_char :: "char \<Rightarrow> char \<Rightarrow> string \<Rightarrow> string" where
  "replace_char a b s = map (\<lambda>c. if c = a then b else c) s"

lemma ascii_lower_idem [simp]: "ascii_lower (ascii_lower c) = ascii_lower c"
  by (cases "65 \<le> (of_char c :: nat) \<and> (of_char c :: nat) \<le> 90")
    (auto simp: ascii_lower_def Let_def)

lemma to_lower_idem [simp]: "to_lower (to_lower s) = to_lower s"
  by (simp add: to_lower_def)

lemma to_lower_append [simp]: "to_lower (s @ t) = to_lower s @ to_lower t"
  by (simp add: to_lower_def)

lemma to_lower_Nil [simp]: "to_lower [] = []"
  by (simp add: to_lower_def)

lemma length_to_lower [simp]: "length (to_lower s) = length s"
  by (simp add: to_lower_def)

lemma equal_fold_refl [simp]: "equal_fold s s"
  by (simp add: equal_fold_def)

lemma equal_fold_sym: "equal_fold s t \<Longrightarrow> equal_fold t s"
  by (simp add: equal_fold_def)

lemma equal_fold_trans: "equal_fold s t \<Longrightarrow> equal_fold t u \<Longrightarrow> equal_fold s u"
  by (simp add: equal_fold_def)

lemma has_prefix_append [simp]: "has_prefix (p @ s) p"
  by (simp add: has_prefix_def)

lemma trim_prefix_append [simp]: "trim_prefix (p @ s) p = s"
  by (simp add: trim_prefix_def)

lemma trim_0x [simp]: "trim_prefix (CHR ''0'' # CHR ''x'' # s) ''0x'' = s"
  by (simp add: trim_prefix_def has_prefix_def)

lemma has_prefix_iff: "has_prefix s p \<longleftrightarrow> (\<exists>t. s = p @ t)"
  by (metis append_take_drop_id append_eq_conv_conj has_prefix_def)

subsection \<open>The text of an error\<close>

fun error_string :: "go_error \<Rightarrow> string" where
  "error_string (ErrText m) = m"
| "error_string (ErrWrap p e) = p @ '': '' @ error_string e"
| "error_string (AppError c m None) = c @ '': '' @ m"
| "error_string (AppError c m (Some e)) = c @ '': '' @ m @ '': '' @ error_string e"

text \<open>\<open>errors.As\<close> for the target type \<open>*AppError\<close>: the first one on the chain of \<open>Unwrap\<close>s.\<close>

fun as_app_error :: "go_error \<Rightarrow> (string \<times> string) option" where
  "as_app_error (ErrText m) = None"
| "as_app_error (ErrWrap p e) = as_app_error e"
| "as_app_error (AppError c m w) = Some (c, m)"

subsection \<open>encoding/hex\<close>

definition hex_val :: "char \<Rightarrow> byte option" where
  "hex_val c = (let k = (of_char c :: nat) in
     if 48 \<le> k \<and> k \<le> 57 then Some (of_nat (k - 48))
     else if 97 \<le> k \<and> k \<le> 102 then Some (of_nat (k - 87))
     else if 65 \<le> k \<and> k \<le> 70 then Some (of_nat (k - 55))
     else None)"

definition hex_digit :: "byte \<Rightarrow> char" where
  "hex_digit n = ''0123456789abcdef'' ! unat n"

definition invalid_byte :: "char \<Rightarrow> go_error" where
  "invalid_byte c = ErrText (''encoding/hex: invalid byte: '' @ [c])"

definition hex_odd_length :: go_error where
  "hex_odd_length = ErrText ''encoding/hex: odd length hex string''"

fun hex_decode_string :: "string \<Rightarrow> bytes result" where
  "hex_decode_string [] = Inr []"
| "hex_decode_string [c] = (if hex_val c = None then Inl (invalid_byte c) else Inl hex_odd_length)"
| "hex_decode_string (a # b # s) =
     (case hex_val a of
        None \<Rightarrow> Inl (invalid_byte a)
      | Some x \<Rightarrow>
          (case hex_val b of
             None \<Rightarrow> Inl (invalid_byte b)
           | Some y \<Rightarrow> bind_result (hex_decode_string s) (\<lambda>bs. Inr ((push_bit 4 x OR y) # bs))))"

definition hex_encode_byte :: "byte \<Rightarrow> string" where
  "hex_encode_byte b = [hex_digit (drop_bit 4 b), hex_digit (b AND 15)]"

definition hex_encode_to_string :: "bytes \<Rightarrow> string" where
  "hex_encode_to_string bs = concat (map hex_encode_byte bs)"


lemma char_in_range:
  assumes "lo \<le> (of_char c :: nat)" and "of_char c < hi"
  shows "c \<in> char_of ` set [lo..<hi]"
proof -
  have "(of_char c :: nat) \<in> set [lo..<hi]"
    using assms by simp
  then have "(char_of (of_char c :: nat) :: char) \<in> char_of ` set [lo..<hi]"
    by (rule imageI)
  then show ?thesis by simp
qed

lemma hex_char_cases:
  assumes "hex_val c = Some x"
  shows "c \<in> set ''0123456789abcdefABCDEF''"
proof -
  have "48 \<le> (of_char c :: nat) \<and> (of_char c :: nat) < 58 \<or>
      97 \<le> (of_char c :: nat) \<and> (of_char c :: nat) < 103 \<or>
      65 \<le> (of_char c :: nat) \<and> (of_char c :: nat) < 71"
    using assms by (simp add: hex_val_def Let_def split: if_splits)
  then have "c \<in> char_of ` set [48..<58::nat] \<union> char_of ` set [97..<103::nat] \<union>
      char_of ` set [65..<71::nat]"
    using char_in_range [of 48 c 58] char_in_range [of 97 c 103] char_in_range [of 65 c 71]
    by blast
  then show ?thesis
    by (auto simp add: upt_rec [of "numeral _"] char_of_def bit_0)
qed

lemma hex_val_char: "hex_val c = Some x \<Longrightarrow> x < 16 \<and> hex_digit x = ascii_lower c"
  by (frule hex_char_cases) (auto simp: hex_val_def hex_digit_def ascii_lower_def char_of_def bit_0)

lemma nat_lt_16: "(m :: nat) < 16 \<longleftrightarrow> m \<in> {0,1,2,3,4,5,6,7,8,9,10,11,12,13,14,15}"
  by simp presburger

lemma nibble_cases:
  assumes "(n :: byte) < 16"
  shows "n \<in> {0,1,2,3,4,5,6,7,8,9,10,11,12,13,14,15}"
proof -
  have "unat n < 16"
    using assms by (simp add: word_less_nat_alt)
  then have "word_of_nat (unat n) \<in>
      (word_of_nat :: nat \<Rightarrow> byte) ` {0,1,2,3,4,5,6,7,8,9,10,11,12,13,14,15}"
    unfolding nat_lt_16 by (rule imageI)
  then show ?thesis by simp
qed

lemma hex_val_digit: "n < 16 \<Longrightarrow> hex_val (hex_digit n) = Some n"
  by (drule nibble_cases) (auto simp: hex_val_def hex_digit_def)

lemma nibble_take_bit: "(x :: byte) < 16 \<Longrightarrow> take_bit 4 x = x"
  by (simp add: take_bit_eq_mod word_mod_def word_less_def)

lemma drop_bit_nibble: "drop_bit 4 (b :: byte) < 16"
proof -
  have "unat b < 2 ^ LENGTH(8)"
    by (rule unsigned_less)
  moreover have "unat (drop_bit 4 b) = unat b div 16"
    using unat_drop_bit_eq [of 4 b] by (simp only: drop_bit_eq_div [of 4 "unat b"]) simp
  ultimately show ?thesis
    by (simp only: word_less_nat_alt) (simp add: less_mult_imp_div_less)
qed

lemma and_15_nibble: "(b :: byte) AND 15 < 16"
  by (simp add: word_le_less_eq le_less_trans [OF word_and_le1])

lemma and_15: "(b :: byte) AND 15 = take_bit 4 b"
  by (simp add: take_bit_eq_mask mask_eq_exp_minus_1)

lemma join_nibbles: "push_bit 4 (drop_bit 4 b) OR (b AND 15) = (b :: byte)"
  unfolding and_15 by (rule bit_eqI) (auto simp: bit_simps)

lemma split_nibbles:
  assumes "x < 16" "y < (16 :: byte)"
  shows "drop_bit 4 (push_bit 4 x OR y) = x" and "(push_bit 4 x OR y) AND 15 = y"
proof -
  have x: "take_bit 4 x = x" and y: "take_bit 4 y = y"
    using assms by (simp_all add: nibble_take_bit)
  have bx: "bit x n \<Longrightarrow> n < 4" and "by": "bit y n \<Longrightarrow> n < 4" for n
    using x y by (metis bit_take_bit_iff)+
  show "drop_bit 4 (push_bit 4 x OR y) = x"
    by (rule bit_eqI) (use bx "by" in \<open>force simp: bit_simps\<close>)
  show "(push_bit 4 x OR y) AND 15 = y"
    unfolding and_15 by (rule bit_eqI) (use "by" in \<open>force simp: bit_simps\<close>)
qed

lemma hex_encode_Nil [simp]: "hex_encode_to_string [] = []"
  by (simp add: hex_encode_to_string_def)

lemma hex_encode_Cons [simp]:
  "hex_encode_to_string (b # bs) =
     hex_digit (drop_bit 4 b) # hex_digit (b AND 15) # hex_encode_to_string bs"
  by (simp add: hex_encode_to_string_def hex_encode_byte_def)

lemma length_hex_encode [simp]: "length (hex_encode_to_string bs) = 2 * length bs"
  by (induction bs) simp_all

lemma hex_encode_append: "hex_encode_to_string (xs @ ys) = hex_encode_to_string xs @ hex_encode_to_string ys"
  by (induction xs) simp_all

lemma hex_encode_joined:
  "x < 16 \<Longrightarrow> y < 16 \<Longrightarrow>
     hex_encode_to_string ((push_bit 4 x OR y) # bs) = hex_digit x # hex_digit y # hex_encode_to_string bs"
  by (simp only: hex_encode_Cons split_nibbles)

text \<open>Decoding what was encoded gives the bytes back.\<close>

lemma hex_decode_encode [simp]: "hex_decode_string (hex_encode_to_string bs) = Inr bs"
  by (induction bs) (simp_all add: hex_val_digit drop_bit_nibble and_15_nibble join_nibbles)

lemma hex_encode_to_string_inject [simp]:
  "hex_encode_to_string a = hex_encode_to_string b \<longleftrightarrow> a = b"
  by (metis hex_decode_encode sum.inject(2))

lemma hex_encode_eq_Nil [simp]: "hex_encode_to_string b = [] \<longleftrightarrow> b = []"
  by (cases b) simp_all

text \<open>Encoding what was decoded gives the text back in lower case.\<close>

lemma hex_encode_decode: "hex_decode_string s = Inr bs \<Longrightarrow> hex_encode_to_string bs = to_lower s"
proof (induction s arbitrary: bs rule: hex_decode_string.induct)
  case (3 a b s)
  then obtain x y bs' where
    "hex_val a = Some x" "hex_val b = Some y" "hex_decode_string s = Inr bs'"
    and bs: "bs = (push_bit 4 x OR y) # bs'"
    by (auto simp: bind_result_Inr split: option.splits)
  with 3 show ?case
    by (auto simp: bs hex_encode_joined to_lower_def simp del: hex_encode_Cons dest!: hex_val_char)
qed (auto simp: to_lower_def split: if_splits)

lemma length_hex_decode: "hex_decode_string s = Inr bs \<Longrightarrow> length s = 2 * length bs"
  by (metis hex_encode_decode length_hex_encode length_to_lower)

lemma hex_decode_case_insensitive:
  assumes "hex_decode_string s = Inr bs" and "hex_decode_string t = Inr cs"
  shows "bs = cs \<longleftrightarrow> equal_fold s t"
  using assms by (metis equal_fold_def hex_decode_encode hex_encode_decode sum.inject(2))

lemma hex_decode_take_drop:
  assumes "hex_decode_string s = Inr bs"
  shows "hex_decode_string (take (2 * n) s) = Inr (take n bs)"
    and "hex_decode_string (drop (2 * n) s) = Inr (drop n bs)"
proof -
  have "hex_decode_string (take (2 * n) s) = Inr (take n bs) \<and>
      hex_decode_string (drop (2 * n) s) = Inr (drop n bs)"
    using assms
  proof (induction s arbitrary: bs n rule: hex_decode_string.induct)
    case (3 a b s)
    then show ?case
      by (cases n) (auto simp: bind_result_Inr split: option.splits)
  qed (auto split: if_splits)
  then show "hex_decode_string (take (2 * n) s) = Inr (take n bs)"
    and "hex_decode_string (drop (2 * n) s) = Inr (drop n bs)" by simp_all
qed

subsection \<open>Decimal text: fmt, strconv and math/big\<close>

definition dec_digit :: "nat \<Rightarrow> char" where
  "dec_digit n = ''0123456789'' ! n"

fun dec_of_nat :: "nat \<Rightarrow> string" where
  "dec_of_nat n = (if n < 10 then [dec_digit n] else dec_of_nat (n div 10) @ [dec_digit (n mod 10)])"

declare dec_of_nat.simps [simp del]

text \<open>\<open>big.Int.String()\<close>, which is also \<open>fmt\<close>'s \<open>%d\<close> and \<open>strconv.Itoa\<close>.\<close>

definition dec_of_int :: "int \<Rightarrow> string" where
  "dec_of_int i = (if i < 0 then CHR ''-'' # dec_of_nat (nat (- i)) else dec_of_nat (nat i))"

definition is_digit :: "char \<Rightarrow> bool" where
  "is_digit c \<longleftrightarrow> 48 \<le> (of_char c :: nat) \<and> (of_char c :: nat) \<le> 57"

definition digit_val :: "char \<Rightarrow> nat" where
  "digit_val c = of_char c - 48"

definition dec_value :: "string \<Rightarrow> nat" where
  "dec_value ds = foldl (\<lambda>v c. 10 * v + digit_val c) 0 ds"

definition split_sign :: "string \<Rightarrow> bool \<times> string" where
  "split_sign s = (case s of
      [] \<Rightarrow> (False, [])
    | c # r \<Rightarrow> if c = CHR ''-'' then (True, r) else if c = CHR ''+'' then (False, r) else (False, s))"

text \<open>
  \<open>z.SetString(s, 10)\<close> on a receiver \<open>z\<close> that was zero: the value left in \<open>z\<close> and whether the
  conversion succeeded.  Go documents the value after a failure as undefined; what
  \<open>math/big\<close> leaves there is the value of the longest prefix that scans, because the scanner
  stores the number before the check that the whole string was consumed.
\<close>

definition big_set_string :: "string \<Rightarrow> int \<times> bool" where
  "big_set_string s =
     (let (neg, r) = split_sign s;
          ds = takeWhile is_digit r;
          v = int (dec_value ds)
      in ((if neg then - v else v), ds \<noteq> [] \<and> dropWhile is_digit r = []))"

text \<open>\<open>strconv.Atoi\<close>: the value and whether the error is nil; out of range it saturates, with an error.\<close>

definition max_int64 :: int where
  "max_int64 = 2 ^ 63 - 1"

definition min_int64 :: int where
  "min_int64 = - (2 ^ 63)"

definition atoi :: "string \<Rightarrow> int \<times> bool" where
  "atoi s = (case big_set_string s of
      (v, False) \<Rightarrow> (0, False)
    | (v, True) \<Rightarrow>
        if v > max_int64 then (max_int64, False)
        else if v < min_int64 then (min_int64, False)
        else (v, True))"

text \<open>\<open>new(big.Int).SetBytes\<close>: big-endian.\<close>

definition be_nat :: "bytes \<Rightarrow> nat" where
  "be_nat bs = foldl (\<lambda>v b. 256 * v + unat b) 0 bs"

lemma nat_lt_10: "(m :: nat) < 10 \<longleftrightarrow> m \<in> {0,1,2,3,4,5,6,7,8,9}"
  by simp presburger

lemma dec_digit_props [simp]:
  "n < 10 \<Longrightarrow> is_digit (dec_digit n)"
  "n < 10 \<Longrightarrow> digit_val (dec_digit n) = n"
  "n < 10 \<Longrightarrow> dec_digit n \<noteq> CHR ''-''"
  "n < 10 \<Longrightarrow> dec_digit n \<noteq> CHR ''+''"
  by (auto simp: nat_lt_10 dec_digit_def is_digit_def digit_val_def)

lemma dec_of_nat_digits: "\<forall>c \<in> set (dec_of_nat n). is_digit c"
proof (induction n rule: dec_of_nat.induct)
  case (1 n)
  then show ?case
    by (subst dec_of_nat.simps) auto
qed

lemma dec_of_nat_nonempty [simp]: "dec_of_nat n \<noteq> []"
  by (subst dec_of_nat.simps) simp

lemma dec_value_of_nat [simp]: "dec_value (dec_of_nat n) = n"
proof (induction n rule: dec_of_nat.induct)
  case (1 n)
  then show ?case
    by (subst dec_of_nat.simps) (auto simp: dec_value_def)
qed

lemma hd_dec_of_nat: "is_digit (hd (dec_of_nat n))"
  by (rule bspec [OF dec_of_nat_digits [of n]]) simp

lemma digit_not_sign: "is_digit c \<Longrightarrow> c \<noteq> CHR ''-'' \<and> c \<noteq> CHR ''+''"
  by (auto simp: is_digit_def)

lemma split_sign_dec_of_nat [simp]: "split_sign (dec_of_nat n) = (False, dec_of_nat n)"
  using hd_dec_of_nat [of n] by (auto simp: split_sign_def dest: digit_not_sign split: list.splits)

lemma takeWhile_dec_of_nat [simp]:
  "takeWhile is_digit (dec_of_nat n) = dec_of_nat n"
  "dropWhile is_digit (dec_of_nat n) = []"
  using dec_of_nat_digits [of n] by simp_all

lemma dec_of_int_nonempty [simp]: "dec_of_int i \<noteq> []"
  by (simp add: dec_of_int_def)

text \<open>Reading back what was printed gives the number.\<close>

lemma big_set_string_dec [simp]: "big_set_string (dec_of_int i) = (i, True)"
proof (cases "i < 0")
  case True
  then have "split_sign (dec_of_int i) = (True, dec_of_nat (nat (- i)))"
    by (simp add: split_sign_def dec_of_int_def)
  with True show ?thesis
    by (simp add: big_set_string_def dec_of_nat_digits)
next
  case False
  then show ?thesis
    by (simp add: big_set_string_def dec_of_int_def dec_of_nat_digits)
qed

lemma dec_of_int_inject [simp]: "dec_of_int i = dec_of_int j \<longleftrightarrow> i = j"
  by (metis big_set_string_dec prod.inject)

lemma atoi_dec: "in_int64 i \<Longrightarrow> atoi (dec_of_int i) = (i, True)"
  by (simp add: atoi_def in_int64_def max_int64_def min_int64_def)

lemma atoi_in_int64: "in_int64 (fst (atoi s))"
  by (simp add: atoi_def in_int64_def max_int64_def min_int64_def split: prod.splits bool.splits)

subsection \<open>Quoted text\<close>

text \<open>\<open>%q\<close>: the text in double quotes, control characters escaped (ASCII).\<close>

definition quote_char :: "char \<Rightarrow> string" where
  "quote_char c = (let k = (of_char c :: nat) in
     if c = CHR 0x22 then [CHR 0x5C, CHR 0x22]
     else if c = CHR 0x5C then [CHR 0x5C, CHR 0x5C]
     else if k = 7 then [CHR 0x5C, CHR ''a''] else if k = 8 then [CHR 0x5C, CHR ''b'']
     else if k = 9 then [CHR 0x5C, CHR ''t''] else if k = 10 then [CHR 0x5C, CHR ''n'']
     else if k = 11 then [CHR 0x5C, CHR ''v''] else if k = 12 then [CHR 0x5C, CHR ''f'']
     else if k = 13 then [CHR 0x5C, CHR ''r'']
     else if k < 32 \<or> k = 127 then [CHR 0x5C, CHR ''x''] @ hex_encode_byte (of_nat k)
     else [c])"

definition go_quote :: "string \<Rightarrow> string" where
  "go_quote s = [CHR 0x22] @ concat (map quote_char s) @ [CHR 0x22]"

end
