(* ===== verification/GoJson.thy ===== *)
theory GoJson
  imports GoText
begin

section \<open>encoding/json on values\<close>

text \<open>
  A JSON document is modelled by its value, not by its bytes: \<open>json.Marshal\<close> of a Go value is a
  tree, and \<open>json.Unmarshal\<close> reads one.  An object keeps its members in order and may repeat
  a name.  Reading into a struct follows Go's rules: a member goes to the field whose name it
  has up to case, a later member overwrites an earlier one, an unknown member is ignored, a
  missing member and \<open>null\<close> leave the zero value, and a value of the wrong kind is an error.
\<close>

datatype json =
    JNull
  | JBool bool
  | JNum int
  | JStr string
  | JArr "json list"
  | JObj "(string \<times> json) list"

definition type_error :: "string \<Rightarrow> go_error" where
  "type_error t = ErrText (''json: cannot unmarshal value into Go value of type '' @ t)"

definition json_members :: "json \<Rightarrow> (string \<times> json) list result" where
  "json_members j = (case j of
      JObj ms \<Rightarrow> Inr ms
    | JNull \<Rightarrow> Inr []
    | _ \<Rightarrow> Inl (type_error ''struct''))"

text \<open>The members that go to the field \<open>name\<close>, in the order in which they overwrite each other.\<close>

definition json_field :: "string \<Rightarrow> (string \<times> json) list \<Rightarrow> json list" where
  "json_field name ms = map snd (filter (\<lambda>(k, v). equal_fold k name) ms)"

fun decode_string :: "string \<Rightarrow> json list \<Rightarrow> string result" where
  "decode_string z [] = Inr z"
| "decode_string z (JStr s # js) = decode_string s js"
| "decode_string z (JNull # js) = decode_string z js"
| "decode_string z (j # js) = Inl (type_error ''string'')"

fun decode_bool :: "bool \<Rightarrow> json list \<Rightarrow> bool result" where
  "decode_bool z [] = Inr z"
| "decode_bool z (JBool b # js) = decode_bool b js"
| "decode_bool z (JNull # js) = decode_bool z js"
| "decode_bool z (j # js) = Inl (type_error ''bool'')"

definition string_field :: "string \<Rightarrow> (string \<times> json) list \<Rightarrow> string result" where
  "string_field name ms = decode_string [] (json_field name ms)"

definition bool_field :: "string \<Rightarrow> (string \<times> json) list \<Rightarrow> bool result" where
  "bool_field name ms = decode_bool False (json_field name ms)"

text \<open>PostgreSQL's \<open>->>\<close> on an object: the member of exactly this name, as text.\<close>

definition json_text :: "string \<Rightarrow> json \<Rightarrow> string option" where
  "json_text name j = (case j of
      JObj ms \<Rightarrow> (case map_of (rev ms) name of Some (JStr s) \<Rightarrow> Some s | _ \<Rightarrow> None)
    | _ \<Rightarrow> None)"

lemma json_members_obj [simp]: "json_members (JObj ms) = Inr ms"
  by (simp add: json_members_def)

text \<open>Field names are decided by evaluation: the names below are literals.\<close>

lemmas json_field_eval = json_field_def string_field_def bool_field_def
  equal_fold_def to_lower_def ascii_lower_def char_of_def bit_0

end
