(* ===== verification/Domain.thy ===== *)
theory Domain
  imports GoJson
begin

section \<open>internal/domain: orders, events, errors\<close>

text \<open>
  The data model of \<open>internal/domain\<close>: the order with its enumerations (kept as the bytes
  the Go constants number, since every value from 0 to 255 can be stored in the field), the price
  of an order at an instant, expiry, the payloads of the contract events with the JSON they travel
  as, and the request and filter types.  The lemmas give the meaning of \<open>CurrentPrice\<close>: its
  endpoints, its bounds, its monotonicity and the direction in which it rounds.
\<close>

subsection \<open>Enumerations\<close>

abbreviation (input) Sell :: uint8 where "Sell \<equiv> 0"
abbreviation (input) Buy :: uint8 where "Buy \<equiv> 1"

definition side_string :: "uint8 \<Rightarrow> string" where
  "side_string s = (if s = Sell then ''Sell'' else if s = Buy then ''Buy'' else ''Unknown'')"

abbreviation (input) FixedPrice :: uint8 where "FixedPrice \<equiv> 0"
abbreviation (input) DutchAuction :: uint8 where "DutchAuction \<equiv> 1"
abbreviation (input) CollectionBid :: uint8 where "CollectionBid \<equiv> 2"
abbreviation (input) TraitBid :: uint8 where "TraitBid \<equiv> 3"
abbreviation (input) Bundle :: uint8 where "Bundle \<equiv> 4"

definition kind_string :: "uint8 \<Rightarrow> string" where
  "kind_string k =
     (if k = FixedPrice then ''FixedPrice''
      else if k = DutchAuction then ''DutchAuction''
      else if k = CollectionBid then ''CollectionBid''
      else if k = TraitBid then ''TraitBid''
      else if k = Bundle then ''Bundle''
      else ''Unknown'')"

abbreviation (input) ERC721 :: uint8 where "ERC721 \<equiv> 0"
abbreviation (input) ERC1155 :: uint8 where "ERC1155 \<equiv> 1"

definition asset_type_string :: "uint8 \<Rightarrow> string" where
  "asset_type_string a =
     (if a = ERC721 then ''ERC721'' else if a = ERC1155 then ''ERC1155'' else ''Unknown'')"

abbreviation (input) Active :: uint8 where "Active \<equiv> 0"
abbreviation (input) Filled :: uint8 where "Filled \<equiv> 1"
abbreviation (input) Cancelled :: uint8 where "Cancelled \<equiv> 2"
abbreviation (input) Expired :: uint8 where "Expired \<equiv> 3"

definition status_string :: "uint8 \<Rightarrow> string" where
  "status_string s =
     (if s = Active then ''Active''
      else if s = Filled then ''Filled''
      else if s = Cancelled then ''Cancelled''
      else if s = Expired then ''Expired''
      else ''Unknown'')"

subsection \<open>BigInt\<close>

text \<open>A \<open>*BigInt\<close> is an option: \<open>None\<close> stands for a nil pointer or a nil \<open>Int\<close> inside it.\<close>

definition new_big_int :: "int option \<Rightarrow> int" where
  "new_big_int i = (case i of None \<Rightarrow> 0 | Some v \<Rightarrow> v)"

definition big_int_marshal :: "int option \<Rightarrow> json" where
  "big_int_marshal b = (case b of None \<Rightarrow> JStr ''0'' | Some i \<Rightarrow> JStr (dec_of_int i))"

definition big_int_unmarshal :: "json \<Rightarrow> int result" where
  "big_int_unmarshal j =
     bind_result (decode_string [] [j])
       (\<lambda>s. case big_set_string s of
              (v, True) \<Rightarrow> Inr v
            | (v, False) \<Rightarrow> Inl (type_error ''BigInt''))"

lemma big_int_roundtrip: "big_int_unmarshal (big_int_marshal (Some i)) = Inr i"
  by (simp add: big_int_unmarshal_def big_int_marshal_def)

subsection \<open>Order\<close>

record order =
  o_maker :: string
  o_taker :: string
  o_side :: uint8
  o_kind :: uint8
  o_asset_type :: uint8
  o_collection :: string
  o_token_id :: int
  o_amount :: int
  o_payment_token :: string
  o_price :: int
  o_start_price :: int
  o_start_time :: uint64
  o_end_time :: uint64
  o_salt :: int
  o_counter :: int
  o_extra :: string
  o_id :: int
  o_order_hash :: string
  o_status :: uint8
  o_signature :: string
  o_created_at :: instant
  o_updated_at :: instant

text \<open>\<open>big.Int.Div\<close> is Euclidean division; it agrees with \<open>div\<close> for a positive divisor.\<close>

definition big_div :: "int \<Rightarrow> int \<Rightarrow> int" where
  "big_div x y = (if y < 0 then - (x div (- y)) else x div y)"

definition current_price :: "order \<Rightarrow> instant \<Rightarrow> int" where
  "current_price od now =
     (if o_kind od \<noteq> DutchAuction then o_price od
      else
        let start = sint (o_start_time od); fin = sint (o_end_time od) in
        if fin = 0 \<or> fin \<le> start then o_price od
        else
          let ts = unix now in
          if ts \<le> start then o_start_price od
          else if ts \<ge> fin then o_price od
          else
            let elapsed = wrap64 (ts - start);
                duration = wrap64 (fin - start);
                delta = o_start_price od - o_price od;
                decay = big_div (delta * elapsed) duration
            in o_start_price od - decay)"

definition is_expired :: "order \<Rightarrow> instant \<Rightarrow> bool" where
  "is_expired od now =
     (if o_end_time od = 0 then False else unix now \<ge> sint (o_end_time od))"

subsection \<open>What CurrentPrice computes\<close>

text \<open>\<open>Order{}\<close>, the zero value, and a small auction: 2000 down to 1000 between seconds 1000 and 2000.\<close>

definition zero_order :: order where
  "zero_order = \<lparr>o_maker = [], o_taker = [], o_side = 0, o_kind = 0, o_asset_type = 0,
     o_collection = [], o_token_id = 0, o_amount = 0, o_payment_token = [], o_price = 0,
     o_start_price = 0, o_start_time = 0, o_end_time = 0, o_salt = 0, o_counter = 0, o_extra = [],
     o_id = 0, o_order_hash = [], o_status = 0, o_signature = [], o_created_at = 0,
     o_updated_at = 0\<rparr>"

definition dutch_example :: order where
  "dutch_example = zero_order\<lparr>o_kind := DutchAuction, o_price := 1000, o_start_price := 2000,
     o_start_time := 1000, o_end_time := 2000\<rparr>"

text \<open>The listing window is shorter than \<open>2^63\<close> seconds, so no subtraction of \<open>CurrentPrice\<close> wraps.\<close>

definition window_fits :: "order \<Rightarrow> bool" where
  "window_fits od \<longleftrightarrow> sint (o_end_time od) - sint (o_start_time od) < 2 ^ 63"

definition auction_running :: "order \<Rightarrow> instant \<Rightarrow> bool" where
  "auction_running od now \<longleftrightarrow> o_kind od = DutchAuction \<and> sint (o_end_time od) \<noteq> 0 \<and>
     sint (o_start_time od) < unix now \<and> unix now < sint (o_end_time od)"

definition decay_of :: "order \<Rightarrow> int \<Rightarrow> int" where
  "decay_of od e = (o_start_price od - o_price od) * e div (sint (o_end_time od) - sint (o_start_time od))"

lemma current_price_running:
  assumes "auction_running od now" and "window_fits od"
  shows "current_price od now = o_start_price od - decay_of od (unix now - sint (o_start_time od))"
proof -
  have "in_int64 (unix now - sint (o_start_time od))"
    and "in_int64 (sint (o_end_time od) - sint (o_start_time od))"
    using assms by (simp_all add: auction_running_def window_fits_def in_int64_def)
  then show ?thesis
    using assms by (simp add: current_price_def auction_running_def decay_of_def big_div_def Let_def)
qed

lemma current_price_idle:
  assumes "\<not> auction_running od now"
  shows "current_price od now =
    (if o_kind od = DutchAuction \<and> sint (o_end_time od) \<noteq> 0 \<and>
        unix now \<le> sint (o_start_time od) \<and> sint (o_start_time od) < sint (o_end_time od)
     then o_start_price od else o_price od)"
  using assms by (auto simp: current_price_def auction_running_def Let_def)

lemma decay_of_mono:
  assumes "o_price od \<le> o_start_price od" and "e \<le> e'"
    and "sint (o_start_time od) < sint (o_end_time od)"
  shows "decay_of od e \<le> decay_of od e'"
  using assms by (auto simp: decay_of_def intro!: zdiv_mono1 mult_left_mono)

lemma decay_of_bounds:
  assumes "o_price od \<le> o_start_price od" and "0 \<le> e"
    and "e \<le> sint (o_end_time od) - sint (o_start_time od)"
    and "sint (o_start_time od) < sint (o_end_time od)"
  shows "0 \<le> decay_of od e" and "decay_of od e \<le> o_start_price od - o_price od"
proof -
  have "decay_of od 0 \<le> decay_of od e"
    and "decay_of od e \<le> decay_of od (sint (o_end_time od) - sint (o_start_time od))"
    using assms by (auto intro: decay_of_mono)
  then show "0 \<le> decay_of od e" and "decay_of od e \<le> o_start_price od - o_price od"
    using assms by (simp_all add: decay_of_def)
qed

lemma current_price_between:
  assumes "o_price od \<le> o_start_price od" and "window_fits od"
  shows "o_price od \<le> current_price od now \<and>
    current_price od now \<le> o_start_price od"
proof (cases "auction_running od now")
  case True
  then have "0 \<le> unix now - sint (o_start_time od)"
    "unix now - sint (o_start_time od) \<le> sint (o_end_time od) - sint (o_start_time od)"
    "sint (o_start_time od) < sint (o_end_time od)"
    by (auto simp: auction_running_def)
  from decay_of_bounds [OF assms(1) this] show ?thesis
    by (simp add: current_price_running [OF True assms(2)])
next
  case False
  then show ?thesis
    using assms(1) by (simp add: current_price_idle)
qed

text \<open>
  C11: The effective price of an order never leaves the interval between its end price and its
  start price, at any instant.
\<close>

theorem current_price_bounds:
  assumes "o_price od \<le> o_start_price od" and "window_fits od"
  shows "o_price od \<le> current_price od now \<and>
    current_price od now \<le> o_start_price od"
  using assms by (rule current_price_between)

theorem current_price_bounds_witness:
  "o_price dutch_example \<le> current_price dutch_example (unix_instant 1800) \<and>
   current_price dutch_example (unix_instant 1800) \<le> o_start_price dutch_example"
  by (rule current_price_bounds) (simp_all add: dutch_example_def window_fits_def)

lemma unix_mono: "t \<le> t' \<Longrightarrow> unix t \<le> unix t'"
  by (simp add: unix_def second_def zdiv_mono1)

text \<open>
  C12: The effective price of an order never rises as time passes: over the whole life of a
  Dutch auction, across its start and its end.
\<close>

theorem current_price_antitone:
  assumes "o_price od \<le> o_start_price od" and "window_fits od" and "t \<le> t'"
  shows "current_price od t' \<le> current_price od t"
proof -
  note bounds = current_price_between [OF assms(1,2)]
  have mono: "unix t \<le> unix t'" using assms(3) by (rule unix_mono)
  show ?thesis
  proof (cases "auction_running od t")
    case running: True
    show ?thesis
    proof (cases "auction_running od t'")
      case True
      have "decay_of od (unix t - sint (o_start_time od)) \<le> decay_of od (unix t' - sint (o_start_time od))"
        using assms(1) mono True by (auto intro!: decay_of_mono simp: auction_running_def)
      then show ?thesis
        by (simp add: current_price_running [OF True assms(2)] current_price_running [OF running assms(2)])
    next
      case False
      with running mono have "current_price od t' = o_price od"
        by (auto simp: current_price_idle auction_running_def)
      then show ?thesis using bounds [of t] by simp
    qed
  next
    case False
    show ?thesis
    proof (cases "current_price od t = o_start_price od")
      case True
      then show ?thesis using bounds [of t'] by simp
    next
      case over: False
      with False have p: "current_price od t = o_price od"
        and f: "\<not> (o_kind od = DutchAuction \<and> sint (o_end_time od) \<noteq> 0 \<and>
        unix t \<le> sint (o_start_time od) \<and> sint (o_start_time od) < sint (o_end_time od))"
        by (auto simp: current_price_idle split: if_splits)
      from f False mono have "\<not> auction_running od t'"
        "\<not> (o_kind od = DutchAuction \<and> sint (o_end_time od) \<noteq> 0 \<and>
        unix t' \<le> sint (o_start_time od) \<and> sint (o_start_time od) < sint (o_end_time od))"
        by (auto simp: auction_running_def)
      then have "current_price od t' = o_price od"
        by (auto simp: current_price_idle)
      with p show ?thesis by simp
    qed
  qed
qed

theorem current_price_antitone_witness:
  "current_price dutch_example (unix_instant 2000) \<le> current_price dutch_example (unix_instant 1000)"
  by (rule current_price_antitone)
    (simp_all add: dutch_example_def window_fits_def unix_instant_def second_def)

text \<open>
  While a Dutch auction runs, the integer price is the exact linear interpolation between the
  start and the end price, rounded up to the next integer (so never to the seller's loss).
\<close>

theorem current_price_rounds_up:
  assumes "auction_running od now" and "window_fits od"
  defines "d \<equiv> sint (o_end_time od) - sint (o_start_time od)"
    and "e \<equiv> unix now - sint (o_start_time od)"
  shows "o_start_price od * d - (o_start_price od - o_price od) * e \<le> current_price od now * d \<and>
    current_price od now * d < o_start_price od * d - (o_start_price od - o_price od) * e + d"
proof -
  define x where "x = (o_start_price od - o_price od) * e"
  define q where "q = x div d"
  have d: "0 < d"
    using assms(1) by (simp add: auction_running_def d_def)
  have "q * d + x mod d = x"
    by (simp add: q_def)
  moreover have "0 \<le> x mod d" and "x mod d < d"
    using d by simp_all
  ultimately have "q * d \<le> x" and "x < q * d + d"
    by linarith+
  moreover have "current_price od now = o_start_price od - q"
    using assms(1,2) by (simp add: current_price_running decay_of_def d_def e_def q_def x_def)
  moreover have "(o_start_price od - q) * d = o_start_price od * d - q * d"
    by (rule left_diff_distrib)
  ultimately show ?thesis
    unfolding x_def by simp
qed

theorem current_price_rounds_up_witness:
  "current_price dutch_example (unix_instant 1800) * 1000 = 1200 * 1000 \<and>
   2000 * 1000 - (2000 - 1000) * 800 \<le> current_price dutch_example (unix_instant 1800) * 1000"
proof -
  have "auction_running dutch_example (unix_instant 1800)" and "window_fits dutch_example"
    by (simp_all add: auction_running_def window_fits_def dutch_example_def unix_def
        unix_instant_def second_def)
  note up = current_price_rounds_up [OF this]
  show ?thesis
    using up by (simp add: dutch_example_def unix_def unix_instant_def second_def)
qed

subsection \<open>Requests and filters\<close>

record order_filter =
  f_maker :: string
  f_side :: "uint8 option"
  f_kind :: "uint8 option"
  f_asset_type :: "uint8 option"
  f_collection :: string
  f_token_id :: "int option"
  f_payment_token :: string
  f_status :: "uint8 option"
  f_min_price :: "int option"
  f_max_price :: "int option"
  f_limit :: int
  f_offset :: int

definition empty_filter :: order_filter where
  "empty_filter = \<lparr>f_maker = [], f_side = None, f_kind = None, f_asset_type = None,
     f_collection = [], f_token_id = None, f_payment_token = [], f_status = None,
     f_min_price = None, f_max_price = None, f_limit = 0, f_offset = 0\<rparr>"

record submit_request =
  q_maker :: string
  q_taker :: string
  q_side :: uint8
  q_kind :: uint8
  q_asset_type :: uint8
  q_collection :: string
  q_token_id :: string
  q_amount :: string
  q_payment_token :: string
  q_price :: string
  q_start_price :: string
  q_start_time :: uint64
  q_end_time :: uint64
  q_salt :: string
  q_extra :: string
  q_signature :: string

definition zero_address :: string where
  "zero_address = ''0x0000000000000000000000000000000000000000''"

subsection \<open>Contract events\<close>

definition EventOrderFulfilled :: string where "EventOrderFulfilled = ''OrderFulfilled''"
definition EventOrderCancelled :: string where "EventOrderCancelled = ''OrderCancelled''"
definition EventCounterIncremented :: string where "EventCounterIncremented = ''CounterIncremented''"
definition EventCollectionUpdated :: string where "EventCollectionUpdated = ''CollectionUpdated''"

lemmas event_names = EventOrderFulfilled_def EventOrderCancelled_def
  EventCounterIncremented_def EventCollectionUpdated_def

record contract_event =
  e_id :: int
  e_block_number :: uint64
  e_tx_hash :: string
  e_tx_index :: uint64
  e_log_index :: uint64
  e_event_name :: string
  e_event_data :: json
  e_removed :: bool

record order_fulfilled_data =
  d_order_hash :: string
  d_maker :: string
  d_taker :: string
  d_seller :: string
  d_buyer :: string
  d_collection :: string
  d_token_id :: string
  d_amount :: string
  d_payment_token :: string
  d_price :: string
  d_protocol_fee :: string
  d_royalty_fee :: string

record order_cancelled_data =
  c_maker :: string
  c_salt :: string

record counter_incremented_data =
  i_maker :: string
  i_counter :: string

record collection_updated_data =
  u_collection :: string
  u_allowed :: bool
  u_blocked :: bool

text \<open>\<open>json.Marshal\<close> writes the fields in the order of the struct, under their tags.\<close>

definition marshal_order_fulfilled :: "order_fulfilled_data \<Rightarrow> json" where
  "marshal_order_fulfilled d = JObj
     [(''orderHash'', JStr (d_order_hash d)), (''maker'', JStr (d_maker d)),
      (''taker'', JStr (d_taker d)), (''seller'', JStr (d_seller d)),
      (''buyer'', JStr (d_buyer d)), (''collection'', JStr (d_collection d)),
      (''tokenId'', JStr (d_token_id d)), (''amount'', JStr (d_amount d)),
      (''paymentToken'', JStr (d_payment_token d)), (''price'', JStr (d_price d)),
      (''protocolFee'', JStr (d_protocol_fee d)), (''royaltyFee'', JStr (d_royalty_fee d))]"

definition unmarshal_order_fulfilled :: "json \<Rightarrow> order_fulfilled_data result" where
  "unmarshal_order_fulfilled j =
     bind_result (json_members j) (\<lambda>ms.
     bind_result (string_field ''orderHash'' ms) (\<lambda>h.
     bind_result (string_field ''maker'' ms) (\<lambda>m.
     bind_result (string_field ''taker'' ms) (\<lambda>t.
     bind_result (string_field ''seller'' ms) (\<lambda>s.
     bind_result (string_field ''buyer'' ms) (\<lambda>b.
     bind_result (string_field ''collection'' ms) (\<lambda>c.
     bind_result (string_field ''tokenId'' ms) (\<lambda>i.
     bind_result (string_field ''amount'' ms) (\<lambda>a.
     bind_result (string_field ''paymentToken'' ms) (\<lambda>p.
     bind_result (string_field ''price'' ms) (\<lambda>pr.
     bind_result (string_field ''protocolFee'' ms) (\<lambda>pf.
     bind_result (string_field ''royaltyFee'' ms) (\<lambda>rf.
       Inr \<lparr>d_order_hash = h, d_maker = m, d_taker = t, d_seller = s, d_buyer = b,
            d_collection = c, d_token_id = i, d_amount = a, d_payment_token = p, d_price = pr,
            d_protocol_fee = pf, d_royalty_fee = rf\<rparr>)))))))))))))"

definition marshal_order_cancelled :: "order_cancelled_data \<Rightarrow> json" where
  "marshal_order_cancelled d = JObj [(''maker'', JStr (c_maker d)), (''salt'', JStr (c_salt d))]"

definition unmarshal_order_cancelled :: "json \<Rightarrow> order_cancelled_data result" where
  "unmarshal_order_cancelled j =
     bind_result (json_members j) (\<lambda>ms.
     bind_result (string_field ''maker'' ms) (\<lambda>m.
     bind_result (string_field ''salt'' ms) (\<lambda>s.
       Inr \<lparr>c_maker = m, c_salt = s\<rparr>)))"

definition marshal_counter_incremented :: "counter_incremented_data \<Rightarrow> json" where
  "marshal_counter_incremented d =
     JObj [(''maker'', JStr (i_maker d)), (''counter'', JStr (i_counter d))]"

definition unmarshal_counter_incremented :: "json \<Rightarrow> counter_incremented_data result" where
  "unmarshal_counter_incremented j =
     bind_result (json_members j) (\<lambda>ms.
     bind_result (string_field ''maker'' ms) (\<lambda>m.
     bind_result (string_field ''counter'' ms) (\<lambda>c.
       Inr \<lparr>i_maker = m, i_counter = c\<rparr>)))"

definition marshal_collection_updated :: "collection_updated_data \<Rightarrow> json" where
  "marshal_collection_updated d =
     JObj [(''collection'', JStr (u_collection d)), (''allowed'', JBool (u_allowed d)),
           (''blocked'', JBool (u_blocked d))]"

text \<open>The event service reads \<open>collection\<close> and \<open>blocked\<close> only.\<close>

definition unmarshal_collection_updated :: "json \<Rightarrow> (string \<times> bool) result" where
  "unmarshal_collection_updated j =
     bind_result (json_members j) (\<lambda>ms.
     bind_result (string_field ''collection'' ms) (\<lambda>c.
     bind_result (bool_field ''blocked'' ms) (\<lambda>b. Inr (c, b))))"

lemma unmarshal_marshal_order_fulfilled [simp]:
  "unmarshal_order_fulfilled (marshal_order_fulfilled d) = Inr d"
  by (simp add: unmarshal_order_fulfilled_def marshal_order_fulfilled_def json_field_eval)

lemma unmarshal_marshal_order_cancelled [simp]:
  "unmarshal_order_cancelled (marshal_order_cancelled d) = Inr d"
  by (simp add: unmarshal_order_cancelled_def marshal_order_cancelled_def json_field_eval)

lemma unmarshal_marshal_counter_incremented [simp]:
  "unmarshal_counter_incremented (marshal_counter_incremented d) = Inr d"
  by (simp add: unmarshal_counter_incremented_def marshal_counter_incremented_def json_field_eval)

lemma unmarshal_marshal_collection_updated [simp]:
  "unmarshal_collection_updated (marshal_collection_updated d) = Inr (u_collection d, u_blocked d)"
  by (simp add: unmarshal_collection_updated_def marshal_collection_updated_def json_field_eval)

end
