(* ===== verification/Http.thy ===== *)
theory Http
  imports Domain
begin

section \<open>Requests, responses and JSON bodies of internal/handler\<close>

text \<open>
  What the handlers use of gin: the query, the path parameters and the headers of a request, the
  body bound into a struct with its \<open>binding\<close> tags checked, and a response of a status and a JSON
  body.  A body that is not JSON is the error the decoder reports.  \<open>query\<close> is \<open>c.Query\<close>,
  \<open>default_query\<close> is \<open>c.DefaultQuery\<close>.  The text of a time in a body (RFC 3339) is a parameter.
\<close>

record http_request =
  rq_method :: string
  rq_path :: string
  rq_query :: "string \<Rightarrow> string option"
  rq_param :: "string \<Rightarrow> string"
  rq_header :: "string \<Rightarrow> string"
  rq_body :: "json result"
  rq_ip :: string

record http_response =
  p_status :: int
  p_body :: json

definition query :: "http_request \<Rightarrow> string \<Rightarrow> string" where
  "query rq k = (case rq_query rq k of None \<Rightarrow> [] | Some v \<Rightarrow> v)"

definition default_query :: "http_request \<Rightarrow> string \<Rightarrow> string \<Rightarrow> string" where
  "default_query rq k d = (case rq_query rq k of None \<Rightarrow> d | Some v \<Rightarrow> v)"

definition respond :: "int \<Rightarrow> json \<Rightarrow> http_response" where
  "respond status body = \<lparr>p_status = status, p_body = body\<rparr>"

text \<open>\<open>domain.ErrorResponse\<close>: the handlers never set its numeric code; an empty message is left out.\<close>

definition error_response :: "string \<Rightarrow> string \<Rightarrow> json" where
  "error_response code message = JObj ([(''error'', JStr code), (''code'', JNum 0)] @
     (if message = [] then [] else [(''message'', JStr message)]))"

definition fail_with :: "int \<Rightarrow> string \<Rightarrow> string \<Rightarrow> http_response" where
  "fail_with status code message = respond status (error_response code message)"

text \<open>The code of a response, for the statements about it.\<close>

definition error_code :: "http_response \<Rightarrow> string option" where
  "error_code p = json_text ''error'' (p_body p)"

lemma fail_with_simps [simp]:
  "p_status (fail_with status code message) = status"
  "error_code (fail_with status code message) = Some code"
  by (simp_all add: fail_with_def respond_def error_code_def error_response_def json_text_def)

lemma respond_simps [simp]: "p_status (respond status body) = status" "p_body (respond status body) = body"
  by (simp_all add: respond_def)

subsection \<open>The code of an error\<close>

definition extract_error_code :: "go_error \<Rightarrow> string" where
  "extract_error_code e = (case as_app_error e of
      Some (code, message) \<Rightarrow> code
    | None \<Rightarrow> to_upper (replace_char (CHR 0x20) (CHR ''_'') (trim_space (before_colon (error_string e)))))"

lemma extract_app_error [simp]: "extract_error_code (AppError code m w) = code"
  by (simp add: extract_error_code_def)

subsection \<open>Orders in a body\<close>

text \<open>A nil slice is marshalled as \<open>null\<close>; the repositories return nil when there is no row.\<close>

definition json_slice :: "('a \<Rightarrow> json) \<Rightarrow> 'a list \<Rightarrow> json" where
  "json_slice f xs = (if xs = [] then JNull else JArr (map f xs))"

definition marshal_order :: "(instant \<Rightarrow> string) \<Rightarrow> order \<Rightarrow> json" where
  "marshal_order tj od = JObj
     [(''maker'', JStr (o_maker od)), (''taker'', JStr (o_taker od)),
      (''side'', JNum (uint (o_side od))), (''kind'', JNum (uint (o_kind od))),
      (''assetType'', JNum (uint (o_asset_type od))), (''collection'', JStr (o_collection od)),
      (''tokenId'', big_int_marshal (Some (o_token_id od))),
      (''amount'', big_int_marshal (Some (o_amount od))),
      (''paymentToken'', JStr (o_payment_token od)),
      (''price'', big_int_marshal (Some (o_price od))),
      (''startPrice'', big_int_marshal (Some (o_start_price od))),
      (''startTime'', JNum (uint (o_start_time od))), (''endTime'', JNum (uint (o_end_time od))),
      (''salt'', big_int_marshal (Some (o_salt od))),
      (''counter'', big_int_marshal (Some (o_counter od))), (''extra'', JStr (o_extra od)),
      (''id'', JNum (o_id od)), (''orderHash'', JStr (o_order_hash od)),
      (''status'', JNum (uint (o_status od))), (''signature'', JStr (o_signature od)),
      (''createdAt'', JStr (tj (o_created_at od))), (''updatedAt'', JStr (tj (o_updated_at od)))]"

subsection \<open>Binding a body\<close>

text \<open>A JSON number goes into an unsigned field of \<open>w\<close> bits when it fits, and is an error otherwise.\<close>

fun decode_uint :: "'a::len word \<Rightarrow> json list \<Rightarrow> 'a word result" where
  "decode_uint z [] = Inr z"
| "decode_uint z (JNum i # js) =
     (if 0 \<le> i \<and> i < 2 ^ LENGTH('a) then decode_uint (word_of_int i) js
      else Inl (type_error ''uint''))"
| "decode_uint z (JNull # js) = decode_uint z js"
| "decode_uint z (j # js) = Inl (type_error ''uint'')"

definition uint_field :: "string \<Rightarrow> (string \<times> json) list \<Rightarrow> 'a::len word result" where
  "uint_field name ms = decode_uint 0 (json_field name ms)"

definition unmarshal_submit_request :: "json \<Rightarrow> submit_request result" where
  "unmarshal_submit_request j =
     bind_result (json_members j) (\<lambda>ms.
     bind_result (string_field ''maker'' ms) (\<lambda>maker.
     bind_result (string_field ''taker'' ms) (\<lambda>taker.
     bind_result (uint_field ''side'' ms) (\<lambda>side.
     bind_result (uint_field ''kind'' ms) (\<lambda>kind.
     bind_result (uint_field ''assetType'' ms) (\<lambda>assetType.
     bind_result (string_field ''collection'' ms) (\<lambda>collection.
     bind_result (string_field ''tokenId'' ms) (\<lambda>tokenId.
     bind_result (string_field ''amount'' ms) (\<lambda>amount.
     bind_result (string_field ''paymentToken'' ms) (\<lambda>paymentToken.
     bind_result (string_field ''price'' ms) (\<lambda>price.
     bind_result (string_field ''startPrice'' ms) (\<lambda>startPrice.
     bind_result (uint_field ''startTime'' ms) (\<lambda>startTime.
     bind_result (uint_field ''endTime'' ms) (\<lambda>endTime.
     bind_result (string_field ''salt'' ms) (\<lambda>salt.
     bind_result (string_field ''extra'' ms) (\<lambda>extra.
     bind_result (string_field ''signature'' ms) (\<lambda>signature.
       Inr \<lparr>q_maker = maker, q_taker = taker, q_side = side, q_kind = kind,
            q_asset_type = assetType, q_collection = collection, q_token_id = tokenId,
            q_amount = amount, q_payment_token = paymentToken, q_price = price,
            q_start_price = startPrice, q_start_time = startTime, q_end_time = endTime,
            q_salt = salt, q_extra = extra, q_signature = signature\<rparr>)))))))))))))))))"

text \<open>The validator of gin: one line for each field that breaks its tag.\<close>

definition tag_error :: "string \<Rightarrow> string \<Rightarrow> string \<Rightarrow> bool \<Rightarrow> string list" where
  "tag_error struct field tag ok = (if ok then [] else
     [''Key: '' @ [CHR 0x27] @ struct @ ''.'' @ field @ [CHR 0x27] @
      '' Error:Field validation for '' @ [CHR 0x27] @ field @ [CHR 0x27] @
      '' failed on the '' @ [CHR 0x27] @ tag @ [CHR 0x27] @ '' tag''])"

definition validate_submit_request :: "submit_request \<Rightarrow> string list" where
  "validate_submit_request q =
     (let field = tag_error ''SubmitOrderRequest'' in
      field ''Maker'' ''required'' (q_maker q \<noteq> []) @
      field ''Side'' ''lte'' (q_side q \<le> 1) @
      field ''Kind'' ''lte'' (q_kind q \<le> 4) @
      field ''AssetType'' ''lte'' (q_asset_type q \<le> 1) @
      field ''Collection'' ''required'' (q_collection q \<noteq> []) @
      field ''TokenID'' ''required'' (q_token_id q \<noteq> []) @
      field ''Amount'' ''required'' (q_amount q \<noteq> []) @
      field ''Price'' ''required'' (q_price q \<noteq> []) @
      field ''StartTime'' ''required'' (q_start_time q \<noteq> 0) @
      field ''Salt'' ''required'' (q_salt q \<noteq> []) @
      field ''Signature'' ''required'' (q_signature q \<noteq> []))"

definition join_lines :: "string list \<Rightarrow> string" where
  "join_lines ls = concat (case ls of [] \<Rightarrow> [] | l # r \<Rightarrow> l # map (\<lambda>x. CHR 0x0A # x) r)"

definition should_bind :: "(json \<Rightarrow> 'a result) \<Rightarrow> ('a \<Rightarrow> string list) \<Rightarrow> json result \<Rightarrow> 'a result" where
  "should_bind unmarshal validate body =
     bind_result body (\<lambda>j.
     bind_result (unmarshal j) (\<lambda>q.
       if validate q = [] then Inr q else Inl (ErrText (join_lines (validate q)))))"

definition bind_submit_request :: "json result \<Rightarrow> submit_request result" where
  "bind_submit_request = should_bind unmarshal_submit_request validate_submit_request"

lemma should_bind_Inr:
  "should_bind u v body = Inr q \<longleftrightarrow> (\<exists>j. body = Inr j \<and> u j = Inr q \<and> v q = [])"
  by (auto simp: should_bind_def bind_result_Inr split: if_splits)

lemma tag_error_Nil [simp]: "tag_error s f t ok = [] \<longleftrightarrow> ok"
  by (simp add: tag_error_def)

text \<open>What a bound submission has: every required text, a start time, and the enumerations in range.\<close>

lemma bound_submission:
  assumes "bind_submit_request body = Inr q"
  shows "q_maker q \<noteq> []" "q_collection q \<noteq> []" "q_token_id q \<noteq> []" "q_amount q \<noteq> []"
    "q_price q \<noteq> []" "q_salt q \<noteq> []" "q_signature q \<noteq> []" "q_start_time q \<noteq> 0"
    "q_side q \<le> 1" "q_kind q \<le> 4" "q_asset_type q \<le> 1"
  using assms
  by (auto simp: bind_submit_request_def should_bind_Inr validate_submit_request_def Let_def)

end
