(* ===== verification/Database.thy ===== *)
theory Database
  imports Domain
begin

section \<open>migrations and the SQL the repositories run\<close>

text \<open>
  The tables of \<open>migrations/001_initial.up.sql\<close> as lists of rows, and the meaning of the SQL
  statements that \<open>internal/repository\<close> sends: a \<open>WHERE\<close> clause is a predicate on rows, an
  \<open>UPDATE\<close> a map, a \<open>SELECT\<close> a filter, a sort and a slice.  A nullable column (and, before
  the \<open>NOT NULL\<close> check, every \<open>BYTEA\<close> parameter) is an option, with \<open>None\<close> for \<open>NULL\<close>; as in SQL
  a comparison with \<open>NULL\<close> selects nothing.

  The server is not under our control: each statement consumes one entry of \<open>db_outcomes\<close>,
  which says whether it is carried out, fails without effect, or is carried out and reported
  as failed because the connection broke before the answer.  An empty schedule means that
  nothing fails.  \<open>db_now\<close> is the value of \<open>NOW()\<close>.
\<close>

subsection \<open>Tables\<close>

record order_row =
  r_id :: int
  r_order_hash :: "bytes option"
  r_chain_id :: int
  r_maker :: "bytes option"
  r_taker :: "bytes option"
  r_side :: uint8
  r_kind :: uint8
  r_asset_type :: uint8
  r_collection :: "bytes option"
  r_token_id :: int
  r_amount :: int
  r_payment_token :: "bytes option"
  r_price :: int
  r_start_price :: int
  r_start_time :: int
  r_end_time :: int
  r_salt :: int
  r_counter :: int
  r_extra :: "bytes option"
  r_signature_r :: bytes
  r_signature_s :: bytes
  r_signature_v :: uint8
  r_status :: uint8
  r_created_at :: instant
  r_updated_at :: instant
  r_expired_at :: "instant option"

record event_row =
  v_id :: int
  v_block_number :: int
  v_tx_hash :: "bytes option"
  v_tx_index :: int
  v_log_index :: int
  v_event_name :: string
  v_event_data :: json
  v_removed :: bool
  v_created_at :: instant

record collection_row =
  k_address :: "bytes option"
  k_chain_id :: int
  k_name :: string
  k_symbol :: string
  k_image_url :: string
  k_metadata :: "json option"
  k_synced_at :: instant

record nft_row =
  n_collection :: "bytes option"
  n_token_id :: int
  n_name :: string
  n_description :: string
  n_image_url :: string
  n_attributes :: "json option"
  n_synced_at :: instant

record cursor_row =
  s_chain_id :: int
  s_last_synced_block :: int
  s_updated_at :: instant

datatype db_outcome = Done | Failed go_error | LostAck go_error

record db =
  t_orders :: "order_row list"
  t_order_seq :: int
  t_events :: "event_row list"
  t_event_seq :: int
  t_collections :: "collection_row list"
  t_nfts :: "nft_row list"
  t_cursor :: "cursor_row list"
  db_now :: instant
  db_outcomes :: "db_outcome list"

definition empty_db :: db where
  "empty_db = \<lparr>t_orders = [], t_order_seq = 1, t_events = [], t_event_seq = 1, t_collections = [],
     t_nfts = [], t_cursor = [], db_now = 0, db_outcomes = []\<rparr>"

subsection \<open>Running a statement\<close>

text \<open>A statement either fails and changes nothing, or returns a value and the new tables.\<close>

type_synonym 'a stmt = "db \<Rightarrow> ('a \<times> db) result"

definition run_stmt :: "'a stmt \<Rightarrow> db \<Rightarrow> 'a result \<times> db" where
  "run_stmt st d =
     (let d1 = d\<lparr>db_outcomes := tl (db_outcomes d)\<rparr>;
          done = (case st d1 of Inl e \<Rightarrow> (Inl e, d1) | Inr (x, d2) \<Rightarrow> (Inr x, d2))
      in case db_outcomes d of
           Failed e # _ \<Rightarrow> (Inl e, d1)
         | LostAck e # _ \<Rightarrow> (Inl e, snd done)
         | _ \<Rightarrow> done)"

definition healthy :: "db \<Rightarrow> bool" where
  "healthy d \<longleftrightarrow> db_outcomes d = []"

text \<open>The equality of SQL: \<open>NULL\<close> equals nothing.\<close>

definition sql_eq :: "'a option \<Rightarrow> 'a option \<Rightarrow> bool" where
  "sql_eq a b \<longleftrightarrow> a \<noteq> None \<and> a = b"

lemma sql_eq_None [simp]: "\<not> sql_eq a None" "\<not> sql_eq None b"
  by (auto simp: sql_eq_def)

lemma sql_eq_Some [simp]: "sql_eq a (Some b) \<longleftrightarrow> a = Some b"
  by (auto simp: sql_eq_def)

definition pq_error :: "string \<Rightarrow> go_error" where
  "pq_error m = ErrText (''pq: '' @ m)"

subsection \<open>Constraints\<close>

text \<open>
  The ranges PostgreSQL documents for the column types: \<open>INTEGER\<close>, \<open>NUMERIC(78,0)\<close> and
  \<open>TIMESTAMPTZ\<close> (4714 BC to 294276 AD).  The driver refuses a \<open>uint64\<close> with its high bit set.
\<close>

definition int4_ok :: "int \<Rightarrow> bool" where
  "int4_ok x \<longleftrightarrow> - (2 ^ 31) \<le> x \<and> x < 2 ^ 31"

definition numeric78_ok :: "int \<Rightarrow> bool" where
  "numeric78_ok x \<longleftrightarrow> \<bar>x\<bar> < 10 ^ 78"

definition timestamp_ok :: "instant \<Rightarrow> bool" where
  "timestamp_ok t \<longleftrightarrow> unix_instant (- 210866803200) \<le> t \<and> t < unix_instant 9224318016000"

definition order_types_ok :: "order_row \<Rightarrow> bool" where
  "order_types_ok r \<longleftrightarrow>
     int4_ok (r_chain_id r) \<and> numeric78_ok (r_token_id r) \<and> numeric78_ok (r_amount r) \<and>
     numeric78_ok (r_price r) \<and> numeric78_ok (r_start_price r) \<and> numeric78_ok (r_salt r) \<and>
     numeric78_ok (r_counter r) \<and>
     (case r_expired_at r of None \<Rightarrow> True | Some t \<Rightarrow> timestamp_ok t)"

definition order_not_null :: "order_row \<Rightarrow> bool" where
  "order_not_null r \<longleftrightarrow> r_order_hash r \<noteq> None \<and> r_maker r \<noteq> None \<and> r_collection r \<noteq> None"

text \<open>\<open>order_hash ... UNIQUE\<close> and \<open>idx_orders_maker_salt_active\<close>.\<close>

definition same_hash :: "order_row \<Rightarrow> order_row \<Rightarrow> bool" where
  "same_hash r r' \<longleftrightarrow> r_order_hash r = r_order_hash r'"

definition same_active_salt :: "order_row \<Rightarrow> order_row \<Rightarrow> bool" where
  "same_active_salt r r' \<longleftrightarrow> r_status r = Active \<and> r_status r' = Active \<and>
     r_maker r = r_maker r' \<and> r_salt r = r_salt r'"

definition check_order :: "order_row \<Rightarrow> order_row list \<Rightarrow> unit result" where
  "check_order r rows =
     (if \<not> order_types_ok r then Inl (pq_error ''value out of range'')
      else if \<not> order_not_null r then Inl (pq_error ''null value in column violates not-null constraint'')
      else if \<exists>r' \<in> set rows. same_hash r r'
        then Inl (pq_error ''duplicate key value violates unique constraint orders_order_hash_key'')
      else if \<exists>r' \<in> set rows. same_active_salt r r'
        then Inl (pq_error ''duplicate key value violates unique constraint idx_orders_maker_salt_active'')
      else Inr ())"

subsection \<open>The integrity of the tables\<close>

definition unique_by :: "('a \<Rightarrow> 'a \<Rightarrow> bool) \<Rightarrow> 'a list \<Rightarrow> bool" where
  "unique_by P xs \<longleftrightarrow> sorted_wrt (\<lambda>x y. \<not> P y x) xs"

definition orders_ok :: "order_row list \<Rightarrow> int \<Rightarrow> bool" where
  "orders_ok rows nxt \<longleftrightarrow>
     (\<forall>r \<in> set rows. order_types_ok r \<and> order_not_null r \<and> r_id r < nxt) \<and>
     distinct (map r_id rows) \<and> unique_by same_hash rows \<and> unique_by same_active_salt rows"

lemma unique_by_Nil [simp]: "unique_by P []"
  by (simp add: unique_by_def)

lemma unique_by_append:
  "unique_by P (xs @ [x]) \<longleftrightarrow> unique_by P xs \<and> (\<forall>y \<in> set xs. \<not> P x y)"
  by (auto simp: unique_by_def sorted_wrt_append)

lemma unique_by_map:
  assumes "unique_by P xs" and "\<And>x y. P (f y) (f x) \<Longrightarrow> P y x"
  shows "unique_by P (map f xs)"
  using assms by (auto simp: unique_by_def sorted_wrt_map elim: sorted_wrt_mono_rel [rotated])

lemma check_order_Inr:
  "check_order r rows = Inr u \<longleftrightarrow> order_types_ok r \<and> order_not_null r \<and>
     (\<forall>r' \<in> set rows. \<not> same_hash r r') \<and> (\<forall>r' \<in> set rows. \<not> same_active_salt r r')"
  by (simp add: check_order_def)

lemma orders_ok_insert:
  assumes "orders_ok rows nxt" and "check_order r rows = Inr u" and "r_id r = nxt"
  shows "orders_ok (rows @ [r]) (nxt + 1)"
  using assms by (force simp: orders_ok_def check_order_Inr unique_by_append)

lemma run_stmt_healthy:
  "healthy d \<Longrightarrow> run_stmt st d = (case st d of Inl e \<Rightarrow> (Inl e, d) | Inr (x, d') \<Rightarrow> (Inr x, d'))"
proof -
  assume "healthy d"
  then have same: "d\<lparr>db_outcomes := tl (db_outcomes d)\<rparr> = d"
    by (cases d) (simp add: healthy_def)
  show ?thesis
    using \<open>healthy d\<close> unfolding run_stmt_def Let_def same by (simp add: healthy_def)
qed

text \<open>
  Whatever the schedule says, a statement leaves the tables as they were or as the statement
  makes them; so an invariant of the tables that the statement keeps is kept by the call.
\<close>

definition same_tables :: "db \<Rightarrow> db \<Rightarrow> bool" where
  "same_tables d d' \<longleftrightarrow> d' = d\<lparr>db_outcomes := db_outcomes d'\<rparr>"

lemma run_stmt_cases:
  obtains e d1 where "run_stmt st d = (Inl e, d1)" "same_tables d d1"
  | x d1 d2 r where "run_stmt st d = (r, d2)" "same_tables d d1" "st d1 = Inr (x, d2)"
      "r = Inr x \<or> (\<exists>e. r = Inl e)"
proof -
  define d1 where "d1 = d\<lparr>db_outcomes := tl (db_outcomes d)\<rparr>"
  have "same_tables d d1"
    by (simp add: same_tables_def d1_def)
  then show thesis
    using that unfolding run_stmt_def Let_def d1_def [symmetric]
    by (cases "st d1"; cases "db_outcomes d" rule: list.exhaust) (force split: db_outcome.splits prod.splits)+
qed

end
