(* ===== verification/OrderRepo.thy ===== *)
theory OrderRepo
  imports Database
begin

section \<open>internal/repository/order.go\<close>

text \<open>
  \<open>OrderRepo\<close>: the conversions at its boundary (hex text and bytes, signatures, numbers), the
  statements, and the public methods with every error path.  The methods return their result
  and the new database.
\<close>

subsection \<open>Conversions\<close>

text \<open>A nil byte slice, which the driver sends as \<open>NULL\<close>, is \<open>None\<close>.\<close>

definition hex_decode :: "string \<Rightarrow> bytes option result" where
  "hex_decode s =
     (if s = [] then Inr None
      else bind_result (hex_decode_string (trim_prefix s ''0x'')) (\<lambda>b. Inr (Some b)))"

definition hex_encode :: "bytes option \<Rightarrow> string" where
  "hex_encode b = (case b of
      None \<Rightarrow> []
    | Some bs \<Rightarrow> if bs = [] then [] else ''0x'' @ hex_encode_to_string bs)"

definition big_int_str :: "int option \<Rightarrow> string" where
  "big_int_str b = (case b of None \<Rightarrow> ''0'' | Some i \<Rightarrow> dec_of_int i)"

definition scan_big_int :: "string \<Rightarrow> int" where
  "scan_big_int s = (if s \<noteq> [] then fst (big_set_string s) else 0)"

definition raw_big_int :: "string \<Rightarrow> int" where
  "raw_big_int s = (if s \<noteq> [] then fst (big_set_string s) else 0)"

definition split_signature :: "string \<Rightarrow> (bytes \<times> bytes \<times> uint8) result" where
  "split_signature sig =
     (let raw = trim_prefix sig ''0x'' in
      if length raw \<noteq> 130
      then Inl (ErrText (''invalid signature length: expected 130 hex chars, got '' @
             dec_of_int (int (length raw))))
      else
        bind_result (wrap_err ''decode signature r'' (hex_decode_string (take 64 raw))) (\<lambda>r.
        bind_result (wrap_err ''decode signature s'' (hex_decode_string (take 64 (drop 64 raw)))) (\<lambda>s.
        bind_result (wrap_err ''decode signature v'' (hex_decode_string (drop 128 raw))) (\<lambda>v.
        Inr (r, s, hd v)))))"

definition join_signature :: "bytes \<Rightarrow> bytes \<Rightarrow> uint8 \<Rightarrow> string" where
  "join_signature r s v =
     ''0x'' @ hex_encode_to_string r @ hex_encode_to_string s @ hex_encode_byte v"

definition unix_time :: "uint64 \<Rightarrow> instant" where
  "unix_time ts = unix_instant (sint ts)"

subsection \<open>Reading a row\<close>

definition scan_order :: "order_row \<Rightarrow> order" where
  "scan_order r = \<lparr>
     o_maker = hex_encode (r_maker r),
     o_taker = hex_encode (r_taker r),
     o_side = r_side r,
     o_kind = r_kind r,
     o_asset_type = r_asset_type r,
     o_collection = hex_encode (r_collection r),
     o_token_id = scan_big_int (dec_of_int (r_token_id r)),
     o_amount = scan_big_int (dec_of_int (r_amount r)),
     o_payment_token = hex_encode (r_payment_token r),
     o_price = scan_big_int (dec_of_int (r_price r)),
     o_start_price = scan_big_int (dec_of_int (r_start_price r)),
     o_start_time = word_of_int (r_start_time r),
     o_end_time = word_of_int (r_end_time r),
     o_salt = scan_big_int (dec_of_int (r_salt r)),
     o_counter = scan_big_int (dec_of_int (r_counter r)),
     o_extra = hex_encode (r_extra r),
     o_id = r_id r,
     o_order_hash = hex_encode (r_order_hash r),
     o_status = r_status r,
     o_signature = join_signature (r_signature_r r) (r_signature_s r) (r_signature_v r),
     o_created_at = r_created_at r,
     o_updated_at = r_updated_at r\<rparr>"

definition scan_orders :: "order_row list \<Rightarrow> order list" where
  "scan_orders rows = map scan_order rows"

subsection \<open>Insert\<close>

text \<open>The parameters of the \<open>INSERT\<close>, as a row whose id and times the statement fills in.\<close>

definition encode_order :: "int \<Rightarrow> order \<Rightarrow> order_row result" where
  "encode_order chain od =
     bind_result (wrap_err ''decode order_hash'' (hex_decode (o_order_hash od))) (\<lambda>hashB.
     bind_result (wrap_err ''decode maker'' (hex_decode (o_maker od))) (\<lambda>makerB.
     bind_result (wrap_err ''decode taker'' (hex_decode (o_taker od))) (\<lambda>takerB.
     bind_result (wrap_err ''decode collection'' (hex_decode (o_collection od))) (\<lambda>collectionB.
     bind_result (wrap_err ''decode payment_token'' (hex_decode (o_payment_token od))) (\<lambda>paymentB.
     bind_result (wrap_err ''decode extra'' (hex_decode (o_extra od))) (\<lambda>extraB.
     bind_result (wrap_err ''split signature'' (split_signature (o_signature od))) (\<lambda>(sigR, sigS, sigV).
     Inr \<lparr>r_id = 0, r_order_hash = hashB, r_chain_id = chain, r_maker = makerB, r_taker = takerB,
          r_side = o_side od, r_kind = o_kind od, r_asset_type = o_asset_type od,
          r_collection = collectionB,
          r_token_id = fst (big_set_string (big_int_str (Some (o_token_id od)))),
          r_amount = fst (big_set_string (big_int_str (Some (o_amount od)))),
          r_payment_token = paymentB,
          r_price = fst (big_set_string (big_int_str (Some (o_price od)))),
          r_start_price = fst (big_set_string (big_int_str (Some (o_start_price od)))),
          r_start_time = sint (o_start_time od), r_end_time = sint (o_end_time od),
          r_salt = fst (big_set_string (big_int_str (Some (o_salt od)))),
          r_counter = fst (big_set_string (big_int_str (Some (o_counter od)))),
          r_extra = extraB, r_signature_r = sigR, r_signature_s = sigS, r_signature_v = sigV,
          r_status = o_status od, r_created_at = 0, r_updated_at = 0,
          r_expired_at = (if o_end_time od > 0 then Some (unix_time (o_end_time od)) else None)\<rparr>)))))))"

definition insert_stmt :: "order_row \<Rightarrow> unit stmt" where
  "insert_stmt p d =
     (let r = p\<lparr>r_id := t_order_seq d, r_created_at := db_now d, r_updated_at := db_now d\<rparr>
      in bind_result (check_order r (t_orders d))
           (\<lambda>_. Inr ((), d\<lparr>t_orders := t_orders d @ [r], t_order_seq := t_order_seq d + 1\<rparr>)))"

text \<open>A repository call: run the statement and wrap its error.\<close>

definition db_exec :: "string \<Rightarrow> 'a stmt \<Rightarrow> db \<Rightarrow> 'a result \<times> db" where
  "db_exec msg st d = (case run_stmt st d of (r, d') \<Rightarrow> (wrap_err msg r, d'))"

definition insert_order :: "int \<Rightarrow> order \<Rightarrow> db \<Rightarrow> unit result \<times> db" where
  "insert_order chain od d =
     (case encode_order chain od of
        Inl e \<Rightarrow> (Inl e, d)
      | Inr p \<Rightarrow> db_exec ''insert order'' (insert_stmt p) d)"

subsection \<open>Find\<close>

text \<open>The conditions of the dynamic \<open>WHERE\<close> clause, in the order in which the code adds them.\<close>

definition hex_condition ::
  "string \<Rightarrow> string \<Rightarrow> (order_row \<Rightarrow> bytes option) \<Rightarrow> (order_row \<Rightarrow> bool) list result" where
  "hex_condition msg text col =
     (if text = [] then Inr []
      else bind_result (wrap_err msg (hex_decode text)) (\<lambda>b. Inr [\<lambda>r. sql_eq (col r) b]))"

definition opt_condition :: "'a option \<Rightarrow> (order_row \<Rightarrow> 'a \<Rightarrow> bool) \<Rightarrow> (order_row \<Rightarrow> bool) list" where
  "opt_condition v P = (case v of None \<Rightarrow> [] | Some x \<Rightarrow> [\<lambda>r. P r x])"

definition find_conditions :: "order_filter \<Rightarrow> (order_row \<Rightarrow> bool) list result" where
  "find_conditions f =
     bind_result (hex_condition ''decode collection'' (f_collection f) r_collection) (\<lambda>c1.
     bind_result (hex_condition ''decode maker'' (f_maker f) r_maker) (\<lambda>c2.
     bind_result (hex_condition ''decode payment_token'' (f_payment_token f) r_payment_token) (\<lambda>c3.
     Inr (c1 @
          opt_condition (f_side f) (\<lambda>r x. r_side r = x) @
          opt_condition (f_kind f) (\<lambda>r x. r_kind r = x) @
          opt_condition (f_asset_type f) (\<lambda>r x. r_asset_type r = x) @
          c2 @
          opt_condition (f_token_id f) (\<lambda>r x. r_token_id r = x) @
          c3 @
          opt_condition (f_status f) (\<lambda>r x. r_status r = x) @
          opt_condition (f_min_price f) (\<lambda>r x. r_price r \<ge> x) @
          opt_condition (f_max_price f) (\<lambda>r x. r_price r \<le> x)))))"

definition where_clause :: "(order_row \<Rightarrow> bool) list \<Rightarrow> order_row \<Rightarrow> bool" where
  "where_clause cs r = (\<forall>c \<in> set cs. c r)"

text \<open>\<open>ORDER BY created_at DESC LIMIT l OFFSET o\<close>; rows created at the same instant keep their order.\<close>

definition newest_first :: "order_row list \<Rightarrow> order_row list" where
  "newest_first rows = sort_key (\<lambda>r. - r_created_at r) rows"

definition page_of :: "int \<Rightarrow> int \<Rightarrow> 'a list \<Rightarrow> 'a list" where
  "page_of limit offset rows = take (nat limit) (drop (nat offset) rows)"

definition count_stmt :: "(order_row \<Rightarrow> bool) \<Rightarrow> int stmt" where
  "count_stmt P d = Inr (int (length (filter P (t_orders d))), d)"

definition select_page_stmt :: "(order_row \<Rightarrow> bool) \<Rightarrow> int \<Rightarrow> int \<Rightarrow> order_row list stmt" where
  "select_page_stmt P limit offset d =
     Inr (page_of limit offset (newest_first (filter P (t_orders d))), d)"

definition find_orders :: "order_filter \<Rightarrow> db \<Rightarrow> (order list \<times> int) result \<times> db" where
  "find_orders f d =
     (case find_conditions f of
        Inl e \<Rightarrow> (Inl e, d)
      | Inr cs \<Rightarrow>
          (case db_exec ''count orders'' (count_stmt (where_clause cs)) d of
             (Inl e, d1) \<Rightarrow> (Inl e, d1)
           | (Inr cnt, d1) \<Rightarrow>
               let limit = (if f_limit f \<le> 0 then 20 else f_limit f);
                   offset = (if f_offset f < 0 then 0 else f_offset f)
               in (case db_exec ''query orders''
                          (select_page_stmt (where_clause cs) limit offset) d1 of
                     (Inl e, d2) \<Rightarrow> (Inl e, d2)
                   | (Inr rows, d2) \<Rightarrow> (Inr (scan_orders rows, cnt), d2))))"

subsection \<open>Look-ups\<close>

definition select_stmt :: "(order_row \<Rightarrow> bool) \<Rightarrow> order_row list stmt" where
  "select_stmt P d = Inr (filter P (t_orders d), d)"

definition find_by_hash :: "string \<Rightarrow> db \<Rightarrow> order option result \<times> db" where
  "find_by_hash hash d =
     (case wrap_err ''decode hash'' (hex_decode hash) of
        Inl e \<Rightarrow> (Inl e, d)
      | Inr b \<Rightarrow>
          (case db_exec ''query order by hash'' (select_stmt (\<lambda>r. sql_eq (r_order_hash r) b)) d of
             (Inl e, d1) \<Rightarrow> (Inl e, d1)
           | (Inr rows, d1) \<Rightarrow>
               (case scan_orders rows of [] \<Rightarrow> (Inr None, d1) | x # _ \<Rightarrow> (Inr (Some x), d1))))"

definition best_price_stmt :: "bytes option \<Rightarrow> uint8 \<Rightarrow> int option stmt" where
  "best_price_stmt coll side d =
     (let prices = map r_price (filter (\<lambda>r. sql_eq (r_collection r) coll \<and> r_side r = side \<and>
                     r_status r = Active) (t_orders d));
          ordered = (if side = Buy then rev (sort prices) else sort prices)
      in Inr (case ordered of [] \<Rightarrow> None | p # _ \<Rightarrow> Some p, d))"

definition get_best_price :: "string \<Rightarrow> uint8 \<Rightarrow> db \<Rightarrow> int option result \<times> db" where
  "get_best_price collection side d =
     (case wrap_err ''decode collection'' (hex_decode collection) of
        Inl e \<Rightarrow> (Inl e, d)
      | Inr coll \<Rightarrow>
          (case db_exec ''get best price'' (best_price_stmt coll side) d of
             (Inl e, d1) \<Rightarrow> (Inl e, d1)
           | (Inr None, d1) \<Rightarrow> (Inr None, d1)
           | (Inr (Some p), d1) \<Rightarrow> (Inr (Some (raw_big_int (dec_of_int p))), d1)))"

definition get_listed_count :: "string \<Rightarrow> db \<Rightarrow> int result \<times> db" where
  "get_listed_count collection d =
     (case wrap_err ''decode collection'' (hex_decode collection) of
        Inl e \<Rightarrow> (Inl e, d)
      | Inr coll \<Rightarrow>
          db_exec ''count listed''
            (count_stmt (\<lambda>r. sql_eq (r_collection r) coll \<and> r_side r = Sell \<and> r_status r = Active)) d)"

definition active_maker_count_stmt :: "int stmt" where
  "active_maker_count_stmt d =
     Inr (int (length (remdups (map r_maker (filter (\<lambda>r. r_status r = Active) (t_orders d))))), d)"

definition get_active_maker_count :: "db \<Rightarrow> int result \<times> db" where
  "get_active_maker_count d = db_exec ''count active makers'' active_maker_count_stmt d"

definition maker_collections_stmt :: "bytes option \<Rightarrow> bytes option list stmt" where
  "maker_collections_stmt makerB d =
     Inr (remdups (map r_collection (filter (\<lambda>r. sql_eq (r_maker r) makerB \<and> r_status r = Active)
            (t_orders d))), d)"

definition get_maker_active_collections :: "string \<Rightarrow> db \<Rightarrow> string list result \<times> db" where
  "get_maker_active_collections maker d =
     (case wrap_err ''decode maker'' (hex_decode maker) of
        Inl e \<Rightarrow> (Inl e, d)
      | Inr makerB \<Rightarrow>
          (case db_exec ''query maker collections'' (maker_collections_stmt makerB) d of
             (Inl e, d1) \<Rightarrow> (Inl e, d1)
           | (Inr cs, d1) \<Rightarrow> (Inr (map hex_encode cs), d1)))"

subsection \<open>Status updates\<close>

text \<open>
  Every update of an order is one statement of the same shape:
  \<open>UPDATE orders SET status = s, updated_at = NOW() WHERE ... AND status = 0\<close>.
\<close>

definition update_active :: "uint8 \<Rightarrow> instant \<Rightarrow> (order_row \<Rightarrow> bool) \<Rightarrow> order_row \<Rightarrow> order_row" where
  "update_active s now P r =
     (if P r \<and> r_status r = Active then r\<lparr>r_status := s, r_updated_at := now\<rparr> else r)"

definition update_active_stmt :: "uint8 \<Rightarrow> (db \<Rightarrow> order_row \<Rightarrow> bool) \<Rightarrow> int stmt" where
  "update_active_stmt s P d =
     Inr (int (length (filter (\<lambda>r. P d r \<and> r_status r = Active) (t_orders d))),
          d\<lparr>t_orders := map (update_active s (db_now d) (P d)) (t_orders d)\<rparr>)"

definition exec_update :: "string \<Rightarrow> uint8 \<Rightarrow> (db \<Rightarrow> order_row \<Rightarrow> bool) \<Rightarrow> db \<Rightarrow> unit result \<times> db" where
  "exec_update msg s P d =
     (case db_exec msg (update_active_stmt s P) d of
        (Inl e, d1) \<Rightarrow> (Inl e, d1)
      | (Inr _, d1) \<Rightarrow> (Inr (), d1))"

definition update_status :: "string \<Rightarrow> uint8 \<Rightarrow> db \<Rightarrow> unit result \<times> db" where
  "update_status hash status d =
     (case wrap_err ''decode hash'' (hex_decode hash) of
        Inl e \<Rightarrow> (Inl e, d)
      | Inr b \<Rightarrow>
          exec_update ''update order status'' status (\<lambda>_ r. sql_eq (r_order_hash r) b) d)"

definition cancel_by_maker_salt :: "string \<Rightarrow> int \<Rightarrow> db \<Rightarrow> unit result \<times> db" where
  "cancel_by_maker_salt maker salt d =
     (case wrap_err ''decode maker'' (hex_decode maker) of
        Inl e \<Rightarrow> (Inl e, d)
      | Inr makerB \<Rightarrow>
          exec_update ''cancel by maker+salt'' Cancelled
            (\<lambda>_ r. sql_eq (r_maker r) makerB \<and> r_salt r = salt) d)"

definition cancel_by_maker_counter :: "string \<Rightarrow> int \<Rightarrow> db \<Rightarrow> unit result \<times> db" where
  "cancel_by_maker_counter maker min_counter d =
     (case wrap_err ''decode maker'' (hex_decode maker) of
        Inl e \<Rightarrow> (Inl e, d)
      | Inr makerB \<Rightarrow>
          exec_update ''cancel by maker+counter'' Cancelled
            (\<lambda>_ r. sql_eq (r_maker r) makerB \<and> r_counter r < min_counter) d)"

definition cancel_by_collection :: "string \<Rightarrow> db \<Rightarrow> unit result \<times> db" where
  "cancel_by_collection collection d =
     (case wrap_err ''decode collection'' (hex_decode collection) of
        Inl e \<Rightarrow> (Inl e, d)
      | Inr collB \<Rightarrow>
          exec_update ''cancel by collection'' Cancelled
            (\<lambda>_ r. sql_eq (r_collection r) collB) d)"

definition due :: "db \<Rightarrow> order_row \<Rightarrow> bool" where
  "due d r = (case r_expired_at r of None \<Rightarrow> False | Some t \<Rightarrow> t \<le> db_now d)"

definition expire_orders :: "db \<Rightarrow> int result \<times> db" where
  "expire_orders d = db_exec ''expire orders'' (update_active_stmt Expired due) d"

end
