(* ===== verification/OrderRepoFacts.thy ===== *)
theory OrderRepoFacts
  imports OrderRepo
begin

section \<open>Facts about the conversions and look-ups of the order repository\<close>

text \<open>
  What the boundary of the repository does to text: addresses, hashes and signatures come back
  in the canonical lower-case form \<open>canon_hex\<close>, numbers unchanged.  From this follows the round
  trip of a whole order through \<open>Insert\<close> and \<open>FindByHash\<close>.
\<close>

subsection \<open>Canonical hex\<close>

definition canon_hex :: "string \<Rightarrow> string" where
  "canon_hex s = (let t = trim_prefix s ''0x'' in if t = [] then [] else ''0x'' @ to_lower t)"

lemma hex_decode_Some: "hex_decode s = Inr (Some b) \<Longrightarrow> hex_decode_string (trim_prefix s ''0x'') = Inr b"
  by (auto simp: hex_decode_def bind_result_Inr split: if_splits)

lemma hex_decode_None [simp]: "hex_decode s = Inr None \<longleftrightarrow> s = []"
  by (auto simp: hex_decode_def bind_result_Inr)

lemma hex_encode_hex_decode: "hex_decode s = Inr b \<Longrightarrow> hex_encode b = canon_hex s"
proof (cases b)
  case None
  assume "hex_decode s = Inr b"
  with None show ?thesis by (simp add: canon_hex_def hex_encode_def trim_prefix_def has_prefix_def)
next
  case (Some bs)
  assume "hex_decode s = Inr b"
  with Some have d: "hex_decode_string (trim_prefix s ''0x'') = Inr bs"
    by (simp add: hex_decode_Some)
  then have "bs = [] \<longleftrightarrow> trim_prefix s ''0x'' = []"
    using length_hex_decode by fastforce
  then show ?thesis
    using hex_encode_decode [OF d] Some by (simp add: hex_encode_def canon_hex_def Let_def)
qed

lemma hex_decode_hex_encode: "hex_decode (hex_encode (Some bs)) = Inr (if bs = [] then None else Some bs)"
  by (simp add: hex_decode_def hex_encode_def trim_prefix_def has_prefix_def)

lemma hex_decode_eq_iff:
  assumes "hex_decode s = Inr (Some b)" and "hex_decode t = Inr (Some c)"
  shows "b = c \<longleftrightarrow> equal_fold (trim_prefix s ''0x'') (trim_prefix t ''0x'')"
  using assms by (intro hex_decode_case_insensitive) (auto dest: hex_decode_Some)

lemma scan_big_int_dec [simp]: "scan_big_int (dec_of_int i) = i" "raw_big_int (dec_of_int i) = i"
  by (simp_all add: scan_big_int_def raw_big_int_def)

lemma big_int_str_read [simp]: "fst (big_set_string (big_int_str (Some i))) = i"
  by (simp add: big_int_str_def)

lemma join_split_signature:
  assumes "split_signature sig = Inr (r, s, v)"
  shows "join_signature r s v = ''0x'' @ to_lower (trim_prefix sig ''0x'')"
proof -
  define raw where "raw = trim_prefix sig ''0x''"
  from assms obtain vb where len: "length raw = 130"
    and r: "hex_decode_string (take 64 raw) = Inr r"
    and s: "hex_decode_string (take 64 (drop 64 raw)) = Inr s"
    and vb: "hex_decode_string (drop 128 raw) = Inr vb" and v: "v = hd vb"
    by (auto simp: split_signature_def raw_def [symmetric] Let_def bind_result_Inr split: if_splits)
  have "length vb = 1" using length_hex_decode [OF vb] len by simp
  then have "vb = [v]" using v by (cases vb) auto
  then have "hex_encode_byte v = to_lower (drop 128 raw)"
    using hex_encode_decode [OF vb] by (simp add: hex_encode_byte_def)
  moreover have "raw = take 64 raw @ take 64 (drop 64 raw) @ drop 128 raw"
    by (metis add_numeral_left append_take_drop_id drop_drop numeral_Bit0)
  ultimately show ?thesis
    using hex_encode_decode [OF r] hex_encode_decode [OF s]
    unfolding join_signature_def raw_def [symmetric] by (metis to_lower_append)
qed

lemma db_exec_healthy:
  "healthy d \<Longrightarrow> db_exec msg st d =
     (case st d of Inl e \<Rightarrow> (Inl (ErrWrap msg e), d) | Inr (x, d') \<Rightarrow> (Inr x, d'))"
  by (simp add: db_exec_def run_stmt_healthy split: sum.splits)



definition stored_order :: "int \<Rightarrow> instant \<Rightarrow> order \<Rightarrow> order" where
  "stored_order i t od = od\<lparr>
     o_maker := canon_hex (o_maker od), o_taker := canon_hex (o_taker od),
     o_collection := canon_hex (o_collection od),
     o_payment_token := canon_hex (o_payment_token od), o_extra := canon_hex (o_extra od),
     o_order_hash := canon_hex (o_order_hash od),
     o_signature := ''0x'' @ to_lower (trim_prefix (o_signature od) ''0x''),
     o_id := i, o_created_at := t, o_updated_at := t\<rparr>"

lemma encode_order_Inr:
  assumes "encode_order chain od = Inr p"
  shows "hex_decode (o_order_hash od) = Inr (r_order_hash p)"
    and "hex_decode (o_maker od) = Inr (r_maker p)"
    and "hex_decode (o_taker od) = Inr (r_taker p)"
    and "hex_decode (o_collection od) = Inr (r_collection p)"
    and "hex_decode (o_payment_token od) = Inr (r_payment_token p)"
    and "hex_decode (o_extra od) = Inr (r_extra p)"
    and "split_signature (o_signature od) = Inr (r_signature_r p, r_signature_s p, r_signature_v p)"
    and "r_status p = o_status od" and "r_salt p = o_salt od" and "r_price p = o_price od"
    and "r_counter p = o_counter od" and "r_side p = o_side od"
    and "r_expired_at p = (if o_end_time od > 0 then Some (unix_time (o_end_time od)) else None)"
  using assms by (auto simp: encode_order_def bind_result_Inr split: prod.splits)

lemma scan_encode_order:
  assumes "encode_order chain od = Inr p"
  shows "scan_order (p\<lparr>r_id := i, r_created_at := t, r_updated_at := t\<rparr>) = stored_order i t od"
proof -
  from encode_order_Inr [OF assms]
  have "hex_encode (r_order_hash p) = canon_hex (o_order_hash od)"
    "hex_encode (r_maker p) = canon_hex (o_maker od)"
    "hex_encode (r_taker p) = canon_hex (o_taker od)"
    "hex_encode (r_collection p) = canon_hex (o_collection od)"
    "hex_encode (r_payment_token p) = canon_hex (o_payment_token od)"
    "hex_encode (r_extra p) = canon_hex (o_extra od)"
    "join_signature (r_signature_r p) (r_signature_s p) (r_signature_v p) =
       ''0x'' @ to_lower (trim_prefix (o_signature od) ''0x'')"
    by (simp_all add: hex_encode_hex_decode join_split_signature)
  with assms show ?thesis
    by (auto simp: scan_order_def stored_order_def encode_order_def bind_result_Inr split: prod.splits)
qed

lemma insert_order_Inr:
  assumes "insert_order chain od d = (Inr u, d')" and "healthy d"
  obtains p r where "encode_order chain od = Inr p"
    and "r = p\<lparr>r_id := t_order_seq d, r_created_at := db_now d, r_updated_at := db_now d\<rparr>"
    and "check_order r (t_orders d) = Inr ()"
    and "d' = d\<lparr>t_orders := t_orders d @ [r], t_order_seq := t_order_seq d + 1\<rparr>"
proof -
  from assms(1) obtain p where p: "encode_order chain od = Inr p"
    by (auto simp: insert_order_def split: sum.splits)
  moreover have "db_exec ''insert order'' (insert_stmt p) d = (Inr u, d')"
    using assms(1) p by (simp add: insert_order_def)
  ultimately show thesis
    using that assms(2)
    by (auto simp: db_exec_healthy insert_stmt_def Let_def bind_result_def split: sum.splits)
qed

lemma find_by_hash_healthy:
  assumes "healthy d" and "hex_decode h = Inr b"
  shows "find_by_hash h d =
    (Inr (case filter (\<lambda>r. sql_eq (r_order_hash r) b) (t_orders d) of
            [] \<Rightarrow> None | r # _ \<Rightarrow> Some (scan_order r)), d)"
  using assms by (simp add: find_by_hash_def db_exec_healthy select_stmt_def scan_orders_def
      split: list.splits)

subsection \<open>A small database\<close>

text \<open>One listing in an empty book, for the concrete instances below and in the other theories.\<close>

definition sample_order :: order where
  "sample_order = zero_order\<lparr>o_maker := ''0x1A'', o_taker := zero_address, o_collection := ''0x2b'',
     o_token_id := 7, o_amount := 1, o_payment_token := zero_address, o_price := 100,
     o_salt := 1, o_order_hash := ''0x01'', o_end_time := 50,
     o_signature := ''0x'' @ replicate 130 (CHR ''c'')\<rparr>"

definition sample_row :: order_row where
  "sample_row = \<lparr>r_id = 1, r_order_hash = Some [1], r_chain_id = 31337, r_maker = Some [26],
     r_taker = Some (replicate 20 0), r_side = Sell, r_kind = FixedPrice, r_asset_type = ERC721,
     r_collection = Some [43], r_token_id = 7, r_amount = 1,
     r_payment_token = Some (replicate 20 0), r_price = 100, r_start_price = 0, r_start_time = 0,
     r_end_time = 50, r_salt = 1, r_counter = 0, r_extra = None,
     r_signature_r = replicate 32 204, r_signature_s = replicate 32 204, r_signature_v = 204,
     r_status = Active, r_created_at = 0, r_updated_at = 0,
     r_expired_at = Some 50000000000\<rparr>"

definition sample_db :: db where
  "sample_db = empty_db\<lparr>t_orders := [sample_row], t_order_seq := 2\<rparr>"

lemma sample_insert: "insert_order 31337 sample_order empty_db = (Inr (), sample_db)"
  by code_simp

lemma sample_db_sel [simp]:
  "t_orders sample_db = [sample_row]" "db_now sample_db = 0" "healthy sample_db"
  by (simp_all add: sample_db_def empty_db_def healthy_def)

subsection \<open>Insert, then find\<close>

lemma find_inserted:
  assumes "healthy d" and "insert_order chain od d = (Inr (), d')"
    and "hex_decode h = hex_decode (o_order_hash od)"
  shows "find_by_hash h d' =
    (Inr (Some (stored_order (t_order_seq d) (db_now d) od)), d')"
proof -
  from assms(1,2) obtain p r where p: "encode_order chain od = Inr p"
    and r: "r = p\<lparr>r_id := t_order_seq d, r_created_at := db_now d, r_updated_at := db_now d\<rparr>"
    and ok: "check_order r (t_orders d) = Inr ()"
    and d': "d' = d\<lparr>t_orders := t_orders d @ [r], t_order_seq := t_order_seq d + 1\<rparr>"
    by (metis insert_order_Inr)
  have hash: "hex_decode h = Inr (r_order_hash r)"
    using encode_order_Inr(1) [OF p] assms(3) by (simp add: r)
  have none: "filter (\<lambda>x. sql_eq (r_order_hash x) (r_order_hash r)) (t_orders d) = []"
    using ok by (auto simp: check_order_Inr same_hash_def sql_eq_def filter_empty_conv)
  have own: "sql_eq (r_order_hash r) (r_order_hash r)"
    using ok by (simp add: check_order_Inr order_not_null_def sql_eq_def)
  have "healthy d'" using assms(1) by (simp add: d' healthy_def)
  from find_by_hash_healthy [OF this hash] none own show ?thesis
    by (simp add: d' r scan_encode_order [OF p])
qed

text \<open>
  C16: After an order was inserted, looking it up by any spelling of its hash returns that order: every
  number, time, address and signature as submitted, hex text in lower case, with the id and the
  time stamps of the insertion.
\<close>

theorem find_after_insert:
  assumes "healthy d" and "insert_order chain od d = (Inr (), d')"
    and "hex_decode h = hex_decode (o_order_hash od)"
  shows "find_by_hash h d' =
    (Inr (Some (stored_order (t_order_seq d) (db_now d) od)), d')"
  using assms by (rule find_inserted)

theorem find_after_insert_witness:
  "find_by_hash ''01'' sample_db = (Inr (Some (stored_order 1 0 sample_order)), sample_db)"
proof -
  have "hex_decode ''01'' = hex_decode (o_order_hash sample_order)"
    by code_simp
  then have "find_by_hash ''01'' sample_db =
      (Inr (Some (stored_order (t_order_seq empty_db) (db_now empty_db) sample_order)), sample_db)"
    by (intro find_after_insert [OF _ sample_insert]) (simp_all add: healthy_def empty_db_def)
  then show ?thesis
    by (simp add: empty_db_def)
qed

lemma find_other_after_insert:
  assumes "healthy d" and "insert_order chain od d = (Inr (), d')"
    and "hex_decode h \<noteq> hex_decode (o_order_hash od)"
  shows "fst (find_by_hash h d') = fst (find_by_hash h d)"
proof (cases "hex_decode h")
  case (Inl e)
  then show ?thesis by (simp add: find_by_hash_def)
next
  case (Inr b)
  from assms(1,2) obtain p r where p: "encode_order chain od = Inr p"
    and r: "r = p\<lparr>r_id := t_order_seq d, r_created_at := db_now d, r_updated_at := db_now d\<rparr>"
    and d': "d' = d\<lparr>t_orders := t_orders d @ [r], t_order_seq := t_order_seq d + 1\<rparr>"
    by (metis insert_order_Inr)
  have "\<not> sql_eq (r_order_hash r) b"
    using encode_order_Inr(1) [OF p] assms(3) Inr by (auto simp: r sql_eq_def)
  moreover have "healthy d'" using assms(1) by (simp add: d' healthy_def)
  ultimately show ?thesis
    using find_by_hash_healthy [OF _ Inr] assms(1) by (simp add: d')
qed

end
