(* ===== verification/OrderLifecycle.thy ===== *)
theory OrderLifecycle
  imports OrderRepoFacts
begin

section \<open>The life of an order in the repository\<close>

text \<open>
  The five updates of an order (filled, cancelled by salt, by counter or by collection, expired)
  share one contract, the locale \<open>order_closing\<close>: they move active rows to a target status
  and touch nothing else.  Its facts give, for every run of the repository (\<open>repo_step\<close>),
  the integrity of the table and the finality of closed orders.
\<close>

subsection \<open>The contract of a status update\<close>

text \<open>The part of the database other than the orders table and the schedule.\<close>

definition same_but_orders :: "db \<Rightarrow> db \<Rightarrow> bool" where
  "same_but_orders d d' \<longleftrightarrow>
     d' = d\<lparr>t_orders := t_orders d', t_order_seq := t_order_seq d', db_outcomes := db_outcomes d'\<rparr>"

lemma same_tablesE:
  assumes "same_tables d d'"
  obtains os where "d' = d\<lparr>db_outcomes := os\<rparr>"
  using assms unfolding same_tables_def by blast

text \<open>What \<open>update_active\<close> leaves alone, and what it makes of the status.\<close>

lemma update_active_keeps [simp]:
  "r_id (update_active s now P r) = r_id r"
  "r_order_hash (update_active s now P r) = r_order_hash r"
  "r_chain_id (update_active s now P r) = r_chain_id r"
  "r_maker (update_active s now P r) = r_maker r"
  "r_collection (update_active s now P r) = r_collection r"
  "r_salt (update_active s now P r) = r_salt r"
  "r_counter (update_active s now P r) = r_counter r"
  "r_price (update_active s now P r) = r_price r"
  "r_side (update_active s now P r) = r_side r"
  "r_expired_at (update_active s now P r) = r_expired_at r"
  "order_types_ok (update_active s now P r) = order_types_ok r"
  "order_not_null (update_active s now P r) = order_not_null r"
  by (simp_all add: update_active_def order_types_ok_def order_not_null_def)

lemma update_active_status:
  "r_status (update_active s now P r) = (if P r \<and> r_status r = Active then s else r_status r)"
  by (simp add: update_active_def)

lemma same_tables_fields:
  "same_tables d d' \<Longrightarrow> t_orders d' = t_orders d \<and> t_order_seq d' = t_order_seq d \<and>
     db_now d' = db_now d \<and> same_but_orders d d'"
  unfolding same_tables_def same_but_orders_def by (cases d; cases d') simp

definition closes_orders :: "uint8 \<Rightarrow> db \<Rightarrow> db \<Rightarrow> bool" where
  "closes_orders s d d' \<longleftrightarrow> same_but_orders d d' \<and> t_order_seq d' = t_order_seq d \<and>
     (t_orders d' = t_orders d \<or> (\<exists>P. t_orders d' = map (update_active s (db_now d) P) (t_orders d)))"

lemma closes_orders_same: "same_tables d d' \<Longrightarrow> closes_orders s d d'"
  by (auto simp: closes_orders_def dest: same_tables_fields)

lemma closes_orders_refl [simp]: "closes_orders s d d"
  by (rule closes_orders_same) (simp add: same_tables_def)

lemma db_exec_update_closes:
  "closes_orders s d (snd (db_exec msg (update_active_stmt s P) d))"
proof (rule run_stmt_cases [of "update_active_stmt s P" d])
  fix e d1 assume "run_stmt (update_active_stmt s P) d = (Inl e, d1)" "same_tables d d1"
  then show ?thesis by (simp add: db_exec_def closes_orders_same)
next
  fix x d1 d2 r
  assume run: "run_stmt (update_active_stmt s P) d = (r, d2)" and same: "same_tables d d1"
    and st: "update_active_stmt s P d1 = Inr (x, d2)"
  from st have d2: "d2 = d1\<lparr>t_orders := map (update_active s (db_now d1) (P d1)) (t_orders d1)\<rparr>"
    by (simp add: update_active_stmt_def)
  from same obtain os where "d1 = d\<lparr>db_outcomes := os\<rparr>"
    by (rule same_tablesE)
  then show ?thesis
    by (auto simp: db_exec_def run closes_orders_def same_but_orders_def d2)
qed

lemma exec_update_closes: "closes_orders s d (snd (exec_update msg s P d))"
  using db_exec_update_closes [of s d msg P] by (auto simp: exec_update_def split: sum.splits prod.splits)

locale order_closing =
  fixes close_op :: "db \<Rightarrow> 'a result \<times> db" and target :: uint8
  assumes closes: "closes_orders target d (snd (close_op d))"
begin

lemma closed_untouched:
  assumes "r \<in> set (t_orders d)" and "r_status r \<noteq> Active"
  shows "r \<in> set (t_orders (snd (close_op d)))"
proof -
  have "update_active target (db_now d) P r = r" for P
    using assms(2) by (simp add: update_active_def)
  then show ?thesis
    using closes [of d] assms(1) unfolding closes_orders_def by (metis image_eqI list.set_map)
qed

lemma reopens_nothing:
  assumes "r' \<in> set (t_orders (snd (close_op d)))" and "r_status r' = Active" and "target \<noteq> Active"
  shows "r' \<in> set (t_orders d)"
  using closes [of d] assms unfolding closes_orders_def
  by (auto simp: update_active_def split: if_splits)

lemma keeps_keys:
  "map r_id (t_orders (snd (close_op d))) = map r_id (t_orders d)"
  "map r_order_hash (t_orders (snd (close_op d))) = map r_order_hash (t_orders d)"
  using closes [of d] unfolding closes_orders_def
  by (auto simp: update_active_def o_def)

lemma keeps_orders_ok:
  assumes "orders_ok (t_orders d) (t_order_seq d)"
  shows "orders_ok (t_orders (snd (close_op d))) (t_order_seq (snd (close_op d)))"
proof -
  have "orders_ok (map (update_active target now P) (t_orders d)) (t_order_seq d)" for now P
  proof -
    let ?u = "update_active target now P"
    have "unique_by same_hash (map ?u (t_orders d))"
      using assms by (auto simp: orders_ok_def same_hash_def intro!: unique_by_map)
    moreover have "unique_by same_active_salt (map ?u (t_orders d))"
      using assms by (auto simp: orders_ok_def same_active_salt_def update_active_status
          intro!: unique_by_map split: if_splits)
    moreover have "map r_id (map ?u (t_orders d)) = map r_id (t_orders d)"
      by simp
    ultimately show ?thesis
      using assms by (simp add: orders_ok_def del: map_map)
  qed
  then show ?thesis
    using closes [of d] assms unfolding closes_orders_def by auto
qed

end

interpretation upd: order_closing "update_status h s" s for h s
  by unfold_locales (auto simp: update_status_def exec_update_closes split: sum.split)

interpretation by_salt: order_closing "cancel_by_maker_salt m x" 2 for m x
  by unfold_locales (auto simp: cancel_by_maker_salt_def exec_update_closes split: sum.split)

interpretation by_counter: order_closing "cancel_by_maker_counter m x" 2 for m x
  by unfold_locales (auto simp: cancel_by_maker_counter_def exec_update_closes split: sum.split)

interpretation by_collection: order_closing "cancel_by_collection c" 2 for c
  by unfold_locales (auto simp: cancel_by_collection_def exec_update_closes split: sum.split)

interpretation expiry: order_closing expire_orders 3
  by unfold_locales (simp add: expire_orders_def db_exec_update_closes)

subsection \<open>Reachable databases\<close>

text \<open>
  A run of the repository: any sequence of its writes, by anyone, in any order, under any
  schedule of failures, with the clock advancing.  Reads change nothing but the schedule.
\<close>

inductive repo_step :: "int \<Rightarrow> db \<Rightarrow> db \<Rightarrow> bool" for chain where
  insert: "repo_step chain d (snd (insert_order chain od d))"
| status: "repo_step chain d (snd (update_status h s d))"
| cancel_salt: "repo_step chain d (snd (cancel_by_maker_salt m x d))"
| cancel_counter: "repo_step chain d (snd (cancel_by_maker_counter m x d))"
| cancel_collection: "repo_step chain d (snd (cancel_by_collection c d))"
| expire: "repo_step chain d (snd (expire_orders d))"
| tick: "db_now d \<le> t \<Longrightarrow> repo_step chain d (d\<lparr>db_now := t\<rparr>)"
| environment: "repo_step chain d (d\<lparr>db_outcomes := os\<rparr>)"

inductive_cases repo_stepE: "repo_step chain d d'"

definition repo_reachable :: "int \<Rightarrow> db \<Rightarrow> bool" where
  "repo_reachable chain d \<longleftrightarrow> (repo_step chain)\<^sup>*\<^sup>* empty_db d"

definition expiry_consistent :: "order_row \<Rightarrow> bool" where
  "expiry_consistent r \<longleftrightarrow> r_expired_at r =
     (if (word_of_int (r_end_time r) :: uint64) > 0
      then Some (unix_instant (sint (word_of_int (r_end_time r) :: uint64))) else None)"

definition repo_inv :: "db \<Rightarrow> bool" where
  "repo_inv d \<longleftrightarrow> orders_ok (t_orders d) (t_order_seq d) \<and> (\<forall>r \<in> set (t_orders d). expiry_consistent r)"

lemma expiry_consistent_update [simp]:
  "expiry_consistent (update_active s now P r) = expiry_consistent r"
  by (simp add: expiry_consistent_def update_active_def)

lemma closes_expiry_consistent:
  assumes "closes_orders s d d'" and "\<forall>r \<in> set (t_orders d). expiry_consistent r"
  shows "\<forall>r \<in> set (t_orders d'). expiry_consistent r"
  using assms unfolding closes_orders_def by auto

text \<open>An insertion changes nothing or appends one checked row.\<close>

lemma insert_order_cases:
  obtains "t_orders (snd (insert_order chain od d)) = t_orders d"
      "t_order_seq (snd (insert_order chain od d)) = t_order_seq d"
      "same_but_orders d (snd (insert_order chain od d))"
  | p r where "encode_order chain od = Inr p"
      "r = p\<lparr>r_id := t_order_seq d, r_created_at := db_now d, r_updated_at := db_now d\<rparr>"
      "check_order r (t_orders d) = Inr ()"
      "t_orders (snd (insert_order chain od d)) = t_orders d @ [r]"
      "t_order_seq (snd (insert_order chain od d)) = t_order_seq d + 1"
      "same_but_orders d (snd (insert_order chain od d))"
proof (cases "encode_order chain od")
  case (Inl e)
  then show thesis
    using that(1) by (simp add: insert_order_def same_but_orders_def)
next
  case (Inr p)
  show thesis
  proof (rule run_stmt_cases [of "insert_stmt p" d])
    fix e d1 assume "run_stmt (insert_stmt p) d = (Inl e, d1)" "same_tables d d1"
    then show thesis
      using that(1) Inr by (auto simp: insert_order_def db_exec_def dest: same_tables_fields)
  next
    fix x d1 d2 res
    assume run: "run_stmt (insert_stmt p) d = (res, d2)" and same: "same_tables d d1"
      and st: "insert_stmt p d1 = Inr (x, d2)"
    from same obtain os where d1: "d1 = d\<lparr>db_outcomes := os\<rparr>"
      by (rule same_tablesE)
    let ?r = "p\<lparr>r_id := t_order_seq d, r_created_at := db_now d, r_updated_at := db_now d\<rparr>"
    have result: "snd (insert_order chain od d) = d2"
      using Inr by (simp add: insert_order_def db_exec_def run)
    from st have "check_order ?r (t_orders d) = Inr ()"
      and d2: "d2 = d1\<lparr>t_orders := t_orders d @ [?r], t_order_seq := t_order_seq d + 1\<rparr>"
      by (auto simp: insert_stmt_def Let_def bind_result_Inr d1)
    then show thesis
      by (intro that(2) [OF Inr refl]) (simp_all add: result d1 same_but_orders_def)
  qed
qed

lemma encode_order_end_time: "encode_order chain od = Inr p \<Longrightarrow> r_end_time p = sint (o_end_time od)"
  by (auto simp: encode_order_def bind_result_Inr split: prod.splits)

lemma insert_order_inv [preserved]:
  assumes "repo_inv d" shows "repo_inv (snd (insert_order chain od d))"
proof (cases rule: insert_order_cases [of chain od d])
  case 1
  then show ?thesis using assms by (simp add: repo_inv_def)
next
  case (2 p r)
  have "expiry_consistent r"
    using encode_order_Inr(13) [OF 2(1)] encode_order_end_time [OF 2(1)]
    by (simp add: 2(2) expiry_consistent_def unix_time_def)
  moreover have "orders_ok (t_orders d @ [r]) (t_order_seq d + 1)"
    using assms 2(2,3) by (auto simp: repo_inv_def intro: orders_ok_insert)
  ultimately show ?thesis
    using assms 2(4,5) by (auto simp: repo_inv_def)
qed

lemma repo_step_inv:
  assumes "repo_step chain d d'" and "repo_inv d"
  shows "repo_inv d'"
  using assms
proof (induction rule: repo_step.induct)
  case (insert d od)
  then show ?case by (rule insert_order_inv)
next
  case (status d h s)
  then show ?case
    using upd.keeps_orders_ok upd.closes closes_expiry_consistent unfolding repo_inv_def by blast
next
  case (cancel_salt d m x)
  then show ?case
    using by_salt.keeps_orders_ok by_salt.closes closes_expiry_consistent unfolding repo_inv_def by blast
next
  case (cancel_counter d m x)
  then show ?case
    using by_counter.keeps_orders_ok by_counter.closes closes_expiry_consistent
    unfolding repo_inv_def by blast
next
  case (cancel_collection d c)
  then show ?case
    using by_collection.keeps_orders_ok by_collection.closes closes_expiry_consistent
    unfolding repo_inv_def by blast
next
  case (expire d)
  then show ?case
    using expiry.keeps_orders_ok expiry.closes closes_expiry_consistent unfolding repo_inv_def by blast
qed (simp_all add: repo_inv_def)

lemma repo_inv_empty: "repo_inv empty_db"
  by (simp add: repo_inv_def orders_ok_def empty_db_def)

lemma repo_reachable_inv: "repo_reachable chain d \<Longrightarrow> repo_inv d"
  unfolding repo_reachable_def
  by (induction rule: rtranclp_induct) (auto intro: repo_inv_empty repo_step_inv)

lemma unique_by_eq:
  assumes "unique_by P xs" and "symp P" and "x \<in> set xs" and "y \<in> set xs" and "P x y"
  shows "x = y"
proof -
  from assms(3,4) obtain i j where ij: "i < length xs" "j < length xs" "xs ! i = x" "xs ! j = y"
    by (auto simp: in_set_conv_nth)
  have "\<not> P (xs ! b) (xs ! a)" if "a < b" "b < length xs" for a b
    using assms(1) that by (auto simp: unique_by_def sorted_wrt_iff_nth_less)
  then have "\<not> i < j" "\<not> j < i"
    using ij assms(2,5) by (auto dest: sympD)
  then show ?thesis using ij by simp
qed

text \<open>
  C13: In every database the repository can reach, through any sequence of its writes and any failures
  of the server, no two rows have the same order hash and no maker has two active orders with the
  same salt.
\<close>

theorem reachable_orders_unique:
  assumes "repo_reachable chain d" and "r \<in> set (t_orders d)" and "r' \<in> set (t_orders d)"
    and "r_order_hash r = r_order_hash r' \<or>
      r_maker r = r_maker r' \<and> r_salt r = r_salt r' \<and> r_status r = Active \<and> r_status r' = Active"
  shows "r = r'"
proof -
  from assms(1) have ok: "unique_by same_hash (t_orders d)" "unique_by same_active_salt (t_orders d)"
    by (auto dest!: repo_reachable_inv simp: repo_inv_def orders_ok_def)
  have "symp same_hash" "symp same_active_salt"
    by (auto intro!: sympI simp: same_hash_def same_active_salt_def)
  with ok assms(2,3) have "same_hash r r' \<Longrightarrow> r = r'" "same_active_salt r r' \<Longrightarrow> r = r'"
    by (auto intro: unique_by_eq)
  then show ?thesis
    using assms(4) by (auto simp: same_hash_def same_active_salt_def)
qed

theorem reachable_orders_unique_witness:
  "repo_reachable 31337 sample_db \<and> length (t_orders sample_db) = 1 \<and>
   (\<exists>r. r \<in> set (t_orders sample_db) \<and> r = hd (t_orders sample_db))"
proof -
  have reach: "repo_reachable 31337 sample_db"
    using repo_step.insert [of 31337 empty_db sample_order]
    by (auto simp: repo_reachable_def sample_insert)
  have len: "length (t_orders sample_db) = 1"
    by simp
  then have "last (t_orders sample_db) \<in> set (t_orders sample_db)"
    and "hd (t_orders sample_db) \<in> set (t_orders sample_db)"
    and "r_order_hash (last (t_orders sample_db)) = r_order_hash (hd (t_orders sample_db))"
    by (cases "t_orders sample_db"; simp)+
  from reachable_orders_unique [OF reach this(1,2) disjI1 [OF this(3)]] this(1) reach len
  show ?thesis by blast
qed

lemma repo_step_closed:
  assumes "repo_step chain d d'" and "r \<in> set (t_orders d)" and "r_status r \<noteq> Active"
  shows "r \<in> set (t_orders d')"
  using assms
proof (cases rule: repo_step.cases)
  case (insert od)
  then show ?thesis
    using assms(2) by (cases rule: insert_order_cases [of chain od d]) simp_all
qed (auto intro: upd.closed_untouched by_salt.closed_untouched by_counter.closed_untouched
      by_collection.closed_untouched expiry.closed_untouched)

text \<open>
  A filled, cancelled or expired order is final: its row survives unchanged every further sequence
  of repository writes, whatever fails and however they are ordered.
\<close>

theorem closed_order_is_final:
  assumes "(repo_step chain)\<^sup>*\<^sup>* d d'" and "r \<in> set (t_orders d)" and "r_status r \<noteq> Active"
  shows "r \<in> set (t_orders d')"
  using assms(1)
proof (induction rule: rtranclp_induct)
  case base
  show ?case by (rule assms(2))
next
  case (step y z)
  then show ?case
    using repo_step_closed assms(3) by blast
qed

theorem closed_order_is_final_witness:
  "map r_status (t_orders (snd (update_status ''0x01'' Filled sample_db))) = [Filled] \<and>
   hd (t_orders (snd (update_status ''0x01'' Filled sample_db)))
     \<in> set (t_orders (snd (expire_orders (snd (update_status ''0x01'' Filled sample_db)))))"
proof -
  let ?d = "snd (update_status ''0x01'' Filled sample_db)"
  have "hex_decode ''0x01'' = Inr (Some [1])"
    by code_simp
  then have st: "map r_status (t_orders ?d) = [Filled]"
    by (simp add: update_status_def exec_update_def db_exec_healthy update_active_stmt_def
        update_active_def sql_eq_def sample_row_def)
  then have own: "hd (t_orders ?d) \<in> set (t_orders ?d)" "r_status (hd (t_orders ?d)) \<noteq> Active"
    by (cases "t_orders ?d"; simp)+
  have "(repo_step 31337)\<^sup>*\<^sup>* ?d (snd (expire_orders ?d))"
    by (rule r_into_rtranclp) (rule repo_step.expire)
  from st closed_order_is_final [OF this own] show ?thesis
    by (rule conjI)
qed

lemma unix_instant_le_iff: "unix_instant e \<le> t \<longleftrightarrow> e \<le> unix t"
proof -
  have "e * 1000000000 \<le> t \<longleftrightarrow> e \<le> t div 1000000000" by linarith
  then show ?thesis by (simp add: unix_instant_def unix_def second_def)
qed

lemma due_is_expired:
  assumes "expiry_consistent r"
  shows "due d r \<longleftrightarrow> is_expired (scan_order r) (db_now d)"
  using assms by (auto simp: due_def expiry_consistent_def is_expired_def scan_order_def
      unix_instant_le_iff word_greater_zero_iff)

text \<open>
  C32: The janitor's SQL and the domain's \<open>IsExpired\<close> agree: on every reachable database \<open>ExpireOrders\<close>
  marks exactly the active orders that \<open>IsExpired\<close> calls expired, leaves every other row alone,
  and reports their number.
\<close>

theorem expire_orders_exact:
  assumes "repo_reachable chain d" and "healthy d"
  shows "t_orders (snd (expire_orders d)) =
      map (\<lambda>r. if r_status r = Active \<and> is_expired (scan_order r) (db_now d)
                then r\<lparr>r_status := Expired, r_updated_at := db_now d\<rparr> else r) (t_orders d) \<and>
    fst (expire_orders d) =
      Inr (int (length (filter (\<lambda>r. r_status r = Active \<and> is_expired (scan_order r) (db_now d)) (t_orders d))))"
proof -
  from assms(1) have "\<forall>r \<in> set (t_orders d). due d r = is_expired (scan_order r) (db_now d)"
    by (auto dest!: repo_reachable_inv simp: repo_inv_def due_is_expired)
  then have "map (update_active Expired (db_now d) (due d)) (t_orders d) =
      map (\<lambda>r. if r_status r = Active \<and> is_expired (scan_order r) (db_now d)
                then r\<lparr>r_status := Expired, r_updated_at := db_now d\<rparr> else r) (t_orders d)"
    and "filter (\<lambda>r. due d r \<and> r_status r = Active) (t_orders d) =
      filter (\<lambda>r. r_status r = Active \<and> is_expired (scan_order r) (db_now d)) (t_orders d)"
    by (auto simp: update_active_def intro!: map_cong filter_cong)
  then show ?thesis
    using assms(2) by (simp add: expire_orders_def db_exec_healthy update_active_stmt_def)
qed

theorem expire_orders_exact_witness:
  "map r_status (t_orders (snd (expire_orders (sample_db\<lparr>db_now := unix_instant 50\<rparr>)))) = [Expired] \<and>
   fst (expire_orders (sample_db\<lparr>db_now := unix_instant 50\<rparr>)) = Inr 1"
proof -
  let ?d = "sample_db\<lparr>db_now := unix_instant 50\<rparr>"
  have "repo_step 31337 empty_db sample_db"
    using repo_step.insert [of 31337 empty_db sample_order] by (simp add: sample_insert)
  moreover have "repo_step 31337 sample_db ?d"
    by (rule repo_step.tick) (simp add: unix_instant_def second_def)
  ultimately have "repo_reachable 31337 ?d"
    by (auto simp: repo_reachable_def)
  moreover have "healthy ?d"
    using sample_db_sel(3) by (simp add: healthy_def)
  ultimately have "fst (expire_orders ?d) = Inr (int (length
        (filter (\<lambda>r. r_status r = Active \<and> is_expired (scan_order r) (db_now ?d)) (t_orders ?d))))"
    and "t_orders (snd (expire_orders ?d)) =
      map (\<lambda>r. if r_status r = Active \<and> is_expired (scan_order r) (db_now ?d)
                then r\<lparr>r_status := Expired, r_updated_at := db_now ?d\<rparr> else r) (t_orders ?d)"
    using expire_orders_exact by blast+
  moreover have "length (filter (\<lambda>r. r_status r = Active \<and> is_expired (scan_order r) (db_now ?d))
      (t_orders ?d)) = 1"
    by (simp add: sample_row_def is_expired_def unix_instant_def unix_def second_def scan_order_def)
  moreover have "map r_status (map (\<lambda>r. if r_status r = Active \<and> is_expired (scan_order r) (db_now ?d)
      then r\<lparr>r_status := Expired, r_updated_at := db_now ?d\<rparr> else r) (t_orders ?d)) = [Expired]"
    by (simp add: sample_row_def is_expired_def unix_instant_def unix_def second_def scan_order_def)
  ultimately show ?thesis by simp
qed

end
