(* ===== verification/OrderQueries.thy ===== *)
theory OrderQueries
  imports OrderLifecycle
begin

section \<open>The queries of the order repository\<close>

text \<open>
  An abstract reading of the queries: the \<open>book\<close> is the list of orders a client can see, a filter
  is a predicate on orders, and \<open>Find\<close> and \<open>GetBestPrice\<close> are refinements of functions of the
  book.
\<close>

subsection \<open>Filters on the book\<close>

text \<open>The book as a client sees it, and what a filter means there.\<close>

definition book :: "db \<Rightarrow> order list" where
  "book d = map scan_order (t_orders d)"

definition given :: "'a option \<Rightarrow> ('a \<Rightarrow> bool) \<Rightarrow> bool" where
  "given v P = (case v of None \<Rightarrow> True | Some x \<Rightarrow> P x)"

definition matches_filter :: "order_filter \<Rightarrow> order \<Rightarrow> bool" where
  "matches_filter f od \<longleftrightarrow>
     (f_collection f = [] \<or> o_collection od = canon_hex (f_collection f)) \<and>
     (f_maker f = [] \<or> o_maker od = canon_hex (f_maker f)) \<and>
     (f_payment_token f = [] \<or> o_payment_token od = canon_hex (f_payment_token f)) \<and>
     given (f_side f) (\<lambda>s. o_side od = s) \<and>
     given (f_kind f) (\<lambda>k. o_kind od = k) \<and>
     given (f_asset_type f) (\<lambda>a. o_asset_type od = a) \<and>
     given (f_status f) (\<lambda>s. o_status od = s) \<and>
     given (f_token_id f) (\<lambda>i. o_token_id od = i) \<and>
     given (f_min_price f) (\<lambda>p. p \<le> o_price od) \<and>
     given (f_max_price f) (\<lambda>p. o_price od \<le> p)"

lemma scan_order_sel [simp]:
  "o_maker (scan_order r) = hex_encode (r_maker r)"
  "o_side (scan_order r) = r_side r"
  "o_kind (scan_order r) = r_kind r"
  "o_asset_type (scan_order r) = r_asset_type r"
  "o_collection (scan_order r) = hex_encode (r_collection r)"
  "o_token_id (scan_order r) = r_token_id r"
  "o_payment_token (scan_order r) = hex_encode (r_payment_token r)"
  "o_price (scan_order r) = r_price r"
  "o_start_price (scan_order r) = r_start_price r"
  "o_end_time (scan_order r) = word_of_int (r_end_time r)"
  "o_salt (scan_order r) = r_salt r"
  "o_counter (scan_order r) = r_counter r"
  "o_id (scan_order r) = r_id r"
  "o_order_hash (scan_order r) = hex_encode (r_order_hash r)"
  "o_status (scan_order r) = r_status r"
  "o_created_at (scan_order r) = r_created_at r"
  by (simp_all add: scan_order_def)

text \<open>A filter text is absent or the hex of at least one byte.\<close>

definition hex_text_ok :: "string \<Rightarrow> bool" where
  "hex_text_ok s \<longleftrightarrow> s = [] \<or> (\<exists>b. hex_decode s = Inr (Some b) \<and> b \<noteq> [])"

definition filter_ok :: "order_filter \<Rightarrow> bool" where
  "filter_ok f \<longleftrightarrow> hex_text_ok (f_collection f) \<and> hex_text_ok (f_maker f) \<and> hex_text_ok (f_payment_token f)"

lemma canon_hex_Some:
  assumes "hex_decode s = Inr (Some b)"
  shows "canon_hex s = (if b = [] then [] else ''0x'' @ hex_encode_to_string b)"
  using hex_encode_hex_decode [OF assms] by (simp add: hex_encode_def)

lemma hex_encode_eq_canon:
  assumes "hex_decode s = Inr (Some b)" and "b \<noteq> []"
  shows "hex_encode c = canon_hex s \<longleftrightarrow> sql_eq c (Some b)"
  using assms by (auto simp: canon_hex_Some hex_encode_def sql_eq_def split: option.splits)

lemma hex_condition_ok:
  assumes "hex_text_ok s"
  obtains cs where "hex_condition msg s col = Inr cs"
    and "\<And>r. where_clause cs r \<longleftrightarrow> s = [] \<or> hex_encode (col r) = canon_hex s"
proof (cases "s = []")
  case True
  then show thesis using that [of "[]"] by (simp add: hex_condition_def where_clause_def)
next
  case False
  with assms obtain b where b: "hex_decode s = Inr (Some b)" "b \<noteq> []"
    by (auto simp: hex_text_ok_def)
  then show thesis
    using that [of "[\<lambda>r. sql_eq (col r) (Some b)]"] False
    by (simp add: hex_condition_def where_clause_def hex_encode_eq_canon)
qed

lemma where_clause_append [simp]:
  "where_clause (cs @ ds) r \<longleftrightarrow> where_clause cs r \<and> where_clause ds r"
  by (auto simp: where_clause_def)

lemma where_opt_condition [simp]:
  "where_clause (opt_condition v P) r \<longleftrightarrow> given v (P r)"
  by (cases v) (simp_all add: opt_condition_def where_clause_def given_def)

lemma find_conditions_ok:
  assumes "filter_ok f"
  obtains cs where "find_conditions f = Inr cs"
    and "where_clause cs = (\<lambda>r. matches_filter f (scan_order r))"
proof -
  from assms have ok: "hex_text_ok (f_collection f)" "hex_text_ok (f_maker f)"
      "hex_text_ok (f_payment_token f)"
    by (simp_all add: filter_ok_def)
  obtain c1 where c1: "hex_condition ''decode collection'' (f_collection f) r_collection = Inr c1"
    "\<And>r. where_clause c1 r \<longleftrightarrow> f_collection f = [] \<or> hex_encode (r_collection r) = canon_hex (f_collection f)"
    using hex_condition_ok [OF ok(1)] by blast
  obtain c2 where c2: "hex_condition ''decode maker'' (f_maker f) r_maker = Inr c2"
    "\<And>r. where_clause c2 r \<longleftrightarrow> f_maker f = [] \<or> hex_encode (r_maker r) = canon_hex (f_maker f)"
    using hex_condition_ok [OF ok(2)] by blast
  obtain c3 where c3: "hex_condition ''decode payment_token'' (f_payment_token f) r_payment_token = Inr c3"
    "\<And>r. where_clause c3 r \<longleftrightarrow> f_payment_token f = [] \<or>
       hex_encode (r_payment_token r) = canon_hex (f_payment_token f)"
    using hex_condition_ok [OF ok(3)] by blast
  show thesis
    by (rule that)
      (simp add: find_conditions_def c1(1) c2(1) c3(1),
        auto simp: fun_eq_iff matches_filter_def c1(2) c2(2) c3(2))
qed

lemma insort_key_map: "insort_key k (g x) (map g xs) = map g (insort_key (k \<circ> g) x xs)"
  by (induction xs) simp_all

lemma sort_key_map: "sort_key k (map g xs) = map g (sort_key (\<lambda>x. k (g x)) xs)"
  by (induction xs) (simp_all add: insort_key_map o_def)

definition matching :: "order_filter \<Rightarrow> db \<Rightarrow> order list" where
  "matching f d = sort_key (\<lambda>od. - o_created_at od) (filter (matches_filter f) (book d))"

lemma page_of_map: "page_of l k (map g xs) = map g (page_of l k xs)"
  by (simp add: page_of_def take_map drop_map)

lemma find_orders_matching:
  assumes "healthy d" and "filter_ok f"
  shows "find_orders f d =
    (Inr (page_of (if f_limit f \<le> 0 then 20 else f_limit f) (max 0 (f_offset f)) (matching f d),
          int (length (matching f d))), d)"
proof -
  obtain cs where cs: "find_conditions f = Inr cs"
    and w: "where_clause cs = (\<lambda>r. matches_filter f (scan_order r))"
    using assms(2) by (rule find_conditions_ok)
  have m: "matching f d = map scan_order (newest_first (filter (where_clause cs) (t_orders d)))"
    by (simp add: matching_def book_def newest_first_def filter_map w o_def sort_key_map)
  then have "length (matching f d) = length (filter (where_clause cs) (t_orders d))"
    by (simp add: newest_first_def)
  then show ?thesis
    using assms(1) by (simp add: find_orders_def cs db_exec_healthy count_stmt_def
        select_page_stmt_def scan_orders_def m page_of_map max_def Let_def)
qed

text \<open>
  C17: \<open>Find\<close> computes what its filter means on the book of orders: the orders that match every given
  field, newest first, cut to the requested page (20 orders by default), together with the number
  of all matches.
\<close>

theorem find_orders_refines:
  assumes "healthy d" and "filter_ok f"
  shows "find_orders f d =
    (Inr (page_of (if f_limit f \<le> 0 then 20 else f_limit f) (max 0 (f_offset f)) (matching f d),
          int (length (matching f d))), d)"
  using assms by (rule find_orders_matching)

theorem find_orders_refines_witness:
  "find_orders (empty_filter\<lparr>f_maker := ''0x1a'', f_limit := 5\<rparr>) sample_db =
     (Inr (page_of 5 0 (matching (empty_filter\<lparr>f_maker := ''0x1a'', f_limit := 5\<rparr>) sample_db), 1), sample_db)"
proof -
  let ?f = "empty_filter\<lparr>f_maker := ''0x1a'', f_limit := 5\<rparr>"
  have "hex_decode ''0x1a'' = Inr (Some [26])"
    by code_simp
  then have "filter_ok ?f"
    by (simp add: filter_ok_def hex_text_ok_def empty_filter_def)
  moreover have "canon_hex ''0x1a'' = ''0x1a''"
    by code_simp
  then have "length (matching ?f sample_db) = 1"
    by (simp add: matching_def matches_filter_def book_def empty_filter_def given_def
        sample_row_def hex_encode_def hex_digit_def)
  ultimately show ?thesis
    using find_orders_refines [OF sample_db_sel(3), of ?f] by (simp add: empty_filter_def)
qed

lemma pages_concat:
  assumes "0 \<le> l"
  shows "concat (map (\<lambda>k. page_of l (int k * l) xs) [0..<n]) = take (n * nat l) xs"
proof (induction n)
  case (Suc n)
  have "nat (int n * l) = n * nat l"
    using assms by (simp add: nat_mult_distrib)
  then show ?case
    using Suc by (simp add: page_of_def take_add [symmetric] add.commute)
qed simp

text \<open>The orders on page \<open>k\<close> (from 0) of a query, with pages of \<open>l\<close> orders.\<close>

definition found_page :: "order_filter \<Rightarrow> int \<Rightarrow> db \<Rightarrow> nat \<Rightarrow> order list" where
  "found_page f l d k =
     (case fst (find_orders (f\<lparr>f_limit := l, f_offset := int k * l\<rparr>) d) of
        Inl e \<Rightarrow> [] | Inr (os, n) \<Rightarrow> os)"

lemma matching_paged [simp]: "matching (f\<lparr>f_limit := l, f_offset := k\<rparr>) d = matching f d"
  by (simp add: matching_def matches_filter_def fun_eq_iff cong: filter_cong)



definition side_prices :: "string \<Rightarrow> uint8 \<Rightarrow> db \<Rightarrow> int list" where
  "side_prices c s d = map o_price (filter (\<lambda>od. o_collection od = canon_hex c \<and>
     o_side od = s \<and> o_status od = Active) (book d))"

lemma hd_sort_Min: "ps \<noteq> [] \<Longrightarrow> hd (sort ps) = Min (set ps)"
proof (rule Min_eqI [symmetric])
  assume ne: "ps \<noteq> []"
  then obtain x xs where s: "sort ps = x # xs"
    by (metis length_0_conv length_sort neq_Nil_conv)
  then show "hd (sort ps) \<in> set ps"
    by (metis list.sel(1) list.set_intros(1) set_sort)
  fix y assume "y \<in> set ps"
  then have "y \<in> set (x # xs)" by (metis s set_sort)
  moreover have "sorted (x # xs)" by (metis s sorted_sort)
  ultimately show "hd (sort ps) \<le> y" by (auto simp: s)
qed simp

lemma last_sort_Max: "ps \<noteq> [] \<Longrightarrow> last (sort ps) = Max (set ps)"
proof (rule Max_eqI [symmetric])
  assume ne: "ps \<noteq> []"
  then have ne': "sort ps \<noteq> []"
    by (metis length_0_conv length_sort)
  then show "last (sort ps) \<in> set ps"
    by (metis last_in_set set_sort)
  fix y assume "y \<in> set ps"
  then have "y \<in> set (sort ps)" by simp
  then obtain i where "i < length (sort ps)" "sort ps ! i = y"
    by (auto simp only: in_set_conv_nth)
  then show "y \<le> last (sort ps)"
    using ne' sorted_nth_mono [OF sorted_sort, of i "length (sort ps) - 1" ps]
    by (simp add: last_conv_nth)
qed simp

lemma case_hd: "xs \<noteq> [] \<Longrightarrow> (case xs of [] \<Rightarrow> None | p # _ \<Rightarrow> Some p) = Some (hd xs)"
  by (cases xs) simp_all

lemma extremal_price:
  "(case (if s = Buy then rev (sort ps) else sort ps) of [] \<Rightarrow> None | p # _ \<Rightarrow> Some p) =
     (if ps = [] then None else Some (if s = Buy then Max (set ps) else Min (set ps)))"
proof (cases "ps = []")
  case False
  have "sort ps \<noteq> []"
    using False by (metis length_0_conv length_sort)
  then show ?thesis
    using hd_sort_Min [OF False] last_sort_Max [OF False] False
    by (simp add: case_hd hd_rev)
qed simp

text \<open>
  \<open>GetBestPrice\<close> returns the lowest price of the active listings of a collection, the highest of
  its active bids, and no price exactly when there is none.
\<close>

theorem best_price_is_extremal:
  assumes "healthy d" and "hex_text_ok c" and "c \<noteq> []"
  shows "get_best_price c s d =
    (Inr (if side_prices c s d = [] then None
          else Some (if s = Buy then Max (set (side_prices c s d)) else Min (set (side_prices c s d)))), d)"
proof -
  from assms(2,3) obtain b where b: "hex_decode c = Inr (Some b)" "b \<noteq> []"
    by (auto simp: hex_text_ok_def)
  have "map r_price (filter (\<lambda>r. sql_eq (r_collection r) (Some b) \<and> r_side r = s \<and>
      r_status r = Active) (t_orders d)) = side_prices c s d"
    by (simp add: side_prices_def book_def filter_map o_def hex_encode_eq_canon [OF b])
  then show ?thesis
    using assms(1) b by (simp add: get_best_price_def db_exec_healthy best_price_stmt_def
      extremal_price [where s = s] Let_def split: option.splits)
qed

theorem best_price_is_extremal_witness:
  "get_best_price ''0x2B'' Sell sample_db = (Inr (Some 100), sample_db)"
proof -
  have "hex_decode ''0x2B'' = Inr (Some [43])"
    by code_simp
  then have "hex_text_ok ''0x2B''"
    by (simp add: hex_text_ok_def)
  moreover have "canon_hex ''0x2B'' = ''0x2b''"
    by code_simp
  then have "side_prices ''0x2B'' Sell sample_db = [100]"
    by (simp add: side_prices_def book_def sample_row_def hex_encode_def hex_digit_def)
  ultimately show ?thesis
    using best_price_is_extremal [OF sample_db_sel(3), of "''0x2B''" Sell] by simp
qed

end
