(* ===== verification/Signature.thy ===== *)
theory Signature
  imports OrderRepoFacts
begin

section \<open>internal/service/signature.go\<close>

text \<open>
  EIP-712 verification of an order.  The functions of go-ethereum that it calls are not part of
  this repository: they are the fields of the record \<open>eth_lib\<close>, an argument of every definition
  that uses them.  What the lemmas need of them is stated where it is used.
\<close>

subsection \<open>go-ethereum, as a parameter\<close>

datatype typed_value = TStr string | TInt int

record typed_data =
  td_types :: "(string \<times> (string \<times> string) list) list"
  td_primary :: string
  td_name :: string
  td_version :: string
  td_chain_id :: int
  td_contract :: string
  td_message :: "(string \<times> typed_value) list"

type_synonym pubkey = "nat \<times> nat"

record eth_lib =
  hex_to_address :: "string \<Rightarrow> bytes"
  address_hex :: "bytes \<Rightarrow> string"
  is_hex_address :: "string \<Rightarrow> bool"
  typed_data_hash :: "typed_data \<Rightarrow> bytes result"
  valid_signature_values :: "uint8 \<Rightarrow> nat \<Rightarrow> nat \<Rightarrow> bool \<Rightarrow> bool"
  ecrecover :: "bytes \<Rightarrow> bytes \<Rightarrow> bytes result"
  unmarshal_pubkey :: "bytes \<Rightarrow> pubkey result"
  pubkey_to_address :: "pubkey \<Rightarrow> bytes"

subsection \<open>The typed data of an order\<close>

definition OrderTypes :: "(string \<times> (string \<times> string) list) list" where
  "OrderTypes =
     [(''EIP712Domain'',
        [(''name'', ''string''), (''version'', ''string''), (''chainId'', ''uint256''),
         (''verifyingContract'', ''address'')]),
      (''Order'',
        [(''maker'', ''address''), (''taker'', ''address''), (''side'', ''uint8''),
         (''kind'', ''uint8''), (''assetType'', ''uint8''), (''collection'', ''address''),
         (''tokenId'', ''uint256''), (''amount'', ''uint256''), (''paymentToken'', ''address''),
         (''price'', ''uint128''), (''startPrice'', ''uint128''), (''startTime'', ''uint64''),
         (''endTime'', ''uint64''), (''salt'', ''uint256''), (''counter'', ''uint256''),
         (''extra'', ''bytes32'')])]"

record signature_service =
  ss_chain_id :: int
  ss_contract :: bytes

definition new_signature_service :: "eth_lib \<Rightarrow> int \<Rightarrow> string \<Rightarrow> signature_service" where
  "new_signature_service eth chain contract =
     \<lparr>ss_chain_id = chain, ss_contract = hex_to_address eth contract\<rparr>"

definition zero_bytes32 :: string where
  "zero_bytes32 = ''0x'' @ replicate 64 (CHR ''0'')"

definition or_default :: "string \<Rightarrow> string \<Rightarrow> string" where
  "or_default d s = (if s = [] then d else s)"

definition build_message :: "order \<Rightarrow> (string \<times> typed_value) list" where
  "build_message od =
     [(''maker'', TStr (o_maker od)),
      (''taker'', TStr (or_default zero_address (o_taker od))),
      (''side'', TStr (dec_of_int (uint (o_side od)))),
      (''kind'', TStr (dec_of_int (uint (o_kind od)))),
      (''assetType'', TStr (dec_of_int (uint (o_asset_type od)))),
      (''collection'', TStr (o_collection od)),
      (''tokenId'', TInt (o_token_id od)),
      (''amount'', TInt (o_amount od)),
      (''paymentToken'', TStr (or_default zero_address (o_payment_token od))),
      (''price'', TInt (o_price od)),
      (''startPrice'', TInt (o_start_price od)),
      (''startTime'', TStr (dec_of_int (uint (o_start_time od)))),
      (''endTime'', TStr (dec_of_int (uint (o_end_time od)))),
      (''salt'', TInt (o_salt od)),
      (''counter'', TInt (o_counter od)),
      (''extra'', TStr (or_default zero_bytes32 (o_extra od)))]"

definition order_typed_data :: "eth_lib \<Rightarrow> signature_service \<Rightarrow> order \<Rightarrow> typed_data" where
  "order_typed_data eth s od = \<lparr>td_types = OrderTypes, td_primary = ''Order'',
     td_name = ''NFTMarketExchange'', td_version = ''1'', td_chain_id = ss_chain_id s,
     td_contract = address_hex eth (ss_contract s), td_message = build_message od\<rparr>"

subsection \<open>Verify\<close>

definition ErrInvalidSignature :: go_error where
  "ErrInvalidSignature = ErrText ''invalid signature: recovered signer does not match maker''"

text \<open>The recovery id in the last byte, brought from 27 and 28 to 0 and 1.\<close>

definition normalize_v :: "bytes \<Rightarrow> bytes" where
  "normalize_v sig = (if sig ! 64 \<ge> 27 then sig[64 := sig ! 64 - 27] else sig)"

definition verify :: "eth_lib \<Rightarrow> signature_service \<Rightarrow> order \<Rightarrow> string result" where
  "verify eth s od =
     bind_result (wrap_err ''decode signature''
         (hex_decode_string (trim_prefix (o_signature od) ''0x''))) (\<lambda>sig0.
     if length sig0 \<noteq> 65
     then Inl (ErrText (''signature length '' @ dec_of_int (int (length sig0)) @ '', expected 65''))
     else
       let sig = normalize_v sig0 in
       if sig ! 64 > 1
       then Inl (ErrText (''invalid recovery id v: '' @ dec_of_int (uint (sig ! 64))))
       else if \<not> valid_signature_values eth (sig ! 64) (be_nat (take 32 sig))
                   (be_nat (take 32 (drop 32 sig))) False
       then Inl (ErrText ''signature s value is not in low half'')
       else
         bind_result (wrap_err ''typed data hash'' (typed_data_hash eth (order_typed_data eth s od))) (\<lambda>hash.
         bind_result (wrap_err ''ecrecover'' (ecrecover eth hash sig)) (\<lambda>pub.
         bind_result (wrap_err ''unmarshal pubkey'' (unmarshal_pubkey eth pub)) (\<lambda>key.
         if pubkey_to_address eth key \<noteq> hex_to_address eth (o_maker od)
         then Inl ErrInvalidSignature
         else Inr (''0x'' @ hex_encode_to_string hash)))))"

subsection \<open>What an accepted signature means\<close>

text \<open>The signature bytes recover, over the typed data of the order, to the order's maker.\<close>

definition recover_signer :: "eth_lib \<Rightarrow> bytes \<Rightarrow> bytes \<Rightarrow> bytes result" where
  "recover_signer eth hash sig =
     bind_result (ecrecover eth hash sig) (\<lambda>pub.
     bind_result (unmarshal_pubkey eth pub) (\<lambda>key. Inr (pubkey_to_address eth key)))"

definition signed_by_maker :: "eth_lib \<Rightarrow> signature_service \<Rightarrow> order \<Rightarrow> bytes \<Rightarrow> bytes \<Rightarrow> bool" where
  "signed_by_maker eth s od sig hash \<longleftrightarrow>
     typed_data_hash eth (order_typed_data eth s od) = Inr hash \<and>
     recover_signer eth hash sig = Inr (hex_to_address eth (o_maker od))"

definition sig_bytes :: "order \<Rightarrow> bytes result" where
  "sig_bytes od = hex_decode_string (trim_prefix (o_signature od) ''0x'')"

lemma normalize_v_parts [simp]:
  "length (normalize_v sig) = length sig"
  "take 32 (normalize_v sig) = take 32 sig"
  "take 32 (drop 32 (normalize_v sig)) = take 32 (drop 32 sig)"
  by (simp_all add: normalize_v_def drop_update_swap)

lemma verify_iff:
  "verify eth s od = Inr h \<longleftrightarrow>
     (\<exists>sig0 hash. sig_bytes od = Inr sig0 \<and> length sig0 = 65 \<and> normalize_v sig0 ! 64 \<le> 1 \<and>
        valid_signature_values eth (normalize_v sig0 ! 64) (be_nat (take 32 sig0))
          (be_nat (take 32 (drop 32 sig0))) False \<and>
        signed_by_maker eth s od (normalize_v sig0) hash \<and>
        h = ''0x'' @ hex_encode_to_string hash)"
  unfolding verify_def sig_bytes_def signed_by_maker_def recover_signer_def Let_def bind_result_Inr
  by (auto simp: not_less bind_result_Inr split: if_splits) (metis not_less)+

lemma verify_hash: "verify eth s od = Inr h \<Longrightarrow>
  \<exists>hash. h = ''0x'' @ hex_encode_to_string hash \<and> typed_data_hash eth (order_typed_data eth s od) = Inr hash"
  by (auto simp: verify_iff signed_by_maker_def)

lemma minus_27_small: "27 \<le> (x :: uint8) \<Longrightarrow> x - 27 \<le> 1 \<longleftrightarrow> x \<in> {27, 28}"
proof -
  assume "27 \<le> x"
  then have "27 \<le> uint x" and "uint x < 256"
    using uint_lt2p [of x] by (simp_all add: word_le_def)
  then have "uint (x - 27) = uint x - 27"
    by (simp add: uint_word_ariths)
  then show ?thesis
    using \<open>27 \<le> uint x\<close> by (auto simp: word_le_def word_uint_eq_iff)
qed

lemma normalize_v_cases:
  assumes "length sig = 65"
  shows "normalize_v sig ! 64 \<le> 1 \<longleftrightarrow> sig ! 64 \<in> {0, 1, 27, 28}"
proof (cases "27 \<le> sig ! 64")
  case True
  then have "sig ! 64 \<notin> {0, 1}" by (auto simp: word_le_def)
  with True show ?thesis
    using assms minus_27_small [OF True] by (simp add: normalize_v_def)
next
  case False
  then have "sig ! 64 \<notin> {27, 28}" by (auto simp: word_le_def)
  moreover have "sig ! 64 \<le> 1 \<longleftrightarrow> sig ! 64 \<in> {0, 1}"
    by (auto simp: word_le_def word_uint_eq_iff) (smt (verit) uint_ge_0)
  ultimately show ?thesis
    using False by (simp add: normalize_v_def)
qed

text \<open>
  C2: \<open>Verify\<close> accepts an order exactly when its signature is 65 bytes of hex with recovery id 0, 1, 27
  or 28, the library accepts the values, and the signature recovers the maker's address over the
  EIP-712 hash of the order's terms; what it returns is that hash.
\<close>

theorem verify_exact:
  "verify eth s od = Inr h \<longleftrightarrow>
     (\<exists>sig hash. sig_bytes od = Inr sig \<and> length sig = 65 \<and> sig ! 64 \<in> {0, 1, 27, 28} \<and>
        valid_signature_values eth (normalize_v sig ! 64) (be_nat (take 32 sig))
          (be_nat (take 32 (drop 32 sig))) False \<and>
        signed_by_maker eth s od (normalize_v sig) hash \<and>
        h = ''0x'' @ hex_encode_to_string hash)"
  using normalize_v_cases by (simp only: verify_iff) blast

text \<open>A verified order has the signature format and the hash format that the repository needs.\<close>

lemma verify_split_signature:
  assumes "verify eth s od = Inr h"
  shows "\<exists>x. split_signature (o_signature od) = Inr x"
proof -
  define raw where "raw = trim_prefix (o_signature od) ''0x''"
  from assms obtain sig where sig: "hex_decode_string raw = Inr sig" "length sig = 65"
    by (auto simp: verify_iff sig_bytes_def raw_def)
  then have "length raw = 130"
    using length_hex_decode by fastforce
  moreover have "hex_decode_string (take 64 raw) = Inr (take 32 sig)"
    using hex_decode_take_drop(1) [OF sig(1), of 32] by simp
  moreover have "hex_decode_string (take 64 (drop 64 raw)) = Inr (take 32 (drop 32 sig))"
    using hex_decode_take_drop(1) [OF hex_decode_take_drop(2) [OF sig(1), of 32], of 32] by simp
  moreover have "hex_decode_string (drop 128 raw) = Inr (drop 64 sig)"
    using hex_decode_take_drop(2) [OF sig(1), of 64] by simp
  ultimately show ?thesis
    by (simp add: split_signature_def raw_def [symmetric])
qed

lemma verify_hash_decodes:
  "verify eth s od = Inr h \<Longrightarrow> \<exists>b. hex_decode h = Inr (Some b) \<and>
     typed_data_hash eth (order_typed_data eth s od) = Inr b"
  by (auto dest!: verify_hash simp: hex_decode_def trim_prefix_def has_prefix_def)

subsection \<open>The hash binds the terms\<close>

text \<open>The fields of an order that its maker signs, an absent address meaning the zero address.\<close>

definition same_terms :: "order \<Rightarrow> order \<Rightarrow> bool" where
  "same_terms a b \<longleftrightarrow> o_maker a = o_maker b \<and>
     or_default zero_address (o_taker a) = or_default zero_address (o_taker b) \<and>
     o_side a = o_side b \<and> o_kind a = o_kind b \<and> o_asset_type a = o_asset_type b \<and>
     o_collection a = o_collection b \<and> o_token_id a = o_token_id b \<and> o_amount a = o_amount b \<and>
     or_default zero_address (o_payment_token a) = or_default zero_address (o_payment_token b) \<and>
     o_price a = o_price b \<and> o_start_price a = o_start_price b \<and>
     o_start_time a = o_start_time b \<and> o_end_time a = o_end_time b \<and>
     o_salt a = o_salt b \<and> o_counter a = o_counter b \<and>
     or_default zero_bytes32 (o_extra a) = or_default zero_bytes32 (o_extra b)"

lemma build_message_eq: "build_message a = build_message b \<longleftrightarrow> same_terms a b"
  by (simp add: build_message_def same_terms_def word_uint_eq_iff)


text \<open>A library for the concrete instances: every signature recovers the address \<open>0x1a\<close>.\<close>

definition secp256k1_n :: nat where
  "secp256k1_n = 115792089237316195423570985008687907852837564279074904382605163141518161494337"

definition toy_eth :: eth_lib where
  "toy_eth = \<lparr>
     hex_to_address = (\<lambda>t. case hex_decode_string (trim_prefix t ''0x'') of Inl _ \<Rightarrow> [] | Inr b \<Rightarrow> b),
     address_hex = (\<lambda>b. ''0x'' @ hex_encode_to_string b),
     is_hex_address = (\<lambda>t. True),
     typed_data_hash = (\<lambda>t. Inr [1]),
     valid_signature_values = (\<lambda>v r s h. v \<le> 1 \<and> 0 < r \<and> r < secp256k1_n \<and> 0 < s \<and> s < secp256k1_n \<and>
        (h \<longrightarrow> s \<le> secp256k1_n div 2)),
     ecrecover = (\<lambda>h s. Inr h),
     unmarshal_pubkey = (\<lambda>p. Inr (1, 2)),
     pubkey_to_address = (\<lambda>k. [26])\<rparr>"

definition toy_service :: signature_service where
  "toy_service = \<lparr>ss_chain_id = 31337, ss_contract = []\<rparr>"

definition one32 :: bytes where
  "one32 = replicate 31 0 @ [1]"

definition signed_order :: order where
  "signed_order = sample_order\<lparr>o_signature := ''0x'' @ hex_encode_to_string (one32 @ one32 @ [27])\<rparr>"

lemma be_nat_zeros: "be_nat (replicate k 0 @ bs) = be_nat bs"
  by (induction k) (simp_all add: be_nat_def)

lemma one32_props [simp]: "be_nat one32 = 1" "length one32 = 32"
  by (simp_all add: one32_def be_nat_zeros, simp add: be_nat_def)

lemma sig_bytes_signed: "sig_bytes signed_order = Inr (one32 @ one32 @ [27])"
  by (simp add: sig_bytes_def signed_order_def)

lemma verify_toy:
  assumes "sig_bytes od = Inr (one32 @ one32 @ [27])" and "o_maker od = ''0x1A''"
  shows "verify toy_eth toy_service od = Inr ''0x01''"
proof -
  have "hex_to_address toy_eth ''0x1A'' = [26]"
    by code_simp
  moreover have "hex_encode_to_string [1] = ''01''"
    by code_simp
  moreover have "normalize_v (one32 @ one32 @ [27]) = one32 @ one32 @ [0]"
    by (simp add: normalize_v_def nth_append list_update_append)
  ultimately show ?thesis
    using assms by (auto simp: verify_iff signed_by_maker_def recover_signer_def toy_eth_def
        nth_append secp256k1_n_def intro!: exI [of _ "one32 @ one32 @ [27]"])
qed

lemma signed_order_verifies: "verify toy_eth toy_service signed_order = Inr ''0x01''"
  by (rule verify_toy [OF sig_bytes_signed]) (simp add: signed_order_def sample_order_def)


subsection \<open>The check for a low s\<close>

fun be_bytes :: "nat \<Rightarrow> nat \<Rightarrow> bytes" where
  "be_bytes 0 n = []"
| "be_bytes (Suc k) n = be_bytes k (n div 256) @ [word_of_nat (n mod 256)]"

lemma length_be_bytes [simp]: "length (be_bytes k n) = k"
  by (induction k n rule: be_bytes.induct) simp_all

lemma be_nat_snoc [simp]: "be_nat (bs @ [b]) = 256 * be_nat bs + unat b"
  by (simp add: be_nat_def)

lemma be_nat_be_bytes: "n < 256 ^ k \<Longrightarrow> be_nat (be_bytes k n) = n"
proof (induction k n rule: be_bytes.induct)
  case (2 k n)
  have "unat (word_of_nat (n mod 256) :: byte) = n mod 256"
    by (simp add: unat_of_nat)
  moreover have "n div 256 < 256 ^ k"
    using "2.prems" by (simp add: less_mult_imp_div_less mult.commute)
  ultimately show ?case
    using "2.IH" by simp
qed (simp add: be_nat_def)

definition signature_s :: "order \<Rightarrow> nat" where
  "signature_s od = (case sig_bytes od of Inl _ \<Rightarrow> 0 | Inr sig \<Rightarrow> be_nat (take 32 (drop 32 sig)))"

text \<open>The other signature of the same message: \<open>s\<close> negated modulo the group order, \<open>v\<close> flipped.\<close>

definition flip_signature :: "order \<Rightarrow> string" where
  "flip_signature od = (case sig_bytes od of Inl _ \<Rightarrow> [] | Inr sig \<Rightarrow>
     ''0x'' @ hex_encode_to_string (take 32 sig @ be_bytes 32 (secp256k1_n - signature_s od) @
       [1 - normalize_v sig ! 64]))"

lemma sig_bytes_flip:
  assumes "sig_bytes od = Inr sig"
  shows "sig_bytes (od\<lparr>o_signature := flip_signature od\<rparr>) =
    Inr (take 32 sig @ be_bytes 32 (secp256k1_n - signature_s od) @ [1 - normalize_v sig ! 64])"
  using assms by (simp add: sig_bytes_def flip_signature_def)

lemma order_typed_data_signature [simp]:
  "order_typed_data eth s (od\<lparr>o_signature := x\<rparr>) = order_typed_data eth s od"
  by (simp add: order_typed_data_def build_message_def)

definition documented_check :: "eth_lib \<Rightarrow> bool" where
  "documented_check eth \<longleftrightarrow> (\<forall>v r s h. valid_signature_values eth v r s h \<longleftrightarrow>
     v \<le> 1 \<and> 0 < r \<and> r < secp256k1_n \<and> 0 < s \<and> s < secp256k1_n \<and> (h \<longrightarrow> s \<le> secp256k1_n div 2))"

definition malleable :: "eth_lib \<Rightarrow> bool" where
  "malleable eth \<longleftrightarrow> (\<forall>hash r s v. length r = 32 \<longrightarrow> length s = 32 \<longrightarrow> v \<le> 1 \<longrightarrow>
     recover_signer eth hash (r @ be_bytes 32 (secp256k1_n - be_nat s) @ [1 - v]) =
     recover_signer eth hash (r @ s @ [v]))"

lemma take_drop_65:
  assumes "length sig = 65"
  shows "take 32 sig @ take 32 (drop 32 sig) @ [sig ! 64] = sig"
proof -
  have "drop 64 sig = [sig ! 64]"
    using assms Cons_nth_drop_Suc [of 64 sig] by simp
  then show ?thesis
    by (metis add_numeral_left append_take_drop_id drop_drop numeral_Bit0)
qed

lemma one_minus_le: "v \<le> 1 \<Longrightarrow> 1 - v \<le> (1 :: uint8)"
proof -
  assume "v \<le> 1"
  then have "v = 0 \<or> v = 1"
    by (auto simp: word_le_def word_uint_eq_iff) (smt (verit) uint_ge_0)
  then show ?thesis by auto
qed

lemma flip_verifies:
  assumes "documented_check eth" and "malleable eth" and "verify eth svc od = Inr h"
  shows "verify eth svc (od\<lparr>o_signature := flip_signature od\<rparr>) = Inr h"
    and "signature_s (od\<lparr>o_signature := flip_signature od\<rparr>) = secp256k1_n - signature_s od"
    and "0 < signature_s od" and "signature_s od < secp256k1_n"
proof -
  from assms(3) obtain sig hash where sig: "sig_bytes od = Inr sig" "length sig = 65"
    and v: "normalize_v sig ! 64 \<le> 1"
    and ok: "valid_signature_values eth (normalize_v sig ! 64) (be_nat (take 32 sig))
      (be_nat (take 32 (drop 32 sig))) False"
    and signed: "signed_by_maker eth svc od (normalize_v sig) hash"
    and h: "h = ''0x'' @ hex_encode_to_string hash"
    by (auto simp: verify_iff)
  define r s w where "r = take 32 sig" and "s = take 32 (drop 32 sig)" and "w = normalize_v sig ! 64"
  have len: "length r = 32" "length s = 32"
    using sig(2) by (simp_all add: r_def s_def)
  have s: "signature_s od = be_nat s"
    by (simp add: signature_s_def sig s_def)
  have range: "0 < be_nat r" "be_nat r < secp256k1_n" "0 < be_nat s" "be_nat s < secp256k1_n"
    using ok assms(1) by (simp_all add: documented_check_def r_def s_def)
  then show "0 < signature_s od" and "signature_s od < secp256k1_n"
    by (simp_all add: s)
  define t where "t = be_bytes 32 (secp256k1_n - be_nat s)"
  have "secp256k1_n - be_nat s < 256 ^ 32"
    by (rule less_imp_diff_less) (simp add: secp256k1_n_def)
  then have t: "be_nat t = secp256k1_n - be_nat s" "length t = 32"
    by (simp_all add: t_def be_nat_be_bytes)
  have flip: "sig_bytes (od\<lparr>o_signature := flip_signature od\<rparr>) = Inr (r @ t @ [1 - w])"
    using sig_bytes_flip [OF sig(1)] by (simp add: r_def t_def w_def s)
  then show "signature_s (od\<lparr>o_signature := flip_signature od\<rparr>) = secp256k1_n - signature_s od"
    using t len s by (simp add: signature_s_def)
  have w: "w \<le> 1" "1 - w \<le> 1" "\<not> 27 \<le> 1 - w"
    using v one_minus_le [of w] by (auto simp: w_def word_le_def)
  have norm: "normalize_v sig = r @ s @ [w]"
    using take_drop_65 [of "normalize_v sig"] sig(2)
    by (simp add: r_def s_def w_def)
  have "normalize_v (r @ t @ [1 - w]) = r @ t @ [1 - w]"
    using w len t by (simp add: normalize_v_def nth_append)
  moreover have "signed_by_maker eth svc (od\<lparr>o_signature := flip_signature od\<rparr>) (r @ t @ [1 - w]) hash"
    using signed assms(2) len w(1)
    by (simp add: signed_by_maker_def norm malleable_def t_def)
  moreover have "valid_signature_values eth (1 - w) (be_nat r) (be_nat t) False"
    using assms(1) range w(2) by (simp add: documented_check_def t)
  ultimately show "verify eth svc (od\<lparr>o_signature := flip_signature od\<rparr>) = Inr h"
    unfolding verify_iff flip using len t w(2) h
    by (intro exI [of _ "r @ t @ [1 - w]"] exI [of _ hash]) (simp add: nth_append)
qed

text \<open>
  Every order that verifies also verifies, with the same hash, under a signature whose \<open>s\<close> lies in
  the high half: called with \<open>homestead = false\<close>, \<open>ValidateSignatureValues\<close> does not enforce the low
  \<open>s\<close> the code asks it for.
\<close>

theorem high_s_accepted:
  assumes "documented_check eth" and "malleable eth" and "verify eth svc od = Inr h"
  shows "\<exists>sig. verify eth svc (od\<lparr>o_signature := sig\<rparr>) = Inr h \<and>
    secp256k1_n div 2 < signature_s (od\<lparr>o_signature := sig\<rparr>)"
proof (cases "secp256k1_n div 2 < signature_s od")
  case True
  with assms(3) show ?thesis
    by (intro exI [of _ "o_signature od"]) simp
next
  case False
  moreover have "secp256k1_n = 2 * (secp256k1_n div 2) + 1"
    by (simp add: secp256k1_n_def)
  ultimately have "secp256k1_n div 2 < secp256k1_n - signature_s od"
    using flip_verifies(4) [OF assms] by linarith
  with flip_verifies(1,2) [OF assms] show ?thesis
    by (intro exI [of _ "flip_signature od"]) simp
qed

theorem high_s_accepted_witness:
  "\<exists>sig. verify toy_eth toy_service (signed_order\<lparr>o_signature := sig\<rparr>) = Inr ''0x01'' \<and>
     secp256k1_n div 2 < signature_s (signed_order\<lparr>o_signature := sig\<rparr>)"
  by (rule high_s_accepted [OF _ _ signed_order_verifies])
    (simp_all add: documented_check_def malleable_def toy_eth_def recover_signer_def)

end
