(* ===== verification/OrderService.thy ===== *)
theory OrderService
  imports OrderQueries Signature
begin

section \<open>internal/service/order.go\<close>

text \<open>
  \<open>OrderService\<close>: submission of a signed order with its whole sequence of checks, and the queries.
  As in the code the service sees its two collaborators only through interfaces, here the fields
  of the record \<open>order_service\<close>; the locales \<open>signature_verifier\<close> and \<open>order_store\<close> state what it may
  rely on, and are interpreted on the verifier and the repository of this development.
\<close>

subsection \<open>The service\<close>

record 's order_service =
  sv_is_hex_address :: "string \<Rightarrow> bool"
  sv_verify :: "order \<Rightarrow> string result"
  sv_insert :: "order \<Rightarrow> 's \<Rightarrow> unit result \<times> 's"
  sv_find :: "order_filter \<Rightarrow> 's \<Rightarrow> (order list \<times> int) result \<times> 's"
  sv_find_by_hash :: "string \<Rightarrow> 's \<Rightarrow> order option result \<times> 's"
  sv_get_best_price :: "string \<Rightarrow> uint8 \<Rightarrow> 's \<Rightarrow> int option result \<times> 's"

text \<open>\<open>new(big.Int).SetString\<close> with a zero in place of a failure.\<close>

definition parse_or_zero :: "string \<Rightarrow> int" where
  "parse_or_zero s = (case big_set_string s of (v, ok) \<Rightarrow> if ok then v else 0)"

definition request_to_order :: "submit_request \<Rightarrow> instant \<Rightarrow> instant \<Rightarrow> order" where
  "request_to_order q created updated = \<lparr>
     o_maker = q_maker q,
     o_taker = (if q_taker q = [] then zero_address else q_taker q),
     o_side = q_side q, o_kind = q_kind q, o_asset_type = q_asset_type q,
     o_collection = q_collection q,
     o_token_id = parse_or_zero (q_token_id q),
     o_amount = parse_or_zero (q_amount q),
     o_payment_token = (if q_payment_token q = [] then zero_address else q_payment_token q),
     o_price = parse_or_zero (q_price q),
     o_start_price = parse_or_zero (q_start_price q),
     o_start_time = q_start_time q, o_end_time = q_end_time q,
     o_salt = parse_or_zero (q_salt q),
     o_counter = 0,
     o_extra = q_extra q,
     o_id = 0, o_order_hash = [], o_status = Active, o_signature = q_signature q,
     o_created_at = created, o_updated_at = updated\<rparr>"

definition app_error :: "string \<Rightarrow> string \<Rightarrow> 'a result" where
  "app_error code msg = Inl (AppError code msg None)"

text \<open>Steps 2 to 8 of \<open>Submit\<close>; here a failed \<open>SetString\<close> leaves its prefix in the receiver.\<close>

definition validate_request :: "(string \<Rightarrow> bool) \<Rightarrow> instant \<Rightarrow> submit_request \<Rightarrow> unit result" where
  "validate_request is_hex now q =
     (if \<not> is_hex (q_maker q) \<or> q_maker q = zero_address
      then app_error ''INVALID_MAKER'' ''maker must be a non-zero address''
      else if q_taker q \<noteq> [] \<and> \<not> is_hex (q_taker q)
      then app_error ''INVALID_TAKER'' ''taker must be a valid address or empty''
      else if q_side q > 1 then app_error ''INVALID_SIDE'' ''side must be 0 or 1''
      else if q_kind q > 4 then app_error ''INVALID_KIND'' ''kind must be 0-4''
      else if q_asset_type q > 1 then app_error ''INVALID_ASSET_TYPE'' ''asset type must be 0 or 1''
      else
        let amount = fst (big_set_string (q_amount q)) in
        if amount \<le> 0 then app_error ''INVALID_AMOUNT'' ''amount must be >= 1''
        else if q_asset_type q = ERC721 \<and> amount \<noteq> 1
        then app_error ''INVALID_AMOUNT'' ''ERC721 amount must be 1''
        else
          let price = fst (big_set_string (q_price q)) in
          if price \<le> 0 then app_error ''INVALID_PRICE'' ''price must be > 0''
          else
            let nowUnix = unix now; start = sint (q_start_time q) in
            if q_start_time q > 0 \<and> start < wrap64 (nowUnix - 300)
            then app_error ''ORDER_EXPIRED'' ''startTime too far in the past''
            else if q_start_time q > 0 \<and> start > wrap64 (nowUnix + 30 * 24 * 3600)
            then app_error ''INVALID_START_TIME'' ''startTime too far in the future''
            else if q_end_time q > 0 \<and> sint (q_end_time q) \<le> nowUnix
            then app_error ''ORDER_EXPIRED'' ''endTime is in the past''
            else if q_kind q = DutchAuction
            then
              (let startPrice = fst (big_set_string (q_start_price q)) in
               if startPrice \<le> price
               then app_error ''INVALID_DUTCH_AUCTION'' ''startPrice must be > price''
               else if q_end_time q \<le> q_start_time q
               then app_error ''INVALID_DUTCH_AUCTION'' ''endTime must be > startTime''
               else Inr ())
            else Inr ())"

text \<open>The three calls of \<open>time.Now()\<close>: in \<open>Submit\<close>, and for the two time stamps of the order.\<close>

definition submit ::
  "'s order_service \<Rightarrow> instant \<times> instant \<times> instant \<Rightarrow> submit_request \<Rightarrow> 's \<Rightarrow> order result \<times> 's" where
  "submit sv clock q s =
     (case clock of (now, created, updated) \<Rightarrow>
       let od = request_to_order q created updated in
       case sv_verify sv od of
         Inl e \<Rightarrow> (Inl (AppError ''ORDER_SIGNATURE_INVALID'' ''signature verification failed'' (Some e)), s)
       | Inr orderHash \<Rightarrow>
           let od' = od\<lparr>o_order_hash := orderHash\<rparr> in
           (case validate_request (sv_is_hex_address sv) now q of
              Inl e \<Rightarrow> (Inl e, s)
            | Inr _ \<Rightarrow>
                (case sv_insert sv od' s of
                   (Inl e, s') \<Rightarrow>
                     (Inl (AppError ''ORDER_PERSIST_FAILED'' ''failed to persist order'' (Some e)), s')
                 | (Inr _, s') \<Rightarrow> (Inr od', s'))))"

definition service_find :: "'s order_service \<Rightarrow> order_filter \<Rightarrow> 's \<Rightarrow> (order list \<times> int) result \<times> 's" where
  "service_find sv f s = sv_find sv f s"

definition get_by_hash :: "'s order_service \<Rightarrow> string \<Rightarrow> 's \<Rightarrow> order option result \<times> 's" where
  "get_by_hash sv h s = sv_find_by_hash sv h s"

text \<open>The loop of \<open>GetBest\<close>; the \<open>i\<close>-th iteration reads the clock \<open>nows i\<close>.\<close>

fun first_at_price :: "int \<Rightarrow> (nat \<Rightarrow> instant) \<Rightarrow> nat \<Rightarrow> order list \<Rightarrow> order option" where
  "first_at_price p nows i [] = None"
| "first_at_price p nows i (od # ods) =
     (if current_price od (nows i) = p then Some od else first_at_price p nows (Suc i) ods)"

definition best_filter :: "string \<Rightarrow> order_filter" where
  "best_filter collection = empty_filter\<lparr>f_collection := collection, f_status := Some Active\<rparr>"

definition get_best ::
  "'s order_service \<Rightarrow> (nat \<Rightarrow> instant) \<Rightarrow> string \<Rightarrow> uint8 \<Rightarrow> 's \<Rightarrow> order option result \<times> 's" where
  "get_best sv nows collection side s =
     (case sv_get_best_price sv collection side s of
        (Inl e, s1) \<Rightarrow> (Inl e, s1)
      | (Inr None, s1) \<Rightarrow> (Inr None, s1)
      | (Inr (Some price), s1) \<Rightarrow>
          (case sv_find sv (best_filter collection) s1 of
             (Inl e, s2) \<Rightarrow> (Inl e, s2)
           | (Inr (ods, _), s2) \<Rightarrow> (Inr (first_at_price price nows 0 ods), s2)))"

definition get_user_orders ::
  "'s order_service \<Rightarrow> string \<Rightarrow> uint8 option \<Rightarrow> 's \<Rightarrow> order list result \<times> 's" where
  "get_user_orders sv maker status s =
     (case sv_find sv (empty_filter\<lparr>f_maker := maker, f_status := status, f_limit := 50\<rparr>) s of
        (Inl e, s1) \<Rightarrow> (Inl e, s1)
      | (Inr (ods, _), s1) \<Rightarrow> (Inr ods, s1))"

text \<open>\<open>main\<close> builds the service from the repository and the signature service.\<close>

definition new_order_service :: "eth_lib \<Rightarrow> signature_service \<Rightarrow> int \<Rightarrow> db order_service" where
  "new_order_service eth sigSvc chain = \<lparr>sv_is_hex_address = is_hex_address eth,
     sv_verify = verify eth sigSvc, sv_insert = insert_order chain, sv_find = find_orders,
     sv_find_by_hash = find_by_hash, sv_get_best_price = get_best_price\<rparr>"

subsection \<open>What the service relies on\<close>

locale signature_verifier =
  fixes verify_op :: "order \<Rightarrow> string result"
  assumes returns_hash: "verify_op od = Inr h \<Longrightarrow> \<exists>b. hex_decode h = Inr (Some b)"
    and checks_format: "verify_op od = Inr h \<Longrightarrow> \<exists>x. split_signature (o_signature od) = Inr x"

interpretation eip712: signature_verifier "verify eth svc" for eth svc
  by unfold_locales (auto dest: verify_hash_decodes verify_split_signature)

locale order_store =
  fixes insert_op :: "order \<Rightarrow> 's \<Rightarrow> unit result \<times> 's"
    and lookup_op :: "string \<Rightarrow> 's \<Rightarrow> order option result \<times> 's"
    and ready :: "'s \<Rightarrow> bool"
    and stored :: "'s \<Rightarrow> order \<Rightarrow> order"
  assumes finds_own: "ready s \<Longrightarrow> insert_op od s = (Inr (), s') \<Longrightarrow>
      hex_decode h = hex_decode (o_order_hash od) \<Longrightarrow> lookup_op h s' = (Inr (Some (stored s od)), s')"
    and keeps_others: "ready s \<Longrightarrow> insert_op od s = (Inr (), s') \<Longrightarrow>
      hex_decode h \<noteq> hex_decode (o_order_hash od) \<Longrightarrow> fst (lookup_op h s') = fst (lookup_op h s)"

interpretation repo: order_store "insert_order chain" find_by_hash healthy
    "\<lambda>d. stored_order (t_order_seq d) (db_now d)" for chain
  by unfold_locales (auto intro: find_inserted find_other_after_insert)

text \<open>A service over a verifier and a store that keep these contracts.\<close>

locale order_desk = order_store insert_op lookup_op ready stored + signature_verifier verify_op
  for insert_op :: "order \<Rightarrow> 's \<Rightarrow> unit result \<times> 's" and lookup_op ready stored verify_op +
  fixes sv :: "'s order_service"
  assumes built: "sv_insert sv = insert_op" "sv_find_by_hash sv = lookup_op" "sv_verify sv = verify_op"
begin

lemma submit_accepted:
  assumes "submit sv (now, c, u) q s = (Inr od, s')"
  shows "\<exists>h. verify_op (request_to_order q c u) = Inr h \<and>
      validate_request (sv_is_hex_address sv) now q = Inr () \<and>
      od = (request_to_order q c u)\<lparr>o_order_hash := h\<rparr> \<and> insert_op od s = (Inr (), s')"
  using assms by (auto simp: submit_def built Let_def split: sum.splits prod.splits)

lemma submitted_is_found:
  assumes "ready s" and "submit sv clk q s = (Inr od, s')"
  shows "get_by_hash sv (o_order_hash od) s' = (Inr (Some (stored s od)), s')"
  using assms submit_accepted finds_own unfolding get_by_hash_def built by (cases clk) blast

lemma submitted_keeps_others:
  assumes "ready s" and "submit sv clk q s = (Inr od, s')" and "hex_decode h \<noteq> hex_decode (o_order_hash od)"
  shows "fst (get_by_hash sv h s') = fst (get_by_hash sv h s)"
  using assms submit_accepted keeps_others unfolding get_by_hash_def built by (cases clk) blast

lemma accepted_is_storable:
  assumes "submit sv clk q s = (Inr od, s')"
  shows "\<exists>b. hex_decode (o_order_hash od) = Inr (Some b)"
    and "\<exists>x. split_signature (o_signature od) = Inr x"
proof -
  from assms submit_accepted obtain h c u where "verify_op (request_to_order q c u) = Inr h"
    and od: "od = (request_to_order q c u)\<lparr>o_order_hash := h\<rparr>"
    by (cases clk) blast
  from returns_hash [OF this(1)] checks_format [OF this(1)] od
  show "\<exists>b. hex_decode (o_order_hash od) = Inr (Some b)"
    and "\<exists>x. split_signature (o_signature od) = Inr x"
    by simp_all
qed

end

interpretation desk: order_desk "insert_order chain" find_by_hash healthy
    "\<lambda>d. stored_order (t_order_seq d) (db_now d)" "verify eth svc" "new_order_service eth svc chain"
  for chain eth svc
  by unfold_locales (simp_all add: new_order_service_def)

subsection \<open>Which orders are accepted\<close>

text \<open>The rules for an order, over its values; the clock is read as \<open>now\<close> seconds.\<close>

definition acceptable :: "(string \<Rightarrow> bool) \<Rightarrow> int \<Rightarrow> submit_request \<Rightarrow> order \<Rightarrow> bool" where
  "acceptable is_hex now q od \<longleftrightarrow>
     is_hex (o_maker od) \<and> o_maker od \<noteq> zero_address \<and> (q_taker q = [] \<or> is_hex (q_taker q)) \<and>
     o_side od \<le> 1 \<and> o_kind od \<le> 4 \<and> o_asset_type od \<le> 1 \<and>
     1 \<le> o_amount od \<and> (o_asset_type od = ERC721 \<longrightarrow> o_amount od = 1) \<and> 1 \<le> o_price od \<and>
     (o_start_time od \<noteq> 0 \<longrightarrow> now - 300 \<le> sint (o_start_time od) \<and>
        sint (o_start_time od) \<le> now + 30 * 24 * 3600) \<and>
     (o_end_time od \<noteq> 0 \<longrightarrow> now < sint (o_end_time od)) \<and>
     (o_kind od = DutchAuction \<longrightarrow> o_price od < o_start_price od \<and> o_start_time od < o_end_time od)"

definition numeric_text :: "string \<Rightarrow> bool" where
  "numeric_text s \<longleftrightarrow> snd (big_set_string s)"

definition clock_ok :: "instant \<Rightarrow> bool" where
  "clock_ok now \<longleftrightarrow> 300 \<le> unix now \<and> unix now < 2 ^ 62"

lemma parse_numeric: "numeric_text s \<Longrightarrow> parse_or_zero s = fst (big_set_string s)"
  by (cases "big_set_string s") (simp add: numeric_text_def parse_or_zero_def)

lemma clock_ok_wrap:
  "clock_ok now \<Longrightarrow> wrap64 (unix now - 300) = unix now - 300 \<and>
     wrap64 (unix now + 2592000) = unix now + 2592000"
  by (simp add: clock_ok_def in_int64_def)

lemma validate_request_iff:
  assumes "numeric_text (q_amount q)" and "numeric_text (q_price q)"
    and "q_kind q = DutchAuction \<Longrightarrow> numeric_text (q_start_price q)" and "clock_ok now"
  shows "validate_request is_hex now q = Inr () \<longleftrightarrow>
    acceptable is_hex (unix now) q ((request_to_order q c u)\<lparr>o_order_hash := h\<rparr>)"
  using assms parse_numeric clock_ok_wrap [OF assms(4)]
  by (auto simp: validate_request_def acceptable_def request_to_order_def app_error_def Let_def
      word_greater_zero_iff not_less not_le split: if_splits)

lemma submit_Inr:
  "submit sv (now, c, u) q s = (Inr od, s') \<longleftrightarrow>
     sv_verify sv (request_to_order q c u) = Inr (o_order_hash od) \<and>
     od = (request_to_order q c u)\<lparr>o_order_hash := o_order_hash od\<rparr> \<and>
     validate_request (sv_is_hex_address sv) now q = Inr () \<and> sv_insert sv od s = (Inr (), s')"
  by (auto simp: submit_def Let_def split: sum.splits prod.splits)

lemma submit_iff_acceptable:
  assumes "numeric_text (q_amount q)" and "numeric_text (q_price q)"
    and "q_kind q = DutchAuction \<Longrightarrow> numeric_text (q_start_price q)" and "clock_ok now"
  shows "submit sv (now, c, u) q s = (Inr od, s') \<longleftrightarrow>
    sv_verify sv (request_to_order q c u) = Inr (o_order_hash od) \<and>
    od = (request_to_order q c u)\<lparr>o_order_hash := o_order_hash od\<rparr> \<and>
    acceptable (sv_is_hex_address sv) (unix now) q od \<and> sv_insert sv od s = (Inr (), s')"
proof -
  let ?r = "(request_to_order q c u)\<lparr>o_order_hash := o_order_hash od\<rparr>"
  have sub: "submit sv (now, c, u) q s = (Inr od, s') \<longleftrightarrow>
      sv_verify sv (request_to_order q c u) = Inr (o_order_hash od) \<and> od = ?r \<and>
      validate_request (sv_is_hex_address sv) now q = Inr () \<and> sv_insert sv od s = (Inr (), s')"
    by (rule submit_Inr)
  have val: "validate_request (sv_is_hex_address sv) now q = Inr () \<longleftrightarrow>
      acceptable (sv_is_hex_address sv) (unix now) q ?r"
    using assms by (rule validate_request_iff)
  show ?thesis
  proof (cases "od = ?r")
    case True
    then have "acceptable (sv_is_hex_address sv) (unix now) q ?r =
        acceptable (sv_is_hex_address sv) (unix now) q od"
      by (rule arg_cong [OF sym])
    with sub val show ?thesis by blast
  next
    case False
    with sub show ?thesis by blast
  qed
qed

text \<open>
  C1: \<open>Submit\<close> accepts a request with numeric texts exactly when the signature verifies, the order
  keeps every rule of the market, and the store takes it; it then returns the order with the
  verified hash.
\<close>

theorem submit_accepts_iff:
  assumes "numeric_text (q_amount q)" and "numeric_text (q_price q)"
    and "q_kind q = DutchAuction \<Longrightarrow> numeric_text (q_start_price q)" and "clock_ok now"
  shows "submit sv (now, c, u) q s = (Inr od, s') \<longleftrightarrow>
    sv_verify sv (request_to_order q c u) = Inr (o_order_hash od) \<and>
    od = (request_to_order q c u)\<lparr>o_order_hash := o_order_hash od\<rparr> \<and>
    acceptable (sv_is_hex_address sv) (unix now) q od \<and> sv_insert sv od s = (Inr (), s')"
  using assms by (rule submit_iff_acceptable)

text \<open>A request for the concrete instances: a Dutch auction of one token, from 2000 down to 1000.\<close>

definition auction_request :: submit_request where
  "auction_request = \<lparr>q_maker = ''0x1A'', q_taker = [], q_side = Sell, q_kind = DutchAuction,
     q_asset_type = ERC721, q_collection = ''0x2b'', q_token_id = ''7'', q_amount = ''1'',
     q_payment_token = [], q_price = ''1000'', q_start_price = ''2000'', q_start_time = 1000,
     q_end_time = 2000, q_salt = ''1'', q_extra = [],
     q_signature = ''0x'' @ hex_encode_to_string (one32 @ one32 @ [27])\<rparr>"

definition auction_order :: order where
  "auction_order = \<lparr>o_maker = ''0x1A'', o_taker = zero_address, o_side = Sell,
     o_kind = DutchAuction, o_asset_type = ERC721, o_collection = ''0x2b'', o_token_id = 7,
     o_amount = 1, o_payment_token = zero_address, o_price = 1000, o_start_price = 2000,
     o_start_time = 1000, o_end_time = 2000, o_salt = 1, o_counter = 0, o_extra = [],
     o_id = 0, o_order_hash = ''0x01'', o_status = Active,
     o_signature = ''0x'' @ hex_encode_to_string (one32 @ one32 @ [27]),
     o_created_at = 0, o_updated_at = 0\<rparr>"

lemma sample_numbers [simp]:
  "big_set_string ''1'' = (1, True)" "big_set_string ''7'' = (7, True)"
  "big_set_string ''1000'' = (1000, True)" "big_set_string ''2000'' = (2000, True)"
  by code_simp+

lemma request_auction:
  "(request_to_order auction_request 0 0)\<lparr>o_order_hash := ''0x01''\<rparr> = auction_order"
  by (simp add: request_to_order_def auction_request_def auction_order_def parse_or_zero_def)

abbreviation (input) toy_desk :: "db order_service" where
  "toy_desk \<equiv> new_order_service toy_eth toy_service 31337"

lemma auction_verifies: "verify toy_eth toy_service (request_to_order auction_request 0 0) = Inr ''0x01''"
  by (rule verify_toy) (simp_all add: sig_bytes_def request_to_order_def auction_request_def)

definition auction_db :: db where
  "auction_db = snd (insert_order 31337 auction_order empty_db)"

lemma auction_insert: "insert_order 31337 auction_order empty_db = (Inr (), auction_db)"
proof -
  have "fst (insert_order 31337 auction_order empty_db) = Inr ()"
    by code_simp
  then show ?thesis
    by (simp add: auction_db_def prod_eq_iff)
qed

lemma auction_accepted:
  "submit toy_desk (unix_instant 1200, 0, 0) auction_request empty_db = (Inr auction_order, auction_db)"
proof -
  have "validate_request (is_hex_address toy_eth) (unix_instant 1200) auction_request = Inr ()"
    by (simp add: validate_request_def auction_request_def toy_eth_def zero_address_def
        unix_instant_def unix_def second_def in_int64_def)
  then show ?thesis
    using request_auction
    by (simp add: submit_def new_order_service_def auction_verifies auction_insert)
qed

theorem submit_accepts_iff_witness:
  "acceptable (is_hex_address toy_eth) 1200 auction_request auction_order \<and>
   submit toy_desk (unix_instant 1200, 0, 0) auction_request empty_db = (Inr auction_order, auction_db)"
proof -
  have n: "numeric_text (q_amount auction_request)" "numeric_text (q_price auction_request)"
      "numeric_text (q_start_price auction_request)"
    by (simp_all add: numeric_text_def auction_request_def)
  have t: "unix (unix_instant 1200) = 1200" "clock_ok (unix_instant 1200)"
    by (simp_all add: clock_ok_def unix_instant_def unix_def second_def)
  from submit_accepts_iff [OF n t(2), of toy_desk 0 0 empty_db auction_order auction_db] auction_accepted
  show ?thesis by (simp add: t(1) new_order_service_def)
qed

text \<open>
  An order that was accepted can be read back at once under its hash: the terms as submitted, with
  hex in lower case and the id and times of its insertion; and its hash and signature were in
  storable form.
\<close>

theorem submitted_order_is_found:
  assumes "healthy d" and "submit (new_order_service eth svc chain) clk q d = (Inr od, d')"
  shows "get_by_hash (new_order_service eth svc chain) (o_order_hash od) d' =
    (Inr (Some (stored_order (t_order_seq d) (db_now d) od)), d')"
  using assms by (rule desk.submitted_is_found)

theorem submitted_order_is_found_witness:
  "get_by_hash toy_desk ''0x01'' auction_db = (Inr (Some (stored_order 1 0 auction_order)), auction_db)"
proof -
  have "healthy empty_db"
    by (simp add: healthy_def empty_db_def)
  from submitted_order_is_found [OF this auction_accepted] show ?thesis
    by (simp add: auction_order_def empty_db_def)
qed

definition submit_codes :: "string list" where
  "submit_codes = [''ORDER_SIGNATURE_INVALID'', ''INVALID_MAKER'', ''INVALID_TAKER'', ''INVALID_SIDE'',
     ''INVALID_KIND'', ''INVALID_ASSET_TYPE'', ''INVALID_AMOUNT'', ''INVALID_PRICE'', ''ORDER_EXPIRED'',
     ''INVALID_START_TIME'', ''INVALID_DUTCH_AUCTION'']"

definition coded :: "'a result \<Rightarrow> bool" where
  "coded r \<longleftrightarrow> (\<forall>e. r = Inl e \<longrightarrow> (\<exists>c m. e = AppError c m None \<and> c \<in> set submit_codes))"

lemma coded_rules:
  "coded (Inr x)"
  "c \<in> set submit_codes \<Longrightarrow> coded (app_error c m)"
  "coded a \<Longrightarrow> coded b \<Longrightarrow> coded (if P then a else b)"
  by (simp_all add: coded_def app_error_def)

lemma validate_request_coded: "coded (validate_request is_hex now q)"
  unfolding validate_request_def Let_def
  by (intro coded_rules) (simp_all add: submit_codes_def)

lemma submit_eqs:
  "sv_verify sv (request_to_order q c u) = Inl e \<Longrightarrow> submit sv (now, c, u) q s =
     (Inl (AppError ''ORDER_SIGNATURE_INVALID'' ''signature verification failed'' (Some e)), s)"
  "sv_verify sv (request_to_order q c u) = Inr h \<Longrightarrow>
     validate_request (sv_is_hex_address sv) now q = Inl e \<Longrightarrow> submit sv (now, c, u) q s = (Inl e, s)"
  "sv_verify sv (request_to_order q c u) = Inr h \<Longrightarrow>
     validate_request (sv_is_hex_address sv) now q = Inr () \<Longrightarrow>
     sv_insert sv ((request_to_order q c u)\<lparr>o_order_hash := h\<rparr>) s = (Inl e, s') \<Longrightarrow>
     submit sv (now, c, u) q s =
       (Inl (AppError ''ORDER_PERSIST_FAILED'' ''failed to persist order'' (Some e)), s')"
  "sv_verify sv (request_to_order q c u) = Inr h \<Longrightarrow>
     validate_request (sv_is_hex_address sv) now q = Inr () \<Longrightarrow>
     sv_insert sv ((request_to_order q c u)\<lparr>o_order_hash := h\<rparr>) s = (Inr (), s') \<Longrightarrow>
     submit sv (now, c, u) q s = (Inr ((request_to_order q c u)\<lparr>o_order_hash := h\<rparr>), s')"
  by (simp_all add: submit_def)

text \<open>
  C35: A refused submission names its reason: every failure carries one of the documented codes, and
  unless it is the store itself that failed, the store was not touched.
\<close>

theorem submit_refusal:
  assumes "submit sv clk q s = (Inl e, s')"
  shows "\<exists>c m. as_app_error e = Some (c, m) \<and>
    (if c = ''ORDER_PERSIST_FAILED'' then \<exists>od. s' = snd (sv_insert sv od s)
     else c \<in> set submit_codes \<and> s' = s)"
proof -
  obtain now c u where clk: "clk = (now, c, u)"
    by (cases clk)
  let ?od = "request_to_order q c u" and ?p = "''ORDER_PERSIST_FAILED''"
  have notin: "?p \<notin> set submit_codes" and sig: "''ORDER_SIGNATURE_INVALID'' \<in> set submit_codes"
    by (simp_all add: submit_codes_def)
  consider x where "sv_verify sv ?od = Inl x"
    | h x where "sv_verify sv ?od = Inr h" "validate_request (sv_is_hex_address sv) now q = Inl x"
    | h x t where "sv_verify sv ?od = Inr h" "validate_request (sv_is_hex_address sv) now q = Inr ()"
        "sv_insert sv (?od\<lparr>o_order_hash := h\<rparr>) s = (Inl x, t)"
    | h t where "sv_verify sv ?od = Inr h" "validate_request (sv_is_hex_address sv) now q = Inr ()"
        "sv_insert sv (?od\<lparr>o_order_hash := h\<rparr>) s = (Inr (), t)"
  proof (cases "sv_verify sv ?od")
    case Inl
    then show thesis by (rule that(1))
  next
    case h: (Inr h)
    show thesis
    proof (cases "validate_request (sv_is_hex_address sv) now q")
      case Inl
      with h show thesis by (rule that(2))
    next
      case v: (Inr u')
      obtain r t where "sv_insert sv (?od\<lparr>o_order_hash := h\<rparr>) s = (r, t)"
        by fastforce
      with h v show thesis
        using that(3,4) by (cases r) simp_all
    qed
  qed
  then show ?thesis
  proof cases
    case 1
    with assms have "e = AppError ''ORDER_SIGNATURE_INVALID'' ''signature verification failed'' (Some x)" "s' = s"
      by (simp_all add: submit_eqs clk)
    with sig show ?thesis by simp
  next
    case 2
    then have es: "e = x" "s' = s"
      using assms by (simp_all add: submit_eqs clk)
    obtain c m where cm: "x = AppError c m None" "c \<in> set submit_codes"
      using 2(2) validate_request_coded unfolding coded_def by metis
    then have "c \<noteq> ?p"
      using notin by metis
    with es cm show ?thesis by simp
  next
    case 3
    then have "e = AppError ?p ''failed to persist order'' (Some x)" "s' = snd (sv_insert sv (?od\<lparr>o_order_hash := h\<rparr>) s)"
      using assms by (simp_all add: submit_eqs clk)
    then show ?thesis by auto
  next
    case 4
    with assms show ?thesis by (simp add: submit_eqs clk)
  qed
qed

theorem submit_refusal_witness:
  "\<exists>e. submit toy_desk (unix_instant 1200, 0, 0) (auction_request\<lparr>q_side := 2\<rparr>) empty_db = (Inl e, empty_db) \<and>
     as_app_error e = Some (''INVALID_SIDE'', ''side must be 0 or 1'')"
proof -
  have "verify toy_eth toy_service (request_to_order (auction_request\<lparr>q_side := 2\<rparr>) 0 0) = Inr ''0x01''"
    by (rule verify_toy) (simp_all add: sig_bytes_def request_to_order_def auction_request_def)
  then have "submit toy_desk (unix_instant 1200, 0, 0) (auction_request\<lparr>q_side := 2\<rparr>) empty_db =
      (Inl (AppError ''INVALID_SIDE'' ''side must be 0 or 1'' None), empty_db)"
    by (simp add: submit_def new_order_service_def validate_request_def auction_request_def
        toy_eth_def zero_address_def app_error_def)
  from submit_refusal [OF this] this show ?thesis
    by simp
qed

text \<open>
  The price of an accepted Dutch auction is positive at every instant and stays between its end
  price and its start price.
\<close>

theorem accepted_auction_price:
  assumes "submit sv (now, c, u) q s = (Inr od, s')" and "q_kind q = DutchAuction"
    and "numeric_text (q_amount q)" and "numeric_text (q_price q)" and "numeric_text (q_start_price q)"
    and "clock_ok now"
  shows "0 < o_price od \<and> o_price od \<le> current_price od t \<and> current_price od t \<le> o_start_price od"
proof -
  note accepted = iffD1 [OF submit_iff_acceptable [OF assms(3-6)] assms(1)]
  from accepted have od: "od = (request_to_order q c u)\<lparr>o_order_hash := o_order_hash od\<rparr>"
    by (elim conjE)
  from accepted have acc: "acceptable (sv_is_hex_address sv) (unix now) q od"
    by (elim conjE)
  have "o_kind od = o_kind ((request_to_order q c u)\<lparr>o_order_hash := o_order_hash od\<rparr>)"
    using od by (rule arg_cong)
  then have "o_kind od = DutchAuction"
    using assms(2) by (simp add: request_to_order_def)
  then have price: "1 \<le> o_price od" "o_price od < o_start_price od"
    using acc by (simp_all add: acceptable_def)
  have "0 \<le> sint (o_start_time od)"
    using acc assms(6) by (cases "o_start_time od = 0") (auto simp: acceptable_def clock_ok_def)
  moreover have "sint (o_end_time od) < 2 ^ 63"
    using sint_in_int64 [of "o_end_time od"] by (simp add: in_int64_def)
  ultimately have "window_fits od"
    by (simp add: window_fits_def)
  from current_price_between [OF _ this] price show ?thesis
    by simp
qed

theorem accepted_auction_price_witness:
  "0 < o_price auction_order \<and> o_price auction_order \<le> current_price auction_order (unix_instant 1700) \<and>
   current_price auction_order (unix_instant 1700) \<le> o_start_price auction_order"
  by (rule accepted_auction_price [OF auction_accepted])
    (simp_all add: auction_request_def numeric_text_def clock_ok_def unix_instant_def unix_def second_def)

lemma validate_amount:
  "fst (big_set_string a) = fst (big_set_string (q_amount q)) \<Longrightarrow>
     validate_request is_hex now (q\<lparr>q_amount := a\<rparr>) = validate_request is_hex now q"
  unfolding validate_request_def Let_def by (cases q) (simp only: submit_request.simps)

text \<open>
  A request whose amount is \<open>1\<close> followed by anything but a digit passes validation as the amount 1,
  while the order that is signed, stored and returned has the amount zero: validation looks at
  the receiver of a failed \<open>SetString\<close>.
\<close>

theorem unparsable_amount_is_stored_as_zero:
  assumes "q_amount q = ''1'' @ x # xs" and "\<not> is_digit x"
    and "validate_request (sv_is_hex_address sv) now (q\<lparr>q_amount := ''1''\<rparr>) = Inr ()"
    and "sv_verify sv (request_to_order q c u) = Inr h"
    and "sv_insert sv ((request_to_order q c u)\<lparr>o_order_hash := h\<rparr>) s = (Inr (), s')"
  shows "\<exists>od. submit sv (now, c, u) q s = (Inr od, s') \<and> o_amount od = 0"
proof -
  have d: "is_digit (CHR ''1'')" "dec_value ''1'' = 1"
    by (simp_all add: is_digit_def dec_value_def digit_val_def)
  have "big_set_string (q_amount q) = (1, False)"
    using assms(1,2) d by (simp add: big_set_string_def split_sign_def Let_def)
  then have "validate_request (sv_is_hex_address sv) now q = Inr ()" and "o_amount (request_to_order q c u) = 0"
    using assms(3) validate_amount [of "''1''" q]
    by (simp_all add: request_to_order_def parse_or_zero_def)
  then show ?thesis
    using submit_eqs(4) [OF assms(4) _ assms(5)] by simp
qed

theorem unparsable_amount_is_stored_as_zero_witness:
  "\<exists>od. submit (toy_desk\<lparr>sv_insert := \<lambda>od s. (Inr (), s)\<rparr>) (unix_instant 1200, 0, 0)
     (auction_request\<lparr>q_amount := ''1 token''\<rparr>) empty_db = (Inr od, empty_db) \<and> o_amount od = 0"
proof (rule unparsable_amount_is_stored_as_zero)
  show "validate_request (sv_is_hex_address (toy_desk\<lparr>sv_insert := \<lambda>od s. (Inr (), s)\<rparr>)) (unix_instant 1200)
      (auction_request\<lparr>q_amount := ''1 token'', q_amount := ''1''\<rparr>) = Inr ()"
    by (simp add: new_order_service_def validate_request_def auction_request_def toy_eth_def
        zero_address_def unix_instant_def unix_def second_def in_int64_def)
  show "sv_verify (toy_desk\<lparr>sv_insert := \<lambda>od s. (Inr (), s)\<rparr>)
      (request_to_order (auction_request\<lparr>q_amount := ''1 token''\<rparr>) 0 0) = Inr ''0x01''"
    unfolding new_order_service_def order_service.simps
    by (rule verify_toy) (simp_all add: sig_bytes_def request_to_order_def auction_request_def)
  show "\<not> is_digit (CHR 0x20)"
    by code_simp
qed simp_all

subsection \<open>The queries\<close>

definition active_book :: "string \<Rightarrow> db \<Rightarrow> order list" where
  "active_book c d = matching (best_filter c) d"

lemma first_at_price_find:
  "first_at_price p (\<lambda>i. t) i ods = List.find (\<lambda>od. current_price od t = p) ods"
  by (induction ods arbitrary: i) auto

lemma filter_ok_best: "hex_text_ok c \<Longrightarrow> filter_ok (best_filter c)"
  by (simp add: filter_ok_def best_filter_def empty_filter_def hex_text_ok_def)

text \<open>
  What \<open>GetBest\<close> computes: with the best price of the side, it answers the newest order, of either
  side, that has this current price among the 20 newest active orders of the collection, or none.
\<close>

theorem get_best_newest_at_price:
  assumes "healthy d" and "hex_text_ok c" and "get_best_price c side d = (Inr (Some p), d)"
  shows "get_best (new_order_service eth svc chain) (\<lambda>i. t) c side d =
    (Inr (List.find (\<lambda>od. current_price od t = p) (take 20 (active_book c d))), d)"
proof -
  have "find_orders (best_filter c) d = (Inr (take 20 (active_book c d), int (length (active_book c d))), d)"
    using find_orders_matching [OF assms(1) filter_ok_best [OF assms(2)]]
    by (simp add: active_book_def page_of_def best_filter_def empty_filter_def)
  then show ?thesis
    using assms(3) by (simp add: get_best_def new_order_service_def first_at_price_find)
qed

text \<open>A book with a bid and, newer, a listing, both at 100.\<close>

definition two_sided_db :: db where
  "two_sided_db = empty_db\<lparr>t_orders :=
     [sample_row\<lparr>r_side := Buy\<rparr>,
      sample_row\<lparr>r_id := 2, r_order_hash := Some [2], r_salt := 2, r_created_at := 1\<rparr>],
     t_order_seq := 3\<rparr>"

lemma decode_2b: "hex_decode ''0x2b'' = Inr (Some [43])" "canon_hex ''0x2b'' = ''0x2b''"
  by code_simp+

lemma encode_2b: "hex_encode (Some [43]) = ''0x2b''"
  by code_simp

lemma two_sided_facts:
  "healthy two_sided_db" "hex_text_ok ''0x2b''"
  "get_best_price ''0x2b'' Buy two_sided_db = (Inr (Some 100), two_sided_db)"
  "active_book ''0x2b'' two_sided_db =
     [scan_order (sample_row\<lparr>r_id := 2, r_order_hash := Some [2], r_salt := 2, r_created_at := 1\<rparr>),
      scan_order (sample_row\<lparr>r_side := Buy\<rparr>)]"
proof -
  show h: "healthy two_sided_db"
    by (simp add: healthy_def two_sided_db_def empty_db_def)
  show "hex_text_ok ''0x2b''"
    by (simp add: hex_text_ok_def decode_2b)
  show "get_best_price ''0x2b'' Buy two_sided_db = (Inr (Some 100), two_sided_db)"
    using h by (simp add: get_best_price_def decode_2b db_exec_healthy best_price_stmt_def
        two_sided_db_def sample_row_def sql_eq_def)
  show "active_book ''0x2b'' two_sided_db =
     [scan_order (sample_row\<lparr>r_id := 2, r_order_hash := Some [2], r_salt := 2, r_created_at := 1\<rparr>),
      scan_order (sample_row\<lparr>r_side := Buy\<rparr>)]"
    by (simp add: active_book_def matching_def matches_filter_def best_filter_def empty_filter_def
        book_def two_sided_db_def sample_row_def decode_2b encode_2b given_def)
qed

theorem get_best_newest_at_price_witness:
  "get_best toy_desk (\<lambda>i. 0) ''0x2b'' Buy two_sided_db =
     (Inr (Some (scan_order (sample_row\<lparr>r_id := 2, r_order_hash := Some [2], r_salt := 2, r_created_at := 1\<rparr>))),
      two_sided_db)"
  unfolding get_best_newest_at_price [OF two_sided_facts(1-3)] two_sided_facts(4)
  by (simp add: sample_row_def current_price_def scan_order_def)

text \<open>
  \<open>GetBest\<close> can answer a listing when asked for the best bid, since its second query does not
  restrict the side.
\<close>

theorem get_best_wrong_side:
  "\<exists>od. fst (get_best (new_order_service eth svc chain) (\<lambda>i. 0) ''0x2b'' Buy two_sided_db) = Inr (Some od) \<and>
     o_side od = Sell"
proof -
  have "sv_get_best_price (new_order_service eth svc chain) ''0x2b'' Buy two_sided_db = (Inr (Some 100), two_sided_db)"
    by (simp add: new_order_service_def two_sided_facts)
  moreover have "find_orders (best_filter ''0x2b'') two_sided_db = (Inr (active_book ''0x2b'' two_sided_db, 2), two_sided_db)"
    using find_orders_matching [OF two_sided_facts(1) filter_ok_best [OF two_sided_facts(2)]] two_sided_facts(4)
    by (simp add: active_book_def page_of_def best_filter_def empty_filter_def)
  ultimately show ?thesis
    by (simp add: get_best_def new_order_service_def two_sided_facts(4) sample_row_def
        current_price_def scan_order_def)
qed

text \<open>
  \<open>GetUserOrders\<close> answers the maker's orders, of the requested status if one is given, newest
  first and at most 50.
\<close>

theorem get_user_orders_refines:
  assumes "healthy d" and "hex_text_ok maker"
  shows "get_user_orders (new_order_service eth svc chain) maker status d =
    (Inr (take 50 (matching (empty_filter\<lparr>f_maker := maker, f_status := status\<rparr>) d)), d)"
proof -
  have f: "filter_ok (empty_filter\<lparr>f_maker := maker, f_status := status, f_limit := 50\<rparr>)"
    using assms(2) by (simp add: filter_ok_def empty_filter_def hex_text_ok_def)
  have "matching (empty_filter\<lparr>f_maker := maker, f_status := status, f_limit := 50\<rparr>) d =
      matching (empty_filter\<lparr>f_maker := maker, f_status := status\<rparr>) d"
    by (simp add: matching_def matches_filter_def cong: filter_cong)
  then show ?thesis
    using find_orders_matching [OF assms(1) f]
    by (simp add: get_user_orders_def new_order_service_def page_of_def empty_filter_def)
qed

theorem get_user_orders_refines_witness:
  "get_user_orders toy_desk ''0x2b'' (Some Active) sample_db =
    (Inr (take 50 (matching (empty_filter\<lparr>f_maker := ''0x2b'', f_status := Some Active\<rparr>) sample_db)), sample_db)"
  by (rule get_user_orders_refines) (simp_all add: two_sided_facts)

end
