(* ===== verification/Hub.thy ===== *)
theory Hub
  imports GoJson
begin

section \<open>internal/ws/hub.go\<close>

text \<open>
  The WebSocket hub.  Clients are numbered; \<open>h_store\<close> is the memory that holds their send channels,
  also after the hub has forgotten them.  Each operation of \<open>Run\<close> under its lock is a function; a
  Go panic (a send on a closed channel, a second close) is the result \<open>None\<close>.  \<open>Broadcast\<close> looks up its
  receivers under the lock and sends without it, so the theory has both the function that runs
  it without interruption and a step relation in which other goroutines run in between.
\<close>

subsection \<open>State\<close>

record message =
  g_type :: string
  g_payload :: json

definition marshal_message :: "message \<Rightarrow> json" where
  "marshal_message g = JObj [(''type'', JStr (g_type g)), (''payload'', g_payload g)]"

record client =
  c_collections :: "string set"
  c_send :: "json list"
  c_closed :: bool
  c_connected :: bool

record hub =
  h_clients :: "nat set"
  h_by_collection :: "string \<Rightarrow> nat set option"
  h_store :: "nat \<Rightarrow> client option"
  h_leaving :: "nat list"
  h_origins :: "string set"

text \<open>The buffer of a client's send channel.\<close>

definition send_buffer :: nat where
  "send_buffer = 64"

definition new_hub :: "string list \<Rightarrow> hub" where
  "new_hub allowed = \<lparr>h_clients = {}, h_by_collection = (\<lambda>col. None), h_store = (\<lambda>c. None),
     h_leaving = [], h_origins = set (map to_lower allowed)\<rparr>"

subsection \<open>The event loop\<close>

definition collections_of :: "hub \<Rightarrow> nat \<Rightarrow> string set" where
  "collections_of h c = (case h_store h c of None \<Rightarrow> {} | Some cl \<Rightarrow> c_collections cl)"

definition register :: "nat \<Rightarrow> hub \<Rightarrow> hub" where
  "register c h = h\<lparr>h_clients := insert c (h_clients h),
     h_by_collection := (\<lambda>col. if col \<in> collections_of h c
        then Some (insert c (case h_by_collection h col of None \<Rightarrow> {} | Some s \<Rightarrow> s))
        else h_by_collection h col)\<rparr>"

text \<open>\<open>close(c.send)\<close>; closing twice panics.\<close>

definition close_send :: "nat \<Rightarrow> hub \<Rightarrow> hub option" where
  "close_send c h = (case h_store h c of
      None \<Rightarrow> None
    | Some cl \<Rightarrow> if c_closed cl then None else Some (h\<lparr>h_store := (h_store h)(c \<mapsto> cl\<lparr>c_closed := True\<rparr>)\<rparr>))"

definition unregister :: "nat \<Rightarrow> hub \<Rightarrow> hub option" where
  "unregister c h =
     (if c \<in> h_clients h
      then close_send c (h\<lparr>h_clients := h_clients h - {c},
        h_by_collection := (\<lambda>col. if col \<in> collections_of h c
           then (case h_by_collection h col of
                   None \<Rightarrow> None
                 | Some s \<Rightarrow> if s - {c} = {} then None else Some (s - {c}))
           else h_by_collection h col)\<rparr>)
      else Some h)"

text \<open>\<open>Upgrade\<close> after the handshake: a new connection, its collections as a map, registered.\<close>

definition origin_allowed :: "hub \<Rightarrow> string \<Rightarrow> bool" where
  "origin_allowed h origin = (if h_origins h = {} then True else to_lower origin \<in> h_origins h)"

definition new_client :: "string list \<Rightarrow> client" where
  "new_client cols = \<lparr>c_collections = set cols, c_send = [], c_closed = False, c_connected = True\<rparr>"

definition upgrade :: "nat \<Rightarrow> string list \<Rightarrow> hub \<Rightarrow> hub" where
  "upgrade c cols h = register c (h\<lparr>h_store := (h_store h)(c \<mapsto> new_client cols)\<rparr>)"

text \<open>\<open>internal/handler/ws.go\<close>: the \<open>collections\<close> parameter of the request.\<close>

definition ws_collections :: "string \<Rightarrow> string list" where
  "ws_collections query =
     (if query = [] then []
      else filter (\<lambda>col. col \<noteq> []) (map trim_space (split_on (CHR '','') query)))"

text \<open>The end of \<open>readPump\<close>: ask to be unregistered and close the connection.\<close>

definition hang_up :: "nat \<Rightarrow> hub \<Rightarrow> hub" where
  "hang_up c h = (case h_store h c of
      None \<Rightarrow> h
    | Some cl \<Rightarrow> h\<lparr>h_leaving := h_leaving h @ [c], h_store := (h_store h)(c \<mapsto> cl\<lparr>c_connected := False\<rparr>)\<rparr>)"

text \<open>One turn of \<open>writePump\<close>: a message, or the end of a closed and drained channel.\<close>

definition write_pump :: "nat \<Rightarrow> hub \<Rightarrow> json option \<times> hub" where
  "write_pump c h = (case h_store h c of
      None \<Rightarrow> (None, h)
    | Some cl \<Rightarrow>
        (case c_send cl of
           m # ms \<Rightarrow> (Some m, h\<lparr>h_store := (h_store h)(c \<mapsto> cl\<lparr>c_send := ms\<rparr>)\<rparr>)
         | [] \<Rightarrow> if c_closed cl
                 then (None, h\<lparr>h_store := (h_store h)(c \<mapsto> cl\<lparr>c_connected := False\<rparr>)\<rparr>)
                 else (None, h)))"

subsection \<open>Broadcast\<close>

text \<open>The \<open>select\<close> in the loop: send, or start a goroutine that unregisters the slow client.\<close>

definition offer :: "json \<Rightarrow> nat \<Rightarrow> hub \<Rightarrow> hub option" where
  "offer data c h = (case h_store h c of
      None \<Rightarrow> None
    | Some cl \<Rightarrow>
        if c_closed cl then None
        else if length (c_send cl) < send_buffer
        then Some (h\<lparr>h_store := (h_store h)(c \<mapsto> cl\<lparr>c_send := c_send cl @ [data]\<rparr>)\<rparr>)
        else Some (h\<lparr>h_leaving := h_leaving h @ [c]\<rparr>))"

definition receivers :: "hub \<Rightarrow> string \<Rightarrow> nat set" where
  "receivers h col = (case h_by_collection h col of None \<Rightarrow> {} | Some s \<Rightarrow> s)"

fun offer_all :: "json \<Rightarrow> nat list \<Rightarrow> hub \<Rightarrow> hub option" where
  "offer_all data [] h = Some h"
| "offer_all data (c # cs) h =
     (case offer data c h of None \<Rightarrow> None | Some h' \<Rightarrow> offer_all data cs h')"

text \<open>\<open>order\<close> is the order, unspecified in Go, in which the range loop visits a map's keys.\<close>

definition broadcast :: "(nat set \<Rightarrow> nat list) \<Rightarrow> string \<Rightarrow> message \<Rightarrow> hub \<Rightarrow> hub option" where
  "broadcast order col msg h = offer_all (marshal_message msg) (order (receivers h col)) h"

subsection \<open>The invariant\<close>

definition subscribers :: "hub \<Rightarrow> string \<Rightarrow> nat set" where
  "subscribers h col = {c \<in> h_clients h. col \<in> collections_of h c}"

definition hub_ok :: "hub \<Rightarrow> bool" where
  "hub_ok h \<longleftrightarrow>
     (\<forall>col. h_by_collection h col = (if subscribers h col = {} then None else Some (subscribers h col))) \<and>
     (\<forall>c \<in> h_clients h. \<exists>cl. h_store h c = Some cl \<and> \<not> c_closed cl) \<and>
     (\<forall>c cl. h_store h c = Some cl \<longrightarrow> length (c_send cl) \<le> send_buffer)"

lemma hub_ok_new: "hub_ok (new_hub allowed)"
  by (simp add: hub_ok_def new_hub_def subscribers_def)

lemma receivers_ok: "hub_ok h \<Longrightarrow> receivers h col = subscribers h col"
  by (simp add: hub_ok_def receivers_def)

lemma hub_okI:
  assumes "\<And>col. h_by_collection h col = (if subscribers h col = {} then None else Some (subscribers h col))"
    and "\<And>c. c \<in> h_clients h \<Longrightarrow> \<exists>cl. h_store h c = Some cl \<and> \<not> c_closed cl"
    and "\<And>c cl. h_store h c = Some cl \<Longrightarrow> length (c_send cl) \<le> send_buffer"
  shows "hub_ok h"
  using assms by (simp add: hub_ok_def)

text \<open>A change of one client's buffer or connection, or of the waiting room, keeps the invariant.\<close>

lemma hub_ok_store:
  assumes "hub_ok h" and "h_store h c = Some cl" and "c_collections cl' = c_collections cl"
    and "c_closed cl' = c_closed cl" and "length (c_send cl') \<le> send_buffer"
  shows "hub_ok (h\<lparr>h_store := (h_store h)(c \<mapsto> cl')\<rparr>)"
proof -
  have "collections_of (h\<lparr>h_store := (h_store h)(c \<mapsto> cl')\<rparr>) = collections_of h"
    using assms(2,3) by (auto simp: collections_of_def fun_eq_iff)
  then have "subscribers (h\<lparr>h_store := (h_store h)(c \<mapsto> cl')\<rparr>) = subscribers h"
    by (simp add: subscribers_def fun_eq_iff)
  then show ?thesis
    using assms by (auto simp: hub_ok_def)
qed

lemma hub_ok_leaving [simp]: "hub_ok (h\<lparr>h_leaving := xs\<rparr>) = hub_ok h"
  by (simp add: hub_ok_def subscribers_def collections_of_def)

lemma upgrade_ok [preserved]:
  assumes "hub_ok h" and "h_store h c = None"
  shows "hub_ok (upgrade c cols h)"
proof -
  let ?h = "upgrade c cols h"
  have new: "c \<notin> h_clients h"
    using assms by (auto simp: hub_ok_def)
  have store: "h_store ?h = (h_store h)(c \<mapsto> new_client cols)" "h_clients ?h = insert c (h_clients h)"
    by (simp_all add: upgrade_def register_def)
  have subs: "subscribers ?h col = (if col \<in> set cols then insert c (subscribers h col) else subscribers h col)" for col
    using new by (auto simp: subscribers_def collections_of_def store new_client_def)
  show ?thesis
  proof (rule hub_okI)
    fix col
    have "h_by_collection h col = (if subscribers h col = {} then None else Some (subscribers h col))"
      using assms(1) by (simp add: hub_ok_def)
    then show "h_by_collection ?h col = (if subscribers ?h col = {} then None else Some (subscribers ?h col))"
      unfolding subs by (simp add: upgrade_def register_def collections_of_def new_client_def)
  next
    fix x assume "x \<in> h_clients ?h"
    then show "\<exists>cl. h_store ?h x = Some cl \<and> \<not> c_closed cl"
      using assms(1) unfolding store by (auto simp: hub_ok_def new_client_def)
  next
    fix x cl assume "h_store ?h x = Some cl"
    then show "length (c_send cl) \<le> send_buffer"
      using assms(1) unfolding store by (auto simp: hub_ok_def new_client_def split: if_splits)
  qed
qed

lemma unregister_ok [preserved]:
  assumes "hub_ok h"
  shows "\<exists>h'. unregister c h = Some h' \<and> hub_ok h' \<and> h_clients h' = h_clients h - {c} \<and>
    (\<forall>x. x \<noteq> c \<longrightarrow> h_store h' x = h_store h x) \<and> h_leaving h' = h_leaving h"
proof (cases "c \<in> h_clients h")
  case False
  with assms show ?thesis by (simp add: unregister_def)
next
  case True
  with assms obtain cl where cl: "h_store h c = Some cl" "\<not> c_closed cl"
    by (auto simp: hub_ok_def)
  define h' where "h' = h\<lparr>h_clients := h_clients h - {c},
        h_by_collection := (\<lambda>col. if col \<in> collections_of h c
           then (case h_by_collection h col of
                   None \<Rightarrow> None
                 | Some s \<Rightarrow> if s - {c} = {} then None else Some (s - {c}))
           else h_by_collection h col),
        h_store := (h_store h)(c \<mapsto> cl\<lparr>c_closed := True\<rparr>)\<rparr>"
  have un: "unregister c h = Some h'"
    using True cl by (simp add: unregister_def close_send_def h'_def)
  have subs: "subscribers h' col = subscribers h col - {c}" for col
    using cl by (auto simp: subscribers_def collections_of_def h'_def)
  have "hub_ok h'"
  proof (rule hub_okI)
    fix col
    have "h_by_collection h col = (if subscribers h col = {} then None else Some (subscribers h col))"
      using assms by (simp add: hub_ok_def)
    moreover have "col \<notin> collections_of h c \<Longrightarrow> c \<notin> subscribers h col"
      by (simp add: subscribers_def)
    ultimately show "h_by_collection h' col = (if subscribers h' col = {} then None else Some (subscribers h' col))"
      unfolding subs by (auto simp: h'_def)
  next
    fix x assume "x \<in> h_clients h'"
    then show "\<exists>cl. h_store h' x = Some cl \<and> \<not> c_closed cl"
      using assms by (auto simp: hub_ok_def h'_def)
  next
    fix x cl' assume "h_store h' x = Some cl'"
    then show "length (c_send cl') \<le> send_buffer"
      using assms cl by (auto simp: hub_ok_def h'_def split: if_splits)
  qed
  with un show ?thesis
    by (auto simp: h'_def)
qed

lemma hang_up_ok [preserved]:
  assumes "hub_ok h"
  shows "hub_ok (hang_up c h)"
proof (cases "h_store h c")
  case None
  with assms show ?thesis by (simp add: hang_up_def)
next
  case (Some cl)
  let ?h = "h\<lparr>h_store := (h_store h)(c \<mapsto> cl\<lparr>c_connected := False\<rparr>)\<rparr>"
  have "hub_ok ?h"
    using assms Some by (intro hub_ok_store) (auto simp: hub_ok_def)
  moreover have "hang_up c h = ?h\<lparr>h_leaving := h_leaving h @ [c]\<rparr>"
    using Some by (simp add: hang_up_def)
  ultimately show ?thesis by simp
qed

lemma write_pump_ok [preserved]:
  assumes "hub_ok h"
  shows "hub_ok (snd (write_pump c h))"
proof (cases "h_store h c")
  case None
  with assms show ?thesis by (simp add: write_pump_def)
next
  case (Some cl)
  then have "length (c_send cl) \<le> send_buffer"
    using assms by (simp add: hub_ok_def)
  with Some assms show ?thesis
    by (cases "c_send cl") (auto simp: write_pump_def intro!: hub_ok_store [where cl = cl])
qed

text \<open>What a send to a registered client does.\<close>

definition offered :: "json \<Rightarrow> client \<Rightarrow> client" where
  "offered data cl =
     (if length (c_send cl) < send_buffer then cl\<lparr>c_send := c_send cl @ [data]\<rparr> else cl)"

definition is_full :: "hub \<Rightarrow> nat \<Rightarrow> bool" where
  "is_full h c = (case h_store h c of None \<Rightarrow> False | Some cl \<Rightarrow> send_buffer \<le> length (c_send cl))"

lemma offer_ok [preserved]:
  assumes "hub_ok h" and "c \<in> h_clients h"
  shows "\<exists>h'. offer data c h = Some h' \<and> hub_ok h' \<and> h_clients h' = h_clients h \<and>
    h_store h' = (h_store h)(c := map_option (offered data) (h_store h c)) \<and>
    h_leaving h' = h_leaving h @ (if is_full h c then [c] else [])"
proof -
  from assms obtain cl where cl: "h_store h c = Some cl" "\<not> c_closed cl"
    by (auto simp: hub_ok_def)
  have "length (c_send cl) < send_buffer \<Longrightarrow>
      hub_ok (h\<lparr>h_store := (h_store h)(c \<mapsto> cl\<lparr>c_send := c_send cl @ [data]\<rparr>)\<rparr>)"
    using cl by (intro hub_ok_store [OF assms(1) cl(1)]) simp_all
  then show ?thesis
    using cl assms(1) by (auto simp: offer_def offered_def is_full_def fun_upd_idem)
qed

lemma offer_all_ok:
  assumes "hub_ok h" and "set cs \<subseteq> h_clients h" and "distinct cs"
  shows "\<exists>h'. offer_all data cs h = Some h' \<and> hub_ok h' \<and> h_clients h' = h_clients h \<and>
    h_store h' = (\<lambda>c. if c \<in> set cs then map_option (offered data) (h_store h c) else h_store h c) \<and>
    h_leaving h' = h_leaving h @ filter (is_full h) cs"
  using assms
proof (induction cs arbitrary: h)
  case (Cons c cs)
  from Cons.prems offer_ok [of h c data] obtain h1 where h1: "offer data c h = Some h1" "hub_ok h1"
    "h_clients h1 = h_clients h" "h_store h1 = (h_store h)(c := map_option (offered data) (h_store h c))"
    "h_leaving h1 = h_leaving h @ (if is_full h c then [c] else [])"
    by auto
  from Cons.IH [of h1] Cons.prems h1 obtain h2 where h2: "offer_all data cs h1 = Some h2" "hub_ok h2"
    "h_clients h2 = h_clients h"
    "h_store h2 = (\<lambda>x. if x \<in> set cs then map_option (offered data) (h_store h1 x) else h_store h1 x)"
    "h_leaving h2 = h_leaving h1 @ filter (is_full h1) cs"
    by auto
  have "x \<in> set cs \<Longrightarrow> is_full h1 x = is_full h x" for x
    using Cons.prems(3) by (auto simp: is_full_def h1)
  then have "filter (is_full h1) cs = filter (is_full h) cs"
    by (simp cong: filter_cong)
  with h1 h2 Cons.prems(3) show ?case
    by (auto simp: fun_eq_iff)
qed simp

text \<open>
  C24: A broadcast that no other goroutine interrupts reaches exactly the clients subscribed to the
  collection: each of them gets the message once, at the end of its queue, unless its buffer of
  64 is full, in which case the message is dropped and the client is asked to leave; nobody else
  sees anything, and the hub stays consistent.
\<close>

theorem broadcast_delivers:
  assumes "hub_ok h" and "set (order (subscribers h col)) = subscribers h col"
    and "distinct (order (subscribers h col))"
  shows "\<exists>h'. broadcast order col msg h = Some h' \<and> hub_ok h' \<and> h_clients h' = h_clients h \<and>
    h_store h' = (\<lambda>c. if c \<in> subscribers h col
        then map_option (offered (marshal_message msg)) (h_store h c) else h_store h c) \<and>
    set (h_leaving h') = set (h_leaving h) \<union> {c \<in> subscribers h col. is_full h c}"
proof -
  have "set (order (subscribers h col)) \<subseteq> h_clients h"
    using assms(2) by (auto simp: subscribers_def)
  from offer_all_ok [OF assms(1) this assms(3), of "marshal_message msg"] assms(2)
  show ?thesis
    by (auto simp: broadcast_def receivers_ok [OF assms(1)])
qed

text \<open>Two clients, the first subscribed to \<open>0xab\<close>.\<close>

definition two_clients :: hub where
  "two_clients = upgrade 2 [''0xcd''] (upgrade 1 [''0xab''] (new_hub []))"

lemma two_clients_ok: "hub_ok two_clients"
  unfolding two_clients_def
  by (intro upgrade_ok hub_ok_new) (simp_all add: upgrade_def register_def new_hub_def)

lemma two_clients_subscribers: "subscribers two_clients ''0xab'' = {1}"
  by (auto simp: subscribers_def collections_of_def two_clients_def upgrade_def register_def
      new_hub_def new_client_def split: if_splits)

theorem broadcast_delivers_witness:
  "\<exists>h'. broadcast (\<lambda>s. if s = {1} then [1] else []) ''0xab'' \<lparr>g_type = ''t'', g_payload = JNull\<rparr> two_clients = Some h' \<and>
     map_option c_send (h_store h' 1) = Some [marshal_message \<lparr>g_type = ''t'', g_payload = JNull\<rparr>] \<and>
     map_option c_send (h_store h' 2) = Some []"
proof -
  have "h_store two_clients 1 = Some (new_client [''0xab''])" "h_store two_clients 2 = Some (new_client [''0xcd''])"
    by (simp_all add: two_clients_def upgrade_def register_def)
  with broadcast_delivers [OF two_clients_ok, of "\<lambda>s. if s = {1} then [1] else []" "''0xab''"
      "\<lparr>g_type = ''t'', g_payload = JNull\<rparr>"]
  show ?thesis
    unfolding two_clients_subscribers by (auto simp: offered_def new_client_def send_buffer_def)
qed

subsection \<open>Interleaving\<close>

text \<open>
  A broadcast in flight: its message, the keys of the map the loop has yet to visit, and the
  client it is about to send to.
\<close>

record flight =
  fl_data :: json
  fl_left :: "nat set"
  fl_next :: "nat option"

record world =
  w_hub :: hub
  w_flights :: "flight list"
  w_panicked :: bool

definition start_world :: "string list \<Rightarrow> world" where
  "start_world allowed = \<lparr>w_hub = new_hub allowed, w_flights = [], w_panicked = False\<rparr>"

definition crash_or :: "world \<Rightarrow> hub option \<Rightarrow> world" where
  "crash_or w r = (case r of None \<Rightarrow> w\<lparr>w_panicked := True\<rparr> | Some h \<Rightarrow> w\<lparr>w_hub := h\<rparr>)"

text \<open>
  The steps of the goroutines.  A key that was deleted from the map before the loop came to it is
  not visited (\<open>skip\<close>), as the Go specification says; once visited (\<open>pick\<close>), the send happens later.
\<close>

inductive hub_step :: "world \<Rightarrow> world \<Rightarrow> bool" where
  connect: "h_store (w_hub w) c = None \<Longrightarrow>
     hub_step w (w\<lparr>w_hub := upgrade c (ws_collections query) (w_hub w)\<rparr>)"
| hang: "hub_step w (w\<lparr>w_hub := hang_up c (w_hub w)\<rparr>)"
| leave: "h_leaving (w_hub w) = xs @ c # ys \<Longrightarrow>
     hub_step w (crash_or w (unregister c ((w_hub w)\<lparr>h_leaving := xs @ ys\<rparr>)))"
| pump: "hub_step w (w\<lparr>w_hub := snd (write_pump c (w_hub w))\<rparr>)"
| start: "hub_step w (w\<lparr>w_flights := w_flights w @
     [\<lparr>fl_data = marshal_message msg, fl_left = receivers (w_hub w) col, fl_next = None\<rparr>]\<rparr>)"
| pick: "w_flights w = fs @ f # gs \<Longrightarrow> fl_next f = None \<Longrightarrow> c \<in> fl_left f \<Longrightarrow> c \<in> h_clients (w_hub w) \<Longrightarrow>
     hub_step w (w\<lparr>w_flights := fs @ f\<lparr>fl_left := fl_left f - {c}, fl_next := Some c\<rparr> # gs\<rparr>)"
| skip: "w_flights w = fs @ f # gs \<Longrightarrow> fl_next f = None \<Longrightarrow> c \<in> fl_left f \<Longrightarrow> c \<notin> h_clients (w_hub w) \<Longrightarrow>
     hub_step w (w\<lparr>w_flights := fs @ f\<lparr>fl_left := fl_left f - {c}\<rparr> # gs\<rparr>)"
| send: "w_flights w = fs @ f # gs \<Longrightarrow> fl_next f = Some c \<Longrightarrow>
     hub_step w (crash_or (w\<lparr>w_flights := fs @ f\<lparr>fl_next := None\<rparr> # gs\<rparr>) (offer (fl_data f) c (w_hub w)))"

inductive_cases hub_stepE: "hub_step w w'"

lemma offer_hub_ok:
  assumes "hub_ok h" and "offer data c h = Some h'"
  shows "hub_ok h'"
proof -
  from assms(2) obtain cl where cl: "h_store h c = Some cl"
    by (auto simp: offer_def split: option.splits)
  have "length (c_send cl) < send_buffer \<Longrightarrow>
      hub_ok (h\<lparr>h_store := (h_store h)(c \<mapsto> cl\<lparr>c_send := c_send cl @ [data]\<rparr>)\<rparr>)"
    by (intro hub_ok_store [OF assms(1) cl]) simp_all
  then show ?thesis
    using assms cl by (auto simp: offer_def split: if_splits)
qed

lemma hub_step_ok:
  assumes "hub_step w w'" and "hub_ok (w_hub w)"
  shows "hub_ok (w_hub w')"
  using assms
proof (cases rule: hub_step.cases)
  case (leave xs c ys)
  from unregister_ok [of "(w_hub w)\<lparr>h_leaving := xs @ ys\<rparr>" c] assms(2) show ?thesis
    by (auto simp: leave(1) crash_or_def)
next
  case (send fs f gs c)
  with assms(2) show ?thesis
    by (auto simp: crash_or_def split: option.split dest: offer_hub_ok)
qed (auto intro: upgrade_ok hang_up_ok write_pump_ok)

text \<open>
  C23: However the goroutines interleave, the hub stays consistent: the index by collection lists exactly
  the registered clients of each collection, registered clients have open channels, no buffer
  exceeds 64 messages, and unregistering a client, even twice, never closes a channel twice.
\<close>

theorem hub_always_consistent:
  assumes "hub_step\<^sup>*\<^sup>* (start_world allowed) w"
  shows "hub_ok (w_hub w) \<and> (\<forall>c. unregister c (w_hub w) \<noteq> None)"
proof -
  from assms have "hub_ok (w_hub w)"
    by (induction rule: rtranclp_induct)
      (simp_all add: start_world_def hub_ok_new hub_step_ok)
  then show ?thesis
    using unregister_ok by (metis option.distinct(1))
qed

text \<open>A run: a client connects, a broadcast reaches it, it hangs up and is unregistered, and the send follows.\<close>

definition world1 :: world where
  "world1 = (start_world [])\<lparr>w_hub := upgrade 1 [''0xab''] (new_hub [])\<rparr>"

definition world2 :: world where
  "world2 = world1\<lparr>w_flights :=
     [\<lparr>fl_data = marshal_message \<lparr>g_type = ''order:new'', g_payload = JNull\<rparr>, fl_left = {1}, fl_next = None\<rparr>]\<rparr>"

definition world3 :: world where
  "world3 = world1\<lparr>w_flights :=
     [\<lparr>fl_data = marshal_message \<lparr>g_type = ''order:new'', g_payload = JNull\<rparr>, fl_left = {}, fl_next = Some 1\<rparr>]\<rparr>"

definition world4 :: world where
  "world4 = world3\<lparr>w_hub := hang_up 1 (w_hub world3)\<rparr>"

definition world5 :: world where
  "world5 = crash_or world4 (unregister 1 ((w_hub world4)\<lparr>h_leaving := []\<rparr>))"

definition world6 :: world where
  "world6 = crash_or (world5\<lparr>w_flights := [\<lparr>fl_data = marshal_message \<lparr>g_type = ''order:new'', g_payload = JNull\<rparr>,
     fl_left = {}, fl_next = None\<rparr>]\<rparr>)
     (offer (marshal_message \<lparr>g_type = ''order:new'', g_payload = JNull\<rparr>) 1 (w_hub world5))"

lemmas world_defs = world1_def world2_def world3_def world4_def start_world_def new_hub_def
  upgrade_def register_def new_client_def collections_of_def hang_up_def receivers_def

lemma world_steps:
  "hub_step (start_world []) world1" "hub_step world1 world2" "hub_step world2 world3"
  "hub_step world3 world4"
proof -
  have "ws_collections ''0xab'' = [''0xab'']"
    by code_simp
  then show "hub_step (start_world []) world1"
    using hub_step.connect [of "start_world []" 1 "''0xab''"]
    by (simp add: world1_def start_world_def new_hub_def)
  show "hub_step world1 world2"
    using hub_step.start [of world1 "\<lparr>g_type = ''order:new'', g_payload = JNull\<rparr>" "''0xab''"]
    by (simp add: world_defs)
  show "hub_step world2 world3"
    using hub_step.pick [of world2 "[]" "hd (w_flights world2)" "[]" 1]
    by (simp add: world_defs)
  show "hub_step world3 world4"
    unfolding world4_def by (rule hub_step.hang)
qed

theorem hub_always_consistent_witness:
  "hub_ok (w_hub world4) \<and> unregister 1 (w_hub world4) \<noteq> None"
proof -
  note step = converse_rtranclp_into_rtranclp [where r = hub_step]
  have "hub_step\<^sup>*\<^sup>* (start_world []) world4"
    by (rule step [OF world_steps(1)], rule step [OF world_steps(2)], rule step [OF world_steps(3)],
        rule r_into_rtranclp [where r = hub_step, OF world_steps(4)])
  from hub_always_consistent [OF this] show ?thesis by blast
qed

lemma world4_facts:
  "h_leaving (w_hub world4) = [1]" "h_clients (w_hub world4) = {1}" "w_panicked world4 = False"
  "w_flights world4 = w_flights world3"
  "h_store (w_hub world4) 1 = Some ((new_client [''0xab''])\<lparr>c_connected := False\<rparr>)"
  by (simp_all add: world_defs)

lemma world5_facts:
  "w_flights world5 = w_flights world3" "\<exists>cl. h_store (w_hub world5) 1 = Some cl \<and> c_closed cl"
  using world4_facts by (simp_all add: world5_def crash_or_def unregister_def close_send_def new_client_def)

text \<open>
  Sending on a closed channel, which crashes the process, is reachable: a client may be
  unregistered between the moment \<open>Broadcast\<close> comes to it and the send, since the send is not made
  under the lock.
\<close>

theorem send_on_closed_channel_reachable:
  "\<exists>w. hub_step\<^sup>*\<^sup>* (start_world []) w \<and> w_panicked w"
proof (intro exI conjI)
  have s5: "hub_step world4 world5"
    unfolding world5_def using hub_step.leave [of world4 "[]" 1 "[]"] world4_facts by simp
  have s6: "hub_step world5 world6"
    using hub_step.send [of world5 "[]" "hd (w_flights world3)" "[]" 1] world5_facts(1)
    by (simp add: world6_def) (simp add: world3_def)
  note step = converse_rtranclp_into_rtranclp [where r = hub_step]
  show "hub_step\<^sup>*\<^sup>* (start_world []) world6"
    by (rule step [OF world_steps(1)], rule step [OF world_steps(2)], rule step [OF world_steps(3)],
        rule step [OF world_steps(4)], rule step [OF s5], rule r_into_rtranclp [where r = hub_step, OF s6])
  show "w_panicked world6"
    using world5_facts(2) by (auto simp: world6_def crash_or_def offer_def)
qed

subsection \<open>Nobody can subscribe to the empty collection\<close>

definition all_named :: "hub \<Rightarrow> bool" where
  "all_named h \<longleftrightarrow> (\<forall>c cl. h_store h c = Some cl \<longrightarrow> [] \<notin> c_collections cl)"

lemma all_named_offer: "all_named h \<Longrightarrow> offer data c h = Some h' \<Longrightarrow> all_named h'"
  by (auto simp: offer_def all_named_def split: option.splits if_splits)

lemma all_named_unregister: "all_named h \<Longrightarrow> unregister c h = Some h' \<Longrightarrow> all_named h'"
  by (auto simp: unregister_def close_send_def all_named_def split: option.splits if_splits)

lemma all_named_others [preserved]:
  assumes "all_named h"
  shows "all_named (upgrade c (ws_collections query) h)" "all_named (hang_up c h)"
    "all_named (snd (write_pump c h))"
proof -
  show "all_named (upgrade c (ws_collections query) h)"
    using assms by (auto simp: all_named_def upgrade_def register_def new_client_def ws_collections_def)
  show "all_named (hang_up c h)"
    using assms by (auto simp: hang_up_def all_named_def split: option.splits)
  show "all_named (snd (write_pump c h))"
    using assms by (auto simp: write_pump_def all_named_def split: option.splits list.splits)
qed

lemma hub_step_named:
  assumes "hub_step w w'" and "all_named (w_hub w)"
  shows "all_named (w_hub w')"
  using assms
proof (cases rule: hub_step.cases)
  case (leave xs c ys)
  have "all_named ((w_hub w)\<lparr>h_leaving := xs @ ys\<rparr>)"
    using assms(2) by (simp add: all_named_def)
  then show ?thesis
    using assms(2) by (auto simp: leave(1) crash_or_def split: option.split dest: all_named_unregister)
next
  case (send fs f gs c)
  with assms(2) show ?thesis
    by (auto simp: crash_or_def split: option.split dest: all_named_offer)
qed (auto intro: all_named_others)

lemma no_anonymous_receivers:
  assumes "hub_step\<^sup>*\<^sup>* (start_world allowed) w"
  shows "receivers (w_hub w) [] = {}"
proof -
  from assms have "all_named (w_hub w) \<and> hub_ok (w_hub w)"
    by (induction rule: rtranclp_induct)
      (auto simp: start_world_def hub_ok_new hub_step_ok hub_step_named, simp add: all_named_def new_hub_def)
  then have "subscribers (w_hub w) [] = {}"
    by (auto simp: subscribers_def collections_of_def all_named_def split: option.splits)
  with \<open>all_named (w_hub w) \<and> hub_ok (w_hub w)\<close> show ?thesis
    by (simp add: receivers_ok)
qed

end
