(* ===== verification/Cache.thy ===== *)
theory Cache
  imports GoJson
begin

section \<open>internal/service/cache.go\<close>

text \<open>
  The typed wrapper around Redis.  The Redis client is not part of the repository: it is a record
  of operations on an abstract server state \<open>'r\<close>, and what Redis documents of them is the
  predicate \<open>redis_laws\<close>.
\<close>

record 'r redis =
  rd_get :: "string \<Rightarrow> 'r \<Rightarrow> json result \<times> 'r"
  rd_set :: "string \<Rightarrow> json \<Rightarrow> int \<Rightarrow> 'r \<Rightarrow> unit result \<times> 'r"
  rd_del :: "string list \<Rightarrow> 'r \<Rightarrow> unit result \<times> 'r"
  rd_ping :: "'r \<Rightarrow> unit result \<times> 'r"

definition cache_get :: "'r redis \<Rightarrow> (json \<Rightarrow> 'a result) \<Rightarrow> string \<Rightarrow> 'r \<Rightarrow> 'a result \<times> 'r" where
  "cache_get rd unmarshal key s =
     (case rd_get rd key s of (Inl e, s') \<Rightarrow> (Inl e, s') | (Inr data, s') \<Rightarrow> (unmarshal data, s'))"

definition cache_set :: "'r redis \<Rightarrow> ('a \<Rightarrow> json result) \<Rightarrow> string \<Rightarrow> 'a \<Rightarrow> int \<Rightarrow> 'r \<Rightarrow> unit result \<times> 'r" where
  "cache_set rd marshal key v ttl s =
     (case wrap_err ''cache marshal'' (marshal v) of
        Inl e \<Rightarrow> (Inl e, s)
      | Inr data \<Rightarrow> rd_set rd key data ttl s)"

definition cache_del :: "'r redis \<Rightarrow> string list \<Rightarrow> 'r \<Rightarrow> unit result \<times> 'r" where
  "cache_del rd keys s = rd_del rd keys s"

definition order_list_key :: "string \<Rightarrow> string" where
  "order_list_key collection = ''orders:'' @ collection"

definition collection_key :: "string \<Rightarrow> string" where
  "collection_key address = ''collection:'' @ address"

definition nft_key :: "string \<Rightarrow> string \<Rightarrow> string" where
  "nft_key collection tokenID = ''nft:'' @ collection @ '':'' @ tokenID"

definition invalidate_orders :: "'r redis \<Rightarrow> string \<Rightarrow> 'r \<Rightarrow> unit result \<times> 'r" where
  "invalidate_orders rd collection s = rd_del rd [''orders:'' @ collection] s"

text \<open>
  The documented behaviour of \<open>GET\<close>, \<open>SET\<close> and \<open>DEL\<close> when they succeed, for keys that do not expire
  in between: a read sees the last write or deletion of its key, and touches nothing.
\<close>

definition redis_laws :: "'r redis \<Rightarrow> ('r \<Rightarrow> string \<Rightarrow> json option) \<Rightarrow> bool" where
  "redis_laws rd content \<longleftrightarrow>
     (\<forall>k s. snd (rd_get rd k s) = s \<and>
        (\<forall>v. fst (rd_get rd k s) = Inr v \<longrightarrow> content s k = Some v)) \<and>
     (\<forall>k v ttl s s'. rd_set rd k v ttl s = (Inr (), s') \<longrightarrow> content s' = (content s)(k \<mapsto> v)) \<and>
     (\<forall>ks s s'. rd_del rd ks s = (Inr (), s') \<longrightarrow>
        content s' = (\<lambda>k. if k \<in> set ks then None else content s k))"

text \<open>The plainest server that has this behaviour: a map.\<close>

definition map_redis :: "(string \<Rightarrow> json option) redis" where
  "map_redis = \<lparr>
     rd_get = (\<lambda>k s. (case s k of None \<Rightarrow> Inl (ErrText ''redis: nil'') | Some v \<Rightarrow> Inr v, s)),
     rd_set = (\<lambda>k v ttl s. (Inr (), s(k \<mapsto> v))),
     rd_del = (\<lambda>ks s. (Inr (), \<lambda>k. if k \<in> set ks then None else s k)),
     rd_ping = (\<lambda>s. (Inr (), s))\<rparr>"

lemma map_redis_laws: "redis_laws map_redis (\<lambda>s. s)"
  by (auto simp: redis_laws_def map_redis_def split: option.splits)

end
