(* ===== verification/EventService.thy ===== *)
theory EventService
  imports OrderLifecycle Hub Cache
begin

section \<open>internal/service/event.go\<close>

text \<open>
  \<open>EventService\<close> turns a contract event into updates of the order book, invalidations of the cache
  and messages to the hub.  A result \<open>None\<close> is a crash (see the hub); a failed cache operation or a
  failed look-up is only logged.  The lemmas give the effect of each kind of event on the book and
  show that replaying an event changes nothing.
\<close>

subsection \<open>The service\<close>

record 'r system =
  sy_db :: db
  sy_cache :: 'r
  sy_hub :: hub

record 'r services =
  es_redis :: "'r redis"
  es_order :: "nat set \<Rightarrow> nat list"

type_synonym 'r handled = "(unit result \<times> 'r system) option"

text \<open>A map of strings is marshalled with its keys in ascending order.\<close>

definition send_message ::
  "'r services \<Rightarrow> string \<Rightarrow> string \<Rightarrow> json \<Rightarrow> 'r system \<Rightarrow> 'r system option" where
  "send_message es collection eventType payload s =
     map_option (\<lambda>h. s\<lparr>sy_hub := h\<rparr>)
       (broadcast (es_order es) collection \<lparr>g_type = eventType, g_payload = payload\<rparr> (sy_hub s))"

definition drop_cached :: "'r services \<Rightarrow> string \<Rightarrow> 'r system \<Rightarrow> 'r system" where
  "drop_cached es collection s = s\<lparr>sy_cache := snd (invalidate_orders (es_redis es) collection (sy_cache s))\<rparr>"

text \<open>A repository call inside a handler.\<close>

definition on_db :: "(db \<Rightarrow> 'a \<times> db) \<Rightarrow> 'r system \<Rightarrow> 'a \<times> 'r system" where
  "on_db f s = (case f (sy_db s) of (x, d) \<Rightarrow> (x, s\<lparr>sy_db := d\<rparr>))"

definition filled_payload :: "order_fulfilled_data \<Rightarrow> contract_event \<Rightarrow> json" where
  "filled_payload data e = JObj [(''finalPrice'', JStr (d_price data)),
     (''orderHash'', JStr (d_order_hash data)), (''txHash'', JStr (e_tx_hash e))]"

definition handle_order_fulfilled :: "'r services \<Rightarrow> contract_event \<Rightarrow> 'r system \<Rightarrow> 'r handled" where
  "handle_order_fulfilled es e s =
     (case wrap_err ''unmarshal OrderFulfilled'' (unmarshal_order_fulfilled (e_event_data e)) of
        Inl x \<Rightarrow> Some (Inl x, s)
      | Inr data \<Rightarrow>
          (case on_db (update_status (d_order_hash data) Filled) s of
             (Inl x, s1) \<Rightarrow> Some (Inl (ErrWrap ''update order status'' x), s1)
           | (Inr _, s1) \<Rightarrow>
               (case on_db (find_by_hash (d_order_hash data)) s1 of
                  (Inr (Some od), s2) \<Rightarrow>
                    map_option (\<lambda>s3. (Inr (), s3))
                      (send_message es (o_collection od) ''order:filled'' (filled_payload data e)
                        (drop_cached es (o_collection od) s2))
                | (_, s2) \<Rightarrow> Some (Inr (), s2))))"

definition listed_collections :: "string \<Rightarrow> 'r system \<Rightarrow> string list \<times> 'r system" where
  "listed_collections maker s =
     (case on_db (get_maker_active_collections maker) s of
        (Inl _, s1) \<Rightarrow> ([], s1) | (Inr cs, s1) \<Rightarrow> (cs, s1))"

definition cancelled_payload :: "order_cancelled_data \<Rightarrow> json" where
  "cancelled_payload data = JObj [(''maker'', JStr (c_maker data)), (''salt'', JStr (c_salt data))]"

fun notify_cancelled :: "'r services \<Rightarrow> order_cancelled_data \<Rightarrow> string list \<Rightarrow> 'r system \<Rightarrow> 'r system option" where
  "notify_cancelled es data [] s = Some s"
| "notify_cancelled es data (c # cs) s =
     (case send_message es c ''order:cancelled'' (cancelled_payload data) (drop_cached es c s) of
        None \<Rightarrow> None | Some s' \<Rightarrow> notify_cancelled es data cs s')"

definition handle_order_cancelled :: "'r services \<Rightarrow> contract_event \<Rightarrow> 'r system \<Rightarrow> 'r handled" where
  "handle_order_cancelled es e s =
     (case wrap_err ''unmarshal OrderCancelled'' (unmarshal_order_cancelled (e_event_data e)) of
        Inl x \<Rightarrow> Some (Inl x, s)
      | Inr data \<Rightarrow>
          (case listed_collections (c_maker data) s of
             (collections, s1) \<Rightarrow>
               (let salt = fst (big_set_string (c_salt data)) in
                case on_db (cancel_by_maker_salt (c_maker data) salt) s1 of
                  (Inl x, s2) \<Rightarrow> Some (Inl (ErrWrap ''cancel by maker+salt'' x), s2)
                | (Inr _, s2) \<Rightarrow>
                    map_option (\<lambda>s3. (Inr (), s3)) (notify_cancelled es data collections s2))))"

definition handle_counter_incremented :: "'r services \<Rightarrow> contract_event \<Rightarrow> 'r system \<Rightarrow> 'r handled" where
  "handle_counter_incremented es e s =
     (case wrap_err ''unmarshal CounterIncremented'' (unmarshal_counter_incremented (e_event_data e)) of
        Inl x \<Rightarrow> Some (Inl x, s)
      | Inr data \<Rightarrow>
          (case listed_collections (i_maker data) s of
             (collections, s1) \<Rightarrow>
               (let minCounter = fst (big_set_string (i_counter data)) in
                case on_db (cancel_by_maker_counter (i_maker data) minCounter) s1 of
                  (Inl x, s2) \<Rightarrow> Some (Inl (ErrWrap ''cancel by counter'' x), s2)
                | (Inr _, s2) \<Rightarrow>
                    map_option (\<lambda>s3. (Inr (), s3))
                      (send_message es [] ''order:cancelled'' (JObj [(''maker'', JStr (i_maker data))])
                        (foldl (\<lambda>st c. drop_cached es c st) s2 collections)))))"

definition updated_payload :: "string \<Rightarrow> bool \<Rightarrow> json" where
  "updated_payload collection blocked =
     JObj [(''blocked'', JBool blocked), (''collection'', JStr collection)]"

definition handle_collection_updated :: "'r services \<Rightarrow> contract_event \<Rightarrow> 'r system \<Rightarrow> 'r handled" where
  "handle_collection_updated es e s =
     (case wrap_err ''unmarshal CollectionUpdated'' (unmarshal_collection_updated (e_event_data e)) of
        Inl x \<Rightarrow> Some (Inl x, s)
      | Inr (collection, blocked) \<Rightarrow>
          (let notify = (\<lambda>s'. map_option (\<lambda>s3. (Inr (), s3))
                 (send_message es collection ''collection:updated'' (updated_payload collection blocked) s'))
           in if blocked
              then (case on_db (cancel_by_collection collection) s of
                      (Inl x, s1) \<Rightarrow> Some (Inl (ErrWrap ''cancel by collection'' x), s1)
                    | (Inr _, s1) \<Rightarrow> notify (drop_cached es collection s1))
              else notify s))"

definition handle :: "'r services \<Rightarrow> contract_event \<Rightarrow> 'r system \<Rightarrow> 'r handled" where
  "handle es e s =
     (if e_event_name e = EventOrderFulfilled then handle_order_fulfilled es e s
      else if e_event_name e = EventOrderCancelled then handle_order_cancelled es e s
      else if e_event_name e = EventCounterIncremented then handle_counter_incremented es e s
      else if e_event_name e = EventCollectionUpdated then handle_collection_updated es e s
      else Some (Inr (), s))"

subsection \<open>The effect on the book\<close>

text \<open>Which orders an event closes, and how; \<open>None\<close> for an event that cannot be read.\<close>

definition closes_where ::
  "uint8 \<Rightarrow> (order_row \<Rightarrow> bytes option) \<Rightarrow> (order_row \<Rightarrow> bool) \<Rightarrow> string \<Rightarrow> (uint8 \<times> (order_row \<Rightarrow> bool)) option" where
  "closes_where st col extra text =
     (case hex_decode text of Inl _ \<Rightarrow> None | Inr b \<Rightarrow> Some (st, \<lambda>r. sql_eq (col r) b \<and> extra r))"

definition event_closes :: "contract_event \<Rightarrow> (uint8 \<times> (order_row \<Rightarrow> bool)) option" where
  "event_closes e =
     (if e_event_name e = EventOrderFulfilled
      then (case unmarshal_order_fulfilled (e_event_data e) of Inl _ \<Rightarrow> None
            | Inr data \<Rightarrow> closes_where Filled r_order_hash (\<lambda>r. True) (d_order_hash data))
      else if e_event_name e = EventOrderCancelled
      then (case unmarshal_order_cancelled (e_event_data e) of Inl _ \<Rightarrow> None
            | Inr data \<Rightarrow> closes_where Cancelled r_maker
                (\<lambda>r. r_salt r = fst (big_set_string (c_salt data))) (c_maker data))
      else if e_event_name e = EventCounterIncremented
      then (case unmarshal_counter_incremented (e_event_data e) of Inl _ \<Rightarrow> None
            | Inr data \<Rightarrow> closes_where Cancelled r_maker
                (\<lambda>r. r_counter r < fst (big_set_string (i_counter data))) (i_maker data))
      else if e_event_name e = EventCollectionUpdated
      then (case unmarshal_collection_updated (e_event_data e) of Inl _ \<Rightarrow> None
            | Inr (collection, blocked) \<Rightarrow>
                (if blocked then closes_where Cancelled r_collection (\<lambda>r. True) collection
                 else Some (Cancelled, \<lambda>r. False)))
      else Some (Cancelled, \<lambda>r. False))"

definition close_rows :: "uint8 \<Rightarrow> (order_row \<Rightarrow> bool) \<Rightarrow> db \<Rightarrow> db" where
  "close_rows st P d = d\<lparr>t_orders := map (update_active st (db_now d) P) (t_orders d)\<rparr>"

lemma exec_update_healthy:
  "healthy d \<Longrightarrow> exec_update msg st P d = (Inr (), close_rows st (P d) d)"
  by (simp add: exec_update_def db_exec_healthy update_active_stmt_def close_rows_def)

lemma close_rows_healthy [simp]: "healthy (close_rows st P d) = healthy d"
  by (simp add: close_rows_def healthy_def)

lemma close_nothing [simp]: "close_rows st (\<lambda>r. False) d = d"
proof -
  have "update_active st (db_now d) (\<lambda>r. False) = (\<lambda>r. r)"
    by (simp add: update_active_def fun_eq_iff)
  then show ?thesis
    by (cases d) (simp add: close_rows_def)
qed

lemma send_message_db [simp]: "send_message es c t p s = Some s' \<Longrightarrow> sy_db s' = sy_db s"
  by (auto simp: send_message_def)

lemma drop_cached_keeps [simp]:
  "sy_db (drop_cached es c s) = sy_db s" "sy_hub (drop_cached es c s) = sy_hub s"
  by (simp_all add: drop_cached_def)

lemma drop_all_keeps [simp]:
  "sy_db (foldl (\<lambda>st c. drop_cached es c st) s cs) = sy_db s"
  "sy_hub (foldl (\<lambda>st c. drop_cached es c st) s cs) = sy_hub s"
  by (induction cs arbitrary: s) simp_all

lemma notify_cancelled_db: "notify_cancelled es data cs s = Some s' \<Longrightarrow> sy_db s' = sy_db s"
  by (induction cs arbitrary: s) (auto split: option.splits)

lemma listed_collections_db:
  "healthy (sy_db s) \<Longrightarrow> listed_collections m s = (cs, s1) \<Longrightarrow> sy_db s1 = sy_db s \<and> sy_hub s1 = sy_hub s"
  by (auto simp: listed_collections_def on_db_def get_maker_active_collections_def db_exec_healthy
      maker_collections_stmt_def split: sum.splits prod.splits)

lemma on_db_simps:
  "on_db f s = (fst (f (sy_db s)), s\<lparr>sy_db := snd (f (sy_db s))\<rparr>)"
  by (simp add: on_db_def split: prod.split)

lemma on_db_hub: "on_db f s = (x, s') \<Longrightarrow> sy_hub s' = sy_hub s"
  by (auto simp: on_db_simps)

lemma fulfilled_effect:
  assumes "healthy (sy_db s)" and "handle_order_fulfilled es e s = Some (Inr u, s')"
  shows "\<exists>data b. unmarshal_order_fulfilled (e_event_data e) = Inr data \<and>
    hex_decode (d_order_hash data) = Inr b \<and>
    sy_db s' = close_rows Filled (\<lambda>r. sql_eq (r_order_hash r) b) (sy_db s)"
proof -
  from assms(2) obtain data where data: "unmarshal_order_fulfilled (e_event_data e) = Inr data"
    by (auto simp: handle_order_fulfilled_def split: sum.splits)
  show ?thesis
  proof (cases "hex_decode (d_order_hash data)")
    case (Inl x)
    with assms(2) data show ?thesis
      by (simp add: handle_order_fulfilled_def on_db_simps update_status_def)
  next
    case (Inr b)
    let ?d = "close_rows Filled (\<lambda>r. sql_eq (r_order_hash r) b) (sy_db s)"
    have "update_status (d_order_hash data) Filled (sy_db s) = (Inr (), ?d)"
      using Inr assms(1) by (simp add: update_status_def exec_update_healthy)
    moreover have "snd (find_by_hash (d_order_hash data) ?d) = ?d"
      using find_by_hash_healthy [of ?d "d_order_hash data" b] Inr assms(1) by simp
    ultimately have "sy_db s' = ?d"
      using assms(2) data
      by (auto simp: handle_order_fulfilled_def on_db_simps split: sum.splits option.splits)
    with data Inr show ?thesis by blast
  qed
qed

lemma cancelled_effect:
  assumes "healthy (sy_db s)" and "handle_order_cancelled es e s = Some (Inr u, s')"
  shows "\<exists>data b. unmarshal_order_cancelled (e_event_data e) = Inr data \<and>
    hex_decode (c_maker data) = Inr b \<and>
    sy_db s' = close_rows Cancelled (\<lambda>r. sql_eq (r_maker r) b \<and> r_salt r = fst (big_set_string (c_salt data))) (sy_db s)"
proof -
  from assms(2) obtain data where data: "unmarshal_order_cancelled (e_event_data e) = Inr data"
    by (auto simp: handle_order_cancelled_def split: sum.splits)
  obtain cs s1 where l: "listed_collections (c_maker data) s = (cs, s1)"
    by fastforce
  note s1 = listed_collections_db [OF assms(1) l]
  show ?thesis
  proof (cases "hex_decode (c_maker data)")
    case (Inl x)
    with assms(2) data l show ?thesis
      by (simp add: handle_order_cancelled_def on_db_simps cancel_by_maker_salt_def)
  next
    case (Inr b)
    with assms(1) s1 have "cancel_by_maker_salt (c_maker data) x (sy_db s1) =
        (Inr (), close_rows Cancelled (\<lambda>r. sql_eq (r_maker r) b \<and> r_salt r = x) (sy_db s))" for x
      by (simp add: cancel_by_maker_salt_def exec_update_healthy)
    then have "sy_db s' = close_rows Cancelled
        (\<lambda>r. sql_eq (r_maker r) b \<and> r_salt r = fst (big_set_string (c_salt data))) (sy_db s)"
      using assms(2) data l
      by (auto simp: handle_order_cancelled_def on_db_simps Let_def dest: notify_cancelled_db)
    with data Inr show ?thesis by blast
  qed
qed

lemma counter_effect:
  assumes "healthy (sy_db s)" and "handle_counter_incremented es e s = Some (Inr u, s')"
  shows "\<exists>data b. unmarshal_counter_incremented (e_event_data e) = Inr data \<and>
    hex_decode (i_maker data) = Inr b \<and>
    sy_db s' = close_rows Cancelled (\<lambda>r. sql_eq (r_maker r) b \<and> r_counter r < fst (big_set_string (i_counter data))) (sy_db s)"
proof -
  from assms(2) obtain data where data: "unmarshal_counter_incremented (e_event_data e) = Inr data"
    by (auto simp: handle_counter_incremented_def split: sum.splits)
  obtain cs s1 where l: "listed_collections (i_maker data) s = (cs, s1)"
    by fastforce
  note s1 = listed_collections_db [OF assms(1) l]
  show ?thesis
  proof (cases "hex_decode (i_maker data)")
    case (Inl x)
    with assms(2) data l show ?thesis
      by (simp add: handle_counter_incremented_def on_db_simps cancel_by_maker_counter_def)
  next
    case (Inr b)
    with assms(1) s1 have "cancel_by_maker_counter (i_maker data) x (sy_db s1) =
        (Inr (), close_rows Cancelled (\<lambda>r. sql_eq (r_maker r) b \<and> r_counter r < x) (sy_db s))" for x
      by (simp add: cancel_by_maker_counter_def exec_update_healthy)
    then have "sy_db s' = close_rows Cancelled
        (\<lambda>r. sql_eq (r_maker r) b \<and> r_counter r < fst (big_set_string (i_counter data))) (sy_db s)"
      using assms(2) data l
      by (auto simp: handle_counter_incremented_def on_db_simps Let_def)
    with data Inr show ?thesis by blast
  qed
qed

lemma collection_effect:
  assumes "healthy (sy_db s)" and "handle_collection_updated es e s = Some (Inr u, s')"
  shows "\<exists>c blocked. unmarshal_collection_updated (e_event_data e) = Inr (c, blocked) \<and>
    (if blocked then \<exists>b. hex_decode c = Inr b \<and>
       sy_db s' = close_rows Cancelled (\<lambda>r. sql_eq (r_collection r) b) (sy_db s)
     else sy_db s' = sy_db s)"
proof -
  from assms(2) obtain c blocked where data: "unmarshal_collection_updated (e_event_data e) = Inr (c, blocked)"
    by (auto simp: handle_collection_updated_def split: sum.splits)
  show ?thesis
  proof (cases "blocked")
    case False
    with assms(2) data show ?thesis
      by (auto simp: handle_collection_updated_def)
  next
    case True
    show ?thesis
    proof (cases "hex_decode c")
      case (Inl x)
      with assms(2) data True show ?thesis
        by (simp add: handle_collection_updated_def on_db_simps cancel_by_collection_def)
    next
      case (Inr b)
      with assms(1) have "cancel_by_collection c (sy_db s) =
          (Inr (), close_rows Cancelled (\<lambda>r. sql_eq (r_collection r) b) (sy_db s))"
        by (simp add: cancel_by_collection_def exec_update_healthy)
      with assms(2) data Inr True show ?thesis
        by (auto simp: handle_collection_updated_def on_db_simps)
    qed
  qed
qed

lemma event_names_distinct:
  "EventOrderCancelled \<noteq> EventOrderFulfilled" "EventCounterIncremented \<noteq> EventOrderFulfilled"
  "EventCollectionUpdated \<noteq> EventOrderFulfilled" "EventCounterIncremented \<noteq> EventOrderCancelled"
  "EventCollectionUpdated \<noteq> EventOrderCancelled" "EventCollectionUpdated \<noteq> EventCounterIncremented"
  by (simp_all add: event_names)

lemma handle_effect:
  assumes "healthy (sy_db s)" and "handle es e s = Some (Inr u, s')"
  shows "\<exists>st P. event_closes e = Some (st, P) \<and> st \<noteq> Active \<and> sy_db s' = close_rows st P (sy_db s)"
proof -
  consider "e_event_name e = EventOrderFulfilled" | "e_event_name e = EventOrderCancelled"
    | "e_event_name e = EventCounterIncremented" | "e_event_name e = EventCollectionUpdated"
    | "e_event_name e \<notin> {EventOrderFulfilled, EventOrderCancelled, EventCounterIncremented, EventCollectionUpdated}"
    by blast
  then show ?thesis
  proof cases
    case 1
    then show ?thesis
      using fulfilled_effect [OF assms(1)] assms(2)
      by (fastforce simp: handle_def event_closes_def closes_where_def)
  next
    case 2
    then show ?thesis
      using cancelled_effect [OF assms(1)] assms(2) event_names_distinct
      by (fastforce simp: handle_def event_closes_def closes_where_def)
  next
    case 3
    then show ?thesis
      using counter_effect [OF assms(1)] assms(2) event_names_distinct
      by (fastforce simp: handle_def event_closes_def closes_where_def)
  next
    case 4
    then have "handle_collection_updated es e s = Some (Inr u, s')"
      using assms(2) event_names_distinct by (simp add: handle_def)
    from collection_effect [OF assms(1) this] 4 event_names_distinct show ?thesis
      by (auto simp: event_closes_def closes_where_def split: if_splits)
  next
    case 5
    with assms(2) show ?thesis
      by (simp add: handle_def event_closes_def)
  qed
qed

lemma fulfilled_failure:
  assumes "healthy (sy_db s)" and "handle_order_fulfilled es e s = Some (Inl x, s')"
  shows "sy_db s' = sy_db s \<and> (case unmarshal_order_fulfilled (e_event_data e) of Inl _ \<Rightarrow> True
     | Inr data \<Rightarrow> hex_decode (d_order_hash data) \<notin> range Inr)"
proof (cases "unmarshal_order_fulfilled (e_event_data e)")
  case (Inr data)
  then show ?thesis
    using assms
    by (cases "hex_decode (d_order_hash data)")
      (auto simp: handle_order_fulfilled_def on_db_simps update_status_def exec_update_healthy
        split: sum.splits option.splits)
qed (use assms in \<open>auto simp: handle_order_fulfilled_def\<close>)

lemma cancelled_failure:
  assumes "healthy (sy_db s)" and "handle_order_cancelled es e s = Some (Inl x, s')"
  shows "sy_db s' = sy_db s \<and> (case unmarshal_order_cancelled (e_event_data e) of Inl _ \<Rightarrow> True
     | Inr data \<Rightarrow> hex_decode (c_maker data) \<notin> range Inr)"
proof (cases "unmarshal_order_cancelled (e_event_data e)")
  case (Inr data)
  obtain cs s1 where l: "listed_collections (c_maker data) s = (cs, s1)"
    by fastforce
  with Inr listed_collections_db [OF assms(1) l] show ?thesis
    using assms
    by (cases "hex_decode (c_maker data)")
      (auto simp: handle_order_cancelled_def on_db_simps cancel_by_maker_salt_def exec_update_healthy Let_def)
qed (use assms in \<open>auto simp: handle_order_cancelled_def\<close>)

lemma counter_failure:
  assumes "healthy (sy_db s)" and "handle_counter_incremented es e s = Some (Inl x, s')"
  shows "sy_db s' = sy_db s \<and> (case unmarshal_counter_incremented (e_event_data e) of Inl _ \<Rightarrow> True
     | Inr data \<Rightarrow> hex_decode (i_maker data) \<notin> range Inr)"
proof (cases "unmarshal_counter_incremented (e_event_data e)")
  case (Inr data)
  obtain cs s1 where l: "listed_collections (i_maker data) s = (cs, s1)"
    by fastforce
  with Inr listed_collections_db [OF assms(1) l] show ?thesis
    using assms
    by (cases "hex_decode (i_maker data)")
      (auto simp: handle_counter_incremented_def on_db_simps cancel_by_maker_counter_def exec_update_healthy Let_def)
qed (use assms in \<open>auto simp: handle_counter_incremented_def\<close>)

lemma collection_failure:
  assumes "healthy (sy_db s)" and "handle_collection_updated es e s = Some (Inl x, s')"
  shows "sy_db s' = sy_db s \<and> (case unmarshal_collection_updated (e_event_data e) of Inl _ \<Rightarrow> True
     | Inr (c, blocked) \<Rightarrow> blocked \<and> hex_decode c \<notin> range Inr)"
proof (cases "unmarshal_collection_updated (e_event_data e)")
  case (Inr data)
  obtain c blocked where "data = (c, blocked)"
    by fastforce
  with Inr show ?thesis
    using assms
    by (cases "hex_decode c")
      (auto simp: handle_collection_updated_def on_db_simps cancel_by_collection_def exec_update_healthy
        split: if_splits)
qed (use assms in \<open>auto simp: handle_collection_updated_def\<close>)

lemma closes_where_None: "hex_decode t \<notin> range Inr \<Longrightarrow> closes_where st col extra t = None"
  by (cases "hex_decode t") (auto simp: closes_where_def)

lemma handle_failure:
  assumes "healthy (sy_db s)" and "handle es e s = Some (Inl x, s')"
  shows "event_closes e = None \<and> sy_db s' = sy_db s"
proof -
  consider "e_event_name e = EventOrderFulfilled" | "e_event_name e = EventOrderCancelled"
    | "e_event_name e = EventCounterIncremented" | "e_event_name e = EventCollectionUpdated"
    | "e_event_name e \<notin> {EventOrderFulfilled, EventOrderCancelled, EventCounterIncremented, EventCollectionUpdated}"
    by blast
  then show ?thesis
  proof cases
    case 1
    with assms(2) have "handle_order_fulfilled es e s = Some (Inl x, s')"
      by (simp add: handle_def)
    from fulfilled_failure [OF assms(1) this] 1 show ?thesis
      by (auto simp: event_closes_def closes_where_None split: sum.splits)
  next
    case 2
    with assms(2) event_names_distinct have "handle_order_cancelled es e s = Some (Inl x, s')"
      by (simp add: handle_def)
    from cancelled_failure [OF assms(1) this] 2 event_names_distinct show ?thesis
      by (auto simp: event_closes_def closes_where_None split: sum.splits)
  next
    case 3
    with assms(2) event_names_distinct have "handle_counter_incremented es e s = Some (Inl x, s')"
      by (simp add: handle_def)
    from counter_failure [OF assms(1) this] 3 event_names_distinct show ?thesis
      by (auto simp: event_closes_def closes_where_None split: sum.splits)
  next
    case 4
    with assms(2) event_names_distinct have "handle_collection_updated es e s = Some (Inl x, s')"
      by (simp add: handle_def)
    from collection_failure [OF assms(1) this] 4 event_names_distinct show ?thesis
      by (auto simp: event_closes_def closes_where_None split: sum.splits prod.splits)
  next
    case 5
    with assms(2) show ?thesis
      by (simp add: handle_def)
  qed
qed

text \<open>A cancellation arriving at a book with one listing, for the concrete instances.\<close>

definition sample_services :: "(string \<Rightarrow> json option) services" where
  "sample_services = \<lparr>es_redis = map_redis, es_order = (\<lambda>s. sorted_list_of_set s)\<rparr>"

definition sample_system :: "(string \<Rightarrow> json option) system" where
  "sample_system = \<lparr>sy_db = sample_db, sy_cache = (\<lambda>k. None), sy_hub = new_hub []\<rparr>"

definition cancel_event :: contract_event where
  "cancel_event = \<lparr>e_id = 0, e_block_number = 7, e_tx_hash = ''0xab'', e_tx_index = 1, e_log_index = 2,
     e_event_name = EventOrderCancelled,
     e_event_data = marshal_order_cancelled \<lparr>c_maker = ''0x1A'', c_salt = ''1''\<rparr>, e_removed = False\<rparr>"

lemma cancel_handled: "\<exists>s. handle sample_services cancel_event sample_system = Some (Inr (), s)"
proof -
  have "(case handle sample_services cancel_event sample_system of Some (Inr u, s) \<Rightarrow> True | _ \<Rightarrow> False)"
    by code_simp
  then show ?thesis
    by (auto split: option.splits sum.splits prod.splits)
qed

lemma cancel_closes: "event_closes cancel_event = Some (Cancelled, \<lambda>r. r_maker r = Some [26] \<and> r_salt r = 1)"
proof -
  have "hex_decode ''0x1A'' = Inr (Some [26])" "big_set_string ''1'' = (1, True)"
    by code_simp+
  then show ?thesis
    using event_names_distinct by (simp add: event_closes_def cancel_event_def closes_where_def)
qed

lemma sample_system_healthy: "healthy (sy_db sample_system)"
  by (simp add: sample_system_def)

text \<open>
  C4: Handling an event closes exactly the orders the event is about: a fill closes the order with its
  hash, a cancellation the maker's orders with its salt, a new counter the maker's orders below
  it, a blocked collection its orders; closed orders and all other rows and tables stay as they
  were.
\<close>

theorem handle_refines:
  assumes "healthy (sy_db s)" and "handle es e s = Some (Inr (), s')"
  shows "\<exists>st P. event_closes e = Some (st, P) \<and> sy_db s' = (sy_db s)\<lparr>t_orders :=
    map (\<lambda>r. if P r \<and> r_status r = Active then r\<lparr>r_status := st, r_updated_at := db_now (sy_db s)\<rparr> else r)
      (t_orders (sy_db s))\<rparr>"
proof -
  from handle_effect [OF assms] obtain st P where "event_closes e = Some (st, P)"
    and "sy_db s' = close_rows st P (sy_db s)" by blast
  moreover have "update_active st now P = (\<lambda>r. if P r \<and> r_status r = Active
      then r\<lparr>r_status := st, r_updated_at := now\<rparr> else r)" for now
    by (simp add: update_active_def fun_eq_iff)
  ultimately show ?thesis
    by (intro exI [of _ st] exI [of _ P]) (simp add: close_rows_def)
qed

theorem handle_refines_witness:
  "\<exists>s. handle sample_services cancel_event sample_system = Some (Inr (), s) \<and>
     map r_status (t_orders (sy_db s)) = [Cancelled]"
proof -
  from cancel_handled obtain s where s: "handle sample_services cancel_event sample_system = Some (Inr (), s)"
    by blast
  from handle_refines [OF sample_system_healthy s] s show ?thesis
    by (intro exI [of _ s]) (auto simp: cancel_closes sample_system_def sample_row_def)
qed

subsection \<open>Replay\<close>

lemma event_closes_stable:
  "event_closes e = Some (st, P) \<Longrightarrow> P (update_active st' now Q r) = P r"
  by (auto simp: event_closes_def closes_where_def split: if_splits sum.splits prod.splits)

text \<open>
  Handling is idempotent: an event that is delivered twice leaves the database as the first
  delivery left it.
\<close>

theorem handle_replay:
  assumes "healthy (sy_db s)" and "handle es e s = Some (Inr (), s1)" and "handle es e s1 = Some (Inr (), s2)"
  shows "sy_db s2 = sy_db s1"
proof -
  from handle_effect [OF assms(1,2)] obtain st P where P: "event_closes e = Some (st, P)" "st \<noteq> Active"
    and s1: "sy_db s1 = close_rows st P (sy_db s)" by blast
  have "healthy (sy_db s1)"
    using assms(1) by (simp add: s1)
  from handle_effect [OF this assms(3)] P(1) have s2: "sy_db s2 = close_rows st P (sy_db s1)"
    by auto
  have "update_active st now' P (update_active st now P r) = update_active st now P r" for now' now r
    using P by (auto simp: update_active_def [of st now'] event_closes_stable update_active_status)
  then show ?thesis
    by (simp add: s1 s2 close_rows_def)
qed

theorem handle_replay_witness:
  "\<exists>s1 s2. handle sample_services cancel_event sample_system = Some (Inr (), s1) \<and>
     handle sample_services cancel_event s1 = Some (Inr (), s2) \<and> sy_db s2 = sy_db s1"
proof -
  from cancel_handled obtain s1 where s1: "handle sample_services cancel_event sample_system = Some (Inr (), s1)"
    by blast
  have "(case handle sample_services cancel_event sample_system of Some (Inr u, s) \<Rightarrow>
      (case handle sample_services cancel_event s of Some (Inr u, s') \<Rightarrow> True | _ \<Rightarrow> False) | _ \<Rightarrow> False)"
    by code_simp
  then obtain s2 where s2: "handle sample_services cancel_event s1 = Some (Inr (), s2)"
    using s1 by (auto split: option.splits sum.splits prod.splits)
  from handle_replay [OF sample_system_healthy s1 s2] s1 s2 show ?thesis
    by blast
qed

subsection \<open>Notifications\<close>

lemma broadcast_nobody:
  assumes "receivers h c = {}" and "order {} = []"
  shows "broadcast order c msg h = Some h"
  using assms by (simp add: broadcast_def)

lemma send_message_nobody:
  assumes "receivers (sy_hub s) c = {}" and "es_order es {} = []"
  shows "send_message es c t p s = Some s"
  by (simp add: send_message_def broadcast_nobody [where order = "es_order es", OF assms])

text \<open>
  The message about a raised counter reaches nobody: it is broadcast to the empty collection, to
  which no connection made through the WebSocket handler can subscribe; the hub is left exactly
  as it was.
\<close>

theorem counter_message_lost:
  assumes "healthy (sy_db s)" and "hub_step\<^sup>*\<^sup>* (start_world allowed) w" and "sy_hub s = w_hub w"
    and "es_order es {} = []" and "handle_counter_incremented es e s = Some (r, s')"
  shows "sy_hub s' = sy_hub s"
proof -
  have none: "receivers (sy_hub s) [] = {}"
    using no_anonymous_receivers [OF assms(2)] assms(3) by simp
  show ?thesis
  proof (cases "unmarshal_counter_incremented (e_event_data e)")
    case (Inl x)
    with assms(5) show ?thesis by (simp add: handle_counter_incremented_def)
  next
    case (Inr data)
    obtain cs s1 where l: "listed_collections (i_maker data) s = (cs, s1)"
      by fastforce
    have hub: "sy_hub s1 = sy_hub s"
      using listed_collections_db [OF assms(1) l] by simp
    obtain x s2 where c: "on_db (cancel_by_maker_counter (i_maker data) (fst (big_set_string (i_counter data)))) s1 = (x, s2)"
      by fastforce
    then have hub2: "sy_hub s2 = sy_hub s"
      unfolding hub [symmetric] by (rule on_db_hub)
    let ?s3 = "foldl (\<lambda>st c. drop_cached es c st) s2 cs"
    have s3: "sy_hub ?s3 = sy_hub s"
      using hub2 by simp
    with none have quiet: "send_message es [] t p ?s3 = Some ?s3" for t p
      by (intro send_message_nobody assms(4)) simp
    show ?thesis
    proof (cases x)
      case (Inl y)
      then have "s' = s2"
        using assms(5) Inr l c by (simp add: handle_counter_incremented_def)
      with hub2 show ?thesis by simp
    next
      case ok: (Inr u)
      have "handle_counter_incremented es e s = Some (Inr (), ?s3)"
        using ok Inr l c by (simp add: handle_counter_incremented_def quiet)
      with assms(5) have "s' = ?s3" by simp
      with s3 show ?thesis by (simp only:)
    qed
  qed
qed

theorem counter_message_lost_witness:
  "\<exists>r s'. handle_counter_incremented sample_services
       (cancel_event\<lparr>e_event_data := marshal_counter_incremented \<lparr>i_maker = ''0x1A'', i_counter = ''5''\<rparr>\<rparr>)
       (sample_system\<lparr>sy_hub := w_hub world1\<rparr>) = Some (r, s') \<and>
     sy_hub s' = w_hub world1 \<and> map_option c_send (h_store (sy_hub s') 1) = Some []"
proof -
  let ?e = "cancel_event\<lparr>e_event_data := marshal_counter_incremented \<lparr>i_maker = ''0x1A'', i_counter = ''5''\<rparr>\<rparr>"
  let ?s = "sample_system\<lparr>sy_hub := w_hub world1\<rparr>"
  have "(case handle_counter_incremented sample_services ?e ?s of Some (r, s) \<Rightarrow> True | _ \<Rightarrow> False)"
    by code_simp
  then obtain r s' where h: "handle_counter_incremented sample_services ?e ?s = Some (r, s')"
    by (auto split: option.splits)
  have pre: "healthy (sy_db ?s)" "sy_hub ?s = w_hub world1" "es_order sample_services {} = []"
    by (simp_all add: sample_system_def sample_services_def)
  have run: "hub_step\<^sup>*\<^sup>* (start_world []) world1"
    by (rule r_into_rtranclp [where r = hub_step, OF world_steps(1)])
  have "sy_hub s' = w_hub world1"
    using counter_message_lost [OF pre(1) run pre(2,3) h] pre(2) by simp
  moreover have "map_option c_send (h_store (w_hub world1) 1) = Some []"
    by (simp add: world_defs)
  ultimately show ?thesis
    using h by (intro exI [of _ r] exI [of _ s']) simp
qed

subsection \<open>Handling always returns\<close>

text \<open>\<open>order\<close> lists every finite set of keys, each key once.\<close>

definition enumerates :: "(nat set \<Rightarrow> nat list) \<Rightarrow> bool" where
  "enumerates order \<longleftrightarrow> (\<forall>S. finite S \<longrightarrow> set (order S) = S \<and> distinct (order S))"

definition system_ok :: "'r system \<Rightarrow> bool" where
  "system_ok s \<longleftrightarrow> healthy (sy_db s) \<and> hub_ok (sy_hub s) \<and> finite (h_clients (sy_hub s))"

text \<open>From \<open>s\<close> to \<open>s'\<close> the system stays in order and the event log stays as it was.\<close>

definition calm :: "'r system \<Rightarrow> 'r system \<Rightarrow> bool" where
  "calm s s' \<longleftrightarrow> (system_ok s \<longrightarrow> system_ok s' \<and> t_events (sy_db s') = t_events (sy_db s))"

lemma calm_refl [simp]: "calm s s"
  by (simp add: calm_def)

lemma calm_trans: "calm s t \<Longrightarrow> calm t u \<Longrightarrow> calm s u"
  by (simp add: calm_def)

definition quiet :: "(db \<Rightarrow> 'a \<times> db) \<Rightarrow> bool" where
  "quiet f \<longleftrightarrow> (\<forall>d. healthy d \<longrightarrow> healthy (snd (f d)) \<and> t_events (snd (f d)) = t_events d)"

lemma quiet_on_db: "quiet f \<Longrightarrow> on_db f s = (x, s') \<Longrightarrow> calm s s'"
  by (auto simp: on_db_simps quiet_def calm_def system_ok_def)

lemma close_rows_events [simp]: "t_events (close_rows st P d) = t_events d"
  by (simp add: close_rows_def)

lemma quiet_updates:
  "quiet (update_status h st)" "quiet (cancel_by_maker_salt m x)"
  "quiet (cancel_by_maker_counter m x)" "quiet (cancel_by_collection c)"
  by (auto simp: quiet_def update_status_def cancel_by_maker_salt_def cancel_by_maker_counter_def
      cancel_by_collection_def exec_update_healthy split: sum.split)

lemma quiet_reads: "quiet (find_by_hash h)" "quiet (get_maker_active_collections m)"
  by (auto simp: quiet_def find_by_hash_def get_maker_active_collections_def db_exec_healthy
      select_stmt_def maker_collections_stmt_def split: sum.split list.split)

lemma broadcast_ok:
  assumes "enumerates order" and "hub_ok h" and "finite (h_clients h)"
  shows "\<exists>h'. broadcast order c m h = Some h' \<and> hub_ok h' \<and> h_clients h' = h_clients h"
proof -
  have sub: "subscribers h c \<subseteq> h_clients h"
    by (auto simp: subscribers_def)
  have "finite (subscribers h c)"
    by (rule finite_subset [OF sub assms(3)])
  with assms(1) have "set (order (subscribers h c)) = subscribers h c \<and> distinct (order (subscribers h c))"
    by (simp only: enumerates_def)
  with sub have "set (order (subscribers h c)) \<subseteq> h_clients h" "distinct (order (subscribers h c))"
    by simp_all
  from offer_all_ok [OF assms(2) this, of "marshal_message m"] show ?thesis
    unfolding broadcast_def receivers_ok [OF assms(2)] by blast
qed

lemma send_message_calm:
  assumes "enumerates (es_order es)" and "system_ok s"
  shows "\<exists>s'. send_message es c t p s = Some s' \<and> calm s s'"
proof -
  have "hub_ok (sy_hub s)" "finite (h_clients (sy_hub s))"
    using assms(2) by (simp_all add: system_ok_def)
  from broadcast_ok [OF assms(1) this, of c "\<lparr>g_type = t, g_payload = p\<rparr>"] obtain h' where
    "broadcast (es_order es) c \<lparr>g_type = t, g_payload = p\<rparr> (sy_hub s) = Some h'"
    "hub_ok h'" "h_clients h' = h_clients (sy_hub s)" by blast
  note h = this
  have "system_ok (s\<lparr>sy_hub := h'\<rparr>)"
    using assms(2) h(2,3) unfolding system_ok_def by simp
  then have "calm s (s\<lparr>sy_hub := h'\<rparr>)"
    by (simp add: calm_def)
  moreover have "send_message es c t p s = Some (s\<lparr>sy_hub := h'\<rparr>)"
    by (simp only: send_message_def h(1) option.map)
  ultimately show ?thesis by blast
qed

lemma drop_cached_calm: "calm s (drop_cached es c s)" "calm s (foldl (\<lambda>st c. drop_cached es c st) s cs)"
  by (simp_all add: calm_def system_ok_def)

lemma notify_cancelled_calm:
  assumes "enumerates (es_order es)" and "system_ok s"
  shows "\<exists>s'. notify_cancelled es data cs s = Some s' \<and> calm s s'"
  using assms(2)
proof (induction cs arbitrary: s)
  case (Cons c cs)
  have "system_ok (drop_cached es c s)"
    using Cons.prems by (simp add: system_ok_def)
  from send_message_calm [OF assms(1) this] obtain s1 where
    s1: "send_message es c ''order:cancelled'' (cancelled_payload data) (drop_cached es c s) = Some s1"
    "calm (drop_cached es c s) s1" by blast
  then have c1: "calm s s1"
    using calm_trans drop_cached_calm(1) by blast
  with Cons.prems have "system_ok s1" by (simp add: calm_def)
  from Cons.IH [OF this] s1(1) calm_trans [OF c1] show ?case by auto
qed simp

definition returns :: "'r system \<Rightarrow> 'r handled \<Rightarrow> bool" where
  "returns s h \<longleftrightarrow> (\<exists>r s'. h = Some (r, s') \<and> calm s s')"

lemma returnsI: "calm s s' \<Longrightarrow> returns s (Some (r, s'))"
  by (simp add: returns_def)

lemma returns_send:
  assumes "enumerates (es_order es)" and "system_ok s" and "calm s s1"
  shows "returns s (map_option (\<lambda>x. (r, x)) (send_message es c t p s1))"
proof -
  have "system_ok s1" using assms(2,3) by (simp add: calm_def)
  from send_message_calm [OF assms(1) this] calm_trans [OF assms(3)] show ?thesis
    by (fastforce simp: returns_def)
qed

lemma handle_returns:
  assumes "enumerates (es_order es)" and "system_ok s"
  shows "returns s (handle es e s)"
proof -
  have "returns s (handle_order_fulfilled es e s)"
  proof (cases "unmarshal_order_fulfilled (e_event_data e)")
    case (Inr data)
    obtain x s1 where u: "on_db (update_status (d_order_hash data) Filled) s = (x, s1)"
      by fastforce
    obtain y s2 where f: "on_db (find_by_hash (d_order_hash data)) s1 = (y, s2)"
      by fastforce
    note c1 = quiet_on_db [OF quiet_updates(1) u]
    note c2 = calm_trans [OF c1 quiet_on_db [OF quiet_reads(1) f]]
    have "returns s (map_option (\<lambda>x. (Inr (), x)) (send_message es (o_collection od) t p
        (drop_cached es (o_collection od) s2)))" for od t p
      by (rule returns_send [OF assms calm_trans [OF c2 drop_cached_calm(1)]])
    with Inr u f c1 c2 show ?thesis
      by (auto simp: handle_order_fulfilled_def intro: returnsI split: sum.split option.split)
  qed (simp add: handle_order_fulfilled_def returnsI)
  moreover have "returns s (handle_order_cancelled es e s)"
  proof (cases "unmarshal_order_cancelled (e_event_data e)")
    case (Inr data)
    obtain cs s1 where l: "listed_collections (c_maker data) s = (cs, s1)"
      by fastforce
    then have c1: "calm s s1"
      using quiet_on_db [OF quiet_reads(2), of "c_maker data" s]
      by (auto simp: listed_collections_def split: prod.splits sum.splits)
    obtain x s2 where u: "on_db (cancel_by_maker_salt (c_maker data) (fst (big_set_string (c_salt data)))) s1 = (x, s2)"
      by fastforce
    note c2 = calm_trans [OF c1 quiet_on_db [OF quiet_updates(2) u]]
    then have "system_ok s2" using assms(2) by (simp add: calm_def)
    from notify_cancelled_calm [OF assms(1) this, of data cs] calm_trans [OF c2]
    have "returns s (map_option (\<lambda>x. (Inr (), x)) (notify_cancelled es data cs s2))"
      by (fastforce simp: returns_def)
    with Inr l u c2 show ?thesis
      by (auto simp: handle_order_cancelled_def intro: returnsI split: sum.split)
  qed (simp add: handle_order_cancelled_def returnsI)
  moreover have "returns s (handle_counter_incremented es e s)"
  proof (cases "unmarshal_counter_incremented (e_event_data e)")
    case (Inr data)
    obtain cs s1 where l: "listed_collections (i_maker data) s = (cs, s1)"
      by fastforce
    then have c1: "calm s s1"
      using quiet_on_db [OF quiet_reads(2), of "i_maker data" s]
      by (auto simp: listed_collections_def split: prod.splits sum.splits)
    obtain x s2 where u: "on_db (cancel_by_maker_counter (i_maker data) (fst (big_set_string (i_counter data)))) s1 = (x, s2)"
      by fastforce
    note c2 = calm_trans [OF c1 quiet_on_db [OF quiet_updates(3) u]]
    have "returns s (map_option (\<lambda>x. (Inr (), x)) (send_message es [] t p
        (foldl (\<lambda>st c. drop_cached es c st) s2 cs)))" for t p
      by (rule returns_send [OF assms calm_trans [OF c2 drop_cached_calm(2)]])
    with Inr l u c2 show ?thesis
      by (auto simp: handle_counter_incremented_def intro: returnsI split: sum.split)
  qed (simp add: handle_counter_incremented_def returnsI)
  moreover have "returns s (handle_collection_updated es e s)"
  proof (cases "unmarshal_collection_updated (e_event_data e)")
    case (Inr cb)
    obtain c b where cb: "cb = (c, b)" by fastforce
    obtain x s1 where u: "on_db (cancel_by_collection c) s = (x, s1)"
      by fastforce
    note c1 = quiet_on_db [OF quiet_updates(4) u]
    have "returns s (map_option (\<lambda>x. (Inr (), x)) (send_message es c t p (drop_cached es c s1)))"
      "returns s (map_option (\<lambda>x. (Inr (), x)) (send_message es c t p s))" for t p
      by (rule returns_send [OF assms calm_trans [OF c1 drop_cached_calm(1)]],
          rule returns_send [OF assms calm_refl])
    with Inr cb u c1 show ?thesis
      by (auto simp: handle_collection_updated_def intro: returnsI split: sum.split)
  qed (simp add: handle_collection_updated_def returnsI)
  ultimately show ?thesis
    by (simp add: handle_def returnsI)
qed

lemma handle_exact:
  assumes "enumerates (es_order es)" and "system_ok s"
  obtains r s' where "handle es e s = Some (r, s')" and "system_ok s'"
    and "sy_db s' = (case event_closes e of None \<Rightarrow> sy_db s | Some (st, P) \<Rightarrow> close_rows st P (sy_db s))"
proof -
  from handle_returns [OF assms, of e] obtain r s' where h: "handle es e s = Some (r, s')" and c: "calm s s'"
    unfolding returns_def by blast
  have "healthy (sy_db s)"
    using assms(2) by (simp add: system_ok_def)
  then have "sy_db s' = (case event_closes e of None \<Rightarrow> sy_db s | Some (st, P) \<Rightarrow> close_rows st P (sy_db s))"
    using handle_failure [of s es e _ s'] handle_effect [of s es e _ s'] h by (cases r) fastforce+
  with that h c assms(2) show ?thesis
    by (simp add: calm_def)
qed

end
