(* ===== verification/CollectionRepo.thy ===== *)
theory CollectionRepo
  imports OrderRepoFacts
begin

section \<open>internal/repository/collection.go\<close>

text \<open>
  \<open>CollectionRepo\<close>: collections and the metadata of single tokens, both cached copies of chain data
  with the time of their last synchronisation.  A \<open>JSONB\<close> value is stored as it is given (the
  server's normalisation of repeated member names is not modelled).
\<close>

subsection \<open>internal/domain/collection.go\<close>

record collection =
  l_address :: string
  l_chain_id :: int
  l_name :: string
  l_symbol :: string
  l_image_url :: string
  l_metadata :: "json option"
  l_synced_at :: instant

record nft_metadata =
  m_collection :: string
  m_token_id :: "int option"
  m_name :: string
  m_description :: string
  m_image_url :: string
  m_attributes :: "json option"
  m_synced_at :: instant

record collection_detail =
  cd_collection :: collection
  cd_floor_price :: "int option"
  cd_best_bid :: "int option"
  cd_listed :: int

record global_stats =
  gs_total_orders :: int
  gs_total_collections :: int
  gs_total_traders :: int

subsection \<open>ILIKE\<close>

text \<open>\<open>%\<close> stands for any text, \<open>_\<close> for one character, a backslash quotes the next one.\<close>

function (sequential) sql_like :: "string \<Rightarrow> string \<Rightarrow> bool" where
  "sql_like [] s \<longleftrightarrow> s = []"
| "sql_like (p # ps) s \<longleftrightarrow>
     (if p = CHR ''%'' then sql_like ps s \<or> (case s of [] \<Rightarrow> False | _ # s' \<Rightarrow> sql_like (p # ps) s')
      else if p = CHR ''_'' then (case s of [] \<Rightarrow> False | _ # s' \<Rightarrow> sql_like ps s')
      else if p = CHR 0x5C then
        (case ps of [] \<Rightarrow> False | q # qs \<Rightarrow> (case s of [] \<Rightarrow> False | c # s' \<Rightarrow> c = q \<and> sql_like qs s'))
      else (case s of [] \<Rightarrow> False | c # s' \<Rightarrow> c = p \<and> sql_like ps s'))"
  by pat_completeness auto
termination by (relation "measure (\<lambda>(p, s). length p + length s)") auto

definition sql_ilike :: "string \<Rightarrow> string \<Rightarrow> bool" where
  "sql_ilike s p = sql_like (to_lower p) (to_lower s)"

subsection \<open>Collections\<close>

definition upsert_collection_stmt :: "int \<Rightarrow> collection \<Rightarrow> bytes option \<Rightarrow> unit stmt" where
  "upsert_collection_stmt chain c addr d =
     (if addr = None then Inl (pq_error ''null value in column address violates not-null constraint'')
      else if \<not> int4_ok chain then Inl (pq_error ''value out of range for type integer'')
      else if \<exists>r \<in> set (t_collections d). k_address r = addr
      then Inr ((), d\<lparr>t_collections := map (\<lambda>r. if k_address r = addr
              then r\<lparr>k_name := l_name c, k_symbol := l_symbol c, k_image_url := l_image_url c,
                     k_metadata := l_metadata c, k_synced_at := db_now d\<rparr> else r) (t_collections d)\<rparr>)
      else Inr ((), d\<lparr>t_collections := t_collections d @
              [\<lparr>k_address = addr, k_chain_id = chain, k_name = l_name c, k_symbol = l_symbol c,
                k_image_url = l_image_url c, k_metadata = l_metadata c, k_synced_at = db_now d\<rparr>]\<rparr>))"

definition upsert_collection :: "int \<Rightarrow> collection \<Rightarrow> db \<Rightarrow> unit result \<times> db" where
  "upsert_collection chain c d =
     (case wrap_err ''decode address'' (hex_decode (l_address c)) of
        Inl e \<Rightarrow> (Inl e, d)
      | Inr addr \<Rightarrow> db_exec ''upsert collection'' (upsert_collection_stmt chain c addr) d)"

definition scan_collection :: "collection_row \<Rightarrow> collection" where
  "scan_collection r = \<lparr>
     l_address = ''0x'' @ (case k_address r of None \<Rightarrow> [] | Some b \<Rightarrow> hex_encode_to_string b),
     l_chain_id = k_chain_id r, l_name = k_name r, l_symbol = k_symbol r,
     l_image_url = k_image_url r, l_metadata = k_metadata r, l_synced_at = k_synced_at r\<rparr>"

definition search_condition :: "string \<Rightarrow> collection_row \<Rightarrow> bool" where
  "search_condition search r \<longleftrightarrow>
     (if search = [] then True
      else sql_ilike (k_name r) (''%'' @ search @ ''%'') \<or> sql_ilike (k_symbol r) (''%'' @ search @ ''%''))"

definition collection_count_stmt :: "(collection_row \<Rightarrow> bool) \<Rightarrow> int stmt" where
  "collection_count_stmt P d = Inr (int (length (filter P (t_collections d))), d)"

definition collection_page_stmt :: "(collection_row \<Rightarrow> bool) \<Rightarrow> int \<Rightarrow> int \<Rightarrow> collection_row list stmt" where
  "collection_page_stmt P limit offset d =
     (if offset < 0 then Inl (pq_error ''OFFSET must not be negative'')
      else Inr (page_of limit offset (sort_key (\<lambda>r. - k_synced_at r) (filter P (t_collections d))), d))"

definition find_all_collections_paged ::
  "string \<Rightarrow> int \<Rightarrow> int \<Rightarrow> db \<Rightarrow> (collection list \<times> int) result \<times> db" where
  "find_all_collections_paged search page0 pageSize0 d =
     (let pageSize = (if pageSize0 \<le> 0 then 20 else pageSize0);
          page = (if page0 \<le> 0 then 1 else page0);
          offset = wrap64 ((page - 1) * pageSize)
      in case db_exec ''count collections'' (collection_count_stmt (search_condition search)) d of
           (Inl e, d1) \<Rightarrow> (Inl e, d1)
         | (Inr cnt, d1) \<Rightarrow>
             (case db_exec ''query collections''
                     (collection_page_stmt (search_condition search) pageSize offset) d1 of
                (Inl e, d2) \<Rightarrow> (Inl e, d2)
              | (Inr rows, d2) \<Rightarrow> (Inr (map scan_collection rows, cnt), d2)))"

definition select_collections_stmt :: "(collection_row \<Rightarrow> bool) \<Rightarrow> collection_row list stmt" where
  "select_collections_stmt P d = Inr (filter P (t_collections d), d)"

definition find_by_address :: "string \<Rightarrow> db \<Rightarrow> collection option result \<times> db" where
  "find_by_address addr d =
     (case wrap_err ''decode address'' (hex_decode addr) of
        Inl e \<Rightarrow> (Inl e, d)
      | Inr b \<Rightarrow>
          (case db_exec ''query collection by address''
                  (select_collections_stmt (\<lambda>r. sql_eq (k_address r) b)) d of
             (Inl e, d1) \<Rightarrow> (Inl e, d1)
           | (Inr rows, d1) \<Rightarrow>
               (case map scan_collection rows of [] \<Rightarrow> (Inr None, d1) | c # _ \<Rightarrow> (Inr (Some c), d1))))"

definition stale_limit :: "int \<Rightarrow> int" where
  "stale_limit limit = (if limit \<le> 0 then 100 else limit)"

definition is_stale :: "instant \<Rightarrow> instant \<Rightarrow> bool" where
  "is_stale now synced \<longleftrightarrow> synced < now - 24 * 3600 * second"

definition stale_collections_stmt :: "int \<Rightarrow> collection_row list stmt" where
  "stale_collections_stmt limit d =
     Inr (take (nat limit) (sort_key k_synced_at
       (filter (\<lambda>r. is_stale (db_now d) (k_synced_at r)) (t_collections d))), d)"

definition get_stale_collections :: "int \<Rightarrow> db \<Rightarrow> collection list result \<times> db" where
  "get_stale_collections limit d =
     (case db_exec ''query stale collections'' (stale_collections_stmt (stale_limit limit)) d of
        (Inl e, d1) \<Rightarrow> (Inl e, d1)
      | (Inr rows, d1) \<Rightarrow> (Inr (map scan_collection rows), d1))"

definition all_collections_stmt :: "collection_row list stmt" where
  "all_collections_stmt d = Inr (sort_key (\<lambda>r. - k_synced_at r) (t_collections d), d)"

definition find_all_collections :: "db \<Rightarrow> collection list result \<times> db" where
  "find_all_collections d =
     (case db_exec ''query all collections'' all_collections_stmt d of
        (Inl e, d1) \<Rightarrow> (Inl e, d1)
      | (Inr rows, d1) \<Rightarrow> (Inr (map scan_collection rows), d1))"

definition get_collection_count :: "db \<Rightarrow> int result \<times> db" where
  "get_collection_count d = db_exec ''count collections'' (collection_count_stmt (\<lambda>r. True)) d"

definition get_total_orders :: "db \<Rightarrow> int result \<times> db" where
  "get_total_orders d = db_exec ''count orders'' (count_stmt (\<lambda>r. True)) d"

subsection \<open>Token metadata\<close>

definition nft_at :: "bytes option \<Rightarrow> int \<Rightarrow> nft_row \<Rightarrow> bool" where
  "nft_at coll tok r \<longleftrightarrow> sql_eq (n_collection r) coll \<and> n_token_id r = tok"

definition upsert_nft_stmt :: "nft_metadata \<Rightarrow> bytes option \<Rightarrow> unit stmt" where
  "upsert_nft_stmt m coll d =
     (let tok = fst (big_set_string (big_int_str (m_token_id m))) in
      if coll = None then Inl (pq_error ''null value in column collection violates not-null constraint'')
      else if \<not> numeric78_ok tok then Inl (pq_error ''numeric field overflow'')
      else if \<exists>r \<in> set (t_nfts d). nft_at coll tok r
      then Inr ((), d\<lparr>t_nfts := map (\<lambda>r. if nft_at coll tok r
              then r\<lparr>n_name := m_name m, n_description := m_description m, n_image_url := m_image_url m,
                     n_attributes := m_attributes m, n_synced_at := db_now d\<rparr> else r) (t_nfts d)\<rparr>)
      else Inr ((), d\<lparr>t_nfts := t_nfts d @
              [\<lparr>n_collection = coll, n_token_id = tok, n_name = m_name m,
                n_description = m_description m, n_image_url = m_image_url m,
                n_attributes = m_attributes m, n_synced_at = db_now d\<rparr>]\<rparr>))"

definition upsert_nft_metadata :: "nft_metadata \<Rightarrow> db \<Rightarrow> unit result \<times> db" where
  "upsert_nft_metadata m d =
     (case wrap_err ''decode collection'' (hex_decode (m_collection m)) of
        Inl e \<Rightarrow> (Inl e, d)
      | Inr coll \<Rightarrow> db_exec ''upsert nft metadata'' (upsert_nft_stmt m coll) d)"

definition scan_nft_metadata :: "nft_row \<Rightarrow> nft_metadata" where
  "scan_nft_metadata r = \<lparr>
     m_collection = ''0x'' @ (case n_collection r of None \<Rightarrow> [] | Some b \<Rightarrow> hex_encode_to_string b),
     m_token_id = Some (scan_big_int (dec_of_int (n_token_id r))), m_name = n_name r,
     m_description = n_description r, m_image_url = n_image_url r,
     m_attributes = n_attributes r, m_synced_at = n_synced_at r\<rparr>"

definition select_nft_stmt :: "(nft_row \<Rightarrow> bool) \<Rightarrow> nft_row list stmt" where
  "select_nft_stmt P d = Inr (filter P (t_nfts d), d)"

definition get_nft_metadata :: "string \<Rightarrow> int option \<Rightarrow> db \<Rightarrow> nft_metadata option result \<times> db" where
  "get_nft_metadata collection tokenID d =
     (case wrap_err ''decode collection'' (hex_decode collection) of
        Inl e \<Rightarrow> (Inl e, d)
      | Inr coll \<Rightarrow>
          (case db_exec ''query nft metadata''
                  (select_nft_stmt (nft_at coll (fst (big_set_string (big_int_str tokenID))))) d of
             (Inl e, d1) \<Rightarrow> (Inl e, d1)
           | (Inr rows, d1) \<Rightarrow>
               (case map scan_nft_metadata rows of [] \<Rightarrow> (Inr None, d1) | m # _ \<Rightarrow> (Inr (Some m), d1))))"

definition stale_nft_stmt :: "int \<Rightarrow> nft_row list stmt" where
  "stale_nft_stmt limit d =
     Inr (take (nat limit) (sort_key n_synced_at
       (filter (\<lambda>r. is_stale (db_now d) (n_synced_at r)) (t_nfts d))), d)"

definition get_stale_metadata :: "int \<Rightarrow> db \<Rightarrow> nft_metadata list result \<times> db" where
  "get_stale_metadata limit d =
     (case db_exec ''query stale metadata'' (stale_nft_stmt (stale_limit limit)) d of
        (Inl e, d1) \<Rightarrow> (Inl e, d1)
      | (Inr rows, d1) \<Rightarrow> (Inr (map scan_nft_metadata rows), d1))"

subsection \<open>Reading what was written\<close>

definition stored_collection :: "int \<Rightarrow> db \<Rightarrow> collection \<Rightarrow> bytes \<Rightarrow> collection" where
  "stored_collection chain d c b = c\<lparr>l_address := ''0x'' @ hex_encode_to_string b,
     l_chain_id := (case filter (\<lambda>r. k_address r = Some b) (t_collections d) of
        [] \<Rightarrow> chain | r # _ \<Rightarrow> k_chain_id r), l_synced_at := db_now d\<rparr>"

lemma upsert_collection_rows:
  assumes "healthy d" and "upsert_collection chain c d = (Inr (), d')"
  obtains b where "hex_decode (l_address c) = Inr (Some b)"
    and "d' = d\<lparr>t_collections := t_collections d'\<rparr>"
    and "t_collections d' = (if \<exists>r \<in> set (t_collections d). k_address r = Some b
      then map (\<lambda>r. if k_address r = Some b
              then r\<lparr>k_name := l_name c, k_symbol := l_symbol c, k_image_url := l_image_url c,
                     k_metadata := l_metadata c, k_synced_at := db_now d\<rparr> else r) (t_collections d)
      else t_collections d @ [\<lparr>k_address = Some b, k_chain_id = chain, k_name = l_name c,
                k_symbol = l_symbol c, k_image_url = l_image_url c, k_metadata = l_metadata c,
                k_synced_at = db_now d\<rparr>])"
proof -
  from assms obtain a where a: "hex_decode (l_address c) = Inr a"
    and "upsert_collection_stmt chain c a d = Inr ((), d')"
    by (auto simp: upsert_collection_def db_exec_healthy split: sum.splits prod.splits)
  then show thesis
    using that by (cases a) (auto simp: upsert_collection_stmt_def split: if_splits)
qed

lemma find_by_address_healthy:
  assumes "healthy d" and "hex_decode a = Inr b"
  shows "find_by_address a d =
    (Inr (case filter (\<lambda>r. sql_eq (k_address r) b) (t_collections d) of
            [] \<Rightarrow> None | r # _ \<Rightarrow> Some (scan_collection r)), d)"
  using assms by (simp add: find_by_address_def db_exec_healthy select_collections_stmt_def
      split: list.splits)

text \<open>
  After an upsert the collection is found under any spelling of its address, with the new name,
  symbol, image and metadata, marked as synchronised now and keeping the chain it was first
  recorded on; every other collection is found as before.
\<close>

theorem find_after_upsert:
  assumes "healthy d" and "upsert_collection chain c d = (Inr (), d')"
    and "hex_decode (l_address c) = Inr (Some b)" and "hex_decode a = Inr x"
  shows "fst (find_by_address a d') =
    (if x = Some b then Inr (Some (stored_collection chain d c b)) else fst (find_by_address a d))"
proof -
  from assms(1,2) obtain b' where "hex_decode (l_address c) = Inr (Some b')"
    and d': "d' = d\<lparr>t_collections := t_collections d'\<rparr>"
    and rows: "t_collections d' = (if \<exists>r \<in> set (t_collections d). k_address r = Some b'
      then map (\<lambda>r. if k_address r = Some b'
              then r\<lparr>k_name := l_name c, k_symbol := l_symbol c, k_image_url := l_image_url c,
                     k_metadata := l_metadata c, k_synced_at := db_now d\<rparr> else r) (t_collections d)
      else t_collections d @ [\<lparr>k_address = Some b', k_chain_id = chain, k_name = l_name c,
                k_symbol = l_symbol c, k_image_url = l_image_url c, k_metadata = l_metadata c,
                k_synced_at = db_now d\<rparr>])"
    by (rule upsert_collection_rows)
  with assms(3) have b: "b' = b" by simp
  have h': "healthy d'"
    using assms(1) arg_cong [OF d', of db_outcomes] by (simp add: healthy_def)
  show ?thesis
  proof (cases x)
    case None
    then show ?thesis
      using find_by_address_healthy [OF h' assms(4)] find_by_address_healthy [OF assms(1,4)]
      by (simp add: sql_eq_None)
  next
    case (Some y)
    then have sel: "(\<lambda>r. sql_eq (k_address r) x) = (\<lambda>r. k_address r = Some y)"
      by (auto simp: sql_eq_def)
    show ?thesis
    proof (cases "filter (\<lambda>r. k_address r = Some b) (t_collections d)")
      case Nil
      then have "\<not> (\<exists>r \<in> set (t_collections d). k_address r = Some b)"
        by (auto simp: filter_empty_conv)
      then show ?thesis
        using Nil assms(1,4) Some by (simp add: find_by_address_healthy h' sel rows b
            stored_collection_def scan_collection_def split: list.split)
    next
      case (Cons r rs)
      then have "\<exists>r \<in> set (t_collections d). k_address r = Some b"
        by (metis (mono_tags, lifting) filter_False list.distinct(1))
      moreover have "k_address r = Some b"
        using Cons by (auto dest: filter_eq_ConsD)
      ultimately show ?thesis
        using Cons assms(1,4) Some by (simp add: find_by_address_healthy h' sel rows b
            stored_collection_def scan_collection_def filter_update_key split: list.split)
    qed
  qed
qed

definition sample_collection :: collection where
  "sample_collection = \<lparr>l_address = ''0xAB'', l_chain_id = 0, l_name = ''Apes'', l_symbol = ''APE'',
     l_image_url = [], l_metadata = None, l_synced_at = 0\<rparr>"

lemma sample_upsert: "\<exists>d. upsert_collection 31337 sample_collection empty_db = (Inr (), d)"
proof -
  have "hex_decode ''0xAB'' = Inr (Some [171])"
    by code_simp
  then show ?thesis
    by (simp add: upsert_collection_def sample_collection_def db_exec_def run_stmt_def
        upsert_collection_stmt_def int4_ok_def empty_db_def)
qed

theorem find_after_upsert_witness:
  "\<exists>d. upsert_collection 31337 sample_collection empty_db = (Inr (), d) \<and>
     fst (find_by_address ''ab'' d) =
       Inr (Some (sample_collection\<lparr>l_address := ''0xab'', l_chain_id := 31337\<rparr>))"
proof -
  have dec: "hex_decode (l_address sample_collection) = Inr (Some [171])" "hex_decode ''ab'' = Inr (Some [171])"
    and enc: "hex_encode_to_string [171] = ''ab''"
    by code_simp+
  have h: "healthy empty_db"
    by (simp add: healthy_def empty_db_def)
  from sample_upsert obtain d where d: "upsert_collection 31337 sample_collection empty_db = (Inr (), d)"
    by blast
  from find_after_upsert [OF h d dec] d enc show ?thesis
    by (intro exI [of _ d]) (simp add: stored_collection_def empty_db_def sample_collection_def)
qed

subsection \<open>Staleness\<close>

text \<open>
  The stale collections are those whose last synchronisation is more than 24 hours old, oldest
  first, up to the limit; after an upsert of its address a collection is not among them.
\<close>

theorem upsert_refreshes:
  assumes "healthy d" and "upsert_collection chain c d = (Inr (), d')"
    and "fst (get_stale_collections n d') = Inr cs"
  shows "canon_hex (l_address c) \<notin> l_address ` set cs \<and>
    (\<forall>x \<in> set cs. l_synced_at x < db_now d - 24 * 3600 * second) \<and>
    sorted (map l_synced_at cs) \<and> int (length cs) \<le> stale_limit n"
proof -
  from assms(1,2) obtain b where b: "hex_decode (l_address c) = Inr (Some b)"
    and d': "d' = d\<lparr>t_collections := t_collections d'\<rparr>"
    and rows: "t_collections d' = (if \<exists>r \<in> set (t_collections d). k_address r = Some b
      then map (\<lambda>r. if k_address r = Some b
              then r\<lparr>k_name := l_name c, k_symbol := l_symbol c, k_image_url := l_image_url c,
                     k_metadata := l_metadata c, k_synced_at := db_now d\<rparr> else r) (t_collections d)
      else t_collections d @ [\<lparr>k_address = Some b, k_chain_id = chain, k_name = l_name c,
                k_symbol = l_symbol c, k_image_url = l_image_url c, k_metadata = l_metadata c,
                k_synced_at = db_now d\<rparr>])"
    by (rule upsert_collection_rows)
  have h': "healthy d'" and now: "db_now d' = db_now d"
    using assms(1) arg_cong [OF d', of db_outcomes] arg_cong [OF d', of db_now]
    by (simp_all add: healthy_def)
  have fresh: "r \<in> set (t_collections d') \<Longrightarrow> k_address r = Some b \<Longrightarrow> k_synced_at r = db_now d" for r
    unfolding rows by (auto split: if_splits)
  let ?rows = "take (nat (stale_limit n)) (sort_key k_synced_at
    (filter (\<lambda>r. is_stale (db_now d) (k_synced_at r)) (t_collections d')))"
  have cs: "cs = map scan_collection ?rows"
    using assms(3) h' by (simp add: get_stale_collections_def db_exec_healthy stale_collections_stmt_def now)
  have "sorted (map k_synced_at ?rows)"
    by (metis sorted_sort_key sorted_wrt_take take_map)
  then have "sorted (map l_synced_at cs)"
    by (simp add: cs scan_collection_def o_def)
  moreover have "0 < stale_limit n"
    by (simp add: stale_limit_def)
  then have "int (length cs) \<le> stale_limit n"
    by (simp add: cs)
  moreover have in_rows: "r \<in> set ?rows \<Longrightarrow> r \<in> set (t_collections d') \<and> is_stale (db_now d) (k_synced_at r)" for r
    by (auto dest: in_set_takeD)
  have "r \<in> set ?rows \<Longrightarrow> l_synced_at (scan_collection r) < db_now d - 24 * 3600 * second" for r
    using in_rows [of r] by (simp add: scan_collection_def is_stale_def)
  then have "\<forall>x \<in> set cs. l_synced_at x < db_now d - 24 * 3600 * second"
    unfolding cs by (simp only: set_map ball_simps) blast
  moreover have "canon_hex (l_address c) \<notin> l_address ` set cs"
  proof
    assume "canon_hex (l_address c) \<in> l_address ` set cs"
    then obtain r where r: "r \<in> set ?rows"
      and eq: "canon_hex (l_address c) = l_address (scan_collection r)"
      by (auto simp: cs)
    have canon: "canon_hex (l_address c) = (if b = [] then [] else ''0x'' @ hex_encode_to_string b)"
      using hex_encode_hex_decode [OF b] by (simp add: hex_encode_def)
    have "k_address r = Some b"
    proof (cases "k_address r")
      case None
      with eq canon show ?thesis
        by (simp add: scan_collection_def split: if_splits)
    next
      case (Some y)
      with eq canon show ?thesis
        by (simp add: scan_collection_def split: if_splits)
    qed
    with in_rows [OF r] fresh [of r] show False
      by (simp add: is_stale_def second_def)
  qed
  ultimately show ?thesis by blast
qed

theorem upsert_refreshes_witness:
  "\<exists>d cs. upsert_collection 31337 sample_collection empty_db = (Inr (), d) \<and>
     fst (get_stale_collections 0 d) = Inr cs \<and> canon_hex ''0xAB'' \<notin> l_address ` set cs"
proof -
  from sample_upsert obtain d where d: "upsert_collection 31337 sample_collection empty_db = (Inr (), d)"
    by blast
  have h: "healthy empty_db"
    by (simp add: healthy_def empty_db_def)
  from h d have "\<exists>v. d = empty_db\<lparr>t_collections := v\<rparr>"
    by (rule upsert_collection_rows) blast
  with h have "healthy d"
    by (auto simp: healthy_def)
  then obtain cs where cs: "fst (get_stale_collections 0 d) = Inr cs"
    by (simp add: get_stale_collections_def db_exec_healthy stale_collections_stmt_def)
  from upsert_refreshes [OF h d cs] d cs show ?thesis
    by (intro exI [of _ d] exI [of _ cs]) (simp add: sample_collection_def)
qed

end
