(* ===== verification/Metadata.thy ===== *)
theory Metadata
  imports CollectionRepo Signature
begin

section \<open>internal/service/metadata.go\<close>

text \<open>
  The fetcher of token metadata.  What is outside the repository is the record \<open>net\<close>: the
  helpers of go-ethereum (\<open>Hex2Bytes\<close>, \<open>LeftPadBytes\<close>, \<open>HexToAddress\<close>), the \<open>eth_call\<close>, the HTTP
  client and the reading of a body as JSON.  An answer of the outside world may depend on an abstract
  state \<open>'w\<close>, so that two equal calls may be answered differently.  A body is the bytes that
  arrive and the error, if any, after the last of them.
\<close>

record 'w net =
  nt_hex2bytes :: "string \<Rightarrow> bytes"
  nt_left_pad :: "bytes \<Rightarrow> nat \<Rightarrow> bytes"
  nt_address :: "string \<Rightarrow> bytes"
  nt_call :: "bytes \<Rightarrow> bytes \<Rightarrow> 'w \<Rightarrow> bytes result \<times> 'w"
  nt_new_request :: "string \<Rightarrow> unit result"
  nt_do :: "string \<Rightarrow> 'w \<Rightarrow> (bytes \<times> go_error option) result \<times> 'w"
  nt_parse :: "bytes \<Rightarrow> json result"

record fetch_job =
  j_collection :: string
  j_token_id :: int

record 'w meta_state =
  mt_db :: db
  mt_queue :: "fetch_job list"
  mt_net :: 'w

record 'w metadata_service =
  ms_net :: "'w net"
  ms_gateway :: string
  ms_chain :: int

definition queue_size :: nat where
  "queue_size = 1000"

definition new_metadata_service :: "int \<Rightarrow> 'w net \<Rightarrow> string \<Rightarrow> 'w metadata_service" where
  "new_metadata_service chain net gateway = \<lparr>ms_net = net, ms_gateway = gateway, ms_chain = chain\<rparr>"

subsection \<open>The queue\<close>

definition enqueue :: "string \<Rightarrow> string \<Rightarrow> fetch_job list \<Rightarrow> fetch_job list" where
  "enqueue collection tokenID q =
     (let tid = fst (big_set_string tokenID) in
      if length q < queue_size then q @ [\<lparr>j_collection = collection, j_token_id = tid\<rparr>] else q)"

lemma enqueue_bound: "length q \<le> queue_size \<Longrightarrow> length (enqueue c t q) \<le> queue_size"
  by (simp add: enqueue_def Let_def)

subsection \<open>Text out of a contract call\<close>

definition text_of :: "bytes \<Rightarrow> string" where
  "text_of bs = map (\<lambda>b. char_of (unat b)) bs"

definition bytes_of :: "string \<Rightarrow> bytes" where
  "bytes_of s = map (\<lambda>c. of_nat (of_char c)) s"

text \<open>
  \<open>big.Int.Int64()\<close> keeps the low 64 bits.  The sum \<open>64 + ln\<close> wraps, and \<open>data[64 : 64+ln]\<close> panics
  when its end lies before its start: \<open>None\<close>.
\<close>

definition decode_string_result :: "bytes \<Rightarrow> string option" where
  "decode_string_result data =
     (if length data < 64 then Some []
      else
        let offset = wrap64 (int (be_nat (take 32 data))) in
        if offset \<noteq> 32 then Some []
        else
          let ln = wrap64 (int (be_nat (take 32 (drop 32 data))));
              stop = wrap64 (64 + ln)
          in if ln \<le> 0 \<or> stop > int (length data) then Some []
             else if stop < 64 then None
             else Some (text_of (take (nat stop - 64) (drop 64 data))))"

definition resolve_uri :: "'w metadata_service \<Rightarrow> string \<Rightarrow> string" where
  "resolve_uri ms uri =
     (if has_prefix uri ''ipfs://''
      then ms_gateway ms @ ''/ipfs/'' @ trim_prefix uri ''ipfs://'' else uri)"

text \<open>\<open>big.Int.Bytes()\<close>: the absolute value, big-endian, without leading zeros.\<close>

fun nat_bytes :: "nat \<Rightarrow> bytes" where
  "nat_bytes n = (if n = 0 then [] else nat_bytes (n div 256) @ [of_nat (n mod 256)])"

declare nat_bytes.simps [simp del]

definition rpc_call :: "'w metadata_service \<Rightarrow> bytes \<Rightarrow> bytes \<Rightarrow> 'w meta_state \<Rightarrow> bytes result \<times> 'w meta_state" where
  "rpc_call ms target data s = (case nt_call (ms_net ms) target data (mt_net s) of (r, w) \<Rightarrow> (r, s\<lparr>mt_net := w\<rparr>))"

subsection \<open>Fetching the metadata of a token\<close>

text \<open>\<open>io.ReadAll(io.LimitReader(body, 1 << 20))\<close>.\<close>

definition read_limited :: "bytes \<times> go_error option \<Rightarrow> bytes result" where
  "read_limited body = (case body of (bs, e) \<Rightarrow>
      if 2 ^ 20 \<le> length bs then Inr (take (2 ^ 20) bs)
      else (case e of None \<Rightarrow> Inr bs | Some x \<Rightarrow> Inl x))"

text \<open>
  \<open>json.Unmarshal\<close> goes on after a value of the wrong type and reports it at the end; the metadata
  reader keeps what was read.  \<open>last_string\<close> is what a string field holds then.
\<close>

fun last_string :: "string \<Rightarrow> json list \<Rightarrow> string" where
  "last_string z [] = z"
| "last_string z (JStr s # js) = last_string s js"
| "last_string z (j # js) = last_string z js"

record token_meta =
  tk_name :: string
  tk_description :: string
  tk_image :: string
  tk_attributes :: "json option"

definition read_token_meta :: "json result \<Rightarrow> token_meta" where
  "read_token_meta r =
     (let ms = (case r of Inr (JObj ms) \<Rightarrow> ms | _ \<Rightarrow> []);
          f = (\<lambda>name. last_string [] (json_field name ms));
          failed = (case r of Inl e \<Rightarrow> True
             | Inr j \<Rightarrow> (case json_members j of Inl e \<Rightarrow> True
                 | Inr ms' \<Rightarrow> \<exists>name \<in> {''name'', ''description'', ''image''}.
                     case string_field name ms' of Inl e \<Rightarrow> True | Inr t \<Rightarrow> False));
          attrs = json_field ''attributes'' ms
      in \<lparr>tk_name = (if failed then [] else f ''name''), tk_description = f ''description'',
          tk_image = f ''image'', tk_attributes = (if attrs = [] then None else Some (last attrs))\<rparr>)"

definition tokenURI_selector :: string where
  "tokenURI_selector = ''c87b56dd''"

definition token_uri_call :: "'w metadata_service \<Rightarrow> int \<Rightarrow> bytes" where
  "token_uri_call ms tokenID = nt_hex2bytes (ms_net ms) tokenURI_selector @
     nt_left_pad (ms_net ms) (nat_bytes (nat \<bar>tokenID\<bar>)) 32"

definition fetch_body :: "'w metadata_service \<Rightarrow> string \<Rightarrow> 'w meta_state \<Rightarrow> bytes result \<times> 'w meta_state" where
  "fetch_body ms uri s =
     (case wrap_err ''create request'' (nt_new_request (ms_net ms) uri) of
        Inl e \<Rightarrow> (Inl e, s)
      | Inr _ \<Rightarrow>
          (case nt_do (ms_net ms) uri (mt_net s) of (r, w) \<Rightarrow>
             (bind_result (wrap_err ''fetch metadata'' r)
                (\<lambda>body. wrap_err ''read metadata body'' (read_limited body)), s\<lparr>mt_net := w\<rparr>)))"

definition token_record :: "'w metadata_service \<Rightarrow> string \<Rightarrow> int \<Rightarrow> token_meta \<Rightarrow> nft_metadata" where
  "token_record ms collection tokenID meta = \<lparr>m_collection = collection, m_token_id = Some tokenID,
     m_name = tk_name meta, m_description = tk_description meta,
     m_image_url = resolve_uri ms (tk_image meta), m_attributes = tk_attributes meta, m_synced_at = 0\<rparr>"

text \<open>\<open>None\<close> is the panic of the decoder; nothing recovers from it in the worker's goroutine.\<close>

definition fetch_one ::
  "'w metadata_service \<Rightarrow> string \<Rightarrow> int \<Rightarrow> 'w meta_state \<Rightarrow> (unit result \<times> 'w meta_state) option" where
  "fetch_one ms collection tokenID s =
     (case rpc_call ms (nt_address (ms_net ms) collection) (token_uri_call ms tokenID) s of
        (Inl e, s1) \<Rightarrow> Some (Inl (ErrWrap ''tokenURI rpc call'' e), s1)
      | (Inr out, s1) \<Rightarrow>
          (case decode_string_result out of
             None \<Rightarrow> None
           | Some uri \<Rightarrow>
               if uri = [] then Some (Inl (ErrText ''empty tokenURI''), s1)
               else
                 (case fetch_body ms (resolve_uri ms uri) s1 of
                    (Inl e, s2) \<Rightarrow> Some (Inl e, s2)
                  | (Inr body, s2) \<Rightarrow>
                      (case upsert_nft_metadata (token_record ms collection tokenID
                              (read_token_meta (nt_parse (ms_net ms) body))) (mt_db s2) of
                         (r, d) \<Rightarrow> Some (r, s2\<lparr>mt_db := d\<rparr>)))))"

text \<open>
  \<open>stopped i\<close> says whether the context was found done in the wait after attempt \<open>i\<close>; the waits of
  1, 2 and 4 seconds are not part of the state.
\<close>

fun attempts ::
  "nat \<Rightarrow> nat \<Rightarrow> (nat \<Rightarrow> bool) \<Rightarrow> 'w metadata_service \<Rightarrow> fetch_job \<Rightarrow> 'w meta_state \<Rightarrow> 'w meta_state option" where
  "attempts 0 i stopped ms job s = Some s"
| "attempts (Suc n) i stopped ms job s =
     (case fetch_one ms (j_collection job) (j_token_id job) s of
        None \<Rightarrow> None
      | Some (Inr _, s1) \<Rightarrow> Some s1
      | Some (Inl e, s1) \<Rightarrow> if stopped i then Some s1 else attempts n (Suc i) stopped ms job s1)"

definition fetch_with_retry ::
  "(nat \<Rightarrow> bool) \<Rightarrow> 'w metadata_service \<Rightarrow> fetch_job \<Rightarrow> 'w meta_state \<Rightarrow> 'w meta_state option" where
  "fetch_with_retry stopped ms job s = attempts 3 0 stopped ms job s"

text \<open>A worker takes the oldest job.\<close>

definition work_one :: "(nat \<Rightarrow> bool) \<Rightarrow> 'w metadata_service \<Rightarrow> 'w meta_state \<Rightarrow> 'w meta_state option" where
  "work_one stopped ms s = (case mt_queue s of
      [] \<Rightarrow> Some s
    | job # q \<Rightarrow> fetch_with_retry stopped ms job (s\<lparr>mt_queue := q\<rparr>))"

subsection \<open>Fetching the name of a collection\<close>

definition name_selector :: string where
  "name_selector = ''0x06fdde03''"

definition symbol_selector :: string where
  "symbol_selector = ''0x95d89b41''"

definition call_string ::
  "'w metadata_service \<Rightarrow> bytes \<Rightarrow> string \<Rightarrow> 'w meta_state \<Rightarrow> (string result \<times> 'w meta_state) option" where
  "call_string ms target selector s =
     (case rpc_call ms target (nt_hex2bytes (ms_net ms) selector) s of
        (Inl e, s1) \<Rightarrow> Some (Inl e, s1)
      | (Inr out, s1) \<Rightarrow> map_option (\<lambda>t. (Inr t, s1)) (decode_string_result out))"

definition or_empty :: "string result \<Rightarrow> string" where
  "or_empty r = (case r of Inl e \<Rightarrow> [] | Inr t \<Rightarrow> t)"

definition fetch_collection ::
  "'w metadata_service \<Rightarrow> string \<Rightarrow> 'w meta_state \<Rightarrow> (unit result \<times> 'w meta_state) option" where
  "fetch_collection ms address s =
     (let addr = nt_address (ms_net ms) address in
      case call_string ms addr name_selector s of
        None \<Rightarrow> None
      | Some (name, s1) \<Rightarrow>
          (case call_string ms addr symbol_selector s1 of
             None \<Rightarrow> None
           | Some (symbol, s2) \<Rightarrow>
               (case upsert_collection (ms_chain ms) \<lparr>l_address = address, l_chain_id = 0,
                       l_name = or_empty name, l_symbol = or_empty symbol, l_image_url = [],
                       l_metadata = None, l_synced_at = 0\<rparr> (mt_db s2) of
                  (r, d) \<Rightarrow> Some (r, s2\<lparr>mt_db := d\<rparr>))))"

fun fetch_collections :: "'w metadata_service \<Rightarrow> collection list \<Rightarrow> 'w meta_state \<Rightarrow> 'w meta_state option" where
  "fetch_collections ms [] s = Some s"
| "fetch_collections ms (c # cs) s =
     (case fetch_collection ms (l_address c) s of
        None \<Rightarrow> None
      | Some (r, s1) \<Rightarrow> fetch_collections ms cs s1)"

definition refresh_stale :: "'w metadata_service \<Rightarrow> 'w meta_state \<Rightarrow> (unit result \<times> 'w meta_state) option" where
  "refresh_stale ms s =
     (case get_stale_collections 100 (mt_db s) of
        (Inl e, d) \<Rightarrow> Some (Inl e, s\<lparr>mt_db := d\<rparr>)
      | (Inr cs, d) \<Rightarrow>
          (case fetch_collections ms cs (s\<lparr>mt_db := d\<rparr>) of
             None \<Rightarrow> None
           | Some s1 \<Rightarrow>
               (case get_stale_metadata 100 (mt_db s1) of
                  (Inl e, d2) \<Rightarrow> Some (Inl e, s1\<lparr>mt_db := d2\<rparr>)
                | (Inr nfts, d2) \<Rightarrow>
                    Some (Inr (), s1\<lparr>mt_db := d2,
                      mt_queue := foldl (\<lambda>q n. enqueue (m_collection n)
                        (big_int_str (m_token_id n)) q) (mt_queue s1) nfts\<rparr>))))"

subsection \<open>internal/service/scheduler.go\<close>

definition expire_orders_tick :: "'w meta_state \<Rightarrow> 'w meta_state" where
  "expire_orders_tick s = s\<lparr>mt_db := snd (expire_orders (mt_db s))\<rparr>"

definition metadata_refresh_tick :: "'w metadata_service \<Rightarrow> 'w meta_state \<Rightarrow> 'w meta_state option" where
  "metadata_refresh_tick ms s = map_option snd (refresh_stale ms s)"

end
