(* ===== verification/OrderHandler.thy ===== *)
theory OrderHandler
  imports Http OrderService EventService Metadata
begin

section \<open>internal/handler/order.go\<close>

text \<open>
  The REST endpoints of the order book.  \<open>'s shop\<close> is what a request can change: the store behind
  the order service, the hub, the queue of the metadata fetcher and the counter of submitted orders.
  A handler answers \<open>None\<close> where the code panics.
\<close>

record 's shop =
  sh_store :: 's
  sh_hub :: hub
  sh_queue :: "fetch_job list"
  sh_submitted :: nat

record 's order_handler =
  oh_svc :: "'s order_service"
  oh_order :: "nat set \<Rightarrow> nat list"
  oh_time :: "instant \<Rightarrow> string"

type_synonym 's handled = "(http_response \<times> 's shop) option"

definition on_store :: "('s \<Rightarrow> 'a \<times> 's) \<Rightarrow> 's shop \<Rightarrow> 'a \<times> 's shop" where
  "on_store f s = (case f (sh_store s) of (x, st) \<Rightarrow> (x, s\<lparr>sh_store := st\<rparr>))"

subsection \<open>Submitting\<close>

text \<open>What a stored order sets off: a metadata job, a message to the subscribers, the counter.\<close>

definition announce :: "'s order_handler \<Rightarrow> order \<Rightarrow> 's shop \<Rightarrow> 's shop option" where
  "announce oh od s =
     map_option (\<lambda>h. s\<lparr>sh_hub := h,
         sh_queue := enqueue (o_collection od) (dec_of_int (o_token_id od)) (sh_queue s),
         sh_submitted := Suc (sh_submitted s)\<rparr>)
       (broadcast (oh_order oh) (o_collection od)
         \<lparr>g_type = ''order:new'', g_payload = marshal_order (oh_time oh) od\<rparr> (sh_hub s))"

definition submit_order ::
  "'s order_handler \<Rightarrow> instant \<times> instant \<times> instant \<Rightarrow> http_request \<Rightarrow> 's shop \<Rightarrow> 's handled" where
  "submit_order oh clock rq s =
     (case bind_submit_request (rq_body rq) of
        Inl e \<Rightarrow> Some (fail_with 400 ''INVALID_REQUEST'' (error_string e), s)
      | Inr q \<Rightarrow>
          (case on_store (submit (oh_svc oh) clock q) s of
             (Inl e, s1) \<Rightarrow> Some (fail_with 400 (extract_error_code e) (error_string e), s1)
           | (Inr od, s1) \<Rightarrow>
               (case announce oh od s1 of
                  None \<Rightarrow> None
                | Some s2 \<Rightarrow> Some (respond 201 (JObj [(''orderHash'', JStr (o_order_hash od)),
                    (''status'', JStr ''active'')]), s2))))"

subsection \<open>Listing\<close>

definition parse_enum :: "string \<Rightarrow> int \<Rightarrow> string \<Rightarrow> uint8 option result" where
  "parse_enum msg most v =
     (if v = [] then Inr None
      else case atoi v of (i, ok) \<Rightarrow>
        if \<not> ok \<or> i < 0 \<or> i > most then Inl (ErrText (msg @ '', got '' @ go_quote v))
        else Inr (Some (word_of_int i)))"

definition parse_price :: "string \<Rightarrow> string \<Rightarrow> int option result" where
  "parse_price name v =
     (if v = [] then Inr None
      else case big_set_string v of
        (i, True) \<Rightarrow> Inr (Some i)
      | (i, False) \<Rightarrow> Inl (ErrText (name @ '' is not a valid integer, got '' @ go_quote v)))"

definition page_number :: "http_request \<Rightarrow> int" where
  "page_number rq = (case atoi (default_query rq ''page'' ''1'') of
     (p, ok) \<Rightarrow> if \<not> ok \<or> p < 1 then 1 else p)"

definition page_size :: "http_request \<Rightarrow> int" where
  "page_size rq = (case atoi (default_query rq ''pageSize'' ''20'') of
     (n, ok) \<Rightarrow> let size = (if \<not> ok \<or> n < 1 then 20 else n) in if size > 50 then 50 else size)"

definition parse_order_filter :: "http_request \<Rightarrow> order_filter result" where
  "parse_order_filter rq =
     bind_result (parse_enum ''side must be 0 or 1'' 1 (query rq ''side'')) (\<lambda>side.
     bind_result (parse_enum ''kind must be 0-4'' 4 (query rq ''kind'')) (\<lambda>kind.
     bind_result (parse_enum ''assetType must be 0 or 1'' 1 (query rq ''assetType'')) (\<lambda>assetType.
     bind_result (parse_enum ''status must be 0-3'' 3 (query rq ''status'')) (\<lambda>status.
     bind_result (parse_price ''minPrice'' (query rq ''minPrice'')) (\<lambda>minPrice.
     bind_result (parse_price ''maxPrice'' (query rq ''maxPrice'')) (\<lambda>maxPrice.
       let page = page_number rq; pageSize = page_size rq in
       Inr \<lparr>f_maker = query rq ''maker'', f_side = side, f_kind = kind, f_asset_type = assetType,
            f_collection = query rq ''collection'', f_token_id = None,
            f_payment_token = query rq ''paymentToken'', f_status = status,
            f_min_price = minPrice, f_max_price = maxPrice, f_limit = pageSize,
            f_offset = wrap64 (wrap64 (page - 1) * pageSize)\<rparr>))))))"

text \<open>Integer division of Go: truncated, and a panic for a zero divisor.\<close>

definition go_quot :: "int \<Rightarrow> int \<Rightarrow> int option" where
  "go_quot x y = (if y = 0 then None else Some (wrap64 (sgn x * sgn y * (\<bar>x\<bar> div \<bar>y\<bar>))))"

definition list_orders :: "'s order_handler \<Rightarrow> http_request \<Rightarrow> 's shop \<Rightarrow> 's handled" where
  "list_orders oh rq s =
     (case parse_order_filter rq of
        Inl e \<Rightarrow> Some (fail_with 400 ''INVALID_FILTER'' (error_string e), s)
      | Inr f \<Rightarrow>
          (case on_store (service_find (oh_svc oh) f) s of
             (Inl e, s1) \<Rightarrow> Some (fail_with 500 ''INTERNAL_ERROR'' (error_string e), s1)
           | (Inr (ods, n), s1) \<Rightarrow>
               map_option (\<lambda>k. (respond 200 (JObj
                   [(''orders'', json_slice (marshal_order (oh_time oh)) ods),
                    (''page'', JNum (wrap64 (k + 1))), (''pageSize'', JNum (f_limit f)),
                    (''total'', JNum n)]), s1))
                 (go_quot (f_offset f) (f_limit f))))"

subsection \<open>Single orders\<close>

definition answer_order ::
  "'s order_handler \<Rightarrow> string \<Rightarrow> string \<Rightarrow> order option result \<times> 's shop \<Rightarrow> 's handled" where
  "answer_order oh code message r = Some (case r of
      (Inl e, s) \<Rightarrow> (fail_with 500 ''INTERNAL_ERROR'' (error_string e), s)
    | (Inr None, s) \<Rightarrow> (fail_with 404 code message, s)
    | (Inr (Some od), s) \<Rightarrow> (respond 200 (marshal_order (oh_time oh) od), s))"

definition get_order :: "'s order_handler \<Rightarrow> http_request \<Rightarrow> 's shop \<Rightarrow> 's handled" where
  "get_order oh rq s = answer_order oh ''ORDER_NOT_FOUND'' ''Order not found''
     (on_store (get_by_hash (oh_svc oh) (rq_param rq ''hash'')) s)"

definition best_order :: "'s order_handler \<Rightarrow> (nat \<Rightarrow> instant) \<Rightarrow> http_request \<Rightarrow> 's shop \<Rightarrow> 's handled" where
  "best_order oh nows rq s =
     (let collection = query rq ''collection'' in
      if collection = [] then Some (fail_with 400 ''MISSING_PARAM'' ''collection is required'', s)
      else
        let side = (if query rq ''side'' = ''1'' then Buy else Sell) in
        answer_order oh ''NO_ORDERS'' ''No active orders found''
          (on_store (get_best (oh_svc oh) nows collection side) s))"

definition parse_status :: "string \<Rightarrow> uint8 option option" where
  "parse_status v =
     (if v = [] then Some None
      else if v = ''0'' then Some (Some Active)
      else if v = ''1'' then Some (Some Filled)
      else if v = ''2'' then Some (Some Cancelled)
      else if v = ''3'' then Some (Some Expired)
      else None)"

definition user_orders :: "'s order_handler \<Rightarrow> http_request \<Rightarrow> 's shop \<Rightarrow> 's handled" where
  "user_orders oh rq s =
     (case parse_status (query rq ''status'') of
        None \<Rightarrow> Some (fail_with 400 ''INVALID_STATUS'' ''status must be 0-3'', s)
      | Some status \<Rightarrow>
          (case on_store (get_user_orders (oh_svc oh) (rq_param rq ''address'') status) s of
             (Inl e, s1) \<Rightarrow> Some (fail_with 500 ''INTERNAL_ERROR'' (error_string e), s1)
           | (Inr ods, s1) \<Rightarrow>
               Some (respond 200 (JObj [(''orders'', json_slice (marshal_order (oh_time oh)) ods)]), s1)))"

subsection \<open>What a filter can hold\<close>

lemma parse_enum_Inr:
  assumes "parse_enum msg most v = Inr (Some w)" and "0 \<le> most" and "most < 256"
  shows "uint w \<le> most"
  using assms by (auto simp: parse_enum_def uint_word_of_int mod_pos_pos_trivial split: if_splits prod.splits)

lemma page_size_range: "1 \<le> page_size rq" "page_size rq \<le> 50"
  by (auto simp: page_size_def Let_def split: prod.splits)

lemma page_number_range: "1 \<le> page_number rq" "page_number rq < 2 ^ 63"
  using atoi_in_int64 [of "default_query rq ''page'' ''1''"]
  by (auto simp: page_number_def in_int64_def split: prod.splits)

definition enum_le :: "uint8 option \<Rightarrow> int \<Rightarrow> bool" where
  "enum_le v most = (case v of None \<Rightarrow> True | Some w \<Rightarrow> uint w \<le> most)"

lemma parse_enum_le:
  "parse_enum msg most v = Inr w \<Longrightarrow> 0 \<le> most \<Longrightarrow> most < 256 \<Longrightarrow> enum_le w most"
  using parse_enum_Inr [of msg most v] by (cases w) (auto simp: enum_le_def)

lemma parsed_filter:
  assumes "parse_order_filter rq = Inr f"
  shows "f_limit f = page_size rq" and "f_offset f = wrap64 ((page_number rq - 1) * page_size rq)"
    and "enum_le (f_side f) 1" and "enum_le (f_kind f) 4" and "enum_le (f_asset_type f) 1"
    and "enum_le (f_status f) 3"
proof -
  have "wrap64 (page_number rq - 1) = page_number rq - 1"
    using page_number_range [of rq] by (simp add: in_int64_def)
  then show "f_limit f = page_size rq" "f_offset f = wrap64 ((page_number rq - 1) * page_size rq)"
    "enum_le (f_side f) 1" "enum_le (f_kind f) 4" "enum_le (f_asset_type f) 1" "enum_le (f_status f) 3"
    using assms by (auto simp: parse_order_filter_def bind_result_Inr Let_def dest: parse_enum_le)
qed

lemma go_quot_pos: "0 \<le> x \<Longrightarrow> in_int64 x \<Longrightarrow> 0 < y \<Longrightarrow> go_quot x y = Some (x div y)"
proof -
  assume a: "0 \<le> x" "in_int64 x" "0 < y"
  then have "sgn x * sgn y * (\<bar>x\<bar> div \<bar>y\<bar>) = x div y"
    by (cases "x = 0") simp_all
  moreover have "in_int64 (x div y)"
    using a zdiv_mono2 [of x 1 y] pos_imp_zdiv_nonneg_iff [of y x] by (simp add: in_int64_def)
  ultimately show ?thesis
    using a by (cases "x = 0") (simp_all add: go_quot_def)
qed

end
