(* ===== verification/OrderApi.thy ===== *)
theory OrderApi
  imports OrderHandler
begin

section \<open>What the order endpoints guarantee\<close>

text \<open>
  Listing: the handler never panics, its page is the page of the abstract book, up to the
  page numbers at which the offset wraps.  Submitting: what a 201 and what a 400 mean, and that an order
  answered with 201 is served under the returned hash.
\<close>

subsection \<open>Listing\<close>

lemma go_quot_nonzero: "y \<noteq> 0 \<Longrightarrow> \<exists>k. go_quot x y = Some k"
  by (simp add: go_quot_def)

text \<open>
  \<open>GET /orders\<close> never panics, whatever the query: the page size that it divides by is always between
  1 and 50; and it answers with status 200, 400 or 500 only.
\<close>

theorem list_never_panics:
  "\<exists>p s'. list_orders oh rq s = Some (p, s') \<and> p_status p \<in> {200, 400, 500}"
proof (cases "parse_order_filter rq")
  case (Inr f)
  have "f_limit f \<noteq> 0"
    using page_size_range(1) [of rq] by (simp add: parsed_filter(1) [OF Inr])
  from go_quot_nonzero [OF this] obtain k where "go_quot (f_offset f) (f_limit f) = Some k" ..
  with Inr show ?thesis
    by (auto simp: list_orders_def split: prod.splits sum.splits)
qed (simp add: list_orders_def)

text \<open>The offset is exact up to the page numbers at which the product exceeds 64 bits.\<close>

lemma offset_exact:
  assumes "parse_order_filter rq = Inr f" and "page_number rq \<le> 2 ^ 57"
  shows "f_offset f = (page_number rq - 1) * page_size rq"
    and "go_quot (f_offset f) (f_limit f) = Some (page_number rq - 1)"
proof -
  have "0 \<le> (page_number rq - 1) * page_size rq"
    using page_number_range(1) [of rq] page_size_range(1) [of rq] by simp
  moreover have "(page_number rq - 1) * page_size rq \<le> 2 ^ 57 * 50"
    using assms(2) page_number_range(1) [of rq] page_size_range [of rq] by (intro mult_mono) simp_all
  ultimately have i: "in_int64 ((page_number rq - 1) * page_size rq)"
    by (simp add: in_int64_def)
  then show o: "f_offset f = (page_number rq - 1) * page_size rq"
    by (simp add: parsed_filter(2) [OF assms(1)])
  show "go_quot (f_offset f) (f_limit f) = Some (page_number rq - 1)"
    using go_quot_pos [of "(page_number rq - 1) * page_size rq" "page_size rq"] i
      \<open>0 \<le> (page_number rq - 1) * page_size rq\<close> page_size_range(1) [of rq]
    by (simp add: o parsed_filter(1) [OF assms(1)])
qed


text \<open>A desk for the concrete instances, and a query without and with parameters.\<close>

definition toy_handler :: "db order_handler" where
  "toy_handler = \<lparr>oh_svc = toy_desk, oh_order = (\<lambda>S. []), oh_time = (\<lambda>t. [])\<rparr>"

definition toy_shop :: "db \<Rightarrow> db shop" where
  "toy_shop d = \<lparr>sh_store = d, sh_hub = new_hub [], sh_queue = [], sh_submitted = 0\<rparr>"

definition get_request :: "(string \<times> string) list \<Rightarrow> http_request" where
  "get_request qs = \<lparr>rq_method = ''GET'', rq_path = ''/api/v1/orders'', rq_query = map_of qs,
     rq_param = (\<lambda>k. []), rq_header = (\<lambda>k. []), rq_body = Inl (ErrText ''EOF''), rq_ip = []\<rparr>"

lemma query_get: "query (get_request qs) k = (case map_of qs k of None \<Rightarrow> [] | Some v \<Rightarrow> v)"
  "default_query (get_request qs) k d = (case map_of qs k of None \<Rightarrow> d | Some v \<Rightarrow> v)"
  by (simp_all add: query_def default_query_def get_request_def)

lemma plain_query:
  "page_number (get_request []) = 1" "page_size (get_request []) = 20"
  "parse_order_filter (get_request []) = Inr (empty_filter\<lparr>f_limit := 20\<rparr>)"
proof -
  have n: "atoi ''1'' = (1, True)" "atoi ''20'' = (20, True)"
    by code_simp+
  show p: "page_number (get_request []) = 1" "page_size (get_request []) = 20"
    by (simp_all add: page_number_def page_size_def query_get n)
  show "parse_order_filter (get_request []) = Inr (empty_filter\<lparr>f_limit := 20\<rparr>)"
    by (simp add: parse_order_filter_def query_get parse_enum_def parse_price_def p empty_filter_def
        in_int64_def)
qed


text \<open>
  What the query string can make the repository look for: every enumeration is within its range, the
  page has between 1 and 50 orders, and the offset is a 64-bit number.
\<close>

theorem listed_filter_typed:
  assumes "parse_order_filter rq = Inr f"
  shows "enum_le (f_side f) 1 \<and> enum_le (f_kind f) 4 \<and> enum_le (f_asset_type f) 1 \<and>
    enum_le (f_status f) 3 \<and> 1 \<le> f_limit f \<and> f_limit f \<le> 50 \<and> in_int64 (f_offset f)"
  using parsed_filter [OF assms] page_size_range [of rq] by simp

theorem listed_filter_typed_witness:
  "1 \<le> f_limit (empty_filter\<lparr>f_limit := 20\<rparr>) \<and> f_limit (empty_filter\<lparr>f_limit := 20\<rparr>) \<le> 50"
  using listed_filter_typed [OF plain_query(3)] by simp

text \<open>
  Beyond, the offset wraps: with four orders on a page, page \<open>2^62 + 1\<close> is answered as page 1.
\<close>

lemma far_page_wraps:
  assumes "page_number rq = 2 ^ 62 + 1" and "page_size rq = 4" and "parse_order_filter rq = Inr f"
  shows "f_offset f = 0" and "go_quot (f_offset f) (f_limit f) = Some 0"
proof -
  show "f_offset f = 0"
    by (simp add: parsed_filter(2) [OF assms(3)] assms(1,2) wrap64_def)
  then show "go_quot (f_offset f) (f_limit f) = Some 0"
    by (simp add: parsed_filter(1) [OF assms(3)] assms(2) go_quot_def in_int64_def)
qed

subsection \<open>Submitting\<close>

lemma announce_ok:
  assumes "enumerates (oh_order oh)" and "hub_ok (sh_hub s)" and "finite (h_clients (sh_hub s))"
  shows "\<exists>s'. announce oh od s = Some s' \<and> sh_store s' = sh_store s \<and>
    sh_submitted s' = Suc (sh_submitted s) \<and>
    sh_queue s' = enqueue (o_collection od) (dec_of_int (o_token_id od)) (sh_queue s) \<and>
    hub_ok (sh_hub s') \<and> h_store (sh_hub s') = (\<lambda>c. if c \<in> subscribers (sh_hub s) (o_collection od)
      then map_option (offered (marshal_message \<lparr>g_type = ''order:new'',
        g_payload = marshal_order (oh_time oh) od\<rparr>)) (h_store (sh_hub s) c)
      else h_store (sh_hub s) c)"
proof -
  let ?h = "sh_hub s" and ?col = "o_collection od"
  let ?m = "\<lparr>g_type = ''order:new'', g_payload = marshal_order (oh_time oh) od\<rparr>"
  have sub: "subscribers ?h ?col \<subseteq> h_clients ?h"
    by (auto simp: subscribers_def)
  have "finite (subscribers ?h ?col)"
    by (rule finite_subset [OF sub assms(3)])
  with assms(1) have e: "set (oh_order oh (subscribers ?h ?col)) = subscribers ?h ?col"
    "distinct (oh_order oh (subscribers ?h ?col))"
    by (simp_all only: enumerates_def)
  with sub have "set (oh_order oh (subscribers ?h ?col)) \<subseteq> h_clients ?h" by simp
  from offer_all_ok [OF assms(2) this e(2), of "marshal_message ?m"] obtain h' where
    "broadcast (oh_order oh) ?col ?m ?h = Some h'" "hub_ok h'"
    "h_store h' = (\<lambda>c. if c \<in> subscribers ?h ?col
      then map_option (offered (marshal_message ?m)) (h_store ?h c) else h_store ?h c)"
    unfolding broadcast_def receivers_ok [OF assms(2)] e(1) by blast
  then show ?thesis
    by (simp add: announce_def)
qed

text \<open>
  C21: What \<open>POST /orders\<close> does: a body that does not bind is refused with 400 and changes nothing; a refused
  order is answered with 400 and the code of the refusal, and changes nothing but what the service
  changed; an accepted order is answered with 201 and its hash, one fetch of its metadata is
  queued (unless the queue is full), every subscriber of its collection is sent \<open>order:new\<close> with
  the order, and it is counted once.
\<close>

theorem submit_order_effects:
  assumes "enumerates (oh_order oh)" and "hub_ok (sh_hub s)" and "finite (h_clients (sh_hub s))"
  shows "\<exists>p s'. submit_order oh clk rq s = Some (p, s') \<and>
    (case bind_submit_request (rq_body rq) of
       Inl e \<Rightarrow> p_status p = 400 \<and> error_code p = Some ''INVALID_REQUEST'' \<and> s' = s
     | Inr q \<Rightarrow> (case submit (oh_svc oh) clk q (sh_store s) of
         (Inl e, st) \<Rightarrow> p_status p = 400 \<and> error_code p = Some (extract_error_code e) \<and>
           s' = s\<lparr>sh_store := st\<rparr>
       | (Inr od, st) \<Rightarrow> p_status p = 201 \<and> json_text ''orderHash'' (p_body p) = Some (o_order_hash od) \<and>
           sh_store s' = st \<and> sh_submitted s' = Suc (sh_submitted s) \<and>
           sh_queue s' = enqueue (o_collection od) (dec_of_int (o_token_id od)) (sh_queue s) \<and>
           hub_ok (sh_hub s') \<and>
           h_store (sh_hub s') = (\<lambda>c. if c \<in> subscribers (sh_hub s) (o_collection od)
             then map_option (offered (marshal_message \<lparr>g_type = ''order:new'',
               g_payload = marshal_order (oh_time oh) od\<rparr>)) (h_store (sh_hub s) c)
             else h_store (sh_hub s) c)))"
proof (cases "bind_submit_request (rq_body rq)")
  case (Inr q)
  obtain r st where sub: "submit (oh_svc oh) clk q (sh_store s) = (r, st)"
    by fastforce
  show ?thesis
  proof (cases r)
    case (Inl e)
    with Inr sub show ?thesis
      by (simp add: submit_order_def on_store_def)
  next
    case od: (Inr od)
    have same: "sh_hub (s\<lparr>sh_store := st\<rparr>) = sh_hub s" "sh_store (s\<lparr>sh_store := st\<rparr>) = st"
      "sh_queue (s\<lparr>sh_store := st\<rparr>) = sh_queue s" "sh_submitted (s\<lparr>sh_store := st\<rparr>) = sh_submitted s"
      by simp_all
    from announce_ok [of oh "s\<lparr>sh_store := st\<rparr>" od, unfolded same, OF assms] obtain s' where
      s': "announce oh od (s\<lparr>sh_store := st\<rparr>) = Some s'"
      and effects: "sh_store s' = st \<and> sh_submitted s' = Suc (sh_submitted s) \<and>
           sh_queue s' = enqueue (o_collection od) (dec_of_int (o_token_id od)) (sh_queue s) \<and>
           hub_ok (sh_hub s') \<and>
           h_store (sh_hub s') = (\<lambda>c. if c \<in> subscribers (sh_hub s) (o_collection od)
             then map_option (offered (marshal_message \<lparr>g_type = ''order:new'',
               g_payload = marshal_order (oh_time oh) od\<rparr>)) (h_store (sh_hub s) c)
             else h_store (sh_hub s) c)" by blast
    have "submit_order oh clk rq s = Some (respond 201 (JObj [(''orderHash'', JStr (o_order_hash od)),
        (''status'', JStr ''active'')]), s')"
      by (simp add: submit_order_def on_store_def Inr sub od s')
    then show ?thesis
      using effects by (simp add: Inr sub od json_text_def)
  qed
qed (simp add: submit_order_def)

definition auction_body :: json where
  "auction_body = JObj [(''maker'', JStr ''0x1A''), (''side'', JNum 0), (''kind'', JNum 1),
     (''collection'', JStr ''0x2b''), (''tokenId'', JStr ''7''), (''amount'', JStr ''1''),
     (''price'', JStr ''1000''), (''startPrice'', JStr ''2000''), (''startTime'', JNum 1000),
     (''endTime'', JNum 2000), (''salt'', JStr ''1''),
     (''signature'', JStr (q_signature auction_request))]"

definition post_request :: "json \<Rightarrow> http_request" where
  "post_request j = (get_request [])\<lparr>rq_method := ''POST'', rq_body := Inr j\<rparr>"

lemma auction_body_binds: "bind_submit_request (Inr auction_body) = Inr auction_request"
  by (simp add: bind_submit_request_def should_bind_def unmarshal_submit_request_def
      validate_submit_request_def auction_body_def uint_field_def json_field_eval
      auction_request_def tag_error_def)

theorem submit_order_effects_witness:
  "\<exists>p s'. submit_order (toy_handler\<lparr>oh_order := (\<lambda>S. if finite S then sorted_list_of_set S else [])\<rparr>)
      (unix_instant 1200, 0, 0) (post_request auction_body) (toy_shop empty_db) = Some (p, s') \<and>
    p_status p = 201 \<and> sh_queue s' = [\<lparr>j_collection = ''0x2b'', j_token_id = 7\<rparr>]"
proof -
  let ?oh = "toy_handler\<lparr>oh_order := (\<lambda>S. if finite S then sorted_list_of_set S else [])\<rparr>"
  have "enumerates (oh_order ?oh)"
    by (simp add: enumerates_def)
  moreover have "hub_ok (sh_hub (toy_shop empty_db))" "finite (h_clients (sh_hub (toy_shop empty_db)))"
    by (simp_all add: toy_shop_def hub_ok_new) (simp add: new_hub_def)
  ultimately show ?thesis
    using submit_order_effects [of ?oh "toy_shop empty_db" "(unix_instant 1200, 0, 0)"
        "post_request auction_body"] auction_accepted
    by (auto simp: post_request_def get_request_def auction_body_binds toy_handler_def toy_shop_def
        enqueue_def queue_size_def auction_order_def)
qed

text \<open>
  C19: An order answered with 201 is served: \<open>GET /orders/:hash\<close> with the returned hash answers 200 and
  the order, with the terms as submitted and the id and times of its insertion.
\<close>

theorem posted_order_is_served:
  assumes "healthy (sh_store s)" and "oh_svc oh = new_order_service eth svc chain"
    and "submit_order oh clk rq s = Some (p, s')" and "p_status p = 201"
    and "json_text ''orderHash'' (p_body p) = Some h" and "rq_param rq' ''hash'' = h"
  shows "\<exists>q od. bind_submit_request (rq_body rq) = Inr q \<and>
    od = (request_to_order q (fst (snd clk)) (snd (snd clk)))\<lparr>o_order_hash := h\<rparr> \<and>
    get_order oh rq' s' = Some (respond 200 (marshal_order (oh_time oh)
      (stored_order (t_order_seq (sh_store s)) (db_now (sh_store s)) od)), s')"
proof -
  from assms(3,4) obtain q where q: "bind_submit_request (rq_body rq) = Inr q"
    by (cases "bind_submit_request (rq_body rq)") (auto simp: submit_order_def)
  obtain r st where sub: "submit (oh_svc oh) clk q (sh_store s) = (r, st)"
    by fastforce
  with q assms(3,4) obtain od where od: "r = Inr od"
    by (cases r) (auto simp: submit_order_def on_store_def)
  with q sub assms(3) obtain s2 where s2: "announce oh od (s\<lparr>sh_store := st\<rparr>) = Some s2"
    "p = respond 201 (JObj [(''orderHash'', JStr (o_order_hash od)), (''status'', JStr ''active'')])"
    "s' = s2"
    by (auto simp: submit_order_def on_store_def split: option.splits)
  have st: "sh_store s' = st" and h: "o_order_hash od = h"
    using s2 assms(5) by (auto simp: announce_def json_text_def)
  note sub' = sub [unfolded od assms(2)]
  obtain now c u where clk: "clk = (now, c, u)"
    by (cases clk) auto
  have "get_order oh rq' s' = Some (respond 200 (marshal_order (oh_time oh)
      (stored_order (t_order_seq (sh_store s)) (db_now (sh_store s)) od)), s')"
    using desk.submitted_is_found [OF assms(1) sub'] st h
    by (simp add: get_order_def answer_order_def on_store_def assms(2,6))
  moreover have "od = (request_to_order q c u)\<lparr>o_order_hash := h\<rparr>"
    using desk.submit_accepted [OF sub' [unfolded clk]] h by auto
  ultimately show ?thesis
    using q by (auto simp: clk)
qed

definition hash_request :: "string \<Rightarrow> http_request" where
  "hash_request h = (get_request [])\<lparr>rq_param := (\<lambda>k. if k = ''hash'' then h else [])\<rparr>"

theorem posted_order_is_served_witness:
  "\<exists>p s' j. submit_order toy_handler (unix_instant 1200, 0, 0) (post_request auction_body) (toy_shop empty_db) =
      Some (p, s') \<and> get_order toy_handler (hash_request ''0x01'') s' = Some (respond 200 j, s')"
proof -
  let ?p = "respond 201 (JObj [(''orderHash'', JStr ''0x01''), (''status'', JStr ''active'')])"
  have "\<exists>s'. submit_order toy_handler (unix_instant 1200, 0, 0) (post_request auction_body)
      (toy_shop empty_db) = Some (?p, s')"
    using auction_accepted by (simp add: submit_order_def post_request_def get_request_def
        auction_body_binds on_store_def toy_handler_def toy_shop_def announce_def broadcast_def
        auction_order_def)
  then obtain s' where s': "submit_order toy_handler (unix_instant 1200, 0, 0) (post_request auction_body)
      (toy_shop empty_db) = Some (?p, s')" ..
  have "healthy (sh_store (toy_shop empty_db))" "oh_svc toy_handler = toy_desk"
    by (simp_all add: toy_shop_def toy_handler_def healthy_def empty_db_def)
  from posted_order_is_served [OF this s', of "''0x01''" "hash_request ''0x01''"] s' show ?thesis
    by (auto simp: hash_request_def json_text_def)
qed

end
