(* ===== verification/CollectionHandler.thy ===== *)
theory CollectionHandler
  imports Http CollectionRepo OrderQueries
begin

section \<open>internal/handler/collection.go and health.go\<close>

text \<open>
  The REST endpoints of collections and statistics, and the health check.  A \<open>*big.Int\<close> in a body is a
  JSON number, \<open>null\<close> when it is nil.  The statistics ignore the errors of their queries.
\<close>

definition big_json :: "int option \<Rightarrow> json" where
  "big_json v = (case v of None \<Rightarrow> JNull | Some i \<Rightarrow> JNum i)"

definition marshal_collection :: "(instant \<Rightarrow> string) \<Rightarrow> collection \<Rightarrow> json" where
  "marshal_collection tj c = JObj ([(''address'', JStr (l_address c)), (''chainId'', JNum (l_chain_id c)),
     (''name'', JStr (l_name c)), (''symbol'', JStr (l_symbol c)), (''imageUrl'', JStr (l_image_url c))] @
     (case l_metadata c of None \<Rightarrow> [] | Some m \<Rightarrow> [(''metadata'', m)]) @
     [(''syncedAt'', JStr (tj (l_synced_at c)))])"

definition list_collections :: "(instant \<Rightarrow> string) \<Rightarrow> http_request \<Rightarrow> db \<Rightarrow> http_response \<times> db" where
  "list_collections tj rq d =
     (let search = query rq ''search'';
          page = fst (atoi (default_query rq ''page'' ''1''));
          pageSize = fst (atoi (default_query rq ''pageSize'' ''20''))
      in case find_all_collections_paged search page pageSize d of
           (Inl e, d') \<Rightarrow> (fail_with 500 ''INTERNAL_ERROR'' (error_string e), d')
         | (Inr (cs, n), d') \<Rightarrow> (respond 200 (JObj
             [(''collections'', json_slice (marshal_collection tj) cs), (''page'', JNum page),
              (''pageSize'', JNum pageSize), (''total'', JNum n)]), d'))"

text \<open>A query whose error is dropped: nil for a price, zero for a count.\<close>

definition price_or_nil :: "int option result \<Rightarrow> int option" where
  "price_or_nil r = (case r of Inl e \<Rightarrow> None | Inr p \<Rightarrow> p)"

definition count_or_zero :: "int result \<Rightarrow> int" where
  "count_or_zero r = (case r of Inl e \<Rightarrow> 0 | Inr n \<Rightarrow> n)"

text \<open>The three queries of a collection's market, one after the other.\<close>

definition market_of :: "string \<Rightarrow> db \<Rightarrow> (int option \<times> int option \<times> int) \<times> db" where
  "market_of address d =
     (case get_best_price address Sell d of (floor, d1) \<Rightarrow>
        (case get_best_price address Buy d1 of (bid, d2) \<Rightarrow>
           (case get_listed_count address d2 of (listed, d3) \<Rightarrow>
              ((price_or_nil floor, price_or_nil bid, count_or_zero listed), d3))))"

definition get_collection :: "(instant \<Rightarrow> string) \<Rightarrow> http_request \<Rightarrow> db \<Rightarrow> http_response \<times> db" where
  "get_collection tj rq d =
     (let address = rq_param rq ''address'' in
      case find_by_address address d of
        (Inl e, d1) \<Rightarrow> (fail_with 500 ''INTERNAL_ERROR'' (error_string e), d1)
      | (Inr None, d1) \<Rightarrow> (fail_with 404 ''COLLECTION_NOT_FOUND'' ''Collection not found'', d1)
      | (Inr (Some c), d1) \<Rightarrow>
          (case market_of address d1 of ((floor, bid, listed), d2) \<Rightarrow>
             (respond 200 (JObj [(''bestBid'', big_json bid), (''collection'', marshal_collection tj c),
               (''floorPrice'', big_json floor), (''listed'', JNum listed)]), d2)))"

definition global_statistics :: "db \<Rightarrow> http_response \<times> db" where
  "global_statistics d =
     (case get_total_orders d of (orders, d1) \<Rightarrow>
        (case get_collection_count d1 of (collections, d2) \<Rightarrow>
           (case get_active_maker_count d2 of (traders, d3) \<Rightarrow>
              (respond 200 (JObj [(''totalCollections'', JNum (count_or_zero collections)),
                (''totalOrders'', JNum (count_or_zero orders)),
                (''totalTraders'', JNum (count_or_zero traders))]), d3))))"

definition collection_statistics :: "http_request \<Rightarrow> db \<Rightarrow> http_response \<times> db" where
  "collection_statistics rq d =
     (let address = rq_param rq ''collection'' in
      case market_of address d of ((floor, bid, listed), d1) \<Rightarrow>
        (respond 200 (JObj [(''bestBid'', big_json bid), (''collection'', JStr address),
          (''floorPrice'', big_json floor), (''listed'', JNum listed)]), d1))"

subsection \<open>Health\<close>

definition check_text :: "unit result \<Rightarrow> string" where
  "check_text r = (case r of Inl e \<Rightarrow> ''unhealthy: '' @ error_string e | Inr _ \<Rightarrow> ''ok'')"

definition is_up :: "unit result \<Rightarrow> bool" where
  "is_up r = (case r of Inl e \<Rightarrow> False | Inr _ \<Rightarrow> True)"

definition health :: "unit result \<Rightarrow> unit result \<Rightarrow> unit result \<Rightarrow> http_response" where
  "health db redis rpc =
     (let healthy = is_up db \<and> is_up redis \<and> is_up rpc;
          status = (if healthy then 200 else 503)
      in respond status (JObj [(''checks'', JObj [(''database'', JStr (check_text db)),
           (''redis'', JStr (check_text redis)), (''rpc'', JStr (check_text rpc))]),
           (''status'', JBool (status = 200))]))"

definition ready :: "unit result \<Rightarrow> unit result \<Rightarrow> unit result \<Rightarrow> http_response" where
  "ready db redis rpc = health db redis rpc"

lemma health_ok_iff: "p_status (health db redis rpc) = 200 \<longleftrightarrow> is_up db \<and> is_up redis \<and> is_up rpc"
  by (simp add: health_def Let_def)

subsection \<open>The market of a collection\<close>

definition best_of :: "string \<Rightarrow> uint8 \<Rightarrow> db \<Rightarrow> int option" where
  "best_of c s d = (if side_prices c s d = [] then None
     else Some (if s = Buy then Max (set (side_prices c s d)) else Min (set (side_prices c s d))))"

lemma listed_count_exact:
  assumes "healthy d" and "hex_text_ok c" and "c \<noteq> []"
  shows "get_listed_count c d = (Inr (int (length (side_prices c Sell d))), d)"
proof -
  from assms(2,3) obtain b where b: "hex_decode c = Inr (Some b)" "b \<noteq> []"
    by (auto simp: hex_text_ok_def)
  then show ?thesis
    using assms(1) by (simp add: get_listed_count_def db_exec_healthy count_stmt_def side_prices_def
        book_def filter_map o_def hex_encode_eq_canon [OF b])
qed

lemma market_exact:
  assumes "healthy d" and "hex_text_ok c" and "c \<noteq> []"
  shows "market_of c d = ((best_of c Sell d, best_of c Buy d, int (length (side_prices c Sell d))), d)"
  by (simp add: market_of_def best_price_is_extremal [OF assms] listed_count_exact [OF assms]
      price_or_nil_def count_or_zero_def best_of_def)

text \<open>
  C37: The statistics of a collection are those of the abstract book: the floor is the lowest price among
  its active listings, the best bid the highest among its active bids, \<open>null\<close> when there is none, and
  the count is the number of its active listings; nothing is changed.
\<close>

theorem collection_statistics_exact:
  assumes "healthy d" and "hex_text_ok (rq_param rq ''collection'')" and "rq_param rq ''collection'' \<noteq> []"
  shows "collection_statistics rq d = (respond 200 (JObj
    [(''bestBid'', big_json (best_of (rq_param rq ''collection'') Buy d)),
     (''collection'', JStr (rq_param rq ''collection'')),
     (''floorPrice'', big_json (best_of (rq_param rq ''collection'') Sell d)),
     (''listed'', JNum (int (length (side_prices (rq_param rq ''collection'') Sell d))))]), d)"
  by (simp add: collection_statistics_def market_exact [OF assms] Let_def)

definition param_request :: "string \<Rightarrow> string \<Rightarrow> http_request" where
  "param_request k v = \<lparr>rq_method = ''GET'', rq_path = [], rq_query = (\<lambda>q. None),
     rq_param = (\<lambda>q. if q = k then v else []), rq_header = (\<lambda>q. []), rq_body = Inl (ErrText ''EOF''), rq_ip = []\<rparr>"

theorem collection_statistics_exact_witness:
  "collection_statistics (param_request ''collection'' ''0x2B'') sample_db = (respond 200 (JObj
    [(''bestBid'', JNull), (''collection'', JStr ''0x2B''), (''floorPrice'', JNum 100),
     (''listed'', JNum 1)]), sample_db)"
proof -
  have "hex_decode ''0x2B'' = Inr (Some [43])"
    by code_simp
  then have "hex_text_ok ''0x2B''"
    by (simp add: hex_text_ok_def)
  moreover have "canon_hex ''0x2B'' = ''0x2b''"
    by code_simp
  then have "side_prices ''0x2B'' Sell sample_db = [100]" "side_prices ''0x2B'' Buy sample_db = []"
    by (simp_all add: side_prices_def book_def sample_row_def hex_encode_def hex_digit_def)
  ultimately show ?thesis
    using collection_statistics_exact [OF sample_db_sel(3), of "param_request ''collection'' ''0x2B''"]
    by (simp add: param_request_def best_of_def big_json_def)
qed

text \<open>
  The statistics do not report failures: for a text that is not an address, and when every query
  fails, they are answered with status 200, zeros and nulls, as for a market that is empty; the
  documented answer 500 does not occur.
\<close>

theorem statistics_hide_failures:
  assumes "hex_decode (rq_param rq ''collection'') = Inl e" and "db_outcomes d = [Failed e1, Failed e2, Failed e3]"
  shows "fst (collection_statistics rq d') = respond 200 (JObj [(''bestBid'', JNull),
       (''collection'', JStr (rq_param rq ''collection'')), (''floorPrice'', JNull), (''listed'', JNum 0)]) \<and>
    fst (global_statistics d) = respond 200
       (JObj [(''totalCollections'', JNum 0), (''totalOrders'', JNum 0), (''totalTraders'', JNum 0)])"
  using assms by (simp add: collection_statistics_def global_statistics_def market_of_def
      get_best_price_def get_listed_count_def price_or_nil_def count_or_zero_def big_json_def
      get_total_orders_def get_collection_count_def get_active_maker_count_def db_exec_def
      run_stmt_def Let_def)

theorem statistics_hide_failures_witness:
  "fst (collection_statistics (param_request ''collection'' ''bayc'') sample_db) = respond 200
    (JObj [(''bestBid'', JNull), (''collection'', JStr ''bayc''), (''floorPrice'', JNull), (''listed'', JNum 0)])"
proof -
  have "hex_decode ''bayc'' = Inl (invalid_byte (CHR ''y''))"
    by code_simp
  then have "hex_decode (rq_param (param_request ''collection'' ''bayc'') ''collection'') = Inl (invalid_byte (CHR ''y''))"
    by (simp add: param_request_def)
  from statistics_hide_failures [OF this, of "empty_db\<lparr>db_outcomes := [Failed (ErrText []), Failed (ErrText []), Failed (ErrText [])]\<rparr>"
      "ErrText []" "ErrText []" "ErrText []" sample_db] show ?thesis
    by (simp add: param_request_def)
qed

end
