(* ===== verification/GraphQL.thy ===== *)
theory GraphQL
  imports OrderApi CollectionHandler
begin

section \<open>internal/graphql: types, conversions, resolvers\<close>

text \<open>
  The GraphQL face of the market: the types of \<open>models_gen.go\<close>, the scalar \<open>BigInt\<close> of \<open>scalars.go\<close>, the
  conversions of \<open>convert.go\<close> and the resolvers of \<open>schema.resolvers.go\<close>.  A Go \<open>int\<close> is an \<open>int\<close> here;
  its conversion to an enumeration or to \<open>uint64\<close> is \<open>word_of_int\<close>, which drops the high bits as Go does.
  A resolver sees the store only: it has no hub and no metadata queue.  \<open>nows\<close> are the successive
  readings of the clock and \<open>rfc\<close> is \<open>Time.Format(time.RFC3339)\<close>.
\<close>

subsection \<open>models_gen.go\<close>

record gql_order =
  go_hash :: string
  go_maker :: string
  go_taker :: "string option"
  go_side :: int
  go_kind :: int
  go_asset_type :: int
  go_collection :: string
  go_token_id :: "int option"
  go_amount :: "int option"
  go_price :: "int option"
  go_start_price :: "int option"
  go_start_time :: string
  go_end_time :: string
  go_salt :: "int option"
  go_signature :: string
  go_status :: int
  go_counter :: "int option"
  go_current_price :: "int option"
  go_extra :: string
  go_created_at :: string

record order_connection =
  oc_orders :: "gql_order list"
  oc_total :: int
  oc_page :: int
  oc_page_size :: int

record gql_collection =
  gc_address :: string
  gc_name :: string
  gc_symbol :: string
  gc_description :: string
  gc_image :: string
  gc_banner :: string
  gc_website :: string
  gc_twitter :: string
  gc_discord :: string
  gc_slug :: string
  gc_category :: string
  gc_is_verified :: bool
  gc_is_blocked :: bool
  gc_floor_price :: "int option"
  gc_best_bid :: "int option"
  gc_listed_count :: int
  gc_created_at :: string

record collection_connection =
  cc_collections :: "gql_collection list"
  cc_total :: int
  cc_page :: int
  cc_page_size :: int

record gql_collection_stats =
  gt_floor_price :: "int option"
  gt_best_bid :: "int option"
  gt_listed_count :: int

record gql_filter =
  gf_collection :: "string option"
  gf_maker :: "string option"
  gf_side :: "int option"
  gf_kind :: "int option"
  gf_asset_type :: "int option"
  gf_status :: "int option"
  gf_min_price :: "string option"
  gf_max_price :: "string option"

record submit_input =
  si_maker :: string
  si_taker :: "string option"
  si_side :: int
  si_kind :: int
  si_asset_type :: int
  si_collection :: string
  si_token_id :: string
  si_amount :: string
  si_price :: string
  si_payment_token :: "string option"
  si_start_price :: "string option"
  si_start_time :: int
  si_end_time :: int
  si_salt :: string
  si_signature :: string
  si_extra :: "string option"

subsection \<open>scalars.go\<close>

definition marshal_big_int :: "int option \<Rightarrow> json" where
  "marshal_big_int bi = (case bi of None \<Rightarrow> JNull | Some i \<Rightarrow> JStr (dec_of_int i))"

definition unmarshal_big_int :: "json \<Rightarrow> int option result" where
  "unmarshal_big_int v = (case v of
      JStr s \<Rightarrow> (case big_set_string s of
          (i, True) \<Rightarrow> Inr (Some i)
        | (i, False) \<Rightarrow> Inl (ErrText (''invalid BigInt: '' @ s)))
    | JNull \<Rightarrow> Inr None
    | _ \<Rightarrow> Inl (ErrText ''BigInt must be a string''))"

subsection \<open>convert.go\<close>

definition str_ptr_or_nil :: "string \<Rightarrow> string option" where
  "str_ptr_or_nil s = (if s = [] \<or> s = zero_address then None else Some s)"

definition domain_order_to_gql :: "(instant \<Rightarrow> string) \<Rightarrow> instant \<Rightarrow> order \<Rightarrow> gql_order" where
  "domain_order_to_gql rfc now od =
     (let taker = (if o_taker od = zero_address then [] else o_taker od) in
      \<lparr>go_hash = o_order_hash od, go_maker = o_maker od, go_taker = str_ptr_or_nil taker,
       go_side = uint (o_side od), go_kind = uint (o_kind od), go_asset_type = uint (o_asset_type od),
       go_collection = o_collection od, go_token_id = Some (o_token_id od),
       go_amount = Some (o_amount od), go_price = Some (o_price od),
       go_start_price = Some (o_start_price od),
       go_start_time = dec_of_int (uint (o_start_time od)),
       go_end_time = dec_of_int (uint (o_end_time od)),
       go_salt = Some (o_salt od), go_signature = o_signature od, go_status = uint (o_status od),
       go_counter = Some (o_counter od), go_current_price = Some (current_price od now),
       go_extra = o_extra od, go_created_at = rfc (o_created_at od)\<rparr>)"

fun domain_orders_to_gql ::
  "(instant \<Rightarrow> string) \<Rightarrow> (nat \<Rightarrow> instant) \<Rightarrow> nat \<Rightarrow> order list \<Rightarrow> gql_order list" where
  "domain_orders_to_gql rfc nows i [] = []"
| "domain_orders_to_gql rfc nows i (od # ods) =
     domain_order_to_gql rfc (nows i) od # domain_orders_to_gql rfc nows (Suc i) ods"

text \<open>The price bounds are set by \<open>SetString\<close>, whose failure is ignored.\<close>

definition gql_filter_to_domain :: "gql_filter \<Rightarrow> order_filter" where
  "gql_filter_to_domain f = empty_filter\<lparr>
     f_collection := (case gf_collection f of None \<Rightarrow> [] | Some c \<Rightarrow> c),
     f_maker := (case gf_maker f of None \<Rightarrow> [] | Some m \<Rightarrow> m),
     f_side := map_option word_of_int (gf_side f),
     f_kind := map_option word_of_int (gf_kind f),
     f_asset_type := map_option word_of_int (gf_asset_type f),
     f_status := map_option word_of_int (gf_status f),
     f_min_price := map_option (\<lambda>s. fst (big_set_string s)) (gf_min_price f),
     f_max_price := map_option (\<lambda>s. fst (big_set_string s)) (gf_max_price f)\<rparr>"

definition gql_submit_to_domain :: "submit_input \<Rightarrow> submit_request" where
  "gql_submit_to_domain i =
     (let or_empty = (\<lambda>p. case p of None \<Rightarrow> [] | Some s \<Rightarrow> s) in
      \<lparr>q_maker = si_maker i, q_taker = or_empty (si_taker i),
       q_side = word_of_int (si_side i), q_kind = word_of_int (si_kind i),
       q_asset_type = word_of_int (si_asset_type i), q_collection = si_collection i,
       q_token_id = si_token_id i, q_amount = si_amount i,
       q_payment_token = or_empty (si_payment_token i), q_price = si_price i,
       q_start_price = or_empty (si_start_price i),
       q_start_time = word_of_int (si_start_time i), q_end_time = word_of_int (si_end_time i),
       q_salt = si_salt i, q_extra = or_empty (si_extra i), q_signature = si_signature i\<rparr>)"

definition domain_collection_to_gql ::
  "(instant \<Rightarrow> string) \<Rightarrow> collection \<Rightarrow> int option \<Rightarrow> int option \<Rightarrow> int \<Rightarrow> gql_collection" where
  "domain_collection_to_gql rfc c floor bid listed =
     \<lparr>gc_address = l_address c, gc_name = l_name c, gc_symbol = l_symbol c, gc_description = [],
      gc_image = l_image_url c, gc_banner = [], gc_website = [], gc_twitter = [], gc_discord = [],
      gc_slug = [], gc_category = [], gc_is_verified = False, gc_is_blocked = False,
      gc_floor_price = floor, gc_best_bid = bid, gc_listed_count = listed,
      gc_created_at = rfc (l_synced_at c)\<rparr>"

subsection \<open>schema.resolvers.go\<close>

record resolver =
  rs_order_svc :: "db order_service"
  rs_now :: "nat \<Rightarrow> instant"
  rs_rfc :: "instant \<Rightarrow> string"

text \<open>A resolver's answer with another value in place of a successful one.\<close>

definition map_answer :: "('a \<Rightarrow> 'b) \<Rightarrow> 'a result \<times> db \<Rightarrow> 'b result \<times> db" where
  "map_answer f r = (case r of (Inl e, d) \<Rightarrow> (Inl e, d) | (Inr x, d) \<Rightarrow> (Inr (f x), d))"

definition resolve_submit_order ::
  "resolver \<Rightarrow> instant \<times> instant \<times> instant \<Rightarrow> submit_input \<Rightarrow> db \<Rightarrow> gql_order result \<times> db" where
  "resolve_submit_order r clock i d =
     map_answer (domain_order_to_gql (rs_rfc r) (rs_now r 0))
       (submit (rs_order_svc r) clock (gql_submit_to_domain i) d)"

definition resolve_order :: "resolver \<Rightarrow> string \<Rightarrow> db \<Rightarrow> gql_order option result \<times> db" where
  "resolve_order r h d =
     map_answer (map_option (domain_order_to_gql (rs_rfc r) (rs_now r 0)))
       (get_by_hash (rs_order_svc r) h d)"

definition order_page :: "resolver \<Rightarrow> int \<Rightarrow> int \<Rightarrow> order list \<times> int \<Rightarrow> order_connection" where
  "order_page r page pageSize found = (case found of (ods, n) \<Rightarrow>
     \<lparr>oc_orders = domain_orders_to_gql (rs_rfc r) (rs_now r) 0 ods, oc_total = n, oc_page = page,
      oc_page_size = pageSize\<rparr>)"

definition resolve_orders ::
  "resolver \<Rightarrow> gql_filter option \<Rightarrow> int \<Rightarrow> int \<Rightarrow> db \<Rightarrow> order_connection result \<times> db" where
  "resolve_orders r filt page pageSize d =
     (let f = (case filt of None \<Rightarrow> empty_filter | Some g \<Rightarrow> gql_filter_to_domain g);
          f' = f\<lparr>f_limit := pageSize, f_offset := wrap64 (wrap64 (page - 1) * pageSize)\<rparr>
      in map_answer (order_page r page pageSize) (service_find (rs_order_svc r) f' d))"

text \<open>Here \<open>scan\<close> are the readings of the clock inside \<open>GetBest\<close>.\<close>

definition resolve_best_order ::
  "resolver \<Rightarrow> (nat \<Rightarrow> instant) \<Rightarrow> string \<Rightarrow> int \<Rightarrow> db \<Rightarrow> gql_order option result \<times> db" where
  "resolve_best_order r scan collection side d =
     map_answer (map_option (domain_order_to_gql (rs_rfc r) (rs_now r 0)))
       (get_best (rs_order_svc r) scan collection (word_of_int side) d)"

definition resolve_collection :: "resolver \<Rightarrow> string \<Rightarrow> db \<Rightarrow> gql_collection option result \<times> db" where
  "resolve_collection r address d =
     (case find_by_address address d of
        (Inl e, d1) \<Rightarrow> (Inl e, d1)
      | (Inr None, d1) \<Rightarrow> (Inr None, d1)
      | (Inr (Some c), d1) \<Rightarrow>
          (case market_of address d1 of ((floor, bid, listed), d2) \<Rightarrow>
             (Inr (Some (domain_collection_to_gql (rs_rfc r) c floor bid listed)), d2)))"

definition resolve_collections ::
  "resolver \<Rightarrow> string option \<Rightarrow> int \<Rightarrow> int \<Rightarrow> db \<Rightarrow> collection_connection result \<times> db" where
  "resolve_collections r search page pageSize d =
     (let searchStr = (case search of None \<Rightarrow> [] | Some s \<Rightarrow> s) in
      map_answer (\<lambda>(cs, n).
          \<lparr>cc_collections = map (\<lambda>c. domain_collection_to_gql (rs_rfc r) c None None 0) cs,
           cc_total = n, cc_page = page, cc_page_size = pageSize\<rparr>)
        (find_all_collections_paged searchStr page pageSize d))"

definition resolve_user_orders ::
  "resolver \<Rightarrow> string \<Rightarrow> int list \<Rightarrow> int \<Rightarrow> int \<Rightarrow> db \<Rightarrow> order_connection result \<times> db" where
  "resolve_user_orders r address status page pageSize d =
     (let s = (case status of [] \<Rightarrow> None | st # _ \<Rightarrow> Some (word_of_int st));
          f = empty_filter\<lparr>f_maker := address, f_status := s, f_limit := pageSize,
                f_offset := wrap64 (wrap64 (page - 1) * pageSize)\<rparr>
      in map_answer (order_page r page pageSize) (service_find (rs_order_svc r) f d))"

definition resolve_stats :: "db \<Rightarrow> global_stats result \<times> db" where
  "resolve_stats d =
     (case get_total_orders d of (orders, d1) \<Rightarrow>
        (case get_collection_count d1 of (collections, d2) \<Rightarrow>
           (case get_active_maker_count d2 of (traders, d3) \<Rightarrow>
              (Inr \<lparr>gs_total_orders = count_or_zero orders,
                 gs_total_collections = count_or_zero collections,
                 gs_total_traders = count_or_zero traders\<rparr>, d3))))"

definition resolve_collection_stats :: "string \<Rightarrow> db \<Rightarrow> gql_collection_stats result \<times> db" where
  "resolve_collection_stats address d =
     (case market_of address d of ((floor, bid, listed), d1) \<Rightarrow>
        (Inr \<lparr>gt_floor_price = floor, gt_best_bid = bid, gt_listed_count = listed\<rparr>, d1))"

subsection \<open>What the resolvers answer\<close>

text \<open>The scalar reads back what it writes; nil is \<open>null\<close>.\<close>

lemma big_int_scalar_roundtrip: "unmarshal_big_int (marshal_big_int v) = Inr v"
  by (cases v) (simp_all add: unmarshal_big_int_def marshal_big_int_def)

lemma map_answer_Inr [simp]: "map_answer f (Inr x, d) = (Inr (f x), d)"
  and map_answer_Inl [simp]: "map_answer f (Inl e, d) = (Inl e, d)"
  by (simp_all add: map_answer_def)

lemma map_answer_state [simp]: "snd (map_answer f r) = snd r"
  by (cases r; cases "fst r") (simp_all add: map_answer_def split: prod.splits sum.splits)

lemma domain_orders_fixed: "domain_orders_to_gql rfc (\<lambda>i. t) i ods = map (domain_order_to_gql rfc t) ods"
  by (induction ods arbitrary: i) simp_all

definition page_fits :: "int \<Rightarrow> int \<Rightarrow> bool" where
  "page_fits page pageSize \<longleftrightarrow> 1 \<le> page \<and> in_int64 page \<and> 1 \<le> pageSize \<and> in_int64 ((page - 1) * pageSize)"

lemma found_page_of:
  assumes "healthy d" and "filter_ok f" and "page_fits page pageSize"
  shows "find_orders (f\<lparr>f_limit := pageSize, f_offset := wrap64 (wrap64 (page - 1) * pageSize)\<rparr>) d =
    (Inr (page_of pageSize ((page - 1) * pageSize) (matching f d), int (length (matching f d))), d)"
proof -
  have p: "wrap64 (page - 1) = page - 1" "1 \<le> pageSize" "0 \<le> (page - 1) * pageSize"
    "wrap64 ((page - 1) * pageSize) = (page - 1) * pageSize"
    using assms(3) by (simp_all add: page_fits_def in_int64_def)
  have "filter_ok (f\<lparr>f_limit := pageSize, f_offset := (page - 1) * pageSize\<rparr>)"
    using assms(2) by (simp add: filter_ok_def)
  from find_orders_matching [OF assms(1) this] show ?thesis
    using p by simp
qed

text \<open>
  The query \<open>orders\<close> answers the page of the abstract book that it is asked for: the matching orders,
  newest first, each with its current price, and the number of all matches.  Unlike the REST endpoint it
  puts no limit on the size of a page.
\<close>

theorem graphql_orders_page:
  assumes "healthy d" and "rs_order_svc r = new_order_service eth svc chain"
    and "filter_ok (gql_filter_to_domain g)" and "page_fits page pageSize" and "rs_now r = (\<lambda>i. t)"
  shows "resolve_orders r (Some g) page pageSize d =
    (Inr \<lparr>oc_orders = map (domain_order_to_gql (rs_rfc r) t)
            (page_of pageSize ((page - 1) * pageSize) (matching (gql_filter_to_domain g) d)),
          oc_total = int (length (matching (gql_filter_to_domain g) d)), oc_page = page,
          oc_page_size = pageSize\<rparr>, d)"
  using found_page_of [OF assms(1,3,4)]
  by (simp add: resolve_orders_def service_find_def assms(2,5) new_order_service_def order_page_def
      domain_orders_fixed Let_def)

definition toy_resolver :: "(instant \<Rightarrow> string) \<Rightarrow> resolver" where
  "toy_resolver rfc = \<lparr>rs_order_svc = toy_desk, rs_now = (\<lambda>i. 0), rs_rfc = rfc\<rparr>"

definition collection_filter :: "string \<Rightarrow> gql_filter" where
  "collection_filter c = \<lparr>gf_collection = Some c, gf_maker = None, gf_side = None, gf_kind = None,
     gf_asset_type = None, gf_status = Some 0, gf_min_price = None, gf_max_price = None\<rparr>"

lemma collection_filter_domain: "gql_filter_to_domain (collection_filter c) = best_filter c"
  by (simp add: gql_filter_to_domain_def collection_filter_def best_filter_def empty_filter_def)

theorem graphql_orders_page_witness:
  "\<exists>conn. resolve_orders (toy_resolver (\<lambda>t. [])) (Some (collection_filter ''0x2b'')) 1 1000000 two_sided_db =
     (Inr conn, two_sided_db) \<and> length (oc_orders conn) = 2 \<and> oc_total conn = 2"
proof -
  have "filter_ok (gql_filter_to_domain (collection_filter ''0x2b''))"
    by (simp add: collection_filter_domain filter_ok_best two_sided_facts(2))
  moreover have "page_fits 1 1000000"
    by (simp add: page_fits_def in_int64_def)
  moreover have "matching (gql_filter_to_domain (collection_filter ''0x2b'')) two_sided_db =
      active_book ''0x2b'' two_sided_db"
    by (simp add: collection_filter_domain active_book_def)
  ultimately show ?thesis
    using graphql_orders_page [OF two_sided_facts(1), of "toy_resolver (\<lambda>t. [])" _ _ _ "collection_filter ''0x2b''" 1 1000000]
    by (simp add: toy_resolver_def page_of_def two_sided_facts(4))
qed

subsection \<open>Submitting through GraphQL and through REST\<close>

text \<open>The REST body with the same content as an input: an absent optional member is left out.\<close>

definition opt_member :: "string \<Rightarrow> string option \<Rightarrow> (string \<times> json) list" where
  "opt_member k v = (case v of None \<Rightarrow> [] | Some s \<Rightarrow> [(k, JStr s)])"

definition input_body :: "submit_input \<Rightarrow> json" where
  "input_body i = JObj ([(''maker'', JStr (si_maker i))] @ opt_member ''taker'' (si_taker i) @
     [(''side'', JNum (si_side i)), (''kind'', JNum (si_kind i)), (''assetType'', JNum (si_asset_type i)),
      (''collection'', JStr (si_collection i)), (''tokenId'', JStr (si_token_id i)),
      (''amount'', JStr (si_amount i)), (''price'', JStr (si_price i))] @
     opt_member ''paymentToken'' (si_payment_token i) @ opt_member ''startPrice'' (si_start_price i) @
     [(''startTime'', JNum (si_start_time i)), (''endTime'', JNum (si_end_time i)),
      (''salt'', JStr (si_salt i)), (''signature'', JStr (si_signature i))] @
     opt_member ''extra'' (si_extra i))"

definition input_in_range :: "submit_input \<Rightarrow> bool" where
  "input_in_range i \<longleftrightarrow> 0 \<le> si_side i \<and> si_side i \<le> 1 \<and> 0 \<le> si_kind i \<and> si_kind i \<le> 4 \<and>
     0 \<le> si_asset_type i \<and> si_asset_type i \<le> 1 \<and> 1 \<le> si_start_time i \<and> si_start_time i < 2 ^ 63 \<and>
     0 \<le> si_end_time i \<and> si_end_time i < 2 ^ 63 \<and>
     [] \<notin> {si_maker i, si_collection i, si_token_id i, si_amount i, si_price i, si_salt i, si_signature i}"

lemma json_field_append [simp]: "json_field k (xs @ ys) = json_field k xs @ json_field k ys"
  by (simp add: json_field_def)

lemma json_field_opt: "json_field k (opt_member k' v) =
    (if equal_fold k' k then (case v of None \<Rightarrow> [] | Some s \<Rightarrow> [JStr s]) else [])"
  by (simp add: opt_member_def json_field_def split: option.splits)

lemma json_field_Cons: "json_field k ((k', v) # ms) =
    (if equal_fold k' k then v # json_field k ms else json_field k ms)"
  "json_field k [] = []"
  by (simp_all add: json_field_def)

lemma decode_opt: "decode_string [] (case v of None \<Rightarrow> [] | Some s \<Rightarrow> [JStr s]) =
    Inr (case v of None \<Rightarrow> [] | Some s \<Rightarrow> s)"
  by (cases v) simp_all

lemma unmarshal_input_body:
  assumes "input_in_range i"
  shows "unmarshal_submit_request (input_body i) = Inr (gql_submit_to_domain i)"
  using assms
  by (simp add: unmarshal_submit_request_def input_body_def json_field_Cons json_field_opt string_field_def
      uint_field_def decode_opt equal_fold_def to_lower_def ascii_lower_def char_of_def bit_0
      gql_submit_to_domain_def input_in_range_def Let_def)

lemma small_word: "0 \<le> x \<Longrightarrow> x \<le> n \<Longrightarrow> n < 256 \<Longrightarrow> (word_of_int x :: uint8) \<le> word_of_int n"
  by (simp add: word_le_def uint_word_of_int)

lemma gql_submit_sel:
  "q_maker (gql_submit_to_domain i) = si_maker i" "q_collection (gql_submit_to_domain i) = si_collection i"
  "q_token_id (gql_submit_to_domain i) = si_token_id i" "q_amount (gql_submit_to_domain i) = si_amount i"
  "q_price (gql_submit_to_domain i) = si_price i" "q_salt (gql_submit_to_domain i) = si_salt i"
  "q_signature (gql_submit_to_domain i) = si_signature i"
  "q_side (gql_submit_to_domain i) = word_of_int (si_side i)"
  "q_kind (gql_submit_to_domain i) = word_of_int (si_kind i)"
  "q_asset_type (gql_submit_to_domain i) = word_of_int (si_asset_type i)"
  "q_start_time (gql_submit_to_domain i) = word_of_int (si_start_time i)"
  by (simp_all add: gql_submit_to_domain_def Let_def)

lemma start_nonzero: "1 \<le> x \<Longrightarrow> x < 2 ^ 63 \<Longrightarrow> (word_of_int x :: uint64) \<noteq> 0"
  by (simp add: word_of_int_eq_0_iff zdvd_not_zless)

text \<open>
  C27: A submission that both interfaces can express means the same in both: the REST body with the content
  of a GraphQL input binds to the request that the resolver makes of it, so both are answered by the same
  run of the order service.
\<close>

theorem graphql_submit_like_rest:
  assumes "input_in_range i" and "rs_order_svc r = oh_svc oh"
    and "rq_body rq = Inr (input_body i)" and "submit_order oh clk rq s = Some (p, s')"
  shows "case resolve_submit_order r clk i (sh_store s) of
      (Inl e, d) \<Rightarrow> p = fail_with 400 (extract_error_code e) (error_string e) \<and> sh_store s' = d
    | (Inr g, d) \<Rightarrow> p_status p = 201 \<and> json_text ''orderHash'' (p_body p) = Some (go_hash g) \<and> sh_store s' = d"
proof -
  have "validate_submit_request (gql_submit_to_domain i) = []"
    using assms(1) small_word [of "si_side i" 1] small_word [of "si_kind i" 4]
      small_word [of "si_asset_type i" 1] start_nonzero [of "si_start_time i"]
    by (auto simp: validate_submit_request_def Let_def gql_submit_sel input_in_range_def)
  then have b: "bind_submit_request (rq_body rq) = Inr (gql_submit_to_domain i)"
    by (simp add: bind_submit_request_def should_bind_Inr assms(3) unmarshal_input_body [OF assms(1)])
  obtain x st where sub: "submit (oh_svc oh) clk (gql_submit_to_domain i) (sh_store s) = (x, st)"
    by fastforce
  show ?thesis
  proof (cases x)
    case (Inl e)
    with sub b assms(4) show ?thesis
      by (auto simp: submit_order_def on_store_def resolve_submit_order_def assms(2))
  next
    case (Inr od)
    with sub b assms(4) show ?thesis
      by (auto simp: submit_order_def on_store_def resolve_submit_order_def assms(2) announce_def
          json_text_def domain_order_to_gql_def Let_def split: option.splits)
  qed
qed

definition auction_input :: submit_input where
  "auction_input = \<lparr>si_maker = ''0x1A'', si_taker = None, si_side = 0, si_kind = 1, si_asset_type = 0,
     si_collection = ''0x2b'', si_token_id = ''7'', si_amount = ''1'', si_price = ''1000'',
     si_payment_token = None, si_start_price = Some ''2000'', si_start_time = 1000, si_end_time = 2000,
     si_salt = ''1'', si_signature = q_signature auction_request, si_extra = None\<rparr>"

lemma auction_input_domain: "gql_submit_to_domain auction_input = auction_request"
  by (simp add: gql_submit_to_domain_def auction_input_def auction_request_def Let_def)

theorem graphql_submit_like_rest_witness:
  "\<exists>g p s'. resolve_submit_order (toy_resolver (\<lambda>t. [])) (unix_instant 1200, 0, 0) auction_input empty_db =
      (Inr g, sh_store s') \<and> p_status p = 201 \<and> json_text ''orderHash'' (p_body p) = Some (go_hash g) \<and>
    submit_order toy_handler (unix_instant 1200, 0, 0) (post_request (input_body auction_input))
      (toy_shop empty_db) = Some (p, s')"
proof -
  have r: "input_in_range auction_input"
    by (simp add: input_in_range_def auction_input_def auction_request_def)
  have b: "bind_submit_request (Inr (input_body auction_input)) = Inr auction_request"
    by (simp add: bind_submit_request_def should_bind_Inr unmarshal_input_body [OF r] auction_input_domain
        validate_submit_request_def Let_def) (simp add: auction_request_def)
  then obtain p s' where s': "submit_order toy_handler (unix_instant 1200, 0, 0)
      (post_request (input_body auction_input)) (toy_shop empty_db) = Some (p, s')"
    using auction_accepted by (auto simp: submit_order_def post_request_def get_request_def on_store_def
        toy_handler_def toy_shop_def announce_def broadcast_def auction_order_def)
  moreover obtain g d where g: "resolve_submit_order (toy_resolver (\<lambda>t. [])) (unix_instant 1200, 0, 0)
      auction_input empty_db = (Inr g, d)"
    using auction_accepted by (auto simp: resolve_submit_order_def toy_resolver_def auction_input_domain)
  moreover have "rs_order_svc (toy_resolver (\<lambda>t. [])) = oh_svc toy_handler"
    "rq_body (post_request (input_body auction_input)) = Inr (input_body auction_input)"
    by (simp_all add: toy_resolver_def toy_handler_def post_request_def)
  moreover have "sh_store (toy_shop empty_db) = empty_db"
    by (simp add: toy_shop_def)
  ultimately show ?thesis
    using graphql_submit_like_rest [OF r _ _ s', of "toy_resolver (\<lambda>t. [])"] s' by (auto simp: g)
qed

lemma byte_256: "(256 :: uint8) = 0"
  by simp

text \<open>
  An enumeration is cut to its low byte on the way in: a side of 256 is taken for 0, a kind of 257 for a
  Dutch auction, and the order is stored as such; the REST endpoint refuses the same numbers.
\<close>

theorem graphql_side_wraps:
  assumes "k \<noteq> 0" and "0 \<le> si_side i" and "si_side i \<le> 1"
  shows "resolve_submit_order r clk (i\<lparr>si_side := si_side i + 256 * k, si_kind := si_kind i + 256 * l\<rparr>) d =
      resolve_submit_order r clk i d \<and>
    (\<exists>e. bind_submit_request (Inr (input_body (i\<lparr>si_side := si_side i + 256 * k\<rparr>))) = Inl e)"
proof
  show "resolve_submit_order r clk (i\<lparr>si_side := si_side i + 256 * k, si_kind := si_kind i + 256 * l\<rparr>) d =
      resolve_submit_order r clk i d"
    by (simp add: resolve_submit_order_def gql_submit_to_domain_def Let_def byte_256)
  have "\<not> (0 \<le> si_side i + 256 * k \<and> si_side i + 256 * k < 256)"
    using assms by arith
  then show "\<exists>e. bind_submit_request (Inr (input_body (i\<lparr>si_side := si_side i + 256 * k\<rparr>))) = Inl e"
    by (auto simp: bind_submit_request_def should_bind_def unmarshal_submit_request_def input_body_def
      json_field_Cons json_field_opt string_field_def
      uint_field_def decode_opt equal_fold_def to_lower_def ascii_lower_def char_of_def bit_0)
qed

theorem graphql_side_wraps_witness:
  "fst (resolve_submit_order (toy_resolver (\<lambda>t. [])) (unix_instant 1200, 0, 0)
      (auction_input\<lparr>si_side := 256, si_kind := 257\<rparr>) empty_db) =
    fst (resolve_submit_order (toy_resolver (\<lambda>t. [])) (unix_instant 1200, 0, 0) auction_input empty_db)"
  using graphql_side_wraps [of 1 auction_input "toy_resolver (\<lambda>t. [])" "(unix_instant 1200, 0, 0)" 1 empty_db]
  by (simp add: auction_input_def)

subsection \<open>Orders of a user, statistics\<close>

text \<open>Of the list of statuses that \<open>userOrders\<close> takes, only the first counts.\<close>

lemma user_orders_first_status:
  "resolve_user_orders r a (st # sts) page pageSize d = resolve_user_orders r a [st] page pageSize d"
  by (simp add: resolve_user_orders_def)

text \<open>The market of a collection is the one of the abstract book, as it is for the REST endpoint.\<close>

lemma resolved_stats_exact:
  assumes "healthy d" and "hex_text_ok c" and "c \<noteq> []"
  shows "resolve_collection_stats c d = (Inr \<lparr>gt_floor_price = best_of c Sell d,
    gt_best_bid = best_of c Buy d, gt_listed_count = int (length (side_prices c Sell d))\<rparr>, d)"
  by (simp add: resolve_collection_stats_def market_exact [OF assms])

end
