(* ===== verification/GraphQLArgs.thy ===== *)
theory GraphQLArgs
  imports GraphQL
begin

section \<open>internal/graphql/generated.go: arguments in\<close>

text \<open>
  Selections, what gqlgen and its parser supply, and how the arguments of a field are read.  \<open>gl_int\<close>,
  \<open>gl_string\<close>, \<open>gl_bool\<close> and \<open>gl_list\<close> read scalar and list arguments; a collected field is its response name,
  its name, its arguments and its own selection.  The introspected schema is the library's: its types are
  addresses, \<open>gl_type_info\<close> is what the methods of a type answer, \<open>gl_schema\<close> and \<open>gl_find_type\<close> are
  \<open>IntrospectSchema\<close> and \<open>IntrospectType\<close>; no request changes them.
\<close>

datatype selection =
  Sel (sel_alias: string) (sel_name: string) (sel_args: "(string \<times> json) list") (sel_sub: "selection list")

text \<open>The package \<open>introspection\<close>; a nil slice or pointer is \<open>None\<close>.\<close>

record input_value_info =
  iv_name :: string
  iv_description :: "string option"
  iv_type :: "nat option"
  iv_default :: "string option"
  iv_deprecated :: bool
  iv_reason :: "string option"

record field_info =
  fi_name :: string
  fi_description :: "string option"
  fi_args :: "input_value_info list"
  fi_type :: "nat option"
  fi_deprecated :: bool
  fi_reason :: "string option"

record enum_value_info =
  eu_name :: string
  eu_description :: "string option"
  eu_deprecated :: bool
  eu_reason :: "string option"

record directive_info =
  di_name :: string
  di_description :: "string option"
  di_repeatable :: bool
  di_locations :: "string list"
  di_args :: "input_value_info list"

record type_info =
  ti_kind :: string
  ti_name :: "string option"
  ti_description :: "string option"
  ti_specified_by :: "string option"
  ti_fields :: "bool \<Rightarrow> field_info list option"
  ti_interfaces :: "nat list option"
  ti_possible :: "nat list option"
  ti_enum_values :: "bool \<Rightarrow> enum_value_info list option"
  ti_input_fields :: "input_value_info list option"
  ti_of :: "nat option"
  ti_one_of :: bool

record schema_info =
  sc_description :: "string option"
  sc_types :: "nat list"
  sc_query :: "nat option"
  sc_mutation :: "nat option"
  sc_subscription :: "nat option"
  sc_directives :: "directive_info list"

record gql_lib =
  gl_int :: "json \<Rightarrow> int result"
  gl_string :: "json \<Rightarrow> string result"
  gl_bool :: "json \<Rightarrow> bool result"
  gl_list :: "json \<Rightarrow> json list"
  gl_type_info :: "nat \<Rightarrow> type_info"
  gl_schema :: "schema_info option result"
  gl_find_type :: "string \<Rightarrow> nat option result"

subsection \<open>Reading arguments\<close>

text \<open>A member of the input: absent ones keep the zero value.\<close>

definition arg :: "'a \<Rightarrow> (json \<Rightarrow> 'a result) \<Rightarrow> string \<Rightarrow> (string \<times> json) list \<Rightarrow> 'a result" where
  "arg z read k ms = (case map_of ms k of None \<Rightarrow> Inr z | Some v \<Rightarrow> read v)"

definition nullable :: "(json \<Rightarrow> 'a result) \<Rightarrow> json \<Rightarrow> 'a option result" where
  "nullable read v = (if v = JNull then Inr None else bind_result (read v) (\<lambda>x. Inr (Some x)))"

fun read_ints :: "gql_lib \<Rightarrow> json list \<Rightarrow> int list result" where
  "read_ints L [] = Inr []"
| "read_ints L (v # vs) =
     bind_result (gl_int L v) (\<lambda>i. bind_result (read_ints L vs) (\<lambda>is. Inr (i # is)))"

definition unmarshal_int_list :: "gql_lib \<Rightarrow> json \<Rightarrow> int list result" where
  "unmarshal_int_list L v = (if v = JNull then Inr [] else read_ints L (gl_list L v))"

definition internal_error :: go_error where
  "internal_error = ErrText ''internal system error''"

text \<open>The conversion to a map panics for another kind of value; the panic is recovered as an error.\<close>

definition input_object :: "json \<Rightarrow> (string \<times> json) list result" where
  "input_object v = (case v of JNull \<Rightarrow> Inr [] | JObj ms \<Rightarrow> Inr ms | _ \<Rightarrow> Inl internal_error)"

definition unmarshal_input_order_filter :: "gql_lib \<Rightarrow> json \<Rightarrow> gql_filter result" where
  "unmarshal_input_order_filter L v =
     (let text = nullable (gl_string L); number = nullable (gl_int L) in
      bind_result (input_object v) (\<lambda>ms.
      bind_result (arg None text ''collection'' ms) (\<lambda>collection.
      bind_result (arg None text ''maker'' ms) (\<lambda>maker.
      bind_result (arg None number ''side'' ms) (\<lambda>side.
      bind_result (arg None number ''kind'' ms) (\<lambda>kind.
      bind_result (arg None number ''assetType'' ms) (\<lambda>assetType.
      bind_result (arg None number ''status'' ms) (\<lambda>status.
      bind_result (arg None text ''minPrice'' ms) (\<lambda>minPrice.
      bind_result (arg None text ''maxPrice'' ms) (\<lambda>maxPrice.
        Inr \<lparr>gf_collection = collection, gf_maker = maker, gf_side = side, gf_kind = kind,
             gf_asset_type = assetType, gf_status = status, gf_min_price = minPrice,
             gf_max_price = maxPrice\<rparr>))))))))))"

definition unmarshal_input_submit_order :: "gql_lib \<Rightarrow> json \<Rightarrow> submit_input result" where
  "unmarshal_input_submit_order L v =
     (let text = gl_string L; number = gl_int L; opt_text = nullable (gl_string L) in
      bind_result (input_object v) (\<lambda>ms.
      bind_result (arg [] text ''maker'' ms) (\<lambda>maker.
      bind_result (arg None opt_text ''taker'' ms) (\<lambda>taker.
      bind_result (arg 0 number ''side'' ms) (\<lambda>side.
      bind_result (arg 0 number ''kind'' ms) (\<lambda>kind.
      bind_result (arg 0 number ''assetType'' ms) (\<lambda>assetType.
      bind_result (arg [] text ''collection'' ms) (\<lambda>collection.
      bind_result (arg [] text ''tokenId'' ms) (\<lambda>tokenId.
      bind_result (arg [] text ''amount'' ms) (\<lambda>amount.
      bind_result (arg [] text ''price'' ms) (\<lambda>price.
      bind_result (arg None opt_text ''paymentToken'' ms) (\<lambda>paymentToken.
      bind_result (arg None opt_text ''startPrice'' ms) (\<lambda>startPrice.
      bind_result (arg 0 number ''startTime'' ms) (\<lambda>startTime.
      bind_result (arg 0 number ''endTime'' ms) (\<lambda>endTime.
      bind_result (arg [] text ''salt'' ms) (\<lambda>salt.
      bind_result (arg [] text ''signature'' ms) (\<lambda>signature.
      bind_result (arg None opt_text ''extra'' ms) (\<lambda>extra.
        Inr \<lparr>si_maker = maker, si_taker = taker, si_side = side, si_kind = kind,
             si_asset_type = assetType, si_collection = collection, si_token_id = tokenId,
             si_amount = amount, si_price = price, si_payment_token = paymentToken,
             si_start_price = startPrice, si_start_time = startTime, si_end_time = endTime,
             si_salt = salt, si_signature = signature, si_extra = extra\<rparr>))))))))))))))))))"

text \<open>The arguments of each field, in the order in which they are checked.\<close>

definition args_order :: "gql_lib \<Rightarrow> (string \<times> json) list \<Rightarrow> string result" where
  "args_order L ms = arg [] (gl_string L) ''hash'' ms"

definition args_orders :: "gql_lib \<Rightarrow> (string \<times> json) list \<Rightarrow> (gql_filter option \<times> int \<times> int) result" where
  "args_orders L ms =
     bind_result (arg None (nullable (unmarshal_input_order_filter L)) ''filter'' ms) (\<lambda>filt.
     bind_result (arg 0 (gl_int L) ''page'' ms) (\<lambda>page.
     bind_result (arg 0 (gl_int L) ''pageSize'' ms) (\<lambda>pageSize. Inr (filt, page, pageSize))))"

definition args_best_order :: "gql_lib \<Rightarrow> (string \<times> json) list \<Rightarrow> (string \<times> int) result" where
  "args_best_order L ms =
     bind_result (arg [] (gl_string L) ''collection'' ms) (\<lambda>collection.
     bind_result (arg 0 (gl_int L) ''side'' ms) (\<lambda>side. Inr (collection, side)))"

definition args_collection :: "gql_lib \<Rightarrow> (string \<times> json) list \<Rightarrow> string result" where
  "args_collection L ms = arg [] (gl_string L) ''address'' ms"

definition args_collections :: "gql_lib \<Rightarrow> (string \<times> json) list \<Rightarrow> (string option \<times> int \<times> int) result" where
  "args_collections L ms =
     bind_result (arg None (nullable (gl_string L)) ''search'' ms) (\<lambda>search.
     bind_result (arg 0 (gl_int L) ''page'' ms) (\<lambda>page.
     bind_result (arg 0 (gl_int L) ''pageSize'' ms) (\<lambda>pageSize. Inr (search, page, pageSize))))"

definition args_user_orders ::
  "gql_lib \<Rightarrow> (string \<times> json) list \<Rightarrow> (string \<times> int list \<times> int \<times> int) result" where
  "args_user_orders L ms =
     bind_result (arg [] (gl_string L) ''address'' ms) (\<lambda>address.
     bind_result (arg [] (unmarshal_int_list L) ''status'' ms) (\<lambda>status.
     bind_result (arg 0 (gl_int L) ''page'' ms) (\<lambda>page.
     bind_result (arg 0 (gl_int L) ''pageSize'' ms) (\<lambda>pageSize. Inr (address, status, page, pageSize)))))"

definition args_collection_stats :: "gql_lib \<Rightarrow> (string \<times> json) list \<Rightarrow> string result" where
  "args_collection_stats L ms = arg [] (gl_string L) ''address'' ms"

definition args_submit_order :: "gql_lib \<Rightarrow> (string \<times> json) list \<Rightarrow> submit_input result" where
  "args_submit_order L ms =
     arg \<lparr>si_maker = [], si_taker = None, si_side = 0, si_kind = 0, si_asset_type = 0,
          si_collection = [], si_token_id = [], si_amount = [], si_price = [], si_payment_token = None,
          si_start_price = None, si_start_time = 0, si_end_time = 0, si_salt = [], si_signature = [],
          si_extra = None\<rparr> (unmarshal_input_submit_order L) ''input'' ms"

text \<open>The arguments of the fields of the introspected schema.\<close>

definition args_type :: "gql_lib \<Rightarrow> (string \<times> json) list \<Rightarrow> string result" where
  "args_type L ms = arg [] (gl_string L) ''name'' ms"

definition args_type_fields :: "gql_lib \<Rightarrow> (string \<times> json) list \<Rightarrow> bool result" where
  "args_type_fields L ms = arg False (gl_bool L) ''includeDeprecated'' ms"

definition args_type_enum_values :: "gql_lib \<Rightarrow> (string \<times> json) list \<Rightarrow> bool result" where
  "args_type_enum_values L ms = arg False (gl_bool L) ''includeDeprecated'' ms"

definition args_field_args :: "gql_lib \<Rightarrow> (string \<times> json) list \<Rightarrow> bool option result" where
  "args_field_args L ms = arg None (nullable (gl_bool L)) ''includeDeprecated'' ms"

definition args_directive_args :: "gql_lib \<Rightarrow> (string \<times> json) list \<Rightarrow> bool option result" where
  "args_directive_args L ms = arg None (nullable (gl_bool L)) ''includeDeprecated'' ms"

end
