(* ===== verification/Introspection.thy ===== *)
theory Introspection
  imports GraphQLArgs
begin

section \<open>internal/graphql/generated.go: introspection\<close>

text \<open>
  The objects \<open>__Schema\<close>, \<open>__Type\<close>, \<open>__Field\<close>, \<open>__InputValue\<close>, \<open>__EnumValue\<close> and \<open>__Directive\<close>.  A value is
  JSON with the errors it adds to the response; \<open>None\<close> is the panic for a name that a type does not have.  The
  recursion is over the selection, so a query of any depth ends, also when types refer to each other.  The library
  recovers a panic; the model shows that at the field of the root (\<open>internal_answer\<close>).
\<close>

type_synonym object_value = "(json \<times> go_error list) option"

text \<open>A field of an object: whether it is non-null, and its value; \<open>None\<close> for an unknown name.\<close>

type_synonym member = "(bool \<times> object_value) option"

definition shown :: "json \<Rightarrow> object_value" where
  "shown j = Some (j, [])"

definition shown_text :: "string option \<Rightarrow> object_value" where
  "shown_text s = shown (case s of None \<Rightarrow> JNull | Some t \<Rightarrow> JStr t)"

definition null_error :: go_error where
  "null_error = ErrText ''the requested element is null which the schema does not allow''"

text \<open>The members of an object in the order of the selection; a \<open>null\<close> in a non-null position makes it \<open>null\<close>.\<close>

fun collect_members :: "string \<Rightarrow> (selection \<times> member) list \<Rightarrow> ((string \<times> json) list \<times> go_error list \<times> nat) option" where
  "collect_members ty [] = Some ([], [], 0)"
| "collect_members ty ((s, m) # ms) =
     (case (if sel_name s = ''__typename'' then Some (False, shown (JStr ty)) else m) of
        Some (required, Some (v, es)) \<Rightarrow>
          map_option (\<lambda>(out, es', invalids). ((sel_alias s, v) # out, es @ es',
              if required \<and> v = JNull then Suc invalids else invalids))
            (collect_members ty ms)
      | _ \<Rightarrow> None)"

definition collect :: "string \<Rightarrow> (selection \<times> member) list \<Rightarrow> object_value" where
  "collect ty ms = map_option (\<lambda>(out, es, invalids). (if invalids > 0 then JNull else JObj out, es))
     (collect_members ty ms)"

text \<open>A list of non-null items, \<open>null\<close> as soon as one of them is.\<close>

fun items_of :: "object_value list \<Rightarrow> (json list \<times> go_error list) option" where
  "items_of [] = Some ([], [])"
| "items_of (v # vs) = (case (v, items_of vs) of
     (Some (j, es), Some (js, es')) \<Rightarrow> Some (j # js, es @ es') | _ \<Rightarrow> None)"

definition list_value :: "object_value list \<Rightarrow> object_value" where
  "list_value vs = map_option (\<lambda>(js, es). (if JNull \<in> set js then JNull else JArr js, es)) (items_of vs)"

text \<open>Nil: \<open>null\<close> where the schema allows it, an error where it does not.\<close>

definition list_or_null :: "object_value list option \<Rightarrow> object_value" where
  "list_or_null vs = (case vs of None \<Rightarrow> shown JNull | Some xs \<Rightarrow> list_value xs)"

definition or_null_value :: "object_value option \<Rightarrow> object_value" where
  "or_null_value v = (case v of None \<Rightarrow> shown JNull | Some x \<Rightarrow> x)"

definition or_null_error :: "object_value option \<Rightarrow> object_value" where
  "or_null_error v = (case v of None \<Rightarrow> Some (JNull, [null_error]) | Some x \<Rightarrow> x)"

text \<open>A field with arguments: an error of the arguments makes it \<open>null\<close>.\<close>

definition with_args :: "'a result \<Rightarrow> ('a \<Rightarrow> object_value) \<Rightarrow> object_value" where
  "with_args args value = (case args of Inl e \<Rightarrow> Some (JNull, [e]) | Inr a \<Rightarrow> value a)"

subsection \<open>The objects\<close>

definition enum_value_field :: "enum_value_info \<Rightarrow> selection \<Rightarrow> member" where
  "enum_value_field ev s = (let name = sel_name s in
     if name = ''name'' then Some (True, shown (JStr (eu_name ev)))
     else if name = ''description'' then Some (False, shown_text (eu_description ev))
     else if name = ''isDeprecated'' then Some (True, shown (JBool (eu_deprecated ev)))
     else if name = ''deprecationReason'' then Some (False, shown_text (eu_reason ev))
     else None)"

definition enum_value_object :: "enum_value_info \<Rightarrow> selection list \<Rightarrow> object_value" where
  "enum_value_object ev sels = collect ''__EnumValue'' (map (\<lambda>s. (s, enum_value_field ev s)) sels)"

text \<open>The members of a type that do not lead to other objects.\<close>

definition type_plain_field :: "type_info \<Rightarrow> string \<Rightarrow> member" where
  "type_plain_field ti name =
     (if name = ''kind'' then Some (True, shown (JStr (ti_kind ti)))
      else if name = ''name'' then Some (False, shown_text (ti_name ti))
      else if name = ''description'' then Some (False, shown_text (ti_description ti))
      else if name = ''specifiedByURL'' then Some (False, shown_text (ti_specified_by ti))
      else if name = ''isOneOf'' then Some (False, shown (JBool (ti_one_of ti)))
      else None)"

fun type_field :: "gql_lib \<Rightarrow> nat \<Rightarrow> selection \<Rightarrow> member"
  and field_field :: "gql_lib \<Rightarrow> field_info \<Rightarrow> selection \<Rightarrow> member"
  and input_value_field :: "gql_lib \<Rightarrow> input_value_info \<Rightarrow> selection \<Rightarrow> member" where
  "type_field L t (Sel alias name args sub) =
     (if name = ''fields'' then Some (False, with_args (args_type_fields L args) (\<lambda>deprecated.
        list_or_null (map_option (map (\<lambda>f. collect ''__Field'' (map (\<lambda>s. (s, field_field L f s)) sub)))
          (ti_fields (gl_type_info L t) deprecated))))
      else if name = ''interfaces'' then Some (False, list_or_null (map_option
        (map (\<lambda>u. collect ''__Type'' (map (\<lambda>s. (s, type_field L u s)) sub))) (ti_interfaces (gl_type_info L t))))
      else if name = ''possibleTypes'' then Some (False, list_or_null (map_option
        (map (\<lambda>u. collect ''__Type'' (map (\<lambda>s. (s, type_field L u s)) sub))) (ti_possible (gl_type_info L t))))
      else if name = ''enumValues'' then Some (False, with_args (args_type_enum_values L args) (\<lambda>deprecated.
        list_or_null (map_option (map (\<lambda>ev. enum_value_object ev sub))
          (ti_enum_values (gl_type_info L t) deprecated))))
      else if name = ''inputFields'' then Some (False, list_or_null (map_option
        (map (\<lambda>iv. collect ''__InputValue'' (map (\<lambda>s. (s, input_value_field L iv s)) sub)))
          (ti_input_fields (gl_type_info L t))))
      else if name = ''ofType'' then Some (False, or_null_value (map_option
        (\<lambda>u. collect ''__Type'' (map (\<lambda>s. (s, type_field L u s)) sub)) (ti_of (gl_type_info L t))))
      else type_plain_field (gl_type_info L t) name)"
| "field_field L f (Sel alias name args sub) =
     (if name = ''name'' then Some (True, shown (JStr (fi_name f)))
      else if name = ''description'' then Some (False, shown_text (fi_description f))
      else if name = ''args'' then Some (True, with_args (args_field_args L args) (\<lambda>deprecated.
        list_value (map (\<lambda>iv. collect ''__InputValue'' (map (\<lambda>s. (s, input_value_field L iv s)) sub)) (fi_args f))))
      else if name = ''type'' then Some (True, or_null_error (map_option
        (\<lambda>u. collect ''__Type'' (map (\<lambda>s. (s, type_field L u s)) sub)) (fi_type f)))
      else if name = ''isDeprecated'' then Some (True, shown (JBool (fi_deprecated f)))
      else if name = ''deprecationReason'' then Some (False, shown_text (fi_reason f))
      else None)"
| "input_value_field L iv (Sel alias name args sub) =
     (if name = ''name'' then Some (True, shown (JStr (iv_name iv)))
      else if name = ''description'' then Some (False, shown_text (iv_description iv))
      else if name = ''type'' then Some (True, or_null_error (map_option
        (\<lambda>u. collect ''__Type'' (map (\<lambda>s. (s, type_field L u s)) sub)) (iv_type iv)))
      else if name = ''defaultValue'' then Some (False, shown_text (iv_default iv))
      else if name = ''isDeprecated'' then Some (True, shown (JBool (iv_deprecated iv)))
      else if name = ''deprecationReason'' then Some (False, shown_text (iv_reason iv))
      else None)"

definition type_object :: "gql_lib \<Rightarrow> selection list \<Rightarrow> nat \<Rightarrow> object_value" where
  "type_object L sels t = collect ''__Type'' (map (\<lambda>s. (s, type_field L t s)) sels)"

definition field_object :: "gql_lib \<Rightarrow> selection list \<Rightarrow> field_info \<Rightarrow> object_value" where
  "field_object L sels f = collect ''__Field'' (map (\<lambda>s. (s, field_field L f s)) sels)"

definition input_value_object :: "gql_lib \<Rightarrow> selection list \<Rightarrow> input_value_info \<Rightarrow> object_value" where
  "input_value_object L sels iv = collect ''__InputValue'' (map (\<lambda>s. (s, input_value_field L iv s)) sels)"

definition directive_field :: "gql_lib \<Rightarrow> directive_info \<Rightarrow> selection \<Rightarrow> member" where
  "directive_field L di s = (let name = sel_name s; sub = sel_sub s in
     if name = ''name'' then Some (True, shown (JStr (di_name di)))
     else if name = ''description'' then Some (False, shown_text (di_description di))
     else if name = ''isRepeatable'' then Some (True, shown (JBool (di_repeatable di)))
     else if name = ''locations'' then Some (True, list_value (map (\<lambda>l. shown (JStr l)) (di_locations di)))
     else if name = ''args'' then Some (True, with_args (args_directive_args L (sel_args s)) (\<lambda>deprecated.
       list_value (map (input_value_object L sub) (di_args di))))
     else None)"

definition directive_object :: "gql_lib \<Rightarrow> selection list \<Rightarrow> directive_info \<Rightarrow> object_value" where
  "directive_object L sels di = collect ''__Directive'' (map (\<lambda>s. (s, directive_field L di s)) sels)"

definition schema_field :: "gql_lib \<Rightarrow> schema_info \<Rightarrow> selection \<Rightarrow> member" where
  "schema_field L sc s = (let name = sel_name s; sub = sel_sub s in
     if name = ''description'' then Some (False, shown_text (sc_description sc))
     else if name = ''types'' then Some (True, list_value (map (type_object L sub) (sc_types sc)))
     else if name = ''queryType'' then Some (True, or_null_error (map_option (type_object L sub) (sc_query sc)))
     else if name = ''mutationType'' then Some (False, or_null_value (map_option (type_object L sub) (sc_mutation sc)))
     else if name = ''subscriptionType'' then Some (False, or_null_value (map_option (type_object L sub) (sc_subscription sc)))
     else if name = ''directives'' then Some (True, list_value (map (directive_object L sub) (sc_directives sc)))
     else None)"

definition schema_object :: "gql_lib \<Rightarrow> selection list \<Rightarrow> schema_info \<Rightarrow> object_value" where
  "schema_object L sels sc = collect ''__Schema'' (map (\<lambda>s. (s, schema_field L sc s)) sels)"

subsection \<open>The fields of the root\<close>

definition internal_answer :: "object_value \<Rightarrow> json \<times> go_error list" where
  "internal_answer v = (case v of None \<Rightarrow> (JNull, [internal_error]) | Some x \<Rightarrow> x)"

definition query_type :: "gql_lib \<Rightarrow> selection \<Rightarrow> json \<times> go_error list" where
  "query_type L f =
     (case bind_result (args_type L (sel_args f)) (gl_find_type L) of
        Inl e \<Rightarrow> (JNull, [e])
      | Inr t \<Rightarrow> internal_answer (or_null_value (map_option (type_object L (sel_sub f)) t)))"

definition query_schema :: "gql_lib \<Rightarrow> selection \<Rightarrow> json \<times> go_error list" where
  "query_schema L f =
     (case gl_schema L of
        Inl e \<Rightarrow> (JNull, [e])
      | Inr sc \<Rightarrow> internal_answer (or_null_value (map_option (schema_object L (sel_sub f)) sc)))"

end
