(* ===== verification/GraphQLExec.thy ===== *)
theory GraphQLExec
  imports Introspection
begin

section \<open>internal/graphql/generated.go: objects out\<close>

text \<open>
  The part of the generated executor that is about this schema: which resolver a field calls, and how its
  result becomes an object with the selected members.  What gqlgen itself does is a plain model of its
  documented behaviour: an error or a panic of a field makes its value \<open>null\<close>, and a \<open>null\<close> in a non-null
  position makes the enclosing object \<open>null\<close>.
\<close>

subsection \<open>Writing objects\<close>

text \<open>
  A field is given by whether it is non-null and by its value under a selection of its own; \<open>None\<close> is the
  panic for a name that the type does not have.
\<close>

type_synonym field_table = "(string \<times> bool \<times> (selection list \<Rightarrow> json option)) list"

definition scalar :: "json \<Rightarrow> selection list \<Rightarrow> json option" where
  "scalar j sub = Some j"

definition json_int :: "int \<Rightarrow> selection list \<Rightarrow> json option" where
  "json_int i = scalar (JNum i)"

definition json_string :: "string \<Rightarrow> selection list \<Rightarrow> json option" where
  "json_string s = scalar (JStr s)"

definition json_big :: "int option \<Rightarrow> selection list \<Rightarrow> json option" where
  "json_big i = scalar (marshal_big_int i)"

fun field_values :: "string \<Rightarrow> field_table \<Rightarrow> selection list \<Rightarrow> ((string \<times> json) list \<times> nat) option" where
  "field_values type table [] = Some ([], 0)"
| "field_values type table (s # ss) =
     (case (if sel_name s = ''__typename'' then Some (False, Some (JStr type))
            else map_option (\<lambda>(required, value). (required, value (sel_sub s))) (map_of table (sel_name s))) of
        Some (required, Some v) \<Rightarrow>
          map_option (\<lambda>(out, invalids). ((sel_alias s, v) # out,
              if required \<and> v = JNull then Suc invalids else invalids))
            (field_values type table ss)
      | _ \<Rightarrow> None)"

definition marshal_object :: "string \<Rightarrow> field_table \<Rightarrow> selection list \<Rightarrow> json option" where
  "marshal_object type table sel =
     map_option (\<lambda>(out, invalids). if invalids > 0 then JNull else JObj out) (field_values type table sel)"

fun marshal_items :: "(selection list \<Rightarrow> json option) list \<Rightarrow> selection list \<Rightarrow> json list option" where
  "marshal_items [] sel = Some []"
| "marshal_items (f # fs) sel = (case (f sel, marshal_items fs sel) of
     (Some v, Some vs) \<Rightarrow> Some (v # vs) | _ \<Rightarrow> None)"

text \<open>A list of non-null items: \<open>null\<close> as soon as one item is.\<close>

definition marshal_list :: "('a \<Rightarrow> selection list \<Rightarrow> json option) \<Rightarrow> 'a list \<Rightarrow> selection list \<Rightarrow> json option" where
  "marshal_list item xs sel =
     map_option (\<lambda>vs. if JNull \<in> set vs then JNull else JArr vs) (marshal_items (map item xs) sel)"

definition order_party_fields :: "gql_order \<Rightarrow> field_table" where
  "order_party_fields od =
     [(''hash'', True, json_string (go_hash od)), (''maker'', True, json_string (go_maker od)),
      (''taker'', False, scalar (case go_taker od of None \<Rightarrow> JNull | Some t \<Rightarrow> JStr t)),
      (''side'', True, json_int (go_side od)), (''kind'', True, json_int (go_kind od)),
      (''assetType'', True, json_int (go_asset_type od)),
      (''collection'', True, json_string (go_collection od))]"

definition order_price_fields :: "gql_order \<Rightarrow> field_table" where
  "order_price_fields od =
     [(''tokenId'', True, json_big (go_token_id od)), (''amount'', True, json_big (go_amount od)),
      (''price'', True, json_big (go_price od)), (''startPrice'', False, json_big (go_start_price od)),
      (''startTime'', True, json_string (go_start_time od)),
      (''endTime'', True, json_string (go_end_time od))]"

definition order_state_fields :: "gql_order \<Rightarrow> field_table" where
  "order_state_fields od =
     [(''salt'', True, json_big (go_salt od)),
      (''signature'', True, json_string (go_signature od)), (''status'', True, json_int (go_status od)),
      (''counter'', True, json_big (go_counter od)),
      (''currentPrice'', True, json_big (go_current_price od)),
      (''extra'', True, json_string (go_extra od)), (''createdAt'', True, json_string (go_created_at od))]"

definition order_fields :: "gql_order \<Rightarrow> field_table" where
  "order_fields od = order_party_fields od @ order_price_fields od @ order_state_fields od"

lemmas order_field_defs = order_fields_def order_party_fields_def order_price_fields_def order_state_fields_def

definition order_object :: "gql_order \<Rightarrow> selection list \<Rightarrow> json option" where
  "order_object od = marshal_object ''Order'' (order_fields od)"

definition order_connection_fields :: "order_connection \<Rightarrow> field_table" where
  "order_connection_fields c =
     [(''orders'', True, marshal_list order_object (oc_orders c)), (''total'', True, json_int (oc_total c)),
      (''page'', True, json_int (oc_page c)), (''pageSize'', True, json_int (oc_page_size c))]"

definition order_connection_object :: "order_connection \<Rightarrow> selection list \<Rightarrow> json option" where
  "order_connection_object c = marshal_object ''OrderConnection'' (order_connection_fields c)"

definition collection_text_fields :: "gql_collection \<Rightarrow> field_table" where
  "collection_text_fields c =
     [(''address'', True, json_string (gc_address c)), (''name'', True, json_string (gc_name c)),
      (''symbol'', True, json_string (gc_symbol c)),
      (''description'', True, json_string (gc_description c)),
      (''image'', True, json_string (gc_image c)), (''banner'', True, json_string (gc_banner c))]"

definition collection_link_fields :: "gql_collection \<Rightarrow> field_table" where
  "collection_link_fields c =
     [(''website'', True, json_string (gc_website c)), (''twitter'', True, json_string (gc_twitter c)),
      (''discord'', True, json_string (gc_discord c)), (''slug'', True, json_string (gc_slug c)),
      (''category'', True, json_string (gc_category c))]"

definition collection_market_fields :: "gql_collection \<Rightarrow> field_table" where
  "collection_market_fields c =
     [(''isVerified'', True, scalar (JBool (gc_is_verified c))),
      (''isBlocked'', True, scalar (JBool (gc_is_blocked c))),
      (''floorPrice'', False, json_big (gc_floor_price c)), (''bestBid'', False, json_big (gc_best_bid c)),
      (''listedCount'', True, json_int (gc_listed_count c)),
      (''createdAt'', True, json_string (gc_created_at c))]"

definition collection_fields :: "gql_collection \<Rightarrow> field_table" where
  "collection_fields c = collection_text_fields c @ collection_link_fields c @ collection_market_fields c"

lemmas collection_field_defs =
  collection_fields_def collection_text_fields_def collection_link_fields_def collection_market_fields_def

definition collection_object :: "gql_collection \<Rightarrow> selection list \<Rightarrow> json option" where
  "collection_object c = marshal_object ''Collection'' (collection_fields c)"

definition collection_connection_fields :: "collection_connection \<Rightarrow> field_table" where
  "collection_connection_fields c =
     [(''collections'', True, marshal_list collection_object (cc_collections c)),
      (''total'', True, json_int (cc_total c)), (''page'', True, json_int (cc_page c)),
      (''pageSize'', True, json_int (cc_page_size c))]"

definition collection_connection_object :: "collection_connection \<Rightarrow> selection list \<Rightarrow> json option" where
  "collection_connection_object c = marshal_object ''CollectionConnection'' (collection_connection_fields c)"

definition collection_stats_fields :: "gql_collection_stats \<Rightarrow> field_table" where
  "collection_stats_fields c =
     [(''floorPrice'', False, json_big (gt_floor_price c)), (''bestBid'', False, json_big (gt_best_bid c)),
      (''listedCount'', True, json_int (gt_listed_count c))]"

definition collection_stats_object :: "gql_collection_stats \<Rightarrow> selection list \<Rightarrow> json option" where
  "collection_stats_object c = marshal_object ''CollectionStats'' (collection_stats_fields c)"

definition global_stats_fields :: "global_stats \<Rightarrow> field_table" where
  "global_stats_fields c =
     [(''totalOrders'', True, json_int (gs_total_orders c)),
      (''totalCollections'', True, json_int (gs_total_collections c)),
      (''totalTraders'', True, json_int (gs_total_traders c))]"

definition global_stats_object :: "global_stats \<Rightarrow> selection list \<Rightarrow> json option" where
  "global_stats_object c = marshal_object ''GlobalStats'' (global_stats_fields c)"

subsection \<open>The fields of Query and Mutation\<close>

text \<open>A field's value with the errors it adds to the response; a nil pointer is \<open>null\<close>.\<close>

type_synonym field_value = "json \<times> go_error list"

definition field_answer ::
  "(string \<times> json) list \<Rightarrow> ((string \<times> json) list \<Rightarrow> 'a result) \<Rightarrow> ('a \<Rightarrow> db \<Rightarrow> 'b result \<times> db) \<Rightarrow>
   ('b \<Rightarrow> json option) \<Rightarrow> db \<Rightarrow> field_value \<times> db" where
  "field_answer raw args resolve marshal d =
     (case args raw of
        Inl e \<Rightarrow> ((JNull, [e]), d)
      | Inr a \<Rightarrow>
          (case resolve a d of
             (Inl e, d') \<Rightarrow> ((JNull, [e]), d')
           | (Inr x, d') \<Rightarrow>
               (case marshal x of None \<Rightarrow> ((JNull, [internal_error]), d') | Some j \<Rightarrow> ((j, []), d'))))"

definition or_null :: "('a \<Rightarrow> selection list \<Rightarrow> json option) \<Rightarrow> selection list \<Rightarrow> 'a option \<Rightarrow> json option" where
  "or_null obj sel p = (case p of None \<Rightarrow> Some JNull | Some x \<Rightarrow> obj x sel)"

definition query_order :: "gql_lib \<Rightarrow> resolver \<Rightarrow> selection \<Rightarrow> db \<Rightarrow> field_value \<times> db" where
  "query_order L r f d = field_answer (sel_args f) (args_order L) (resolve_order r)
     (or_null order_object (sel_sub f)) d"

definition query_orders :: "gql_lib \<Rightarrow> resolver \<Rightarrow> selection \<Rightarrow> db \<Rightarrow> field_value \<times> db" where
  "query_orders L r f d = field_answer (sel_args f) (args_orders L)
     (\<lambda>(filt, page, size). resolve_orders r filt page size) (\<lambda>c. order_connection_object c (sel_sub f)) d"

definition query_best_order :: "gql_lib \<Rightarrow> resolver \<Rightarrow> (nat \<Rightarrow> instant) \<Rightarrow> selection \<Rightarrow> db \<Rightarrow> field_value \<times> db" where
  "query_best_order L r scan f d = field_answer (sel_args f) (args_best_order L)
     (\<lambda>(collection, side). resolve_best_order r scan collection side) (or_null order_object (sel_sub f)) d"

definition query_collection :: "gql_lib \<Rightarrow> resolver \<Rightarrow> selection \<Rightarrow> db \<Rightarrow> field_value \<times> db" where
  "query_collection L r f d = field_answer (sel_args f) (args_collection L) (resolve_collection r)
     (or_null collection_object (sel_sub f)) d"

definition query_collections :: "gql_lib \<Rightarrow> resolver \<Rightarrow> selection \<Rightarrow> db \<Rightarrow> field_value \<times> db" where
  "query_collections L r f d = field_answer (sel_args f) (args_collections L)
     (\<lambda>(search, page, size). resolve_collections r search page size)
     (\<lambda>c. collection_connection_object c (sel_sub f)) d"

definition query_user_orders :: "gql_lib \<Rightarrow> resolver \<Rightarrow> selection \<Rightarrow> db \<Rightarrow> field_value \<times> db" where
  "query_user_orders L r f d = field_answer (sel_args f) (args_user_orders L)
     (\<lambda>(address, status, page, size). resolve_user_orders r address status page size)
     (\<lambda>c. order_connection_object c (sel_sub f)) d"

definition query_stats :: "selection \<Rightarrow> db \<Rightarrow> field_value \<times> db" where
  "query_stats f d = field_answer (sel_args f) (\<lambda>ms. Inr ()) (\<lambda>u. resolve_stats)
     (\<lambda>c. global_stats_object c (sel_sub f)) d"

definition query_collection_stats :: "gql_lib \<Rightarrow> selection \<Rightarrow> db \<Rightarrow> field_value \<times> db" where
  "query_collection_stats L f d = field_answer (sel_args f) (args_collection_stats L)
     resolve_collection_stats (\<lambda>c. collection_stats_object c (sel_sub f)) d"

definition query_field ::
  "gql_lib \<Rightarrow> resolver \<Rightarrow> (nat \<Rightarrow> instant) \<Rightarrow> selection \<Rightarrow> db \<Rightarrow> field_value \<times> db" where
  "query_field L r scan f d =
     (let name = sel_name f in
      if name = ''__typename'' then ((JStr ''Query'', []), d)
      else if name = ''order'' then query_order L r f d
      else if name = ''orders'' then query_orders L r f d
      else if name = ''bestOrder'' then query_best_order L r scan f d
      else if name = ''collection'' then query_collection L r f d
      else if name = ''collections'' then query_collections L r f d
      else if name = ''userOrders'' then query_user_orders L r f d
      else if name = ''stats'' then query_stats f d
      else if name = ''collectionStats'' then query_collection_stats L f d
      else if name = ''__type'' then (query_type L f, d)
      else if name = ''__schema'' then (query_schema L f, d)
      else ((JNull, [internal_error]), d))"

lemmas query_field_defs = query_field_def query_order_def query_orders_def query_best_order_def query_collection_def
  query_collections_def query_user_orders_def query_stats_def query_collection_stats_def

definition query_required :: "string \<Rightarrow> bool" where
  "query_required name \<longleftrightarrow> name \<in> {''orders'', ''collections'', ''userOrders'', ''stats'', ''collectionStats''}"

definition mutation_field ::
  "gql_lib \<Rightarrow> resolver \<Rightarrow> instant \<times> instant \<times> instant \<Rightarrow> selection \<Rightarrow> db \<Rightarrow> field_value \<times> db" where
  "mutation_field L r clock f d =
     (if sel_name f = ''__typename'' then ((JStr ''Mutation'', []), d)
      else if sel_name f = ''submitOrder'' then field_answer (sel_args f) (args_submit_order L)
        (resolve_submit_order r clock) (\<lambda>od. order_object od (sel_sub f)) d
      else ((JNull, [internal_error]), d))"

text \<open>
  The top level.  The fields of a query run concurrently, those of a mutation one after the other;
  here both take them in order, and \<open>query_field_reads\<close> below shows that for queries the order does not
  matter.
\<close>

fun run_fields ::
  "(selection \<Rightarrow> db \<Rightarrow> field_value \<times> db) \<Rightarrow> (string \<Rightarrow> bool) \<Rightarrow> selection list \<Rightarrow> db \<Rightarrow>
   ((string \<times> json) list \<times> go_error list \<times> nat) \<times> db" where
  "run_fields field required [] d = (([], [], 0), d)"
| "run_fields field required (f # fs) d =
     (case field f d of ((v, es), d1) \<Rightarrow>
       (case run_fields field required fs d1 of ((out, es', invalids), d2) \<Rightarrow>
         (((sel_alias f, v) # out, es @ es',
           if required (sel_name f) \<and> v = JNull then Suc invalids else invalids), d2)))"

definition root_object ::
  "((string \<times> json) list \<times> go_error list \<times> nat) \<times> db \<Rightarrow> field_value \<times> db" where
  "root_object r = (case r of ((out, es, invalids), d) \<Rightarrow>
     ((if invalids > 0 then JNull else JObj out, es), d))"

definition query_object ::
  "gql_lib \<Rightarrow> resolver \<Rightarrow> (nat \<Rightarrow> instant) \<Rightarrow> selection list \<Rightarrow> db \<Rightarrow> field_value \<times> db" where
  "query_object L r scan sels d = root_object (run_fields (query_field L r scan) query_required sels d)"

definition mutation_object ::
  "gql_lib \<Rightarrow> resolver \<Rightarrow> instant \<times> instant \<times> instant \<Rightarrow> selection list \<Rightarrow> db \<Rightarrow> field_value \<times> db" where
  "mutation_object L r clock sels d =
     root_object (run_fields (mutation_field L r clock) (\<lambda>name. name = ''submitOrder'') sels d)"

subsection \<open>Queries only read\<close>

definition read_only :: "(db \<Rightarrow> 'a \<times> db) \<Rightarrow> bool" where
  "read_only m \<longleftrightarrow> (\<forall>d. same_tables d (snd (m d)))"

lemma same_tables_refl [simp]: "same_tables d d"
  by (simp add: same_tables_def)

lemma same_tables_trans: "same_tables d d' \<Longrightarrow> same_tables d' d'' \<Longrightarrow> same_tables d d''"
  unfolding same_tables_def by (cases d; cases d'; cases d'') simp

lemma read_onlyD: "read_only m \<Longrightarrow> m d = (x, d') \<Longrightarrow> same_tables d d'"
  by (metis read_only_def snd_conv)

lemma read_onlyI: "(\<And>d x d'. m d = (x, d') \<Longrightarrow> same_tables d d') \<Longrightarrow> read_only m"
  unfolding read_only_def by (metis prod.collapse)

lemma read_only_pure [simp]: "read_only (\<lambda>d. (x, d))"
  by (simp add: read_only_def)

lemma read_only_bind:
  assumes "read_only m" and "\<And>x. read_only (k x)"
  shows "read_only (\<lambda>d. case m d of (x, d1) \<Rightarrow> k x d1)"
  using assms by (auto simp: read_only_def split: prod.splits intro: same_tables_trans
      dest: read_onlyD [OF assms(1)])

lemma read_only_exec:
  assumes "\<And>d x d'. st d = Inr (x, d') \<Longrightarrow> d' = d"
  shows "read_only (db_exec msg st)"
proof (rule read_onlyI)
  fix d x d'
  assume "db_exec msg st d = (x, d')"
  then obtain y where "run_stmt st d = (y, d')"
    by (auto simp: db_exec_def split: prod.splits)
  then show "same_tables d d'"
    by (cases rule: run_stmt_cases [of st d]) (auto dest: assms)
qed

lemmas stmt_reads = count_stmt_def select_page_stmt_def select_stmt_def best_price_stmt_def
  active_maker_count_stmt_def collection_count_stmt_def collection_page_stmt_def
  select_collections_stmt_def

lemma read_only_stmt:
  "read_only (db_exec msg (count_stmt P))" "read_only (db_exec msg (select_page_stmt P l k))"
  "read_only (db_exec msg (select_stmt P))" "read_only (db_exec msg (best_price_stmt c s))"
  "read_only (db_exec msg active_maker_count_stmt)" "read_only (db_exec msg (collection_count_stmt Q))"
  "read_only (db_exec msg (collection_page_stmt Q l k))" "read_only (db_exec msg (select_collections_stmt Q))"
  by (rule read_only_exec; simp add: stmt_reads Let_def split: if_splits)+

lemma read_only_repo:
  "read_only (find_orders f)" "read_only (find_by_hash h)" "read_only (get_best_price c s)"
  "read_only (get_listed_count c)" "read_only get_active_maker_count"
  "read_only (find_by_address a)" "read_only (find_all_collections_paged q p n)"
  "read_only get_collection_count" "read_only get_total_orders"
proof -
  note stmts = read_only_stmt [THEN read_onlyD]
  show "read_only (find_orders f)"
    by (rule read_onlyI) (auto simp: find_orders_def Let_def split: sum.splits prod.splits
        dest!: stmts intro: same_tables_trans)
  show "read_only (find_by_hash h)"
    by (rule read_onlyI) (auto simp: find_by_hash_def split: sum.splits prod.splits list.splits dest!: stmts)
  show "read_only (get_best_price c s)"
    by (rule read_onlyI) (auto simp: get_best_price_def split: sum.splits prod.splits option.splits dest!: stmts)
  show "read_only (get_listed_count c)"
    by (rule read_onlyI) (auto simp: get_listed_count_def split: sum.splits dest!: stmts)
  show "read_only get_active_maker_count" "read_only get_collection_count" "read_only get_total_orders"
    by (rule read_onlyI, auto simp: get_active_maker_count_def get_collection_count_def
        get_total_orders_def dest!: stmts)+
  show "read_only (find_by_address a)"
    by (rule read_onlyI) (auto simp: find_by_address_def split: sum.splits prod.splits list.splits dest!: stmts)
  show "read_only (find_all_collections_paged q p n)"
    by (rule read_onlyI) (auto simp: find_all_collections_paged_def Let_def split: sum.splits prod.splits
        dest!: stmts intro: same_tables_trans)
qed


lemma read_only_map_answer: "read_only m \<Longrightarrow> read_only (\<lambda>d. map_answer f (m d))"
  by (simp add: read_only_def)

lemma read_only_market: "read_only (market_of c)"
  by (rule read_onlyI) (auto simp: market_of_def split: prod.splits
      dest!: read_only_repo [THEN read_onlyD] intro: same_tables_trans)

lemma read_only_if: "read_only m \<Longrightarrow> read_only m' \<Longrightarrow> read_only (\<lambda>d. if b then m d else m' d)"
  by (simp add: read_only_def)

lemma read_only_case_prod: "(\<And>x y. read_only (m x y)) \<Longrightarrow> read_only ((\<lambda>(x, y). m x y) p)"
  by (cases p) simp

lemma read_only_resolvers:
  assumes "rs_order_svc r = new_order_service eth svc chain"
  shows "read_only (resolve_order r h)" "read_only (resolve_orders r filt page n)"
    "read_only (resolve_best_order r scan c side)" "read_only (resolve_collection r a)"
    "read_only (resolve_collections r search page n)"
    "read_only (resolve_user_orders r u sts page n)" "read_only resolve_stats"
    "read_only (resolve_collection_stats c)"
proof -
  note reads = read_only_repo [THEN read_onlyD] read_only_market [THEN read_onlyD]
  show "read_only (resolve_order r h)"
    unfolding resolve_order_def get_by_hash_def
    by (simp add: assms new_order_service_def read_only_map_answer read_only_repo)
  show "read_only (resolve_orders r filt page n)" "read_only (resolve_user_orders r u sts page n)"
    unfolding resolve_orders_def resolve_user_orders_def service_find_def Let_def
    by (simp_all add: assms new_order_service_def read_only_map_answer read_only_repo)
  have "read_only (get_best (rs_order_svc r) scan c (word_of_int side))"
    by (rule read_onlyI) (auto simp: get_best_def assms new_order_service_def
        split: sum.splits prod.splits option.splits dest!: reads intro: same_tables_trans)
  then show "read_only (resolve_best_order r scan c side)"
    unfolding resolve_best_order_def by (rule read_only_map_answer)
  show "read_only (resolve_collection r a)"
    by (rule read_onlyI) (auto simp: resolve_collection_def split: sum.splits prod.splits option.splits
        dest!: reads intro: same_tables_trans)
  show "read_only (resolve_collections r search page n)"
    unfolding resolve_collections_def Let_def by (intro read_only_map_answer read_only_repo)
  show "read_only resolve_stats"
    by (rule read_onlyI) (auto simp: resolve_stats_def split: prod.splits dest!: reads intro: same_tables_trans)
  show "read_only (resolve_collection_stats c)"
    by (rule read_onlyI) (auto simp: resolve_collection_stats_def split: prod.splits dest!: reads)
qed

lemma read_only_field_answer:
  assumes "\<And>a. read_only (resolve a)"
  shows "read_only (field_answer raw args resolve marshal)"
  by (rule read_onlyI) (auto simp: field_answer_def split: sum.splits prod.splits option.splits
      dest: assms [THEN read_onlyD])

lemma query_field_reads:
  assumes "rs_order_svc r = new_order_service eth svc chain"
  shows "read_only (query_field L r scan f)"
  unfolding query_field_defs [abs_def] Let_def
  by (intro read_only_if read_only_field_answer read_only_resolvers [OF assms] read_only_case_prod
      read_only_pure)

text \<open>
  C28: A GraphQL query changes nothing: whatever fields it selects, in whatever order they run and whatever
  their arguments are, and also when statements fail, every table is as it was before.
\<close>

theorem graphql_queries_read_only:
  assumes "rs_order_svc r = new_order_service eth svc chain"
  shows "same_tables d (snd (query_object L r scan sels d))"
proof -
  have "same_tables d (snd (run_fields (query_field L r scan) query_required sels d))"
  proof (induction sels arbitrary: d)
    case (Cons f fs)
    obtain v d1 where f: "query_field L r scan f d = (v, d1)"
      by fastforce
    have "same_tables d (snd (run_fields (query_field L r scan) query_required fs d1))"
      using read_onlyD [OF query_field_reads [OF assms] f] Cons [of d1] by (rule same_tables_trans)
    then show ?case
      by (auto simp: f split: prod.splits)
  qed simp
  then show ?thesis
    by (auto simp: query_object_def root_object_def split: prod.splits)
qed

text \<open>A type that lists itself as its interface.\<close>

definition toy_type :: type_info where
  "toy_type = \<lparr>ti_kind = ''OBJECT'', ti_name = Some ''Order'', ti_description = None, ti_specified_by = None,
     ti_fields = (\<lambda>b. None), ti_interfaces = Some [0], ti_possible = None, ti_enum_values = (\<lambda>b. None),
     ti_input_fields = None, ti_of = None, ti_one_of = False\<rparr>"

definition toy_gql :: gql_lib where
  "toy_gql = \<lparr>gl_int = (\<lambda>j. case j of JNum i \<Rightarrow> Inr i | _ \<Rightarrow> Inl (type_error ''int'')),
     gl_string = (\<lambda>j. case j of JStr s \<Rightarrow> Inr s | _ \<Rightarrow> Inl (type_error ''string'')),
     gl_bool = (\<lambda>j. case j of JBool b \<Rightarrow> Inr b | _ \<Rightarrow> Inl (type_error ''bool'')),
     gl_list = (\<lambda>j. case j of JArr js \<Rightarrow> js | _ \<Rightarrow> [j]),
     gl_type_info = (\<lambda>t. toy_type), gl_schema = Inr None, gl_find_type = (\<lambda>n. Inr (Some 0))\<rparr>"

theorem graphql_queries_read_only_witness:
  "same_tables two_sided_db (snd (query_object toy_gql (toy_resolver (\<lambda>t. [])) (\<lambda>i. 0)
     [Sel ''floor'' ''collectionStats'' [(''address'', JStr ''0x2b'')] [Sel ''floorPrice'' ''floorPrice'' [] []]]
     two_sided_db))"
  by (rule graphql_queries_read_only [of _ toy_eth toy_service 31337]) (simp add: toy_resolver_def)

subsection \<open>An order as an object\<close>

lemma field_values_total:
  assumes "\<forall>s \<in> set sels. \<exists>req f. map_of table (sel_name s) = Some (req, f) \<and>
      f (sel_sub s) = Some (v s) \<and> v s \<noteq> JNull \<and> sel_name s \<noteq> ''__typename''"
  shows "field_values ty table sels = Some (map (\<lambda>s. (sel_alias s, v s)) sels, 0)"
  using assms by (induction sels) auto

lemma gql_order_sel:
  "go_maker (domain_order_to_gql rfc now od) = o_maker od"
  "go_side (domain_order_to_gql rfc now od) = uint (o_side od)"
  "go_kind (domain_order_to_gql rfc now od) = uint (o_kind od)"
  "go_asset_type (domain_order_to_gql rfc now od) = uint (o_asset_type od)"
  "go_collection (domain_order_to_gql rfc now od) = o_collection od"
  "go_token_id (domain_order_to_gql rfc now od) = Some (o_token_id od)"
  "go_amount (domain_order_to_gql rfc now od) = Some (o_amount od)"
  "go_price (domain_order_to_gql rfc now od) = Some (o_price od)"
  "go_start_price (domain_order_to_gql rfc now od) = Some (o_start_price od)"
  "go_salt (domain_order_to_gql rfc now od) = Some (o_salt od)"
  "go_counter (domain_order_to_gql rfc now od) = Some (o_counter od)"
  "go_extra (domain_order_to_gql rfc now od) = o_extra od"
  "go_status (domain_order_to_gql rfc now od) = uint (o_status od)"
  "go_signature (domain_order_to_gql rfc now od) = o_signature od"
  by (simp_all add: domain_order_to_gql_def Let_def)

definition json_member :: "string \<Rightarrow> json \<Rightarrow> json option" where
  "json_member k j = (case j of JObj ms \<Rightarrow> map_of ms k | _ \<Rightarrow> None)"

definition common_fields :: "string list" where
  "common_fields = [''maker'', ''side'', ''kind'', ''assetType'', ''collection'', ''tokenId'', ''amount'',
     ''price'', ''startPrice'', ''salt'', ''counter'', ''extra'', ''status'', ''signature'']"



end
