(* ===== verification/GraphQLSchema.thy ===== *)
theory GraphQLSchema
  imports GraphQLExec
begin

section \<open>internal/graphql/generated.go: contexts, complexity, operations\<close>

text \<open>
  The executor's other tables of the schema.  \<open>childFields_T\<close> gives the context of a field of the type
  \<open>T\<close>, \<open>Complexity\<close> the cost of a field if the configuration sets one, and \<open>Exec\<close> runs an operation.
  Selections without \<open>@defer\<close>: nothing is pending after the first response.
\<close>

subsection \<open>Field contexts\<close>

text \<open>What \<open>Child\<close> of a context does: fail for a scalar, or look up a field of an object type.\<close>

datatype child_kind = ScalarChild string | ObjectChild string

record field_context =
  fc_object :: string
  fc_field :: string
  fc_is_method :: bool
  fc_is_resolver :: bool
  fc_child :: child_kind

text \<open>The format \<open>%q\<close> of a name of the GraphQL grammar.\<close>

definition no_field :: "string \<Rightarrow> string \<Rightarrow> go_error" where
  "no_field ty name = ErrText (''no field named '' @ [CHR 0x22] @ name @ [CHR 0x22] @ '' was found under type '' @ ty)"

definition child_field :: "string \<Rightarrow> (string \<times> child_kind) list \<Rightarrow> string \<Rightarrow> field_context result" where
  "child_field ty table name = (case map_of table name of
      None \<Rightarrow> Inl (no_field ty name)
    | Some k \<Rightarrow> Inr \<lparr>fc_object = ty, fc_field = name, fc_is_method = False, fc_is_resolver = False, fc_child = k\<rparr>)"

definition child_fields_collection :: "string \<Rightarrow> field_context result" where
  "child_fields_collection = child_field ''Collection''
     [(''address'', ScalarChild ''String''), (''name'', ScalarChild ''String''),
      (''symbol'', ScalarChild ''String''), (''description'', ScalarChild ''String''),
      (''image'', ScalarChild ''String''), (''banner'', ScalarChild ''String''),
      (''website'', ScalarChild ''String''), (''twitter'', ScalarChild ''String''),
      (''discord'', ScalarChild ''String''), (''slug'', ScalarChild ''String''),
      (''category'', ScalarChild ''String''), (''isVerified'', ScalarChild ''Boolean''),
      (''isBlocked'', ScalarChild ''Boolean''), (''floorPrice'', ScalarChild ''BigInt''),
      (''bestBid'', ScalarChild ''BigInt''), (''listedCount'', ScalarChild ''Int''),
      (''createdAt'', ScalarChild ''String'')]"

definition child_fields_collection_connection :: "string \<Rightarrow> field_context result" where
  "child_fields_collection_connection = child_field ''CollectionConnection''
     [(''collections'', ObjectChild ''Collection''), (''total'', ScalarChild ''Int''),
      (''page'', ScalarChild ''Int''), (''pageSize'', ScalarChild ''Int'')]"

definition child_fields_collection_stats :: "string \<Rightarrow> field_context result" where
  "child_fields_collection_stats = child_field ''CollectionStats''
     [(''floorPrice'', ScalarChild ''BigInt''), (''bestBid'', ScalarChild ''BigInt''),
      (''listedCount'', ScalarChild ''Int'')]"

definition child_fields_global_stats :: "string \<Rightarrow> field_context result" where
  "child_fields_global_stats = child_field ''GlobalStats''
     [(''totalOrders'', ScalarChild ''Int''), (''totalCollections'', ScalarChild ''Int''),
      (''totalTraders'', ScalarChild ''Int'')]"

definition child_fields_order :: "string \<Rightarrow> field_context result" where
  "child_fields_order = child_field ''Order''
     [(''hash'', ScalarChild ''String''), (''maker'', ScalarChild ''String''),
      (''taker'', ScalarChild ''String''), (''side'', ScalarChild ''Int''),
      (''kind'', ScalarChild ''Int''), (''assetType'', ScalarChild ''Int''),
      (''collection'', ScalarChild ''String''), (''tokenId'', ScalarChild ''BigInt''),
      (''amount'', ScalarChild ''BigInt''), (''price'', ScalarChild ''BigInt''),
      (''startPrice'', ScalarChild ''BigInt''), (''startTime'', ScalarChild ''String''),
      (''endTime'', ScalarChild ''String''), (''salt'', ScalarChild ''BigInt''),
      (''signature'', ScalarChild ''String''), (''status'', ScalarChild ''Int''),
      (''counter'', ScalarChild ''BigInt''), (''currentPrice'', ScalarChild ''BigInt''),
      (''extra'', ScalarChild ''String''), (''createdAt'', ScalarChild ''String'')]"

definition child_fields_order_connection :: "string \<Rightarrow> field_context result" where
  "child_fields_order_connection = child_field ''OrderConnection''
     [(''orders'', ObjectChild ''Order''), (''total'', ScalarChild ''Int''),
      (''page'', ScalarChild ''Int''), (''pageSize'', ScalarChild ''Int'')]"

text \<open>The types of introspection, whose fields may be methods.\<close>

definition intro_child :: "string \<Rightarrow> (string \<times> bool \<times> child_kind) list \<Rightarrow> string \<Rightarrow> field_context result" where
  "intro_child ty table name = (case map_of table name of
      None \<Rightarrow> Inl (no_field ty name)
    | Some (is_method, k) \<Rightarrow> Inr \<lparr>fc_object = ty, fc_field = name, fc_is_method = is_method,
        fc_is_resolver = False, fc_child = k\<rparr>)"

definition intro_fields_directive :: "string \<Rightarrow> field_context result" where
  "intro_fields_directive = intro_child ''__Directive''
     [(''name'', False, ScalarChild ''String''), (''description'', True, ScalarChild ''String''),
      (''isRepeatable'', False, ScalarChild ''Boolean''),
      (''locations'', False, ScalarChild ''__DirectiveLocation''),
      (''args'', False, ObjectChild ''__InputValue'')]"

definition intro_fields_enum_value :: "string \<Rightarrow> field_context result" where
  "intro_fields_enum_value = intro_child ''__EnumValue''
     [(''name'', False, ScalarChild ''String''), (''description'', True, ScalarChild ''String''),
      (''isDeprecated'', True, ScalarChild ''Boolean''),
      (''deprecationReason'', True, ScalarChild ''String'')]"

definition intro_fields_field :: "string \<Rightarrow> field_context result" where
  "intro_fields_field = intro_child ''__Field''
     [(''name'', False, ScalarChild ''String''), (''description'', True, ScalarChild ''String''),
      (''args'', False, ObjectChild ''__InputValue''), (''type'', False, ObjectChild ''__Type''),
      (''isDeprecated'', True, ScalarChild ''Boolean''),
      (''deprecationReason'', True, ScalarChild ''String'')]"

definition intro_fields_input_value :: "string \<Rightarrow> field_context result" where
  "intro_fields_input_value = intro_child ''__InputValue''
     [(''name'', False, ScalarChild ''String''), (''description'', True, ScalarChild ''String''),
      (''type'', False, ObjectChild ''__Type''), (''defaultValue'', False, ScalarChild ''String''),
      (''isDeprecated'', True, ScalarChild ''Boolean''),
      (''deprecationReason'', True, ScalarChild ''String'')]"

definition intro_fields_schema :: "string \<Rightarrow> field_context result" where
  "intro_fields_schema = intro_child ''__Schema''
     [(''description'', True, ScalarChild ''String''), (''types'', True, ObjectChild ''__Type''),
      (''queryType'', True, ObjectChild ''__Type''), (''mutationType'', True, ObjectChild ''__Type''),
      (''subscriptionType'', True, ObjectChild ''__Type''),
      (''directives'', True, ObjectChild ''__Directive'')]"

definition intro_fields_type :: "string \<Rightarrow> field_context result" where
  "intro_fields_type = intro_child ''__Type''
     [(''kind'', True, ScalarChild ''__TypeKind''), (''name'', True, ScalarChild ''String''),
      (''description'', True, ScalarChild ''String''),
      (''specifiedByURL'', True, ScalarChild ''String''), (''fields'', True, ObjectChild ''__Field''),
      (''interfaces'', True, ObjectChild ''__Type''), (''possibleTypes'', True, ObjectChild ''__Type''),
      (''enumValues'', True, ObjectChild ''__EnumValue''),
      (''inputFields'', True, ObjectChild ''__InputValue''), (''ofType'', True, ObjectChild ''__Type''),
      (''isOneOf'', True, ScalarChild ''Boolean'')]"

definition child_fields :: "string \<Rightarrow> string \<Rightarrow> field_context result" where
  "child_fields ty name =
     (if ty = ''Order'' then child_fields_order name
      else if ty = ''OrderConnection'' then child_fields_order_connection name
      else if ty = ''Collection'' then child_fields_collection name
      else if ty = ''CollectionConnection'' then child_fields_collection_connection name
      else if ty = ''CollectionStats'' then child_fields_collection_stats name
      else if ty = ''GlobalStats'' then child_fields_global_stats name
      else if ty = ''__Type'' then intro_fields_type name
      else if ty = ''__Field'' then intro_fields_field name
      else if ty = ''__InputValue'' then intro_fields_input_value name
      else if ty = ''__EnumValue'' then intro_fields_enum_value name
      else if ty = ''__Directive'' then intro_fields_directive name
      else if ty = ''__Schema'' then intro_fields_schema name
      else Inl (no_field ty name))"

text \<open>\<open>fc.Child\<close>.\<close>

definition context_child :: "field_context \<Rightarrow> string \<Rightarrow> field_context result" where
  "context_child fc name = (case fc_child fc of
      ScalarChild ty \<Rightarrow> Inl (ErrText (''field of type '' @ ty @ '' does not have child fields''))
    | ObjectChild ty \<Rightarrow> child_fields ty name)"

text \<open>The contexts of the root fields.\<close>

definition root_context :: "string \<Rightarrow> string \<Rightarrow> string \<Rightarrow> field_context" where
  "root_context root name ty = \<lparr>fc_object = root, fc_field = name, fc_is_method = True, fc_is_resolver = True,
     fc_child = ObjectChild ty\<rparr>"

definition query_context :: "string \<Rightarrow> field_context option" where
  "query_context name =
     (if name = ''__type'' then Some ((root_context ''Query'' name ''__Type'')\<lparr>fc_is_resolver := False\<rparr>)
      else if name = ''__schema'' then Some ((root_context ''Query'' name ''__Schema'')\<lparr>fc_is_resolver := False\<rparr>)
      else map_option (root_context ''Query'' name) (map_of
     [(''order'', ''Order''), (''orders'', ''OrderConnection''), (''bestOrder'', ''Order''),
      (''collection'', ''Collection''), (''collections'', ''CollectionConnection''),
      (''userOrders'', ''OrderConnection''), (''stats'', ''GlobalStats''),
      (''collectionStats'', ''CollectionStats'')] name))"

definition mutation_context :: "string \<Rightarrow> field_context option" where
  "mutation_context name =
     (if name = ''submitOrder'' then Some (root_context ''Mutation'' name ''Order'') else None)"

subsection \<open>Complexity\<close>

text \<open>
  The configured cost functions.  Those without arguments are held by type and field; an unset one is
  \<open>None\<close>.
\<close>

record complexity_root =
  cx_field :: "string \<Rightarrow> string \<Rightarrow> (int \<Rightarrow> int) option"
  cx_submit_order :: "(int \<Rightarrow> submit_input \<Rightarrow> int) option"
  cx_order :: "(int \<Rightarrow> string \<Rightarrow> int) option"
  cx_orders :: "(int \<Rightarrow> gql_filter option \<times> int \<times> int \<Rightarrow> int) option"
  cx_best_order :: "(int \<Rightarrow> string \<times> int \<Rightarrow> int) option"
  cx_collection :: "(int \<Rightarrow> string \<Rightarrow> int) option"
  cx_collections :: "(int \<Rightarrow> string option \<times> int \<times> int \<Rightarrow> int) option"
  cx_user_orders :: "(int \<Rightarrow> string \<times> int list \<times> int \<times> int \<Rightarrow> int) option"
  cx_collection_stats :: "(int \<Rightarrow> string \<Rightarrow> int) option"

definition field_cost :: "complexity_root \<Rightarrow> string \<Rightarrow> string list \<Rightarrow> string \<Rightarrow> int \<Rightarrow> int \<times> bool" where
  "field_cost cr ty names name child =
     (if name \<in> set names
      then (case cx_field cr ty name of None \<Rightarrow> (0, False) | Some f \<Rightarrow> (f child, True))
      else (0, False))"

definition args_cost :: "(int \<Rightarrow> 'a \<Rightarrow> int) option \<Rightarrow> 'a result \<Rightarrow> int \<Rightarrow> int \<times> bool" where
  "args_cost cost args child = (case cost of None \<Rightarrow> (0, False)
    | Some f \<Rightarrow> (case args of Inl e \<Rightarrow> (0, False) | Inr a \<Rightarrow> (f child a, True)))"

definition collection_cost :: "complexity_root \<Rightarrow> string \<Rightarrow> int \<Rightarrow> int \<times> bool" where
  "collection_cost cr = field_cost cr ''Collection''
     [''address'', ''banner'', ''bestBid'', ''category'', ''createdAt'', ''description'', ''discord'',
      ''floorPrice'', ''image'', ''isBlocked'', ''isVerified'', ''listedCount'', ''name'', ''slug'',
      ''symbol'', ''twitter'', ''website'']"

definition collection_connection_cost :: "complexity_root \<Rightarrow> string \<Rightarrow> int \<Rightarrow> int \<times> bool" where
  "collection_connection_cost cr = field_cost cr ''CollectionConnection''
     [''collections'', ''page'', ''pageSize'', ''total'']"

definition collection_stats_cost :: "complexity_root \<Rightarrow> string \<Rightarrow> int \<Rightarrow> int \<times> bool" where
  "collection_stats_cost cr = field_cost cr ''CollectionStats''
     [''bestBid'', ''floorPrice'', ''listedCount'']"

definition global_stats_cost :: "complexity_root \<Rightarrow> string \<Rightarrow> int \<Rightarrow> int \<times> bool" where
  "global_stats_cost cr = field_cost cr ''GlobalStats''
     [''totalCollections'', ''totalOrders'', ''totalTraders'']"

definition order_cost :: "complexity_root \<Rightarrow> string \<Rightarrow> int \<Rightarrow> int \<times> bool" where
  "order_cost cr = field_cost cr ''Order''
     [''amount'', ''assetType'', ''collection'', ''counter'', ''createdAt'', ''currentPrice'',
      ''endTime'', ''extra'', ''hash'', ''kind'', ''maker'', ''price'', ''salt'', ''side'',
      ''signature'', ''startPrice'', ''startTime'', ''status'', ''taker'', ''tokenId'']"

definition order_connection_cost :: "complexity_root \<Rightarrow> string \<Rightarrow> int \<Rightarrow> int \<times> bool" where
  "order_connection_cost cr = field_cost cr ''OrderConnection''
     [''orders'', ''page'', ''pageSize'', ''total'']"

definition query_cost ::
  "gql_lib \<Rightarrow> complexity_root \<Rightarrow> string \<Rightarrow> int \<Rightarrow> (string \<times> json) list \<Rightarrow> int \<times> bool" where
  "query_cost L cr name child raw =
     (if name = ''bestOrder'' then args_cost (cx_best_order cr) (args_best_order L raw) child
      else if name = ''collection'' then args_cost (cx_collection cr) (args_collection L raw) child
      else if name = ''collectionStats'' then args_cost (cx_collection_stats cr) (args_collection_stats L raw) child
      else if name = ''collections'' then args_cost (cx_collections cr) (args_collections L raw) child
      else if name = ''order'' then args_cost (cx_order cr) (args_order L raw) child
      else if name = ''orders'' then args_cost (cx_orders cr) (args_orders L raw) child
      else if name = ''userOrders'' then args_cost (cx_user_orders cr) (args_user_orders L raw) child
      else field_cost cr ''Query'' [''stats''] name child)"

text \<open>The keys of the switch are a type and a field joined by a dot; names contain no dots.\<close>

definition complexity ::
  "gql_lib \<Rightarrow> complexity_root \<Rightarrow> string \<Rightarrow> string \<Rightarrow> int \<Rightarrow> (string \<times> json) list \<Rightarrow> int \<times> bool" where
  "complexity L cr ty name child raw =
     (if ty = ''Collection'' then collection_cost cr name child
      else if ty = ''CollectionConnection'' then collection_connection_cost cr name child
      else if ty = ''CollectionStats'' then collection_stats_cost cr name child
      else if ty = ''GlobalStats'' then global_stats_cost cr name child
      else if ty = ''Mutation'' \<and> name = ''submitOrder''
      then args_cost (cx_submit_order cr) (args_submit_order L raw) child
      else if ty = ''Order'' then order_cost cr name child
      else if ty = ''OrderConnection'' then order_connection_cost cr name child
      else if ty = ''Query'' then query_cost L cr name child raw
      else (0, False))"

subsection \<open>Operations\<close>

datatype operation = Query "selection list" | Mutation "selection list" | Subscription "selection list"

text \<open>The first call of the handler that \<open>Exec\<close> returns; without \<open>@defer\<close> there is nothing left for a second one.\<close>

definition exec ::
  "gql_lib \<Rightarrow> resolver \<Rightarrow> (nat \<Rightarrow> instant) \<Rightarrow> instant \<times> instant \<times> instant \<Rightarrow> operation \<Rightarrow> db \<Rightarrow> field_value \<times> db" where
  "exec L r scan clock op d = (case op of
      Query sels \<Rightarrow> query_object L r scan sels d
    | Mutation sels \<Rightarrow> mutation_object L r clock sels d
    | Subscription sels \<Rightarrow> ((JNull, [ErrText ''unsupported GraphQL operation'']), d))"

text \<open>
  What \<open>Exec\<close> returns is asked for responses until it has none: the first is the data; no object of this schema puts
  a selection into its map of deferred ones, so none is pending afterwards.
\<close>

definition next_response ::
  "gql_lib \<Rightarrow> resolver \<Rightarrow> (nat \<Rightarrow> instant) \<Rightarrow> instant \<times> instant \<times> instant \<Rightarrow> operation \<Rightarrow> bool \<Rightarrow> db \<Rightarrow>
   field_value option \<times> bool \<times> db" where
  "next_response L r scan clock op isFirst d =
     (if isFirst then (case exec L r scan clock op d of (v, d') \<Rightarrow> (Some v, False, d')) else (None, False, d))"

subsection \<open>Selections that the schema allows\<close>

fun valid_selection :: "string \<Rightarrow> selection \<Rightarrow> bool" where
  "valid_selection ty (Sel alias name args sub) =
     (name = ''__typename'' \<or>
      (case child_fields ty name of
         Inl e \<Rightarrow> False
       | Inr fc \<Rightarrow> (case fc_child fc of
           ScalarChild t \<Rightarrow> True
         | ObjectChild t \<Rightarrow> (\<forall>s \<in> set sub. valid_selection t s))))"

text \<open>A table agrees with a type if every allowed selection of it has a value.\<close>

definition table_agrees :: "string \<Rightarrow> field_table \<Rightarrow> bool" where
  "table_agrees ty table \<longleftrightarrow> (\<forall>s. valid_selection ty s \<and> sel_name s \<noteq> ''__typename'' \<longrightarrow>
     (\<exists>req f. map_of table (sel_name s) = Some (req, f) \<and> f (sel_sub s) \<noteq> None))"

lemma field_values_agree:
  assumes "table_agrees ty table" and "\<forall>s \<in> set sels. valid_selection ty s"
  shows "field_values ty' table sels \<noteq> None"
  using assms(2)
proof (induction sels)
  case (Cons s sels)
  then obtain r where "field_values ty' table sels = Some r"
    by auto
  with Cons.prems assms(1) show ?case
    by (cases r) (fastforce simp: table_agrees_def)
qed simp

lemma marshal_object_agrees:
  "table_agrees ty table \<Longrightarrow> \<forall>s \<in> set sels. valid_selection ty s \<Longrightarrow> marshal_object ty' table sels \<noteq> None"
  using field_values_agree by (fastforce simp: marshal_object_def)

lemma marshal_list_agrees:
  assumes "\<And>x. x \<in> set xs \<Longrightarrow> item x sels \<noteq> None"
  shows "marshal_list item xs sels \<noteq> None"
proof -
  have "marshal_items (map item xs) sels \<noteq> None"
    using assms by (induction xs) (auto split: option.splits)
  then show ?thesis
    by (simp add: marshal_list_def)
qed

lemma selection_cases:
  assumes "valid_selection ty s" and "sel_name s \<noteq> ''__typename''"
  obtains fc where "child_fields ty (sel_name s) = Inr fc"
    and "\<And>t. fc_child fc = ObjectChild t \<Longrightarrow> \<forall>u \<in> set (sel_sub s). valid_selection t u"
  using assms by (cases s) (auto split: sum.splits child_kind.splits)

lemmas json_values = json_int_def json_string_def json_big_def scalar_def

lemma order_agrees: "table_agrees ''Order'' (order_fields od)"
  unfolding table_agrees_def
proof (intro allI impI)
  fix s
  assume "valid_selection ''Order'' s \<and> sel_name s \<noteq> ''__typename''"
  then obtain fc where "child_fields ''Order'' (sel_name s) = Inr fc"
    using selection_cases by blast
  then show "\<exists>req f. map_of (order_fields od) (sel_name s) = Some (req, f) \<and> f (sel_sub s) \<noteq> None"
    by (auto simp: child_fields_def child_fields_order_def child_field_def order_field_defs json_values
        split: option.splits if_splits)
qed

lemma collection_agrees: "table_agrees ''Collection'' (collection_fields c)"
  unfolding table_agrees_def
proof (intro allI impI)
  fix s
  assume "valid_selection ''Collection'' s \<and> sel_name s \<noteq> ''__typename''"
  then obtain fc where "child_fields ''Collection'' (sel_name s) = Inr fc"
    using selection_cases by blast
  then show "\<exists>req f. map_of (collection_fields c) (sel_name s) = Some (req, f) \<and> f (sel_sub s) \<noteq> None"
    by (auto simp: child_fields_def child_fields_collection_def child_field_def collection_field_defs json_values
        split: option.splits if_splits)
qed

lemma order_object_valid: "\<forall>s \<in> set sels. valid_selection ''Order'' s \<Longrightarrow> order_object od sels \<noteq> None"
  unfolding order_object_def by (rule marshal_object_agrees [OF order_agrees])

lemma collection_object_valid:
  "\<forall>s \<in> set sels. valid_selection ''Collection'' s \<Longrightarrow> collection_object c sels \<noteq> None"
  unfolding collection_object_def by (rule marshal_object_agrees [OF collection_agrees])

lemma list_value_valid:
  assumes "\<And>x sels. \<forall>u \<in> set sels. valid_selection ty u \<Longrightarrow> item x sels \<noteq> None"
    and "\<forall>u \<in> set sels. valid_selection ty u"
  shows "\<exists>j. marshal_list item xs sels = Some j"
proof -
  have "marshal_list item xs sels \<noteq> None"
    by (rule marshal_list_agrees) (rule assms(1) [OF assms(2)])
  then show ?thesis by simp
qed

lemma order_connection_valid:
  assumes "\<forall>s \<in> set sels. valid_selection ''OrderConnection'' s"
  shows "order_connection_object c sels \<noteq> None"
  unfolding order_connection_object_def order_connection_fields_def
proof (rule marshal_object_agrees [OF _ assms], unfold table_agrees_def, intro allI impI)
  fix s
  assume "valid_selection ''OrderConnection'' s \<and> sel_name s \<noteq> ''__typename''"
  then obtain fc where "child_fields ''OrderConnection'' (sel_name s) = Inr fc"
    and "\<And>t. fc_child fc = ObjectChild t \<Longrightarrow> \<forall>u \<in> set (sel_sub s). valid_selection t u"
    using selection_cases by metis
  then show "\<exists>req f. map_of
     [(''orders'', True, marshal_list order_object (oc_orders c)), (''total'', True, json_int (oc_total c)),
      (''page'', True, json_int (oc_page c)), (''pageSize'', True, json_int (oc_page_size c))] (sel_name s) =
      Some (req, f) \<and> f (sel_sub s) \<noteq> None"
    using list_value_valid [OF order_object_valid]
    by (auto simp: child_fields_def child_fields_order_connection_def child_field_def json_values
        split: option.splits if_splits)
qed

lemma collection_connection_valid:
  assumes "\<forall>s \<in> set sels. valid_selection ''CollectionConnection'' s"
  shows "collection_connection_object c sels \<noteq> None"
  unfolding collection_connection_object_def collection_connection_fields_def
proof (rule marshal_object_agrees [OF _ assms], unfold table_agrees_def, intro allI impI)
  fix s
  assume "valid_selection ''CollectionConnection'' s \<and> sel_name s \<noteq> ''__typename''"
  then obtain fc where "child_fields ''CollectionConnection'' (sel_name s) = Inr fc"
    and "\<And>t. fc_child fc = ObjectChild t \<Longrightarrow> \<forall>u \<in> set (sel_sub s). valid_selection t u"
    using selection_cases by metis
  then show "\<exists>req f. map_of
     [(''collections'', True, marshal_list collection_object (cc_collections c)),
      (''total'', True, json_int (cc_total c)), (''page'', True, json_int (cc_page c)),
      (''pageSize'', True, json_int (cc_page_size c))] (sel_name s) =
      Some (req, f) \<and> f (sel_sub s) \<noteq> None"
    using list_value_valid [OF collection_object_valid]
    by (auto simp: child_fields_def child_fields_collection_connection_def child_field_def json_values
        split: option.splits if_splits)
qed

lemma collection_stats_valid:
  assumes "\<forall>s \<in> set sels. valid_selection ''CollectionStats'' s"
  shows "collection_stats_object c sels \<noteq> None"
  unfolding collection_stats_object_def collection_stats_fields_def
proof (rule marshal_object_agrees [OF _ assms], unfold table_agrees_def, intro allI impI)
  fix s
  assume "valid_selection ''CollectionStats'' s \<and> sel_name s \<noteq> ''__typename''"
  then obtain fc where "child_fields ''CollectionStats'' (sel_name s) = Inr fc"
    using selection_cases by metis
  then show "\<exists>req f. map_of
     [(''floorPrice'', False, json_big (gt_floor_price c)), (''bestBid'', False, json_big (gt_best_bid c)),
      (''listedCount'', True, json_int (gt_listed_count c))] (sel_name s) =
      Some (req, f) \<and> f (sel_sub s) \<noteq> None"
    by (auto simp: child_fields_def child_fields_collection_stats_def child_field_def json_values
        split: option.splits if_splits)
qed

lemma global_stats_valid:
  assumes "\<forall>s \<in> set sels. valid_selection ''GlobalStats'' s"
  shows "global_stats_object c sels \<noteq> None"
  unfolding global_stats_object_def global_stats_fields_def
proof (rule marshal_object_agrees [OF _ assms], unfold table_agrees_def, intro allI impI)
  fix s
  assume "valid_selection ''GlobalStats'' s \<and> sel_name s \<noteq> ''__typename''"
  then obtain fc where "child_fields ''GlobalStats'' (sel_name s) = Inr fc"
    using selection_cases by metis
  then show "\<exists>req f. map_of
     [(''totalOrders'', True, json_int (gs_total_orders c)),
      (''totalCollections'', True, json_int (gs_total_collections c)),
      (''totalTraders'', True, json_int (gs_total_traders c))] (sel_name s) =
      Some (req, f) \<and> f (sel_sub s) \<noteq> None"
    by (auto simp: child_fields_def child_fields_global_stats_def child_field_def json_values
        split: option.splits if_splits)
qed

text \<open>
  C39: Every selection that the field contexts of the schema allow, however deep, is answered: none of the
  objects runs into the panic for an unknown field.
\<close>

theorem valid_selections_answered:
  "((\<forall>s \<in> set sels. valid_selection ''Order'' s) \<longrightarrow> order_object od sels \<noteq> None) \<and>
   ((\<forall>s \<in> set sels. valid_selection ''OrderConnection'' s) \<longrightarrow> order_connection_object oc sels \<noteq> None) \<and>
   ((\<forall>s \<in> set sels. valid_selection ''Collection'' s) \<longrightarrow> collection_object c sels \<noteq> None) \<and>
   ((\<forall>s \<in> set sels. valid_selection ''CollectionConnection'' s) \<longrightarrow> collection_connection_object cc sels \<noteq> None) \<and>
   ((\<forall>s \<in> set sels. valid_selection ''CollectionStats'' s) \<longrightarrow> collection_stats_object cs sels \<noteq> None) \<and>
   ((\<forall>s \<in> set sels. valid_selection ''GlobalStats'' s) \<longrightarrow> global_stats_object gs sels \<noteq> None)"
  using order_object_valid order_connection_valid collection_object_valid collection_connection_valid
    collection_stats_valid global_stats_valid by blast

theorem valid_selections_answered_witness:
  "order_connection_object \<lparr>oc_orders = [], oc_total = 0, oc_page = 1, oc_page_size = 20\<rparr>
     [Sel ''n'' ''total'' [] [], Sel ''items'' ''orders'' [] [Sel ''hash'' ''hash'' [] []]] \<noteq> None"
proof -
  let ?sels = "[Sel ''n'' ''total'' [] [], Sel ''items'' ''orders'' [] [Sel ''hash'' ''hash'' [] []]]"
  have "\<forall>s \<in> set ?sels. valid_selection ''OrderConnection'' s"
    by (simp add: child_fields_def child_fields_order_connection_def child_fields_order_def child_field_def)
  then show ?thesis
    using valid_selections_answered [of ?sels] by blast
qed

subsection \<open>Costs\<close>

text \<open>The costs are those of the schema's fields: a configured field is one the contexts know.\<close>

lemma child_field_known: "name \<in> fst ` set table \<Longrightarrow> \<exists>fc. child_field ty table name = Inr fc"
  by (cases "map_of table name") (auto simp: child_field_def map_of_eq_None_iff)

lemma field_cost_known: "snd (field_cost cr ty names name child) \<Longrightarrow> name \<in> set names"
  by (simp add: field_cost_def split: if_splits)

lemma costs_known:
  "snd (collection_cost cr name child) \<Longrightarrow> \<exists>fc. child_fields_collection name = Inr fc"
  "snd (collection_connection_cost cr name child) \<Longrightarrow> \<exists>fc. child_fields_collection_connection name = Inr fc"
  "snd (collection_stats_cost cr name child) \<Longrightarrow> \<exists>fc. child_fields_collection_stats name = Inr fc"
  "snd (global_stats_cost cr name child) \<Longrightarrow> \<exists>fc. child_fields_global_stats name = Inr fc"
  "snd (order_cost cr name child) \<Longrightarrow> \<exists>fc. child_fields_order name = Inr fc"
  "snd (order_connection_cost cr name child) \<Longrightarrow> \<exists>fc. child_fields_order_connection name = Inr fc"
proof -
  show "snd (collection_cost cr name child) \<Longrightarrow> \<exists>fc. child_fields_collection name = Inr fc"
    unfolding collection_cost_def child_fields_collection_def
    by (drule field_cost_known, rule child_field_known) auto
  show "snd (collection_connection_cost cr name child) \<Longrightarrow> \<exists>fc. child_fields_collection_connection name = Inr fc"
    unfolding collection_connection_cost_def child_fields_collection_connection_def
    by (drule field_cost_known, rule child_field_known) auto
  show "snd (collection_stats_cost cr name child) \<Longrightarrow> \<exists>fc. child_fields_collection_stats name = Inr fc"
    unfolding collection_stats_cost_def child_fields_collection_stats_def
    by (drule field_cost_known, rule child_field_known) auto
  show "snd (global_stats_cost cr name child) \<Longrightarrow> \<exists>fc. child_fields_global_stats name = Inr fc"
    unfolding global_stats_cost_def child_fields_global_stats_def
    by (drule field_cost_known, rule child_field_known) auto
  show "snd (order_cost cr name child) \<Longrightarrow> \<exists>fc. child_fields_order name = Inr fc"
    unfolding order_cost_def child_fields_order_def
    by (drule field_cost_known, rule child_field_known) auto
  show "snd (order_connection_cost cr name child) \<Longrightarrow> \<exists>fc. child_fields_order_connection name = Inr fc"
    unfolding order_connection_cost_def child_fields_order_connection_def
    by (drule field_cost_known, rule child_field_known) auto
qed

lemma cost_known:
  assumes "snd (complexity L cr ty name child raw)" and "ty \<notin> {''Query'', ''Mutation''}"
  shows "\<exists>fc. child_fields ty name = Inr fc"
  using assms costs_known by (simp add: complexity_def child_fields_def split: if_splits)

text \<open>The server's configuration sets no cost, so no field has one and the library's default applies.\<close>

definition no_costs :: complexity_root where
  "no_costs = \<lparr>cx_field = (\<lambda>ty name. None), cx_submit_order = None, cx_order = None, cx_orders = None,
     cx_best_order = None, cx_collection = None, cx_collections = None, cx_user_orders = None,
     cx_collection_stats = None\<rparr>"

lemma no_costs_unknown: "complexity L no_costs ty name child raw = (0, False)"
  by (simp add: complexity_def query_cost_def collection_cost_def collection_connection_cost_def
      collection_stats_cost_def global_stats_cost_def order_cost_def order_connection_cost_def
      field_cost_def args_cost_def no_costs_def)

end
