(* ===== verification/Auth.thy ===== *)
theory Auth
  imports Signature Cache Http
begin

section \<open>Signing in: service/auth.go, handler/auth.go, middleware/auth.go\<close>

text \<open>
  A client asks for a challenge, signs it with its key and gets a token; the token opens the
  protected routes until it expires.  Outside the repository are go-ethereum, Redis, the JWT library
  (\<open>jt_sign\<close> signs claims with HS256, \<open>jt_parse\<close> checks a token with a function that picks the key by
  signing method) and the text of a time; the bytes of \<open>crypto/rand\<close> are an argument.
\<close>

datatype jwt_method = HMAC string | OtherMethod string

record jwt_token =
  jt_claims :: "(string \<times> json) list option"
  jt_valid :: bool

record auth_lib =
  al_eth :: eth_lib
  al_keccak :: "string \<Rightarrow> bytes"
  al_rfc3339 :: "instant \<Rightarrow> string"
  jt_sign :: "string \<Rightarrow> (string \<times> json) list \<Rightarrow> string result"
  jt_parse :: "(jwt_method \<Rightarrow> string result) \<Rightarrow> instant \<Rightarrow> string \<Rightarrow> jwt_token result"

record 'r auth_service =
  au_lib :: auth_lib
  au_secret :: string
  au_expiry :: int
  au_ttl :: int
  au_redis :: "'r redis"

definition new_auth_service :: "auth_lib \<Rightarrow> 'r redis \<Rightarrow> string \<Rightarrow> int \<Rightarrow> int \<Rightarrow> 'r auth_service" where
  "new_auth_service lib rd secret expiry ttl =
     \<lparr>au_lib = lib, au_secret = secret, au_expiry = expiry, au_ttl = ttl, au_redis = rd\<rparr>"

record auth_nonce_data =
  an_nonce :: string
  an_issued_at :: string

definition marshal_nonce :: "auth_nonce_data \<Rightarrow> json" where
  "marshal_nonce n = JObj [(''nonce'', JStr (an_nonce n)), (''issuedAt'', JStr (an_issued_at n))]"

definition unmarshal_nonce :: "json \<Rightarrow> auth_nonce_data result" where
  "unmarshal_nonce j =
     bind_result (json_members j) (\<lambda>ms.
     bind_result (string_field ''nonce'' ms) (\<lambda>n.
     bind_result (string_field ''issuedAt'' ms) (\<lambda>i. Inr \<lparr>an_nonce = n, an_issued_at = i\<rparr>)))"

lemma unmarshal_marshal_nonce [simp]: "unmarshal_nonce (marshal_nonce n) = Inr n"
  by (simp add: unmarshal_nonce_def marshal_nonce_def json_field_eval)

record auth_challenge =
  ac_challenge :: string
  ac_nonce :: string
  ac_issued_at :: string

record login_response =
  lr_token :: string
  lr_expires_at :: string

subsection \<open>The challenge\<close>

text \<open>\<open>base64.RawURLEncoding\<close>.\<close>

definition base64_digit :: "nat \<Rightarrow> char" where
  "base64_digit n = ''ABCDEFGHIJKLMNOPQRSTUVWXYZabcdefghijklmnopqrstuvwxyz0123456789-_'' ! n"

fun base64_raw_url :: "bytes \<Rightarrow> string" where
  "base64_raw_url [] = []"
| "base64_raw_url [a] = (let n = unat a * 16 in map base64_digit [n div 64, n mod 64])"
| "base64_raw_url [a, b] = (let n = (unat a * 256 + unat b) * 4 in
     map base64_digit [n div 4096, n div 64 mod 64, n mod 64])"
| "base64_raw_url (a # b # c # bs) = (let n = (unat a * 256 + unat b) * 256 + unat c in
     map base64_digit [n div 262144, n div 4096 mod 64, n div 64 mod 64, n mod 64] @ base64_raw_url bs)"

definition challenge_text :: "string \<Rightarrow> string \<Rightarrow> string" where
  "challenge_text nonce issuedAt = ''I am signing in to NFT Market.'' @ [CHR 0x0A, CHR 0x0A] @
     ''Nonce: '' @ nonce @ [CHR 0x0A] @ ''Issued At: '' @ issuedAt"

definition nonce_key :: "string \<Rightarrow> string" where
  "nonce_key address = ''auth:nonce:'' @ to_lower address"

definition generate_challenge ::
  "'r auth_service \<Rightarrow> instant \<Rightarrow> bytes result \<Rightarrow> string \<Rightarrow> 'r \<Rightarrow> auth_challenge result \<times> 'r" where
  "generate_challenge au now random address r =
     (if \<not> is_hex_address (al_eth (au_lib au)) address
      then (Inl (AppError ''INVALID_ADDRESS'' ''not a valid ethereum address'' None), r)
      else case wrap_err ''generate nonce'' random of
        Inl e \<Rightarrow> (Inl e, r)
      | Inr nonceBytes \<Rightarrow>
          let nonce = base64_raw_url nonceBytes;
              issuedAt = al_rfc3339 (au_lib au) now
          in case cache_set (au_redis au) (\<lambda>n. Inr (marshal_nonce n)) (nonce_key address)
                \<lparr>an_nonce = nonce, an_issued_at = issuedAt\<rparr> (au_ttl au) r of
               (Inl e, r') \<Rightarrow> (Inl (ErrWrap ''store nonce'' e), r')
             | (Inr _, r') \<Rightarrow> (Inr \<lparr>ac_challenge = challenge_text nonce issuedAt, ac_nonce = nonce,
                 ac_issued_at = issuedAt\<rparr>, r'))"

subsection \<open>The login\<close>

text \<open>The message as wallets sign it: a prefix and its length in bytes.  \<open>sig[64] -= 27\<close> wraps.\<close>

definition personal_message :: "string \<Rightarrow> string" where
  "personal_message message = [CHR 0x19] @ ''Ethereum Signed Message:'' @ [CHR 0x0A] @
     dec_of_int (int (length message)) @ message"

definition recover_personal_sign :: "auth_lib \<Rightarrow> string \<Rightarrow> string \<Rightarrow> string result" where
  "recover_personal_sign lib message sigHex =
     bind_result (wrap_err ''decode signature'' (hex_decode_string (trim_prefix sigHex ''0x''))) (\<lambda>sig.
     if length sig \<noteq> 65
     then Inl (ErrText (''signature length '' @ dec_of_int (int (length sig)) @ '', expected 65''))
     else
       bind_result (wrap_err ''ecrecover'' (ecrecover (al_eth lib) (al_keccak lib (personal_message message))
         (sig[64 := sig ! 64 - 27]))) (\<lambda>pub.
       bind_result (wrap_err ''unmarshal pubkey'' (unmarshal_pubkey (al_eth lib) pub)) (\<lambda>key.
         Inr (address_hex (al_eth lib) (pubkey_to_address (al_eth lib) key)))))"

text \<open>\<open>jwt.MapClaims\<close>, in the order in which a map is marshalled.\<close>

definition login_claims :: "'r auth_service \<Rightarrow> instant \<Rightarrow> string \<Rightarrow> (string \<times> json) list" where
  "login_claims au now address = [(''exp'', JNum (unix (now + au_expiry au))), (''iat'', JNum (unix now)),
     (''sub'', JStr (to_lower address))]"

definition issue_token :: "'r auth_service \<Rightarrow> instant \<Rightarrow> string \<Rightarrow> login_response result" where
  "issue_token au now address =
     bind_result (wrap_err ''sign token'' (jt_sign (au_lib au) (au_secret au) (login_claims au now address)))
       (\<lambda>token. Inr \<lparr>lr_token = token, lr_expires_at = al_rfc3339 (au_lib au) (now + au_expiry au)\<rparr>)"

definition login ::
  "'r auth_service \<Rightarrow> instant \<Rightarrow> string \<Rightarrow> string \<Rightarrow> 'r \<Rightarrow> login_response result \<times> 'r" where
  "login au now address signature r =
     (if \<not> is_hex_address (al_eth (au_lib au)) address
      then (Inl (AppError ''INVALID_ADDRESS'' ''not a valid ethereum address'' None), r)
      else case cache_get (au_redis au) unmarshal_nonce (nonce_key address) r of
        (Inl e, r1) \<Rightarrow> (Inl (AppError ''INVALID_CHALLENGE'' ''nonce not found or expired'' None), r1)
      | (Inr data, r1) \<Rightarrow>
          (case recover_personal_sign (au_lib au) (challenge_text (an_nonce data) (an_issued_at data)) signature of
             Inl e \<Rightarrow> (Inl (AppError ''SIGNATURE_INVALID'' ''signature verification failed'' (Some e)), r1)
           | Inr recovered \<Rightarrow>
               if \<not> equal_fold recovered address
               then (Inl (AppError ''SIGNATURE_MISMATCH'' ''recovered signer does not match'' None), r1)
               else (issue_token au now address, snd (cache_del (au_redis au) [nonce_key address] r1))))"

subsection \<open>Tokens\<close>

definition key_for :: "string \<Rightarrow> jwt_method \<Rightarrow> string result" where
  "key_for secret m = (case m of
      HMAC alg \<Rightarrow> Inr secret
    | OtherMethod alg \<Rightarrow> Inl (ErrText (''unexpected signing method: '' @ alg)))"

definition validate_token :: "'r auth_service \<Rightarrow> instant \<Rightarrow> string \<Rightarrow> string result" where
  "validate_token au now tokenStr =
     bind_result (wrap_err ''parse token'' (jt_parse (au_lib au) (key_for (au_secret au)) now tokenStr)) (\<lambda>token.
       case jt_claims token of
         None \<Rightarrow> Inl (ErrText ''invalid token'')
       | Some claims \<Rightarrow>
           if \<not> jt_valid token then Inl (ErrText ''invalid token'')
           else Inr (case map_of claims ''sub'' of Some (JStr sub) \<Rightarrow> sub | _ \<Rightarrow> []))"

text \<open>The middleware: a refusal, or the address under which the request goes on.\<close>

definition bearer :: string where
  "bearer = ''Bearer ''"

definition authenticate :: "'r auth_service \<Rightarrow> instant \<Rightarrow> http_request \<Rightarrow> http_response + string" where
  "authenticate au now rq =
     (let header = rq_header rq ''Authorization'' in
      if header = [] \<or> \<not> has_prefix header bearer
      then Inl (respond 401 (JObj [(''error'', JStr ''UNAUTHORIZED''),
        (''message'', JStr ''Authorization header required'')]))
      else case validate_token au now (trim_prefix header bearer) of
        Inl e \<Rightarrow> Inl (respond 401 (JObj [(''error'', JStr ''INVALID_TOKEN''), (''message'', JStr (error_string e))]))
      | Inr address \<Rightarrow> Inr address)"

subsection \<open>The endpoints\<close>

definition marshal_challenge :: "auth_challenge \<Rightarrow> json" where
  "marshal_challenge c = JObj [(''challenge'', JStr (ac_challenge c)), (''nonce'', JStr (ac_nonce c)),
     (''issuedAt'', JStr (ac_issued_at c))]"

definition marshal_login :: "login_response \<Rightarrow> json" where
  "marshal_login l = JObj [(''token'', JStr (lr_token l)), (''expiresAt'', JStr (lr_expires_at l))]"

definition challenge_endpoint ::
  "'r auth_service \<Rightarrow> instant \<Rightarrow> bytes result \<Rightarrow> http_request \<Rightarrow> 'r \<Rightarrow> http_response \<times> 'r" where
  "challenge_endpoint au now random rq r =
     (let address = query rq ''address'' in
      if address = [] then (fail_with 400 ''MISSING_PARAM'' ''address query parameter is required'', r)
      else case generate_challenge au now random address r of
        (Inl e, r') \<Rightarrow> (fail_with 400 (extract_error_code e) (error_string e), r')
      | (Inr c, r') \<Rightarrow> (respond 200 (marshal_challenge c), r'))"

record login_request =
  lq_address :: string
  lq_signature :: string

definition unmarshal_login_request :: "json \<Rightarrow> login_request result" where
  "unmarshal_login_request j =
     bind_result (json_members j) (\<lambda>ms.
     bind_result (string_field ''address'' ms) (\<lambda>a.
     bind_result (string_field ''signature'' ms) (\<lambda>s. Inr \<lparr>lq_address = a, lq_signature = s\<rparr>)))"

definition validate_login_request :: "login_request \<Rightarrow> string list" where
  "validate_login_request q =
     tag_error ''LoginRequest'' ''Address'' ''required'' (lq_address q \<noteq> []) @
     tag_error ''LoginRequest'' ''Signature'' ''required'' (lq_signature q \<noteq> [])"

definition login_endpoint :: "'r auth_service \<Rightarrow> instant \<Rightarrow> http_request \<Rightarrow> 'r \<Rightarrow> http_response \<times> 'r" where
  "login_endpoint au now rq r =
     (case should_bind unmarshal_login_request validate_login_request (rq_body rq) of
        Inl e \<Rightarrow> (fail_with 400 ''INVALID_REQUEST'' (error_string e), r)
      | Inr q \<Rightarrow>
          (case login au now (lq_address q) (lq_signature q) r of
             (Inl e, r') \<Rightarrow>
               let code = extract_error_code e;
                   status = (if code = ''SIGNATURE_INVALID'' \<or> code = ''SIGNATURE_MISMATCH'' then 401 else 400)
               in (fail_with status code (error_string e), r')
           | (Inr l, r') \<Rightarrow> (respond 200 (marshal_login l), r')))"

end
