(* ===== verification/AuthFacts.thy ===== *)
theory AuthFacts
  imports Auth
begin

section \<open>What signing in guarantees\<close>

text \<open>
  Who gets a token, that a challenge is good for one token, that the token of a login opens the
  protected routes until it expires, and that the whole exchange works for a wallet that signs the
  challenge.  What is assumed of Redis and of the JWT library is named.
\<close>

subsection \<open>Who gets a token\<close>

lemma login_success_iff:
  "(\<exists>l. fst (login au now a sig r) = Inr l) \<longleftrightarrow>
    is_hex_address (al_eth (au_lib au)) a \<and>
    (\<exists>data w token. fst (cache_get (au_redis au) unmarshal_nonce (nonce_key a) r) = Inr data \<and>
      recover_personal_sign (au_lib au) (challenge_text (an_nonce data) (an_issued_at data)) sig = Inr w \<and>
      equal_fold w a \<and> jt_sign (au_lib au) (au_secret au) (login_claims au now a) = Inr token)"
  by (auto simp: login_def issue_token_def bind_result_Inr split: prod.splits sum.splits if_splits)


lemma login_success:
  assumes "login au now a sig r = (Inr l, r')"
  shows "r' = snd (cache_del (au_redis au) [nonce_key a] (snd (cache_get (au_redis au) unmarshal_nonce (nonce_key a) r)))"
    and "jt_sign (au_lib au) (au_secret au) (login_claims au now a) = Inr (lr_token l)"
  using assms by (auto simp: login_def issue_token_def bind_result_Inr split: prod.splits sum.splits if_splits)

subsection \<open>A challenge is good for one token\<close>

text \<open>A Redis that answers every request: a stored key is found, writes and deletions succeed.\<close>

definition redis_up :: "'r redis \<Rightarrow> ('r \<Rightarrow> string \<Rightarrow> json option) \<Rightarrow> bool" where
  "redis_up rd content \<longleftrightarrow> redis_laws rd content \<and>
     (\<forall>k s v. content s k = Some v \<longrightarrow> fst (rd_get rd k s) = Inr v) \<and>
     (\<forall>k v ttl s. fst (rd_set rd k v ttl s) = Inr ()) \<and> (\<forall>ks s. fst (rd_del rd ks s) = Inr ())"

lemma map_redis_up: "redis_up map_redis (\<lambda>s. s)"
  using map_redis_laws by (simp add: redis_up_def) (simp add: map_redis_def)

lemma redis_get:
  assumes "redis_up rd content"
  shows "snd (rd_get rd k s) = s" and "fst (rd_get rd k s) = Inr v \<longleftrightarrow> content s k = Some v"
  using assms unfolding redis_up_def redis_laws_def by blast+

lemma redis_del:
  assumes "redis_up rd content"
  shows "content (snd (rd_del rd ks s)) = (\<lambda>k. if k \<in> set ks then None else content s k)"
proof -
  have "rd_del rd ks s = (Inr (), snd (rd_del rd ks s))"
    using assms by (simp add: redis_up_def prod_eq_iff)
  with assms show ?thesis
    unfolding redis_up_def redis_laws_def by blast
qed

lemma redis_set:
  assumes "redis_up rd content"
  shows "rd_set rd k v ttl s = (Inr (), snd (rd_set rd k v ttl s))"
    and "content (snd (rd_set rd k v ttl s)) = (content s)(k \<mapsto> v)"
proof -
  show 1: "rd_set rd k v ttl s = (Inr (), snd (rd_set rd k v ttl s))"
    using assms by (simp add: redis_up_def prod_eq_iff)
  show "content (snd (rd_set rd k v ttl s)) = (content s)(k \<mapsto> v)"
    using assms 1 unfolding redis_up_def redis_laws_def by blast
qed

lemma nonce_key_fold: "equal_fold a b \<Longrightarrow> nonce_key a = nonce_key b"
  by (simp add: nonce_key_def equal_fold_def)


text \<open>
  The error of the deletion is ignored: while Redis refuses to delete, a signature can be
  used again.
\<close>

lemma replay_while_delete_fails:
  assumes "login au now a sig r = (Inr l, r')" and "\<And>ks s. snd (rd_del (au_redis au) ks s) = s"
    and "\<And>k s. snd (rd_get (au_redis au) k s) = s"
  shows "login au now a sig r' = (Inr l, r')"
proof -
  have "snd (cache_get (au_redis au) unmarshal_nonce (nonce_key a) r) = r"
    using assms(3) [of "nonce_key a" r] by (auto simp: cache_get_def split: prod.splits sum.splits)
  with login_success(1) [OF assms(1)] assms(2) have "r' = r"
    by (simp add: cache_del_def)
  with assms(1) show ?thesis by simp
qed

subsection \<open>Tokens\<close>

text \<open>
  The documented behaviour of the JWT library on tokens it signed with HS256: with the same key the
  claims come back until the second of \<open>exp\<close>, and are refused from then on.
\<close>

definition jwt_laws :: "auth_lib \<Rightarrow> bool" where
  "jwt_laws lib \<longleftrightarrow> (\<forall>secret claims token keyfunc now t.
     jt_sign lib secret claims = Inr token \<longrightarrow> keyfunc (HMAC ''HS256'') = Inr secret \<longrightarrow>
     map_of claims ''exp'' = Some (JNum t) \<longrightarrow>
     (if now < unix_instant t
      then jt_parse lib keyfunc now token = Inr \<lparr>jt_claims = Some claims, jt_valid = True\<rparr>
      else (\<exists>e. jt_parse lib keyfunc now token = Inl e)))"

lemma login_claims_of:
  "map_of (login_claims au now a) ''exp'' = Some (JNum (unix (now + au_expiry au)))"
  "map_of (login_claims au now a) ''sub'' = Some (JStr (to_lower a))"
  by (simp_all add: login_claims_def)

definition with_token :: "string \<Rightarrow> http_request \<Rightarrow> http_request" where
  "with_token token rq = rq\<lparr>rq_header := (\<lambda>k. if k = ''Authorization'' then bearer @ token else rq_header rq k)\<rparr>"

lemma authenticate_bearer:
  "authenticate au now (with_token token rq) = (case validate_token au now token of
     Inl e \<Rightarrow> Inl (respond 401 (JObj [(''error'', JStr ''INVALID_TOKEN''), (''message'', JStr (error_string e))]))
   | Inr address \<Rightarrow> Inr address)"
proof -
  have "trim_prefix (bearer @ token) bearer = token" "has_prefix (bearer @ token) bearer" "bearer @ token \<noteq> []"
    by (simp_all add: bearer_def del: append_Cons append.simps)
  then show ?thesis
    by (simp add: authenticate_def with_token_def del: append_Cons append_is_Nil_conv)
qed

lemma login_token_validates:
  assumes "jwt_laws (au_lib au)" and "login au now a sig r = (Inr l, r')"
  shows "if later < unix_instant (unix (now + au_expiry au))
    then validate_token au later (lr_token l) = Inr (to_lower a)
    else (\<exists>e. validate_token au later (lr_token l) = Inl e)"
proof -
  have "key_for (au_secret au) (HMAC ''HS256'') = Inr (au_secret au)"
    by (simp add: key_for_def)
  from assms(1) [unfolded jwt_laws_def, rule_format, where keyfunc = "key_for (au_secret au)",
      OF login_success(2) [OF assms(2)] this login_claims_of(1), of later]
  show ?thesis
    by (auto simp: validate_token_def login_claims_of split: if_splits)
qed

text \<open>
  The token of a login opens the protected routes under the lower-case address of the login, up to
  its expiry at the full second, and is answered with 401 from then on.
\<close>

theorem login_token_opens:
  assumes "jwt_laws (au_lib au)" and "login au now a sig r = (Inr l, r')"
  shows "if later < unix_instant (unix (now + au_expiry au))
    then authenticate au later (with_token (lr_token l) rq) = Inr (to_lower a)
    else (\<exists>p. authenticate au later (with_token (lr_token l) rq) = Inl p \<and> p_status p = 401)"
  using login_token_validates [OF assms, of later] by (auto simp: authenticate_bearer split: if_splits)

text \<open>
  C26: Signing in works: an address that asks for a challenge and signs the text it is given gets a token
  with the next login, under any spelling of the address, and the token is valid at once.
\<close>

theorem sign_in_works:
  assumes "redis_up (au_redis au) content" and "jwt_laws (au_lib au)"
    and "generate_challenge au t random a r = (Inr c, r1)"
    and "is_hex_address (al_eth (au_lib au)) b" and "equal_fold a b"
    and "recover_personal_sign (au_lib au) (ac_challenge c) sig = Inr w" and "equal_fold w b"
    and "jt_sign (au_lib au) (au_secret au) (login_claims au now b) = Inr token"
    and "now < unix_instant (unix (now + au_expiry au))"
  shows "\<exists>l r2. login au now b sig r1 = (Inr l, r2) \<and> validate_token au now (lr_token l) = Inr (to_lower b)"
proof -
  let ?rd = "au_redis au"
  from assms(3) obtain nb where c: "ac_challenge c = challenge_text (base64_raw_url nb) (al_rfc3339 (au_lib au) t)"
    and r1: "r1 = snd (rd_set ?rd (nonce_key a) (marshal_nonce \<lparr>an_nonce = base64_raw_url nb,
        an_issued_at = al_rfc3339 (au_lib au) t\<rparr>) (au_ttl au) r)"
    by (auto simp: generate_challenge_def cache_set_def Let_def split: if_splits sum.splits prod.splits)
  let ?data = "\<lparr>an_nonce = base64_raw_url nb, an_issued_at = al_rfc3339 (au_lib au) t\<rparr>"
  have "content r1 (nonce_key b) = Some (marshal_nonce ?data)"
    using redis_set(2) [OF assms(1)] by (simp add: r1 nonce_key_fold [OF assms(5)])
  then have "fst (rd_get ?rd (nonce_key b) r1) = Inr (marshal_nonce ?data)"
    by (simp add: redis_get(2) [OF assms(1)])
  then have "fst (cache_get ?rd unmarshal_nonce (nonce_key b) r1) = Inr ?data"
    by (auto simp: cache_get_def split: prod.splits sum.splits)
  with assms(4,6,7,8) c have "\<exists>l. fst (login au now b sig r1) = Inr l"
    unfolding login_success_iff by fastforce
  then obtain l r2 where l: "login au now b sig r1 = (Inr l, r2)"
    by (metis prod.collapse)
  with login_token_validates [OF assms(2) l, of now] assms(9) show ?thesis
    by auto
qed

subsection \<open>The recovery id\<close>

text \<open>go-ethereum's \<open>Ecrecover\<close> documents a recovery id below 4.\<close>

definition checks_recovery_id :: "eth_lib \<Rightarrow> bool" where
  "checks_recovery_id eth \<longleftrightarrow>
     (\<forall>h sig. length sig = 65 \<longrightarrow> 4 \<le> sig ! 64 \<longrightarrow> (\<exists>e. ecrecover eth h sig = Inl e))"

text \<open>
  A login signature with recovery id 0 or 1 is always refused, although the same form is accepted
  for orders: the login subtracts 27 without looking, and \<open>0 - 27\<close> wraps to 229.
\<close>

theorem personal_sign_needs_27:
  assumes "checks_recovery_id (al_eth lib)"
    and "hex_decode_string (trim_prefix sigHex ''0x'') = Inr sig" and "length sig = 65" and "sig ! 64 < 27"
  shows "\<exists>e. recover_personal_sign lib message sigHex = Inl e"
proof -
  have "4 \<le> (v :: byte) - 27" if "v < 27" for v
  proof -
    have "unat (v - 27) = 229 + unat v"
      using that by (simp add: word_less_nat_alt unat_sub_if')
    then show ?thesis
      by (simp add: word_le_nat_alt)
  qed
  with assms(4) have "4 \<le> sig[64 := sig ! 64 - 27] ! 64"
    by (simp add: assms(3))
  with assms(1,3) obtain e where
    "ecrecover (al_eth lib) (al_keccak lib (personal_message message)) (sig[64 := sig ! 64 - 27]) = Inl e"
    unfolding checks_recovery_id_def by (metis length_list_update)
  with assms(2,3) show ?thesis
    by (simp add: recover_personal_sign_def)
qed

subsection \<open>Instances\<close>

text \<open>
  A service whose JWT library knows one token, over the library \<open>toy_eth\<close>, in which every signature
  recovers \<open>0x1a\<close>, and a map in place of Redis.
\<close>

definition toy_claims :: "(string \<times> json) list" where
  "toy_claims = [(''exp'', JNum 86400), (''iat'', JNum 0), (''sub'', JStr ''0x1a'')]"

definition toy_auth_lib :: auth_lib where
  "toy_auth_lib = \<lparr>al_eth = toy_eth, al_keccak = (\<lambda>m. [1]), al_rfc3339 = (\<lambda>t. ''1970-01-01T00:00:00Z''),
     jt_sign = (\<lambda>secret claims. if claims = toy_claims then Inr ''token'' else Inl (ErrText ''jwt'')),
     jt_parse = (\<lambda>keyfunc now token. if token = ''token'' \<and> now < unix_instant 86400
        then Inr \<lparr>jt_claims = Some toy_claims, jt_valid = True\<rparr> else Inl (ErrText ''token is expired''))\<rparr>"

definition toy_auth :: "(string \<Rightarrow> json option) auth_service" where
  "toy_auth = new_auth_service toy_auth_lib map_redis ''secret'' (86400 * second) (300 * second)"

definition toy_signature :: string where
  "toy_signature = ''0x'' @ hex_encode_to_string (one32 @ one32 @ [27])"

lemma toy_auth_laws:
  "redis_up (au_redis toy_auth) (\<lambda>s. s)" "jwt_laws (au_lib toy_auth)"
  by (simp_all add: toy_auth_def new_auth_service_def map_redis_up)
    (auto simp: jwt_laws_def toy_auth_lib_def toy_claims_def split: if_splits)

lemma toy_recovers:
  "recover_personal_sign (au_lib toy_auth) m toy_signature = Inr ''0x1a''"
proof -
  have "''0x'' @ hex_encode_to_string [26] = ''0x1a''"
    by code_simp
  then show ?thesis
    by (simp add: recover_personal_sign_def toy_signature_def toy_auth_def new_auth_service_def
        toy_auth_lib_def toy_eth_def)
qed

definition toy_nonces :: "string \<Rightarrow> json option" where
  "toy_nonces = (\<lambda>k. None)(nonce_key ''0x1a'' \<mapsto> marshal_nonce \<lparr>an_nonce = [], an_issued_at = ''1970-01-01T00:00:00Z''\<rparr>)"

lemma toy_sign_token: "jt_sign (au_lib toy_auth) (au_secret toy_auth) (login_claims toy_auth 0 ''0x1a'') = Inr ''token''"
proof -
  have "to_lower ''0x1a'' = ''0x1a''"
    by code_simp
  then show ?thesis
    by (simp add: toy_auth_def new_auth_service_def toy_auth_lib_def toy_claims_def login_claims_def
        unix_def second_def)
qed

lemma toy_challenge:
  "generate_challenge toy_auth 0 (Inr []) ''0x1a'' (\<lambda>k. None) =
    (Inr \<lparr>ac_challenge = challenge_text [] ''1970-01-01T00:00:00Z'', ac_nonce = [],
       ac_issued_at = ''1970-01-01T00:00:00Z''\<rparr>, toy_nonces)"
  by (simp add: generate_challenge_def cache_set_def toy_auth_def new_auth_service_def toy_auth_lib_def
      toy_eth_def map_redis_def toy_nonces_def Let_def)

theorem sign_in_works_witness:
  "\<exists>l r2. login toy_auth 0 ''0x1a'' toy_signature toy_nonces = (Inr l, r2) \<and>
    validate_token toy_auth 0 (lr_token l) = Inr ''0x1a''"
proof -
  have "is_hex_address (al_eth (au_lib toy_auth)) ''0x1a''"
    by (simp add: toy_auth_def new_auth_service_def toy_auth_lib_def toy_eth_def)
  moreover have "0 < unix_instant (unix (0 + au_expiry toy_auth))"
    by (simp add: toy_auth_def new_auth_service_def unix_instant_def unix_def second_def)
  moreover have "to_lower ''0x1a'' = ''0x1a''"
    by code_simp
  ultimately show ?thesis
    using sign_in_works [OF toy_auth_laws toy_challenge _ equal_fold_refl toy_recovers equal_fold_refl
        toy_sign_token] by simp
qed

lemma toy_login: "\<exists>l r2. login toy_auth 0 ''0x1a'' toy_signature toy_nonces = (Inr l, r2) \<and> lr_token l = ''token''"
proof -
  have "\<exists>l. fst (login toy_auth 0 ''0x1a'' toy_signature toy_nonces) = Inr l"
    unfolding login_success_iff using toy_sign_token toy_recovers
    by (auto simp: toy_auth_def new_auth_service_def toy_auth_lib_def toy_eth_def cache_get_def
        map_redis_def toy_nonces_def intro!: equal_fold_refl)
  then obtain l r2 where l: "login toy_auth 0 ''0x1a'' toy_signature toy_nonces = (Inr l, r2)"
    by (metis prod.collapse)
  with login_success(2) [OF l] toy_sign_token show ?thesis by simp
qed


theorem login_token_opens_witness:
  "\<exists>p. authenticate toy_auth (unix_instant 86400)
      (with_token ''token'' \<lparr>rq_method = ''POST'', rq_path = ''/api/v1/orders'', rq_query = (\<lambda>k. None),
        rq_param = (\<lambda>k. []), rq_header = (\<lambda>k. []), rq_body = Inr JNull, rq_ip = []\<rparr>) = Inl p \<and> p_status p = 401"
proof -
  obtain l r2 where l: "login toy_auth 0 ''0x1a'' toy_signature toy_nonces = (Inr l, r2)" "lr_token l = ''token''"
    using toy_login by blast
  have "\<not> unix_instant 86400 < unix_instant (unix (0 + au_expiry toy_auth))"
    by (simp add: toy_auth_def new_auth_service_def unix_instant_def unix_def second_def)
  then show ?thesis
    using login_token_opens [OF toy_auth_laws(2) l(1), of "unix_instant 86400"] l(2) by simp
qed

definition strict_lib :: auth_lib where
  "strict_lib = toy_auth_lib\<lparr>al_eth := toy_eth\<lparr>ecrecover := (\<lambda>h s. if 4 \<le> s ! 64
     then Inl (ErrText ''invalid signature recovery id'') else Inr h)\<rparr>\<rparr>"

theorem personal_sign_needs_27_witness:
  "\<exists>e. recover_personal_sign strict_lib ''hello'' (''0x'' @ hex_encode_to_string (one32 @ one32 @ [0])) = Inl e"
proof (rule personal_sign_needs_27)
  show "checks_recovery_id (al_eth strict_lib)"
    by (simp add: checks_recovery_id_def strict_lib_def)
  show "hex_decode_string (trim_prefix (''0x'' @ hex_encode_to_string (one32 @ one32 @ [0])) ''0x'') =
      Inr (one32 @ one32 @ [0])"
    by simp
qed (simp_all add: nth_append)

end
