(* ===== verification/Middleware.thy ===== *)
theory Middleware
  imports Http Complex_Main
begin

section \<open>internal/middleware\<close>

text \<open>
  The rate limiter, CORS, the request id, the access log and the metrics.  The limiter's bucket map is
  an association list (its size matters), a \<open>float64\<close> of tokens is a rational number: rounding is not
  modelled.  A middleware that lets a request pass answers with what it adds; the chain is composed in
  \<open>Server\<close>.
\<close>

subsection \<open>RateLimit\<close>

record bucket =
  b_tokens :: rat
  b_last_check :: instant

type_synonym buckets = "(string \<times> bucket) list"

definition max_buckets :: nat where
  "max_buckets = 50000"

text \<open>\<open>Sub(..).Seconds()\<close>.\<close>

definition seconds :: "int \<Rightarrow> rat" where
  "seconds ns = of_int ns / 1000000000"

definition refill :: "rat \<Rightarrow> int \<Rightarrow> instant \<Rightarrow> bucket \<Rightarrow> bucket" where
  "refill rate burst now b =
     (let t = b_tokens b + seconds (now - b_last_check b) * rate in
      \<lparr>b_tokens = (if t > of_int burst then of_int burst else t), b_last_check = now\<rparr>)"

fun put_bucket :: "string \<Rightarrow> bucket \<Rightarrow> buckets \<Rightarrow> buckets" where
  "put_bucket ip b [] = [(ip, b)]"
| "put_bucket ip b ((k, c) # bs) = (if k = ip then (ip, b) # bs else (k, c) # put_bucket ip b bs)"

text \<open>Whether the request goes on, and the buckets after it; \<open>created\<close> and \<open>now\<close> are the two readings of the clock.\<close>

definition charge :: "rat \<Rightarrow> int \<Rightarrow> instant \<Rightarrow> string \<Rightarrow> bucket \<Rightarrow> buckets \<Rightarrow> bool \<times> buckets" where
  "charge rate burst now ip b bs =
     (let b' = refill rate burst now b in
      if b_tokens b' < 1 then (False, put_bucket ip b' bs)
      else (True, put_bucket ip (b'\<lparr>b_tokens := b_tokens b' - 1\<rparr>) bs))"

definition rate_limit :: "rat \<Rightarrow> int \<Rightarrow> instant \<times> instant \<Rightarrow> string \<Rightarrow> buckets \<Rightarrow> bool \<times> buckets" where
  "rate_limit rate burst clock ip bs =
     (case clock of (created, now) \<Rightarrow>
       case map_of bs ip of
         Some b \<Rightarrow> charge rate burst now ip b bs
       | None \<Rightarrow>
           if max_buckets \<le> length bs then (True, bs)
           else charge rate burst now ip \<lparr>b_tokens = of_int burst, b_last_check = created\<rparr> bs)"

text \<open>The collection of idle buckets, every five minutes.\<close>

definition five_minutes :: int where
  "five_minutes = 300000000000"

definition collect_idle :: "instant \<Rightarrow> buckets \<Rightarrow> buckets" where
  "collect_idle now bs = filter (\<lambda>(ip, b). \<not> now - b_last_check b > five_minutes) bs"

definition rate_limited :: http_response where
  "rate_limited = respond 429 (JObj [(''error'', JStr ''RATE_LIMITED''), (''message'', JStr ''Too many requests'')])"

subsection \<open>CORS\<close>

definition origin_map :: "string list \<Rightarrow> string \<Rightarrow> bool" where
  "origin_map allowed origin \<longleftrightarrow> origin \<in> set (map to_lower allowed)"

text \<open>The headers, and whether the chain ends here with status 204.\<close>

definition cors :: "string list \<Rightarrow> http_request \<Rightarrow> (string \<times> string) list \<times> bool" where
  "cors allowed rq =
     (let origin = rq_header rq ''Origin'' in
      ((if origin \<noteq> [] \<and> origin_map allowed (to_lower origin)
        then [(''Access-Control-Allow-Origin'', origin)] else []) @
       [(''Access-Control-Allow-Methods'', ''GET, POST, OPTIONS''),
        (''Access-Control-Allow-Headers'', ''Content-Type, Authorization''),
        (''Access-Control-Allow-Credentials'', ''true'')],
       rq_method rq = ''OPTIONS''))"

subsection \<open>RequestID, AccessLog and Metrics\<close>

definition request_id :: "string \<Rightarrow> http_request \<Rightarrow> string" where
  "request_id uuid rq =
     (let i = rq_header rq ''X-Request-ID'' in if i = [] then uuid else i)"

datatype log_level = DebugLevel | InfoLevel | WarnLevel | ErrorLevel

definition access_level :: "int \<Rightarrow> log_level" where
  "access_level status =
     (if status \<ge> 500 then ErrorLevel else if status \<ge> 400 then WarnLevel else InfoLevel)"

record access_entry =
  ae_level :: log_level
  ae_status :: int
  ae_method :: string
  ae_path :: string
  ae_query :: string
  ae_latency :: int
  ae_ip :: string
  ae_request_id :: string

definition access_log ::
  "http_request \<Rightarrow> string \<Rightarrow> string \<Rightarrow> int \<Rightarrow> int \<Rightarrow> access_entry" where
  "access_log rq rawQuery rid latency status = \<lparr>ae_level = access_level status, ae_status = status,
     ae_method = rq_method rq, ae_path = rq_path rq, ae_query = rawQuery, ae_latency = latency,
     ae_ip = rq_ip rq, ae_request_id = rid\<rparr>"

text \<open>The labels of a request in \<open>http_requests_total\<close>; \<open>fullPath\<close> is empty when no route matched.\<close>

definition metric_path :: "string \<Rightarrow> http_request \<Rightarrow> string" where
  "metric_path fullPath rq = (if fullPath = [] then rq_path rq else fullPath)"

definition metric_labels :: "string \<Rightarrow> http_request \<Rightarrow> int \<Rightarrow> string \<times> string \<times> string" where
  "metric_labels fullPath rq status = (rq_method rq, metric_path fullPath rq, dec_of_int status)"

subsection \<open>The limit\<close>

text \<open>What a bucket would hold at an instant: its refilled tokens, or a full bucket when there is none.\<close>

definition level :: "rat \<Rightarrow> int \<Rightarrow> instant \<Rightarrow> string \<Rightarrow> buckets \<Rightarrow> rat" where
  "level rate burst now ip bs = (case map_of bs ip of
      None \<Rightarrow> of_int burst
    | Some b \<Rightarrow> b_tokens (refill rate burst now b))"

definition buckets_ok :: "int \<Rightarrow> instant \<Rightarrow> buckets \<Rightarrow> bool" where
  "buckets_ok burst now bs \<longleftrightarrow> distinct (map fst bs) \<and>
     (\<forall>(ip, b) \<in> set bs. 0 \<le> b_tokens b \<and> b_tokens b \<le> of_int burst \<and> b_last_check b \<le> now)"

lemma map_of_put [simp]: "map_of (put_bucket ip b bs) = (map_of bs)(ip \<mapsto> b)"
  by (induction ip b bs rule: put_bucket.induct) (auto simp: fun_eq_iff)

lemma fst_put: "map fst (put_bucket ip b bs) = map fst bs @ (if ip \<in> fst ` set bs then [] else [ip])"
  by (induction ip b bs rule: put_bucket.induct) auto

lemma set_put: "set (put_bucket ip b bs) \<subseteq> insert (ip, b) (set bs)"
  by (induction ip b bs rule: put_bucket.induct) auto

lemma put_ok:
  assumes "buckets_ok burst now bs" and "0 \<le> b_tokens b" "b_tokens b \<le> of_int burst" "b_last_check b \<le> now"
  shows "buckets_ok burst now (put_bucket ip b bs)"
  using assms set_put [of ip b bs] by (auto simp: buckets_ok_def fst_put)

lemma buckets_ok_later: "buckets_ok burst t bs \<Longrightarrow> t \<le> t' \<Longrightarrow> buckets_ok burst t' bs"
  by (fastforce simp: buckets_ok_def)

lemma bucket_in_range:
  assumes "buckets_ok burst now bs" and "map_of bs ip = Some b"
  shows "0 \<le> b_tokens b" "b_tokens b \<le> of_int burst" "b_last_check b \<le> now"
  using assms by (auto simp: buckets_ok_def dest!: map_of_SomeD)

lemma seconds_nonneg: "0 \<le> ns \<Longrightarrow> 0 \<le> seconds ns"
  by (simp add: seconds_def)

lemma seconds_diff: "seconds (c - a) = seconds (c - b) + seconds (b - a)"
  by (simp add: seconds_def field_simps flip: of_int_add)

lemma refill_range:
  assumes "0 \<le> rate" and "0 \<le> b_tokens b" "b_tokens b \<le> of_int burst" "b_last_check b \<le> now"
  shows "0 \<le> b_tokens (refill rate burst now b)" "b_tokens (refill rate burst now b) \<le> of_int burst"
    "b_last_check (refill rate burst now b) = now" "b_tokens b \<le> b_tokens (refill rate burst now b)"
proof -
  have "0 \<le> seconds (now - b_last_check b) * rate"
    using assms(1,4) seconds_nonneg by simp
  then show "0 \<le> b_tokens (refill rate burst now b)" "b_tokens (refill rate burst now b) \<le> of_int burst"
    "b_last_check (refill rate burst now b) = now" "b_tokens b \<le> b_tokens (refill rate burst now b)"
    using assms by (auto simp: refill_def Let_def)
qed

text \<open>Time lets a level rise by at most the rate.\<close>

lemma level_later:
  assumes "0 \<le> rate" and "now \<le> later"
  shows "level rate burst later ip bs \<le> level rate burst now ip bs + seconds (later - now) * rate"
proof -
  have n: "0 \<le> seconds (later - now) * rate"
    using assms seconds_nonneg by simp
  show ?thesis
  proof (cases "map_of bs ip")
    case None
    with n show ?thesis by (simp add: level_def)
  next
    case (Some b)
    have "seconds (later - b_last_check b) * rate =
        seconds (later - now) * rate + seconds (now - b_last_check b) * rate"
      by (simp add: seconds_diff [of later "b_last_check b" now] algebra_simps)
    with Some n show ?thesis
      by (simp add: level_def refill_def Let_def)
  qed
qed

lemma level_own:
  assumes "map_of bs ip = Some \<lparr>b_tokens = t, b_last_check = now\<rparr>" and "t \<le> of_int burst"
  shows "level rate burst now ip bs = t"
  using assms by (simp add: level_def refill_def seconds_def)

lemma charge_step:
  assumes "0 \<le> rate" and "buckets_ok burst now bs"
    and "0 \<le> b_tokens b" "b_tokens b \<le> of_int burst" "b_last_check b \<le> now"
    and "charge rate burst now ip b bs = (ok, bs')"
  shows "buckets_ok burst now bs'"
    and "level rate burst now ip bs' = b_tokens (refill rate burst now b) - (if ok then 1 else 0)"
    and "ok \<longleftrightarrow> 1 \<le> b_tokens (refill rate burst now b)"
    and "other \<noteq> ip \<Longrightarrow> level rate burst now other bs' = level rate burst now other bs"
    and "set (map fst bs') = insert ip (set (map fst bs))"
proof -
  note r = refill_range [OF assms(1,3-5)]
  let ?b = "refill rate burst now b"
  from assms(6) have ok: "ok \<longleftrightarrow> 1 \<le> b_tokens ?b"
    and bs': "bs' = put_bucket ip \<lparr>b_tokens = b_tokens ?b - (if ok then 1 else 0), b_last_check = now\<rparr> bs"
    using r(3) by (cases ?b; auto simp: charge_def Let_def split: if_splits)+
  then show "ok \<longleftrightarrow> 1 \<le> b_tokens ?b" by simp
  show "buckets_ok burst now bs'"
    unfolding bs' using r ok by (intro put_ok assms(2)) (auto split: if_splits)
  show "level rate burst now ip bs' = b_tokens ?b - (if ok then 1 else 0)"
    unfolding bs' by (rule level_own) (use r ok in auto)
  show "level rate burst now other bs' = level rate burst now other bs" if "other \<noteq> ip"
    using that by (simp add: bs' level_def)
  have "set (map fst bs') = set (map fst bs @ (if ip \<in> fst ` set bs then [] else [ip]))"
    unfolding bs' fst_put ..
  then show "set (map fst bs') = insert ip (set (map fst bs))"
    by auto
qed

text \<open>A history of the limiter: requests, each at one instant, and collections of idle buckets.\<close>

datatype limiter_event = Arrive instant string | Collect instant

fun event_time :: "limiter_event \<Rightarrow> instant" where
  "event_time (Arrive t ip) = t"
| "event_time (Collect t) = t"

text \<open>How many requests of \<open>ip\<close> go on.\<close>

fun passed :: "rat \<Rightarrow> int \<Rightarrow> string \<Rightarrow> limiter_event list \<Rightarrow> buckets \<Rightarrow> nat" where
  "passed rate burst ip [] bs = 0"
| "passed rate burst ip (Arrive t k # es) bs =
     (case rate_limit rate burst (t, t) k bs of (ok, bs') \<Rightarrow>
       (if ok \<and> k = ip then 1 else 0) + passed rate burst ip es bs')"
| "passed rate burst ip (Collect t # es) bs = passed rate burst ip es (collect_idle t bs)"

fun in_order :: "instant \<Rightarrow> limiter_event list \<Rightarrow> bool" where
  "in_order t [] \<longleftrightarrow> True"
| "in_order t (e # es) \<longleftrightarrow> t \<le> event_time e \<and> in_order (event_time e) es"

fun last_time :: "instant \<Rightarrow> limiter_event list \<Rightarrow> instant" where
  "last_time t [] = t"
| "last_time t (e # es) = last_time (event_time e) es"

fun callers :: "limiter_event list \<Rightarrow> string set" where
  "callers [] = {}"
| "callers (Arrive t k # es) = insert k (callers es)"
| "callers (Collect t # es) = callers es"

lemma finite_callers [simp]: "finite (callers es)"
  by (induction es rule: callers.induct) auto

lemma in_order_last: "in_order t es \<Longrightarrow> t \<le> last_time t es"
  by (induction es arbitrary: t) fastforce+

lemma rate_limit_step:
  assumes "0 \<le> rate" and "0 \<le> burst" and "buckets_ok burst now bs"
    and "k \<in> fst ` set bs \<or> length bs < max_buckets" and "rate_limit rate burst (now, now) k bs = (ok, bs')"
  shows "buckets_ok burst now bs'"
    and "level rate burst now ip bs' = level rate burst now ip bs - (if ok \<and> k = ip then 1 else 0)"
    and "ok \<longleftrightarrow> 1 \<le> level rate burst now k bs"
    and "set (map fst bs') = insert k (set (map fst bs))"
proof -
  obtain b where b: "charge rate burst now k b bs = (ok, bs')"
    "0 \<le> b_tokens b" "b_tokens b \<le> of_int burst" "b_last_check b \<le> now"
    "b_tokens (refill rate burst now b) = level rate burst now k bs"
  proof (cases "map_of bs k")
    case None
    then have "k \<notin> fst ` set bs"
      by (simp add: map_of_eq_None_iff)
    with None assms(2,4,5) that [of "\<lparr>b_tokens = of_int burst, b_last_check = now\<rparr>"] show thesis
      by (simp add: rate_limit_def level_def refill_def seconds_def)
  next
    case (Some b)
    with assms(5) bucket_in_range [OF assms(3) Some] that [of b] show thesis
      by (simp add: rate_limit_def level_def)
  qed
  note step = charge_step [OF assms(1,3) b(2-4,1)]
  show "buckets_ok burst now bs'" "ok \<longleftrightarrow> 1 \<le> level rate burst now k bs"
    "set (map fst bs') = insert k (set (map fst bs))"
    using step(1,3,5) b(5) by simp_all
  show "level rate burst now ip bs' = level rate burst now ip bs - (if ok \<and> k = ip then 1 else 0)"
    using step(2) step(4) [of ip] b(5) by (cases "k = ip") auto
qed

lemma map_of_filter_distinct:
  "distinct (map fst bs) \<Longrightarrow> map_of (filter (\<lambda>(k, b). P b) bs) ip =
    (case map_of bs ip of None \<Rightarrow> None | Some b \<Rightarrow> if P b then Some b else None)"
  by (induction bs) (auto simp: map_of_eq_None_iff image_iff split: option.splits)

lemma collect_step:
  assumes "of_int burst \<le> rate * 300" and "0 \<le> rate" and "buckets_ok burst now bs"
  shows "buckets_ok burst now (collect_idle now bs)"
    and "level rate burst now ip (collect_idle now bs) = level rate burst now ip bs"
    and "set (map fst (collect_idle now bs)) \<subseteq> set (map fst bs)"
proof -
  show "buckets_ok burst now (collect_idle now bs)"
    using assms(3) by (auto simp: buckets_ok_def collect_idle_def distinct_map_filter)
  show "set (map fst (collect_idle now bs)) \<subseteq> set (map fst bs)"
    by (auto simp: collect_idle_def)
  have m: "map_of (collect_idle now bs) ip = (case map_of bs ip of None \<Rightarrow> None
      | Some b \<Rightarrow> if \<not> now - b_last_check b > five_minutes then Some b else None)"
    unfolding collect_idle_def using assms(3) by (intro map_of_filter_distinct) (simp add: buckets_ok_def)
  show "level rate burst now ip (collect_idle now bs) = level rate burst now ip bs"
  proof (cases "map_of bs ip")
    case (Some b)
    have "of_int burst \<le> b_tokens b + seconds (now - b_last_check b) * rate"
      if "now - b_last_check b > five_minutes"
    proof -
      have "300 \<le> seconds (now - b_last_check b)"
        using that by (simp add: seconds_def five_minutes_def)
      then have "300 * rate \<le> seconds (now - b_last_check b) * rate"
        using assms(2) by (intro mult_right_mono)
      with assms(1) bucket_in_range(1) [OF assms(3) Some] show ?thesis
        by (simp add: mult.commute)
    qed
    with Some show ?thesis
      by (auto simp: level_def m refill_def Let_def)
  qed (simp add: level_def m)
qed

lemma passed_bound:
  assumes "0 \<le> rate" and "0 \<le> burst" and "of_int burst \<le> rate * 300" and "buckets_ok burst t bs"
    and "in_order t es" and "card (set (map fst bs) \<union> callers es) \<le> max_buckets"
  shows "of_nat (passed rate burst ip es bs) \<le> level rate burst t ip bs + seconds (last_time t es - t) * rate"
  using assms(4-6)
proof (induction es arbitrary: t bs rule: callers.induct)
  case 1
  have "0 \<le> level rate burst t ip bs"
    using assms(1,2) refill_range(1) bucket_in_range [OF "1.prems"(1), of ip]
    by (auto simp: level_def split: option.split)
  then show ?case
    by (simp add: seconds_def)
next
  case (2 now k es)
  obtain ok bs' where r: "rate_limit rate burst (now, now) k bs = (ok, bs')"
    by fastforce
  have le: "t \<le> now" and ord: "in_order now es"
    using "2.prems"(2) by simp_all
  have bok: "buckets_ok burst now bs"
    by (rule buckets_ok_later [OF "2.prems"(1) le])
  have "k \<in> fst ` set bs \<or> length bs < max_buckets"
  proof (cases "k \<in> fst ` set bs")
    case False
    have "length bs = card (set (map fst bs))"
      using bok by (metis buckets_ok_def distinct_card length_map)
    also have "\<dots> < card (insert k (set (map fst bs)))"
      using False by simp
    also have "\<dots> \<le> card (set (map fst bs) \<union> callers (Arrive now k # es))"
      by (intro card_mono) auto
    finally show ?thesis
      using "2.prems"(3) by simp
  qed simp
  note step = rate_limit_step [OF assms(1,2) bok this r]
  have "set (map fst bs') \<union> callers es = set (map fst bs) \<union> callers (Arrive now k # es)"
    unfolding step(4) by auto
  with "2.prems"(3) have "card (set (map fst bs') \<union> callers es) \<le> max_buckets"
    by simp
  from "2.IH" [OF step(1) ord this] step(2) [of ip]
  have "of_nat (passed rate burst ip (Arrive now k # es) bs) \<le>
      level rate burst now ip bs + seconds (last_time now es - now) * rate"
    by (auto simp: r)
  with level_later [OF assms(1) le, of burst ip bs] show ?case
    using seconds_diff [of "last_time now es" t now] by (simp add: algebra_simps)
next
  case (3 now es)
  have le: "t \<le> now" and ord: "in_order now es"
    using "3.prems"(2) by simp_all
  note step = collect_step [OF assms(3,1) buckets_ok_later [OF "3.prems"(1) le]]
  have "card (set (map fst (collect_idle now bs)) \<union> callers es) \<le> card (set (map fst bs) \<union> callers es)"
    using step(3) by (intro card_mono) auto
  with "3.prems"(3) have "card (set (map fst (collect_idle now bs)) \<union> callers es) \<le> max_buckets"
    by simp
  from "3.IH" [OF step(1) ord this] step(2) [of ip]
  have "of_nat (passed rate burst ip (Collect now # es) bs) \<le>
      level rate burst now ip bs + seconds (last_time now es - now) * rate"
    by simp
  with level_later [OF assms(1) le, of burst ip bs] show ?case
    using seconds_diff [of "last_time now es" t now] by (simp add: algebra_simps)
qed

text \<open>
  C22: The limiter keeps its promise: in any history of requests from any callers, with idle buckets
  collected at any time, no caller gets more than \<open>burst\<close> plus \<open>rate\<close> requests per second of the
  history through, as long as at most 50000 callers are known; collecting an idle bucket gives
  nothing away, since it would be full.
\<close>

theorem rate_limit_bound:
  assumes "0 \<le> rate" and "0 \<le> burst" and "of_int burst \<le> rate * 300" and "buckets_ok burst t bs"
    and "in_order t es" and "card (set (map fst bs) \<union> callers es) \<le> max_buckets"
  shows "of_nat (passed rate burst ip es bs) \<le> of_int burst + seconds (last_time t es - t) * rate"
proof -
  have "level rate burst t ip bs \<le> of_int burst"
    using refill_range(2) [OF assms(1)] bucket_in_range [OF assms(4), of ip]
    by (auto simp: level_def split: option.split)
  with passed_bound [OF assms] show ?thesis
    by (meson add_right_mono order_trans)
qed

theorem rate_limit_bound_witness:
  "passed 10 20 ''10.0.0.1'' (replicate 100 (Arrive 0 ''10.0.0.1'') @ [Collect 500000000]) [] \<le> 25"
proof -
  let ?es = "replicate 100 (Arrive 0 ''10.0.0.1'') @ [Collect 500000000]"
  have c: "callers (replicate n (Arrive 0 k) @ [Collect t]) \<subseteq> {k}" for n k t
    by (induction n) auto
  have "card (set (map fst ([] :: buckets)) \<union> callers ?es) \<le> card {''10.0.0.1''}"
    using c by (intro card_mono) auto
  then have "card (set (map fst ([] :: buckets)) \<union> callers ?es) \<le> max_buckets"
    by (simp add: max_buckets_def)
  moreover have "in_order 0 ?es" "last_time 0 ?es = 500000000"
  proof -
    have "in_order 0 (replicate n (Arrive 0 k) @ [Collect 500000000]) \<and>
        last_time 0 (replicate n (Arrive 0 k) @ [Collect 500000000]) = 500000000" for n k
      by (induction n) simp_all
    then show "in_order 0 ?es" "last_time 0 ?es = 500000000" by blast+
  qed
  moreover have "buckets_ok 20 0 []"
    by (simp add: buckets_ok_def)
  ultimately have "of_nat (passed 10 20 ''10.0.0.1'' ?es []) \<le> of_int 20 + seconds 500000000 * (10 :: rat)"
    using rate_limit_bound [of 10 20 0 "[]" ?es "''10.0.0.1''"] by simp
  then have "(of_nat (passed 10 20 ''10.0.0.1'' ?es []) :: rat) \<le> of_nat 25"
    by (simp add: seconds_def)
  then show ?thesis
    using of_nat_le_iff by blast
qed

text \<open>A caller without a bucket is not limited at all while 50000 others have one.\<close>

lemma full_table_lets_pass:
  "map_of bs ip = None \<Longrightarrow> max_buckets \<le> length bs \<Longrightarrow> rate_limit rate burst clock ip bs = (True, bs)"
  by (cases clock) (simp add: rate_limit_def)

subsection \<open>Origins\<close>

text \<open>
  A response allows an origin exactly when the request names one and the configuration lists it, up
  to case; it then echoes the origin as it was sent, and never a wildcard.
\<close>

theorem cors_allows_listed:
  "(''Access-Control-Allow-Origin'', v) \<in> set (fst (cors allowed rq)) \<longleftrightarrow>
    v = rq_header rq ''Origin'' \<and> v \<noteq> [] \<and> (\<exists>a \<in> set allowed. equal_fold a v)"
  by (auto simp: cors_def Let_def origin_map_def equal_fold_def intro: rev_image_eqI)

end
