(* ===== verification/Server.thy ===== *)
theory Server
  imports GraphQLSchema AuthFacts Middleware
begin

section \<open>cmd/api/main.go: the routes and the chain of a request\<close>

text \<open>
  The route table of \<open>main\<close>, the middleware chain in front of it and the dispatch to the handlers of
  this development.  gin's matching of a path is a parameter (\<open>ap_match\<close>), as are the pages of libraries
  (metrics, Swagger, playground), the WebSocket upgrade and gqlgen's parsing of a GraphQL request.
  \<open>None\<close> is a panic, which \<open>gin.Recovery\<close> answers with 500; what the handler has done before it is lost to
  the model.
\<close>

datatype endpoint =
    MetricsPage | HealthCheck | ReadyCheck | DocsPage | Challenge | Login
  | ListOrders | BestOrder | GetOrder | ListCollections | GetCollection | GlobalStats | CollectionStats
  | Playground | SubmitOrder | UserOrders | Graphql | OrdersSocket

record route =
  rt_method :: string
  rt_path :: string
  rt_endpoint :: endpoint
  rt_protected :: bool

definition route_of :: "string \<Rightarrow> string \<Rightarrow> endpoint \<Rightarrow> bool \<Rightarrow> route" where
  "route_of m p e prot = \<lparr>rt_method = m, rt_path = p, rt_endpoint = e, rt_protected = prot\<rparr>"

definition routes :: "route list" where
  "routes =
     [route_of ''GET'' ''/metrics'' MetricsPage False,
      route_of ''GET'' ''/health'' HealthCheck False,
      route_of ''GET'' ''/ready'' ReadyCheck False,
      route_of ''GET'' ''/api/v1/docs/*any'' DocsPage False,
      route_of ''GET'' ''/api/v1/auth/challenge'' Challenge False,
      route_of ''POST'' ''/api/v1/auth/login'' Login False,
      route_of ''GET'' ''/api/v1/orders'' ListOrders False,
      route_of ''GET'' ''/api/v1/orders/best'' BestOrder False,
      route_of ''GET'' ''/api/v1/orders/:hash'' GetOrder False,
      route_of ''GET'' ''/api/v1/collections'' ListCollections False,
      route_of ''GET'' ''/api/v1/collections/:address'' GetCollection False,
      route_of ''GET'' ''/api/v1/stats'' GlobalStats False,
      route_of ''GET'' ''/api/v1/stats/:collection'' CollectionStats False,
      route_of ''GET'' ''/api/v1/graphql'' Playground False,
      route_of ''POST'' ''/api/v1/orders'' SubmitOrder True,
      route_of ''GET'' ''/api/v1/users/:address/orders'' UserOrders True,
      route_of ''POST'' ''/api/v1/graphql'' Graphql True,
      route_of ''GET'' ''/ws/orders'' OrdersSocket False]"

text \<open>What the libraries do; \<open>ap_parse\<close> is the parsing and validation of a GraphQL request.\<close>

record 'r app =
  ap_orders :: "db order_handler"
  ap_auth :: "'r auth_service"
  ap_origins :: "string list"
  ap_resolver :: resolver
  ap_gql :: gql_lib
  ap_match :: "route list \<Rightarrow> string \<Rightarrow> string \<Rightarrow> (route \<times> (string \<Rightarrow> string)) option"
  ap_parse :: "http_request \<Rightarrow> operation + http_response"
  ap_reply :: "field_value \<Rightarrow> http_response"
  ap_page :: "endpoint \<Rightarrow> http_request \<Rightarrow> http_response"
  ap_handshake :: "http_request \<Rightarrow> bool \<Rightarrow> nat result"

record 'r server =
  sr_shop :: "db shop"
  sr_redis :: 'r
  sr_buckets :: buckets
  sr_log :: "access_entry list"
  sr_metrics :: "(string \<times> string \<times> string) list"

text \<open>What the outside gives to one request: clocks, randomness, the answers to pings.\<close>

record request_env =
  en_limit :: "instant \<times> instant"
  en_now :: instant
  en_clock :: "instant \<times> instant \<times> instant"
  en_scan :: "nat \<Rightarrow> instant"
  en_random :: "bytes result"
  en_uuid :: string
  en_pings :: "unit result \<times> unit result \<times> unit result"
  en_raw_query :: string
  en_latency :: int

subsection \<open>The WebSocket handler\<close>

text \<open>
  The handshake of the WebSocket library, told whether the origin is allowed, yields the new connection or
  an error.
\<close>

definition handle_socket :: "'r app \<Rightarrow> http_request \<Rightarrow> db shop \<Rightarrow> http_response \<times> db shop" where
  "handle_socket ap rq s =
     (let collections = ws_collections (query rq ''collections'') in
      case ap_handshake ap rq (origin_allowed (sh_hub s) (rq_header rq ''Origin'')) of
        Inl e \<Rightarrow> (fail_with 500 ''WS_UPGRADE_FAILED'' (error_string e), s)
      | Inr c \<Rightarrow> (respond 101 JNull, s\<lparr>sh_hub := upgrade c collections (sh_hub s)\<rparr>))"

subsection \<open>The GraphQL handler\<close>

definition handle_graphql ::
  "'r app \<Rightarrow> request_env \<Rightarrow> http_request \<Rightarrow> db \<Rightarrow> http_response \<times> db" where
  "handle_graphql ap en rq d =
     (case ap_parse ap rq of
        Inr refusal \<Rightarrow> (refusal, d)
      | Inl op \<Rightarrow>
          (case exec (ap_gql ap) (ap_resolver ap) (en_scan en) (en_clock en) op d of
             (v, d') \<Rightarrow> (ap_reply ap v, d')))"

subsection \<open>Dispatch\<close>

definition with_shop :: "(db shop \<Rightarrow> (http_response \<times> db shop) option) \<Rightarrow> 'r server \<Rightarrow>
    (http_response \<times> 'r server) option" where
  "with_shop f st = map_option (\<lambda>(p, s). (p, st\<lparr>sr_shop := s\<rparr>)) (f (sr_shop st))"

definition with_db :: "(db \<Rightarrow> http_response \<times> db) \<Rightarrow> 'r server \<Rightarrow> (http_response \<times> 'r server) option" where
  "with_db f = with_shop (\<lambda>s. Some (on_store f s))"

definition with_redis :: "('r \<Rightarrow> http_response \<times> 'r) \<Rightarrow> 'r server \<Rightarrow> (http_response \<times> 'r server) option" where
  "with_redis f st = (case f (sr_redis st) of (p, r) \<Rightarrow> Some (p, st\<lparr>sr_redis := r\<rparr>))"

definition run_endpoint ::
  "'r app \<Rightarrow> request_env \<Rightarrow> endpoint \<Rightarrow> http_request \<Rightarrow> 'r server \<Rightarrow> (http_response \<times> 'r server) option" where
  "run_endpoint ap en e rq st =
     (let oh = ap_orders ap; au = ap_auth ap; page = Some (ap_page ap e rq, st) in
      case e of
        MetricsPage \<Rightarrow> page
      | HealthCheck \<Rightarrow> Some (case en_pings en of (pdb, redis, rpc) \<Rightarrow> health pdb redis rpc, st)
      | ReadyCheck \<Rightarrow> Some (case en_pings en of (pdb, redis, rpc) \<Rightarrow> ready pdb redis rpc, st)
      | DocsPage \<Rightarrow> page
      | Challenge \<Rightarrow> with_redis (challenge_endpoint au (en_now en) (en_random en) rq) st
      | Login \<Rightarrow> with_redis (login_endpoint au (en_now en) rq) st
      | ListOrders \<Rightarrow> with_shop (list_orders oh rq) st
      | BestOrder \<Rightarrow> with_shop (best_order oh (en_scan en) rq) st
      | GetOrder \<Rightarrow> with_shop (get_order oh rq) st
      | ListCollections \<Rightarrow> with_db (list_collections (oh_time oh) rq) st
      | GetCollection \<Rightarrow> with_db (get_collection (oh_time oh) rq) st
      | GlobalStats \<Rightarrow> with_db global_statistics st
      | CollectionStats \<Rightarrow> with_db (collection_statistics rq) st
      | Playground \<Rightarrow> page
      | SubmitOrder \<Rightarrow> with_shop (submit_order oh (en_clock en) rq) st
      | UserOrders \<Rightarrow> with_shop (user_orders oh rq) st
      | Graphql \<Rightarrow> with_db (handle_graphql ap en rq) st
      | OrdersSocket \<Rightarrow> with_shop (\<lambda>s. Some (handle_socket ap rq s)) st)"

text \<open>The route's own chain: the token check of the protected group, then the handler.\<close>

definition not_found :: http_response where
  "not_found = respond 404 (JStr ''404 page not found'')"

definition run_route ::
  "'r app \<Rightarrow> request_env \<Rightarrow> (route \<times> (string \<Rightarrow> string)) option \<Rightarrow> http_request \<Rightarrow> 'r server \<Rightarrow>
   (http_response \<times> 'r server) option" where
  "run_route ap en found rq st =
     (case found of
        None \<Rightarrow> Some (not_found, st)
      | Some (rt, params) \<Rightarrow>
          let rq' = rq\<lparr>rq_param := params\<rparr> in
          if rt_protected rt
          then (case authenticate (ap_auth ap) (en_now en) rq of
              Inl refusal \<Rightarrow> Some (refusal, st)
            | Inr address \<Rightarrow> run_endpoint ap en (rt_endpoint rt) rq' st)
          else run_endpoint ap en (rt_endpoint rt) rq' st)"

text \<open>
  The whole chain: request id, access log, metrics, CORS (which ends a preflight with 204), the rate
  limiter (10 per second, bursts of 20), the route.  The answer comes with its headers.
\<close>

definition serve ::
  "'r app \<Rightarrow> request_env \<Rightarrow> http_request \<Rightarrow> 'r server \<Rightarrow>
   (((string \<times> string) list \<times> http_response) \<times> 'r server) option" where
  "serve ap en rq st =
     (let rid = request_id (en_uuid en) rq;
          found = ap_match ap routes (rq_method rq) (rq_path rq);
          fullPath = (case found of None \<Rightarrow> [] | Some (rt, ps) \<Rightarrow> rt_path rt);
          (headers, preflight) = cors (ap_origins ap) rq;
          inner = (if preflight then Some (respond 204 JNull, st)
            else case rate_limit 10 20 (en_limit en) (rq_ip rq) (sr_buckets st) of
              (ok, bs) \<Rightarrow>
                if \<not> ok then Some (rate_limited, st\<lparr>sr_buckets := bs\<rparr>)
                else run_route ap en found rq (st\<lparr>sr_buckets := bs\<rparr>))
      in map_option (\<lambda>(p, st'). (((''X-Request-ID'', rid) # headers, p),
             st'\<lparr>sr_log := sr_log st' @ [access_log rq (en_raw_query en) rid (en_latency en) (p_status p)],
                 sr_metrics := sr_metrics st' @ [metric_labels fullPath rq (p_status p)]\<rparr>)) inner)"

subsection \<open>Only an authenticated request changes the book\<close>

definition store_of :: "'r server \<Rightarrow> db" where
  "store_of st = sh_store (sr_shop st)"

definition keeps :: "('s \<Rightarrow> db) \<Rightarrow> ('s \<Rightarrow> (http_response \<times> 's) option) \<Rightarrow> bool" where
  "keeps db m \<longleftrightarrow> (\<forall>s p s'. m s = Some (p, s') \<longrightarrow> same_tables (db s) (db s'))"

lemma keepsI: "(\<And>s p s'. m s = Some (p, s') \<Longrightarrow> same_tables (db s) (db s')) \<Longrightarrow> keeps db m"
  by (simp add: keeps_def)

lemma keepsD: "keeps db m \<Longrightarrow> m s = Some (p, s') \<Longrightarrow> same_tables (db s) (db s')"
  by (auto simp: keeps_def)

lemma on_store_reads: "read_only m \<Longrightarrow> on_store m s = (x, s') \<Longrightarrow> same_tables (sh_store s) (sh_store s')"
  by (auto simp: on_store_def split: prod.splits dest: read_onlyD)

lemma keeps_with_shop: "keeps sh_store m \<Longrightarrow> keeps store_of (with_shop m)"
  by (rule keepsI) (auto simp: with_shop_def store_of_def dest: keepsD)

lemma keeps_with_db: "read_only m \<Longrightarrow> keeps store_of (with_db m)"
  unfolding with_db_def by (rule keeps_with_shop) (auto intro!: keepsI dest: on_store_reads)

lemma keeps_with_redis: "keeps store_of (with_redis f)"
  by (rule keepsI) (auto simp: with_redis_def store_of_def split: prod.splits)

lemma keeps_order_reads:
  assumes "oh_svc oh = new_order_service eth svc chain"
  shows "keeps sh_store (list_orders oh rq)" "keeps sh_store (best_order oh scan rq)"
    "keeps sh_store (get_order oh rq)" "keeps sh_store (user_orders oh rq)"
proof -
  note reads = read_only_repo [THEN on_store_reads]
  have best: "read_only (get_best (oh_svc oh) scan c side)" for c side
    by (rule read_onlyI) (auto simp: get_best_def assms new_order_service_def
        split: sum.splits prod.splits option.splits dest!: read_only_repo [THEN read_onlyD]
        intro: same_tables_trans)
  have mine: "read_only (get_user_orders (oh_svc oh) u status)" for u status
    by (rule read_onlyI) (auto simp: get_user_orders_def assms new_order_service_def
        split: sum.splits prod.splits dest!: read_only_repo [THEN read_onlyD])
  have found: "service_find (oh_svc oh) f = find_orders f" "get_by_hash (oh_svc oh) h = find_by_hash h" for f h
    by (simp_all add: fun_eq_iff service_find_def get_by_hash_def assms new_order_service_def)
  show "keeps sh_store (list_orders oh rq)"
    by (rule keepsI) (auto simp: list_orders_def found split: sum.splits prod.splits dest!: reads)
  show "keeps sh_store (best_order oh scan rq)"
    by (rule keepsI) (auto simp: best_order_def answer_order_def Let_def
        split: if_splits sum.splits prod.splits option.splits dest!: best [THEN on_store_reads])
  show "keeps sh_store (get_order oh rq)"
    by (rule keepsI) (auto simp: get_order_def answer_order_def found
        split: sum.splits prod.splits option.splits dest!: reads)
  show "keeps sh_store (user_orders oh rq)"
    by (rule keepsI) (auto simp: user_orders_def split: sum.splits prod.splits option.splits
        dest!: mine [THEN on_store_reads])
qed

lemma read_only_collections:
  "read_only (list_collections tj rq)" "read_only (get_collection tj rq)" "read_only global_statistics"
  "read_only (collection_statistics rq)"
proof -
  note reads = read_only_repo [THEN read_onlyD] read_only_market [THEN read_onlyD]
  show "read_only (list_collections tj rq)"
    by (rule read_onlyI) (auto simp: list_collections_def Let_def split: sum.splits prod.splits dest!: reads)
  show "read_only (get_collection tj rq)"
    by (rule read_onlyI) (auto simp: get_collection_def Let_def split: sum.splits prod.splits option.splits
        dest!: reads intro: same_tables_trans)
  show "read_only global_statistics"
    by (rule read_onlyI) (auto simp: global_statistics_def split: prod.splits dest!: reads intro: same_tables_trans)
  show "read_only (collection_statistics rq)"
    by (rule read_onlyI) (auto simp: collection_statistics_def Let_def split: prod.splits dest!: reads)
qed

lemma endpoint_reads:
  assumes "oh_svc (ap_orders ap) = new_order_service eth svc chain" and "e \<notin> {SubmitOrder, Graphql}"
  shows "keeps store_of (run_endpoint ap en e rq)"
proof -
  have stay: "keeps store_of (\<lambda>st. Some (p, st))" and socket: "keeps sh_store (\<lambda>s. Some (handle_socket ap rq s))" for p
    by (auto intro!: keepsI simp: handle_socket_def Let_def split: sum.splits)
  show ?thesis
    unfolding run_endpoint_def [abs_def] Let_def using assms(2)
    by (cases e) (auto intro: stay keeps_with_redis keeps_with_shop keeps_with_db socket
        keeps_order_reads [OF assms(1)] read_only_collections)
qed

text \<open>What gin promises: a matched route is registered, with the method of the request.\<close>

definition router_ok :: "(route list \<Rightarrow> string \<Rightarrow> string \<Rightarrow> (route \<times> (string \<Rightarrow> string)) option) \<Rightarrow> bool" where
  "router_ok match \<longleftrightarrow>
     (\<forall>rts m p rt ps. match rts m p = Some (rt, ps) \<longrightarrow> rt \<in> set rts \<and> rt_method rt = m)"

lemma writing_routes:
  "rt \<in> set routes \<Longrightarrow> rt_endpoint rt \<in> {SubmitOrder, Graphql} \<Longrightarrow> rt_protected rt \<and> rt_method rt = ''POST''"
  by (auto simp: routes_def route_of_def)

lemma run_route_writes:
  assumes "oh_svc (ap_orders ap) = new_order_service eth svc chain"
    and "run_route ap en found rq st = Some (p, st')" and "\<not> same_tables (store_of st) (store_of st')"
  shows "\<exists>rt ps. found = Some (rt, ps) \<and> rt_endpoint rt \<in> {SubmitOrder, Graphql} \<and>
    (rt_protected rt \<longrightarrow> (\<exists>a. authenticate (ap_auth ap) (en_now en) rq = Inr a))"
proof -
  have "e \<in> {SubmitOrder, Graphql}" if "run_endpoint ap en e rq' st = Some (p, st')" for e rq'
    using that assms(3) endpoint_reads [OF assms(1), THEN keepsD] by blast
  with assms(2,3) show ?thesis
    by (auto simp: run_route_def Let_def split: option.splits prod.splits if_splits sum.splits)
qed

lemma serve_writes:
  assumes "oh_svc (ap_orders ap) = new_order_service eth svc chain" and "router_ok (ap_match ap)"
    and "serve ap en rq st = Some (reply, st')" and "\<not> same_tables (store_of st) (store_of st')"
  shows "rq_method rq = ''POST'' \<and> (\<exists>address. authenticate (ap_auth ap) (en_now en) rq = Inr address)"
proof -
  let ?found = "ap_match ap routes (rq_method rq) (rq_path rq)"
  obtain ok bs where lim: "rate_limit 10 20 (en_limit en) (rq_ip rq) (sr_buckets st) = (ok, bs)"
    by fastforce
  from assms(3,4) obtain p st1 where r: "run_route ap en ?found rq (st\<lparr>sr_buckets := bs\<rparr>) = Some (p, st1)"
    and "store_of st1 = store_of st'"
    by (auto simp: serve_def Let_def lim store_of_def split: prod.splits if_splits)
  with assms(4) have "\<not> same_tables (store_of (st\<lparr>sr_buckets := bs\<rparr>)) (store_of st1)"
    by (simp add: store_of_def)
  from run_route_writes [OF assms(1) r this] obtain rt ps where rt: "?found = Some (rt, ps)"
    "rt_endpoint rt \<in> {SubmitOrder, Graphql}"
    "rt_protected rt \<longrightarrow> (\<exists>a. authenticate (ap_auth ap) (en_now en) rq = Inr a)"
    by blast
  from rt(1) assms(2) have "rt \<in> set routes" "rt_method rt = rq_method rq"
    unfolding router_ok_def by blast+
  with rt(2,3) writing_routes [of rt] show ?thesis
    by simp
qed

text \<open>
  C5: Whatever request the server answers, the tables change only for a POST that carries a token which the
  auth service accepts: no public route, and no refused request, changes an order, an event, a
  collection or any other row.
\<close>

theorem writes_need_token:
  assumes "oh_svc (ap_orders ap) = new_order_service eth svc chain" and "router_ok (ap_match ap)"
    and "serve ap en rq st = Some (reply, st')" and "\<not> same_tables (store_of st) (store_of st')"
  shows "rq_method rq = ''POST'' \<and> (\<exists>address. authenticate (ap_auth ap) (en_now en) rq = Inr address)"
  using assms by (rule serve_writes)

text \<open>A small installation: the exact route first, no other matching; its parts are those of the examples.\<close>

definition exact_match :: "route list \<Rightarrow> string \<Rightarrow> string \<Rightarrow> (route \<times> (string \<Rightarrow> string)) option" where
  "exact_match rts m p = map_option (\<lambda>rt. (rt, \<lambda>k. []))
     (List.find (\<lambda>rt. rt_method rt = m \<and> rt_path rt = p) rts)"

lemma exact_match_ok: "router_ok exact_match"
  by (auto simp: router_ok_def exact_match_def find_Some_iff)

definition toy_app :: "(string \<Rightarrow> json option) app" where
  "toy_app = \<lparr>ap_orders = toy_handler, ap_auth = toy_auth, ap_origins = [], 
     ap_resolver = toy_resolver (\<lambda>t. ''1970-01-01T00:00:00Z''),
     ap_gql = toy_gql, ap_match = exact_match, ap_parse = (\<lambda>rq. Inr not_found), ap_reply = (\<lambda>v. respond 200 (fst v)),
     ap_page = (\<lambda>e rq. respond 200 JNull), ap_handshake = (\<lambda>rq ok. if ok then Inr 1 else Inl (ErrText []))\<rparr>"

definition toy_env :: request_env where
  "toy_env = \<lparr>en_limit = (0, 0), en_now = 1, en_clock = (unix_instant 1200, 0, 0), en_scan = (\<lambda>i. 0),
     en_random = Inr [], en_uuid = ''id'', en_pings = (Inr (), Inr (), Inr ()), en_raw_query = [],
     en_latency = 0\<rparr>"

definition toy_server :: "(string \<Rightarrow> json option) server" where
  "toy_server = \<lparr>sr_shop = toy_shop empty_db, sr_redis = (\<lambda>k. None), sr_buckets = [], sr_log = [], sr_metrics = []\<rparr>"

definition signed_post :: http_request where
  "signed_post = (post_request auction_body)\<lparr>rq_header :=
     (\<lambda>k. if k = ''Authorization'' then ''Bearer token'' else [])\<rparr>"

lemma signed_post_accepted: "authenticate toy_auth 1 signed_post = Inr ''0x1a''"
proof -
  have "trim_prefix ''Bearer token'' bearer = ''token''" "has_prefix ''Bearer token'' bearer"
    unfolding bearer_def by code_simp+
  then show ?thesis
    by (simp add: authenticate_def signed_post_def validate_token_def toy_auth_def new_auth_service_def
        toy_auth_lib_def toy_claims_def unix_instant_def second_def)
qed

lemma same_tables_orders: "same_tables d d' \<Longrightarrow> t_orders d' = t_orders d"
proof -
  assume "same_tables d d'"
  then have "t_orders d' = t_orders (d\<lparr>db_outcomes := db_outcomes d'\<rparr>)"
    unfolding same_tables_def by (rule arg_cong)
  then show ?thesis by simp
qed

lemma empty_auction_differ: "\<not> same_tables empty_db auction_db"
proof -
  have "t_orders (snd (insert_order 31337 auction_order empty_db)) \<noteq> []"
    by code_simp
  then show ?thesis
    using same_tables_orders [of empty_db auction_db] by (auto simp: auction_db_def empty_db_def)
qed

lemma signed_post_served:
  "\<exists>reply st'. serve toy_app toy_env signed_post toy_server = Some (reply, st') \<and> store_of st' = auction_db"
proof -
  have r: "exact_match routes ''POST'' ''/api/v1/orders'' =
      Some (route_of ''POST'' ''/api/v1/orders'' SubmitOrder True, \<lambda>k. [])"
    by (simp add: exact_match_def routes_def route_of_def)
  have "\<exists>s p. submit_order toy_handler (unix_instant 1200, 0, 0) (signed_post\<lparr>rq_param := (\<lambda>k. [])\<rparr>) (toy_shop empty_db) =
      Some (p, s) \<and> sh_store s = auction_db"
    using auction_accepted by (simp add: submit_order_def signed_post_def post_request_def get_request_def
        auction_body_binds on_store_def toy_handler_def toy_shop_def announce_def broadcast_def
        auction_order_def)
  then obtain s p where s: "submit_order toy_handler (unix_instant 1200, 0, 0)
      (signed_post\<lparr>rq_param := (\<lambda>k. [])\<rparr>) (toy_shop empty_db) = Some (p, s)" "sh_store s = auction_db"
    by blast
  have m: "rq_method signed_post = ''POST''" "rq_path signed_post = ''/api/v1/orders''" "rq_ip signed_post = []"
    by (simp_all add: signed_post_def post_request_def get_request_def)
  show "\<exists>reply st'. serve toy_app toy_env signed_post toy_server = Some (reply, st') \<and> store_of st' = auction_db"
    using signed_post_accepted s
    by (simp add: serve_def toy_app_def toy_env_def m r Let_def cors_def rate_limit_def charge_def refill_def
        toy_server_def run_route_def route_of_def run_endpoint_def with_shop_def store_of_def seconds_def)
qed

theorem writes_need_token_witness:
  "\<exists>reply st'. serve toy_app toy_env signed_post toy_server = Some (reply, st') \<and>
     \<not> same_tables (store_of toy_server) (store_of st') \<and>
     (\<exists>address. authenticate toy_auth 1 signed_post = Inr address)"
proof -
  from signed_post_served obtain reply st' where st': "serve toy_app toy_env signed_post toy_server = Some (reply, st')"
    "store_of st' = auction_db" by blast
  have "oh_svc (ap_orders toy_app) = toy_desk" "router_ok (ap_match toy_app)"
    by (simp_all add: toy_app_def toy_handler_def exact_match_ok)
  moreover have "\<not> same_tables (store_of toy_server) (store_of st')"
    using empty_auction_differ st'(2) by (simp add: store_of_def toy_server_def toy_shop_def)
  ultimately show ?thesis
    using writes_need_token [OF _ _ st'(1)] st' by (simp add: toy_app_def toy_env_def)
qed

end
