(* ===== verification/Swagger.thy ===== *)
theory Swagger
  imports Server
begin

section \<open>docs/docs.go: the documented interface\<close>

text \<open>
  The OpenAPI document that the server publishes, as data: its operations with their parameters and answers, its
  schemas, and what a JSON value must be to conform to a schema.  The names of schemas are shortened by the
  prefix of their package, which all of them share; descriptions of schema members are comments and left out.
  The theorems compare the document with the routes and the handlers.
\<close>

subsection \<open>The form of the document\<close>

datatype schema =
    SString
  | SInteger
  | SEnum "(int \<times> string) list"
  | SArray schema
  | SObject "string list" "(string \<times> schema) list"
  | SRef string
  | SAllOf "schema list"

record param_doc =
  pd_in :: string
  pd_name :: string
  pd_required :: bool
  pd_schema :: schema
  pd_description :: string

definition param :: "string \<Rightarrow> string \<Rightarrow> bool \<Rightarrow> schema \<Rightarrow> string \<Rightarrow> param_doc" where
  "param place name needed sch text = \<lparr>pd_in = place, pd_name = name, pd_required = needed,
     pd_schema = sch, pd_description = text\<rparr>"

record answer_doc =
  ad_status :: int
  ad_description :: string
  ad_schema :: schema

definition answer :: "int \<Rightarrow> string \<Rightarrow> schema \<Rightarrow> answer_doc" where
  "answer status text sch = \<lparr>ad_status = status, ad_description = text, ad_schema = sch\<rparr>"

record operation_doc =
  od_path :: string
  od_method :: string
  od_summary :: string
  od_description :: string
  od_consumes :: "string list"
  od_produces :: "string list"
  od_tags :: "string list"
  od_bearer :: bool
  od_params :: "param_doc list"
  od_responses :: "answer_doc list"

record swagger_info =
  si_version :: string
  si_host :: string
  si_base_path :: string
  si_schemes :: "string list"
  si_title :: string
  si_description :: string

definition swagger_info_doc :: swagger_info where
  "swagger_info_doc = \<lparr>si_version = ''1.0'', si_host = ''localhost:8080'', si_base_path = ''/api/v1'',
     si_schemes = [], si_title = ''NFT Market API'',
     si_description = ''EIP-712 signed order DEX backend. Submit signed orders, browse the order book, query collections and stats.''\<rparr>"

text \<open>The security scheme \<open>BearerAuth\<close>: the key in the header \<open>Authorization\<close>.\<close>

definition bearer_header :: string where
  "bearer_header = ''Authorization''"

subsection \<open>The operations\<close>

definition doc_challenge :: operation_doc where
  "doc_challenge = \<lparr>od_path = ''/auth/challenge'', od_method = ''get'',
     od_summary = ''Get auth challenge'',
     od_description = ''Generates a challenge message for the given wallet address to sign'',
     od_consumes = [''application/json''], od_produces = [''application/json''], od_tags = [''auth''], od_bearer = False,
     od_params =
      [param ''query'' ''address'' True SString ''Wallet address''],
     od_responses =
      [answer 200 ''OK'' (SRef ''AuthChallenge''),
       answer 400 ''Bad Request'' (SRef ''ErrorResponse'')]\<rparr>"

definition doc_login :: operation_doc where
  "doc_login = \<lparr>od_path = ''/auth/login'', od_method = ''post'',
     od_summary = ''Login'',
     od_description = ''Validates a signed challenge and returns a JWT token'',
     od_consumes = [''application/json''], od_produces = [''application/json''], od_tags = [''auth''], od_bearer = False,
     od_params =
      [param ''body'' ''request'' True (SRef ''LoginRequest'') ''Login payload''],
     od_responses =
      [answer 200 ''OK'' (SRef ''LoginResponse''),
       answer 400 ''Bad Request'' (SRef ''ErrorResponse''),
       answer 401 ''Unauthorized'' (SRef ''ErrorResponse'')]\<rparr>"

definition doc_collections :: operation_doc where
  "doc_collections = \<lparr>od_path = ''/collections'', od_method = ''get'',
     od_summary = ''List collections'',
     od_description = ''Returns paginated collections with optional search'',
     od_consumes = [''application/json''], od_produces = [''application/json''], od_tags = [''collections''], od_bearer = False,
     od_params =
      [param ''query'' ''search'' False SString ''Search term'',
       param ''query'' ''page'' False SInteger ''Page number (default: 1)'',
       param ''query'' ''pageSize'' False SInteger ''Page size (default: 20)''],
     od_responses =
      [answer 200 ''OK'' (SObject [] [(''collections'', SArray (SRef ''Collection'')), (''page'', SInteger),
         (''pageSize'', SInteger), (''total'', SInteger)]),
       answer 500 ''Internal Server Error'' (SRef ''ErrorResponse'')]\<rparr>"

definition doc_collection :: operation_doc where
  "doc_collection = \<lparr>od_path = ''/collections/{address}'', od_method = ''get'',
     od_summary = ''Get collection detail'',
     od_description = ''Returns a single collection by address with floor price, best bid, and listed count'',
     od_consumes = [''application/json''], od_produces = [''application/json''], od_tags = [''collections''], od_bearer = False,
     od_params =
      [param ''path'' ''address'' True SString ''Collection address''],
     od_responses =
      [answer 200 ''OK'' (SObject [] [(''bestBid'', SString), (''collection'', SRef ''Collection''),
         (''floorPrice'', SString), (''listed'', SInteger)]),
       answer 404 ''Not Found'' (SRef ''ErrorResponse''),
       answer 500 ''Internal Server Error'' (SRef ''ErrorResponse'')]\<rparr>"

definition doc_orders :: operation_doc where
  "doc_orders = \<lparr>od_path = ''/orders'', od_method = ''get'',
     od_summary = ''List orders'',
     od_description = ''Returns paginated orders with optional filters (collection, maker, side, kind, status, price range)'',
     od_consumes = [''application/json''], od_produces = [''application/json''], od_tags = [''orders''], od_bearer = False,
     od_params =
      [param ''query'' ''collection'' False SString ''Collection address'',
       param ''query'' ''maker'' False SString ''Maker address'',
       param ''query'' ''side'' False SInteger ''Order side (0=Sell, 1=Buy)'',
       param ''query'' ''kind'' False SInteger ''Order kind (0-4)'',
       param ''query'' ''assetType'' False SInteger ''Asset type (0=ERC721, 1=ERC1155)'',
       param ''query'' ''status'' False SInteger ''Order status (0-3)'',
       param ''query'' ''minPrice'' False SString ''Minimum price (decimal string)'',
       param ''query'' ''maxPrice'' False SString ''Maximum price (decimal string)'',
       param ''query'' ''page'' False SInteger ''Page number (default: 1)'',
       param ''query'' ''pageSize'' False SInteger ''Page size (default: 20, max: 50)''],
     od_responses =
      [answer 200 ''OK'' (SObject [] [(''orders'', SArray (SRef ''Order'')), (''page'', SInteger), (''pageSize'',
         SInteger), (''total'', SInteger)]),
       answer 400 ''Bad Request'' (SRef ''ErrorResponse''),
       answer 500 ''Internal Server Error'' (SRef ''ErrorResponse'')]\<rparr>"

definition doc_orders_post :: operation_doc where
  "doc_orders_post = \<lparr>od_path = ''/orders'', od_method = ''post'',
     od_summary = ''Submit signed order'',
     od_description = ''Validates EIP-712 signature and persists a new order to the order book'',
     od_consumes = [''application/json''], od_produces = [''application/json''], od_tags = [''orders''], od_bearer = True,
     od_params =
      [param ''body'' ''request'' True (SRef ''SubmitOrderRequest'') ''Order submission payload''],
     od_responses =
      [answer 201 ''Created'' (SObject [] [(''orderHash'', SString), (''status'', SString)]),
       answer 400 ''Bad Request'' (SRef ''ErrorResponse'')]\<rparr>"

definition doc_best_order :: operation_doc where
  "doc_best_order = \<lparr>od_path = ''/orders/best'', od_method = ''get'',
     od_summary = ''Get best order'',
     od_description = ''Returns the best (lowest) sell or buy order for a collection'',
     od_consumes = [''application/json''], od_produces = [''application/json''], od_tags = [''orders''], od_bearer = False,
     od_params =
      [param ''query'' ''collection'' True SString ''Collection address'',
       param ''query'' ''side'' False SInteger ''Order side (0=Sell, 1=Buy, default: 0)''],
     od_responses =
      [answer 200 ''OK'' (SRef ''Order''),
       answer 400 ''Bad Request'' (SRef ''ErrorResponse''),
       answer 404 ''Not Found'' (SRef ''ErrorResponse''),
       answer 500 ''Internal Server Error'' (SRef ''ErrorResponse'')]\<rparr>"

definition doc_order :: operation_doc where
  "doc_order = \<lparr>od_path = ''/orders/{hash}'', od_method = ''get'',
     od_summary = ''Get order by hash'',
     od_description = ''Returns a single order by its order hash'',
     od_consumes = [''application/json''], od_produces = [''application/json''], od_tags = [''orders''], od_bearer = False,
     od_params =
      [param ''path'' ''hash'' True SString ''Order hash''],
     od_responses =
      [answer 200 ''OK'' (SRef ''Order''),
       answer 404 ''Not Found'' (SRef ''ErrorResponse''),
       answer 500 ''Internal Server Error'' (SRef ''ErrorResponse'')]\<rparr>"

definition doc_stats :: operation_doc where
  "doc_stats = \<lparr>od_path = ''/stats'', od_method = ''get'',
     od_summary = ''Get global stats'',
     od_description = ''Returns platform-level aggregate statistics'',
     od_consumes = [''application/json''], od_produces = [''application/json''], od_tags = [''stats''], od_bearer = False,
     od_params =
      [],
     od_responses =
      [answer 200 ''OK'' (SObject [] [(''totalCollections'', SInteger), (''totalOrders'', SInteger),
         (''totalTraders'', SInteger)]),
       answer 500 ''Internal Server Error'' (SRef ''ErrorResponse'')]\<rparr>"

definition doc_collection_stats :: operation_doc where
  "doc_collection_stats = \<lparr>od_path = ''/stats/{collection}'', od_method = ''get'',
     od_summary = ''Get collection stats'',
     od_description = ''Returns market stats for a specific collection (floor price, best bid, listed count)'',
     od_consumes = [''application/json''], od_produces = [''application/json''], od_tags = [''stats''], od_bearer = False,
     od_params =
      [param ''path'' ''collection'' True SString ''Collection address''],
     od_responses =
      [answer 200 ''OK'' (SObject [] [(''bestBid'', SString), (''collection'', SString), (''floorPrice'',
         SString), (''listed'', SInteger)]),
       answer 500 ''Internal Server Error'' (SRef ''ErrorResponse'')]\<rparr>"

definition doc_user_orders :: operation_doc where
  "doc_user_orders = \<lparr>od_path = ''/users/{address}/orders'', od_method = ''get'',
     od_summary = ''Get user orders'',
     od_description = ''Returns all orders for a given user address, optionally filtered by status'',
     od_consumes = [''application/json''], od_produces = [''application/json''], od_tags = [''orders''], od_bearer = True,
     od_params =
      [param ''path'' ''address'' True SString ''User wallet address'',
       param ''query'' ''status'' False SInteger ''Order status filter (0=Active, 1=Filled, 2=Cancelled,
         3=Expired)''],
     od_responses =
      [answer 200 ''OK'' (SObject [] [(''orders'', SArray (SRef ''Order''))]),
       answer 400 ''Bad Request'' (SRef ''ErrorResponse''),
       answer 500 ''Internal Server Error'' (SRef ''ErrorResponse'')]\<rparr>"

definition operations :: "operation_doc list" where
  "operations =
     [doc_challenge, doc_login, doc_collections, doc_collection, doc_orders, doc_orders_post,
      doc_best_order, doc_order, doc_stats, doc_collection_stats, doc_user_orders]"

subsection \<open>The schemas\<close>

definition asset_type_schema :: schema where
  "asset_type_schema = SEnum [(0, ''ERC721''), (1, ''ERC1155'')]"

definition auth_challenge_schema :: schema where
  "auth_challenge_schema =
     SObject []
      [(''challenge'', SString), (''issuedAt'', SString), (''nonce'', SString)]"

definition big_int_schema :: schema where
  "big_int_schema = SObject [] []"

definition collection_schema :: schema where
  "collection_schema =
     SObject []
      [(''address'', SString), (''chainId'', SInteger), (''imageUrl'', SString),
      (''metadata'', SArray (SInteger)), (''name'', SString), (''symbol'', SString),
      (''syncedAt'', SString)]"

definition error_response_schema :: schema where
  "error_response_schema =
     SObject []
      [(''code'', SInteger), (''error'', SString), (''message'', SString)]"

definition login_request_schema :: schema where
  "login_request_schema =
     SObject [''address'', ''signature'']
      [(''address'', SString), (''signature'', SString)]"

definition login_response_schema :: schema where
  "login_response_schema =
     SObject []
      [(''expiresAt'', SString), (''token'', SString)]"

definition order_schema :: schema where
  "order_schema =
     SObject []
      [(''amount'', SAllOf [SRef ''BigInt'']), (''assetType'', SAllOf [SRef ''AssetType'']),
      (''collection'', SString), (''counter'', SRef ''BigInt''), (''createdAt'', SString),
      (''endTime'', SInteger), (''extra'', SString), (''id'', SInteger),
      (''kind'', SAllOf [SRef ''OrderKind'']), (''maker'', SString), (''orderHash'', SString),
      (''paymentToken'', SString), (''price'', SRef ''BigInt''), (''salt'', SRef ''BigInt''),
      (''side'', SAllOf [SRef ''OrderSide'']), (''signature'', SString),
      (''startPrice'', SAllOf [SRef ''BigInt'']), (''startTime'', SInteger),
      (''status'', SRef ''OrderStatus''), (''taker'', SString), (''tokenId'', SRef ''BigInt''),
      (''updatedAt'', SString)]"

definition order_kind_schema :: schema where
  "order_kind_schema = SEnum [(0, ''FixedPrice''), (1, ''DutchAuction''), (2, ''CollectionBid''), (3, ''TraitBid''), (4, ''Bundle'')]"

definition order_side_schema :: schema where
  "order_side_schema = SEnum [(0, ''Sell''), (1, ''Buy'')]"

definition order_status_schema :: schema where
  "order_status_schema = SEnum [(0, ''Active''), (1, ''Filled''), (2, ''Cancelled''), (3, ''Expired'')]"

definition submit_order_request_schema :: schema where
  "submit_order_request_schema =
     SObject [''amount'', ''assetType'', ''collection'', ''kind'', ''maker'', ''price'', ''salt'',
      ''side'', ''signature'', ''startTime'', ''tokenId'']
      [(''amount'', SString), (''assetType'', SRef ''AssetType''), (''collection'', SString),
      (''endTime'', SInteger), (''extra'', SString), (''kind'', SRef ''OrderKind''),
      (''maker'', SString), (''paymentToken'', SString), (''price'', SString), (''salt'', SString),
      (''side'', SRef ''OrderSide''), (''signature'', SString), (''startPrice'', SString),
      (''startTime'', SInteger), (''taker'', SString), (''tokenId'', SString)]"

definition definitions :: "(string \<times> schema) list" where
  "definitions =
     [(''AssetType'', asset_type_schema), (''AuthChallenge'', auth_challenge_schema),
      (''BigInt'', big_int_schema), (''Collection'', collection_schema),
      (''ErrorResponse'', error_response_schema), (''LoginRequest'', login_request_schema),
      (''LoginResponse'', login_response_schema), (''Order'', order_schema),
      (''OrderKind'', order_kind_schema), (''OrderSide'', order_side_schema),
      (''OrderStatus'', order_status_schema), (''SubmitOrderRequest'', submit_order_request_schema)]"

subsection \<open>Conforming\<close>

text \<open>A reference stands for its definition; no definition is itself a reference.\<close>

definition follow :: "schema \<Rightarrow> schema option" where
  "follow sch = (case sch of SRef name \<Rightarrow> map_of definitions name | _ \<Rightarrow> Some sch)"

text \<open>\<open>allOf\<close> with one member is that member.\<close>

definition resolve :: "schema \<Rightarrow> schema option" where
  "resolve sch = (case sch of SAllOf [s] \<Rightarrow> follow s | _ \<Rightarrow> follow sch)"

fun conforms :: "schema \<Rightarrow> json \<Rightarrow> bool" where
  "conforms sch (JStr s) = (resolve sch = Some SString)"
| "conforms sch (JNum i) = (case resolve sch of
     Some SInteger \<Rightarrow> True | Some (SEnum vs) \<Rightarrow> i \<in> fst ` set vs | _ \<Rightarrow> False)"
| "conforms sch (JArr js) = (case resolve sch of Some (SArray s) \<Rightarrow> (\<forall>j \<in> set js. conforms s j) | _ \<Rightarrow> False)"
| "conforms sch (JObj ms) = (case resolve sch of
     Some (SObject needed props) \<Rightarrow> set needed \<subseteq> fst ` set ms \<and>
       (\<forall>m \<in> set ms. case map_of props (fst m) of None \<Rightarrow> True | Some s \<Rightarrow> conforms s (snd m))
   | _ \<Rightarrow> False)"
| "conforms sch (JBool b) = False"
| "conforms sch JNull = False"

subsection \<open>The document and the routes\<close>

text \<open>The paths of the document under the base path, in gin's notation.\<close>

fun gin_path :: "string \<Rightarrow> string" where
  "gin_path [] = []"
| "gin_path (c # cs) =
     (if c = CHR ''{'' then CHR '':'' # gin_path cs
      else if c = CHR ''}'' then gin_path cs else c # gin_path cs)"

definition doc_key :: "operation_doc \<Rightarrow> string \<times> string \<times> bool" where
  "doc_key od = (to_upper (od_method od), si_base_path swagger_info_doc @ gin_path (od_path od), od_bearer od)"

definition route_key :: "route \<Rightarrow> string \<times> string \<times> bool" where
  "route_key rt = (rt_method rt, rt_path rt, rt_protected rt)"

text \<open>The routes that are not part of the REST interface.\<close>

definition internal_endpoints :: "endpoint list" where
  "internal_endpoints = [MetricsPage, HealthCheck, ReadyCheck, DocsPage, Playground, Graphql, OrdersSocket]"


text \<open>The documentation of an endpoint.\<close>

definition endpoint_doc :: "endpoint \<Rightarrow> operation_doc option" where
  "endpoint_doc e = (case List.find (\<lambda>rt. rt_endpoint rt = e) routes of None \<Rightarrow> None
     | Some rt \<Rightarrow> List.find (\<lambda>od. doc_key od = route_key rt) operations)"

lemma endpoint_docs:
  "endpoint_doc Challenge = Some doc_challenge" "endpoint_doc Login = Some doc_login"
  "endpoint_doc ListOrders = Some doc_orders" "endpoint_doc BestOrder = Some doc_best_order"
  "endpoint_doc GetOrder = Some doc_order" "endpoint_doc ListCollections = Some doc_collections"
  "endpoint_doc GetCollection = Some doc_collection" "endpoint_doc GlobalStats = Some doc_stats"
  "endpoint_doc CollectionStats = Some doc_collection_stats" "endpoint_doc SubmitOrder = Some doc_orders_post"
  "endpoint_doc UserOrders = Some doc_user_orders"
  by code_simp+

lemma doc_keys: "set (map doc_key operations) =
    {(''GET'', ''/api/v1/auth/challenge'', False), (''POST'', ''/api/v1/auth/login'', False),
     (''GET'', ''/api/v1/collections'', False), (''GET'', ''/api/v1/collections/:address'', False),
     (''GET'', ''/api/v1/orders'', False), (''POST'', ''/api/v1/orders'', True),
     (''GET'', ''/api/v1/orders/best'', False), (''GET'', ''/api/v1/orders/:hash'', False),
     (''GET'', ''/api/v1/stats'', False), (''GET'', ''/api/v1/stats/:collection'', False),
     (''GET'', ''/api/v1/users/:address/orders'', True)}"
  by code_simp

lemma undocumented: "k \<notin> set (map doc_key operations) \<Longrightarrow> List.find (\<lambda>od. doc_key od = k) operations = None"
  by (auto simp: find_None_iff)

lemma internal_docs:
  "endpoint_doc MetricsPage = None" "endpoint_doc HealthCheck = None" "endpoint_doc ReadyCheck = None"
  "endpoint_doc DocsPage = None" "endpoint_doc Playground = None" "endpoint_doc Graphql = None"
  "endpoint_doc OrdersSocket = None"
  by (simp_all add: endpoint_doc_def routes_def route_of_def route_key_def undocumented doc_keys
      del: set_map list.set_map)

subsection \<open>The document and the answers\<close>

definition documented_answer :: "operation_doc \<Rightarrow> http_response \<Rightarrow> bool" where
  "documented_answer od p = list_ex (\<lambda>a. ad_status a = p_status p \<and> conforms (ad_schema a) (p_body p)) (od_responses od)"

definition documented_status :: "operation_doc \<Rightarrow> int \<Rightarrow> bool" where
  "documented_status od n = list_ex (\<lambda>a. ad_status a = n) (od_responses od)"

lemmas follow_defs = resolve_def follow_def definitions_def

lemma error_conforms: "conforms (SRef ''ErrorResponse'') (p_body (fail_with n code message))"
  by (simp add: fail_with_def error_response_def follow_defs error_response_schema_def)

lemma challenge_conforms: "conforms (SRef ''AuthChallenge'') (marshal_challenge c)"
  by (simp add: marshal_challenge_def follow_defs auth_challenge_schema_def)

lemma login_conforms: "conforms (SRef ''LoginResponse'') (marshal_login l)"
  by (simp add: marshal_login_def follow_defs login_response_schema_def)

lemmas operation_defs = doc_challenge_def doc_login_def doc_orders_def doc_best_order_def doc_order_def
  doc_collections_def doc_collection_def doc_stats_def doc_collection_stats_def doc_orders_post_def
  doc_user_orders_def answer_def

lemmas documented_defs = documented_answer_def documented_status_def operation_defs

text \<open>An answer that reports a failure has the form of an error.\<close>

definition failure :: "http_response \<Rightarrow> bool" where
  "failure p \<longleftrightarrow> (\<exists>n code message. 400 \<le> n \<and> p = fail_with n code message)"

lemma failureI [intro]: "400 \<le> n \<Longrightarrow> failure (fail_with n code message)"
  by (auto simp: failure_def)

text \<open>Which statuses a handler answers with, and that its failures are errors.\<close>

definition answers_with :: "int list \<Rightarrow> int \<Rightarrow> http_response \<Rightarrow> bool" where
  "answers_with fails ok p \<longleftrightarrow> p_status p = ok \<or> p_status p \<in> set fails \<and> failure p"

lemma challenge_answers: "answers_with [400] 200 (fst (challenge_endpoint au now random rq r))"
  by (auto simp: answers_with_def challenge_endpoint_def Let_def split: sum.split prod.split)

lemma login_answers: "answers_with [400, 401] 200 (fst (login_endpoint au now rq r))"
  by (auto simp: answers_with_def login_endpoint_def Let_def split: sum.split prod.split)

lemma order_answers:
  "list_orders oh rq s = Some (p, s') \<Longrightarrow> answers_with [400, 500] 200 p"
  "best_order oh scan rq s = Some (p, s') \<Longrightarrow> answers_with [400, 404, 500] 200 p"
  "get_order oh rq s = Some (p, s') \<Longrightarrow> answers_with [404, 500] 200 p"
  "submit_order oh clock rq s = Some (p, s') \<Longrightarrow> answers_with [400] 201 p"
  "user_orders oh rq s = Some (p, s') \<Longrightarrow> answers_with [400, 500] 200 p"
  by (auto simp: answers_with_def list_orders_def best_order_def get_order_def submit_order_def
      user_orders_def answer_order_def Let_def split: sum.splits prod.splits option.splits if_splits)

lemma collection_answers:
  "answers_with [500] 200 (fst (list_collections tj rq d))"
  "answers_with [404, 500] 200 (fst (get_collection tj rq d))"
  "answers_with [] 200 (fst (global_statistics d))"
  "answers_with [] 200 (fst (collection_statistics rq d))"
  by (auto simp: answers_with_def list_collections_def get_collection_def global_statistics_def
      collection_statistics_def Let_def split: sum.split prod.split option.split)

text \<open>The answers of every endpoint, by the statuses of its documentation.\<close>

definition fits :: "operation_doc \<Rightarrow> http_response \<Rightarrow> bool" where
  "fits od p \<longleftrightarrow> documented_status od (p_status p) \<and> (p_status p < 400 \<or> documented_answer od p)"

lemma fits_answers:
  assumes "answers_with fails ok p" and "ok < 400" and "documented_status od ok"
    and "list_all (\<lambda>n. list_ex (\<lambda>a. ad_status a = n \<and> ad_schema a = SRef ''ErrorResponse'') (od_responses od)) fails"
  shows "fits od p"
proof (cases "p_status p = ok")
  case True
  with assms(2,3) show ?thesis
    by (simp add: fits_def)
next
  case False
  with assms(1) obtain n code message where p: "p = fail_with n code message" "p_status p \<in> set fails"
    by (auto simp: answers_with_def failure_def)
  with assms(4) obtain a where "a \<in> set (od_responses od)" "ad_status a = p_status p" "ad_schema a = SRef ''ErrorResponse''"
    by (auto simp: list_all_iff list_ex_iff)
  with p(1) error_conforms show ?thesis
    by (auto simp: fits_def documented_status_def documented_answer_def list_ex_iff)
qed

lemma with_results:
  "with_shop f st = Some (p, st') \<Longrightarrow> \<exists>s s'. f s = Some (p, s')"
  "with_db g st = Some (p, st') \<Longrightarrow> \<exists>d. p = fst (g d)"
  "with_redis h st = Some (p, st') \<Longrightarrow> \<exists>r. p = fst (h r)"
  by (auto simp: with_db_def with_shop_def with_redis_def on_store_def split: prod.splits) (metis fst_conv)+

text \<open>The statuses of an endpoint: of its failures and of its success.\<close>

definition statuses :: "endpoint \<Rightarrow> int list \<times> int" where
  "statuses e = (case e of
      Challenge \<Rightarrow> ([400], 200) | Login \<Rightarrow> ([400, 401], 200) | ListOrders \<Rightarrow> ([400, 500], 200)
    | BestOrder \<Rightarrow> ([400, 404, 500], 200) | GetOrder \<Rightarrow> ([404, 500], 200)
    | ListCollections \<Rightarrow> ([500], 200) | GetCollection \<Rightarrow> ([404, 500], 200)
    | SubmitOrder \<Rightarrow> ([400], 201) | UserOrders \<Rightarrow> ([400, 500], 200) | _ \<Rightarrow> ([], 200))"

lemma shop_answers:
  "(\<And>s s'. f s = Some (p, s') \<Longrightarrow> answers_with F k p) \<Longrightarrow> with_shop f st = Some (p, st') \<Longrightarrow> answers_with F k p"
  using with_results(1) by blast

lemma db_answers:
  "(\<And>d. answers_with F k (fst (g d))) \<Longrightarrow> with_db g st = Some (p, st') \<Longrightarrow> answers_with F k p"
  by (drule with_results(2)) auto

lemma redis_answers:
  "(\<And>r. answers_with F k (fst (h r))) \<Longrightarrow> with_redis h st = Some (p, st') \<Longrightarrow> answers_with F k p"
  by (drule with_results(3)) auto

lemma shop_rules:
  "with_shop (list_orders oh rq) st = Some (p, st') \<Longrightarrow> answers_with [400, 500] 200 p"
  "with_shop (best_order oh scan rq) st = Some (p, st') \<Longrightarrow> answers_with [400, 404, 500] 200 p"
  "with_shop (get_order oh rq) st = Some (p, st') \<Longrightarrow> answers_with [404, 500] 200 p"
  "with_shop (submit_order oh clock rq) st = Some (p, st') \<Longrightarrow> answers_with [400] 201 p"
  "with_shop (user_orders oh rq) st = Some (p, st') \<Longrightarrow> answers_with [400, 500] 200 p"
  by (erule shop_answers [rotated], erule order_answers)+

lemmas endpoint_rules = shop_rules redis_answers [OF challenge_answers] redis_answers [OF login_answers]
  collection_answers [THEN db_answers]

lemma endpoint_answers:
  assumes "run_endpoint ap en e rq st = Some (p, st')" and "endpoint_doc e \<noteq> None"
  shows "answers_with (fst (statuses e)) (snd (statuses e)) p"
  using assms by (cases e) (auto simp: run_endpoint_def Let_def internal_docs statuses_def dest: endpoint_rules)

lemma endpoint_fits:
  assumes "endpoint_doc e = Some od" and "run_endpoint ap en e rq st = Some (p, st')"
  shows "fits od p"
proof (rule fits_answers)
  show "answers_with (fst (statuses e)) (snd (statuses e)) p"
    using endpoint_answers [OF assms(2)] assms(1) by simp
  show "snd (statuses e) < 400" "documented_status od (snd (statuses e))"
    "list_all (\<lambda>n. list_ex (\<lambda>a. ad_status a = n \<and> ad_schema a = SRef ''ErrorResponse'') (od_responses od))
       (fst (statuses e))"
    using assms(1) by (cases e; auto simp: endpoint_docs internal_docs statuses_def documented_defs)+
qed


lemma best_without_collection:
  "run_endpoint toy_app toy_env BestOrder (param_request ''hash'' []) toy_server =
     Some (fail_with 400 ''MISSING_PARAM'' ''collection is required'', toy_server)"
  by (simp add: run_endpoint_def Let_def with_shop_def best_order_def query_def param_request_def toy_server_def)


text \<open>
  The endpoints whose documented bodies are plain texts and numbers answer exactly in the documented form,
  in success and in failure: the challenge, the login, a submission and the global statistics.
\<close>

theorem plain_answers_conform:
  assumes "endpoint_doc e = Some od" and "e \<in> {Challenge, Login, SubmitOrder, GlobalStats}"
    and "run_endpoint ap en e rq st = Some (p, st')"
  shows "documented_answer od p"
proof (cases "p_status p < 400")
  case False
  with endpoint_fits [OF assms(1,3)] show ?thesis
    by (simp add: fits_def)
next
  case True
  have chal: "documented_answer doc_challenge (fst (challenge_endpoint au now random rq r))"
    and log: "documented_answer doc_login (fst (login_endpoint au now rq r))" for au now random r
    by (auto simp: challenge_endpoint_def login_endpoint_def documented_defs error_conforms
        challenge_conforms login_conforms Let_def split: sum.split prod.split)
  have stats: "documented_answer doc_stats (fst (global_statistics d))" for d
    by (auto simp: global_statistics_def documented_defs follow_defs split: prod.split)
  have sub: "documented_answer doc_orders_post p'" if "submit_order (ap_orders ap) (en_clock en) rq s = Some (p', s')" for s p' s'
    using that by (auto simp: submit_order_def documented_defs error_conforms follow_defs
        split: sum.splits prod.splits option.splits)
  show ?thesis
    using assms chal log stats sub
    by (auto simp: run_endpoint_def Let_def endpoint_docs dest!: with_results)
qed

text \<open>
  The document describes the amounts of an order as objects, but they are marshalled as strings, and the
  prices of a collection as strings, but they are numbers or \<open>null\<close>: no order, and no market of a collection,
  conforms to its documented schema.
\<close>

lemma order_never_conforms: "\<not> conforms (SRef ''Order'') (marshal_order tj od)"
  by (simp add: marshal_order_def big_int_marshal_def follow_defs order_schema_def big_int_schema_def)

lemma price_never_conforms: "\<not> conforms SString (big_json v)"
  by (simp add: big_json_def resolve_def follow_def split: option.split)

text \<open>
  No successful answer that carries an order or the prices of a collection conforms to its documentation.
\<close>

theorem priced_answers_diverge:
  assumes "endpoint_doc e = Some od" and "e \<in> {BestOrder, GetOrder, GetCollection, CollectionStats}"
    and "run_endpoint ap en e rq st = Some (p, st')" and "p_status p = 200"
  shows "\<not> documented_answer od p"
proof -
  have ord: "\<not> documented_answer od p'" if "answer_order oh code m r = Some (p', s')" "p_status p' = 200"
    "od \<in> {doc_best_order, doc_order}" for oh code m p' s' od and r :: "order option result \<times> db shop"
    using that by (auto simp: answer_order_def documented_defs order_never_conforms
        split: sum.splits prod.splits option.splits)
  have best: "\<not> documented_answer doc_best_order p'" if "best_order oh scan rq s = Some (p', s')" "p_status p' = 200"
    for oh :: "db order_handler" and scan s p' s'
    using that ord by (auto simp: best_order_def Let_def split: if_splits)
  have get: "\<not> documented_answer doc_order p'" if "get_order oh rq s = Some (p', s')" "p_status p' = 200"
    for oh :: "db order_handler" and s p' s'
    using that ord by (auto simp: get_order_def)
  have coll: "\<not> documented_answer doc_collection (fst (get_collection tj rq d))"
    if "p_status (fst (get_collection tj rq d)) = 200" for tj d
    using that price_never_conforms by (auto simp: get_collection_def documented_defs resolve_def follow_def
        Let_def split: sum.splits prod.splits option.splits)
  have stat: "\<not> documented_answer doc_collection_stats (fst (collection_statistics rq d))" for d
    using price_never_conforms by (auto simp: collection_statistics_def documented_defs resolve_def follow_def
        Let_def split: prod.splits)
  show ?thesis
    using assms best get coll stat
    by (auto simp: run_endpoint_def Let_def endpoint_docs dest!: with_results)
qed

theorem priced_answers_diverge_witness:
  "\<exists>p. run_endpoint toy_app toy_env CollectionStats (param_request ''collection'' ''bayc'') toy_server = Some (p, toy_server) \<and>
     \<not> documented_answer doc_collection_stats p"
proof -
  have "hex_decode ''bayc'' = Inl (invalid_byte (CHR ''y''))"
    by code_simp
  then have "\<exists>p. run_endpoint toy_app toy_env CollectionStats (param_request ''collection'' ''bayc'') toy_server =
      Some (p, toy_server) \<and> p_status p = 200"
    by (simp add: run_endpoint_def Let_def with_db_def with_shop_def on_store_def collection_statistics_def
        market_of_def get_best_price_def get_listed_count_def param_request_def toy_server_def toy_shop_def)
  then show ?thesis
    using priced_answers_diverge [OF endpoint_docs(9)] by blast
qed

theorem plain_answers_conform_witness:
  "\<exists>p st'. run_endpoint toy_app toy_env GlobalStats (param_request ''hash'' []) toy_server = Some (p, st') \<and>
     documented_answer doc_stats p"
proof -
  have "\<exists>p st'. run_endpoint toy_app toy_env GlobalStats (param_request ''hash'' []) toy_server = Some (p, st')"
    by (simp add: run_endpoint_def Let_def with_db_def with_shop_def on_store_def split: prod.split)
  then show ?thesis
    using plain_answers_conform [OF endpoint_docs(8)] by blast
qed

end
