(* ===== verification/Config.thy ===== *)
theory Config
  imports Middleware
begin

section \<open>internal/config and internal/log\<close>

text \<open>
  The configuration as it is read (viper fills the record and is outside the repository), the two
  connection strings made from it, and the level of the log.
\<close>

record server_config =
  cf_port :: int
  cf_allowed_origins :: "string list"

record database_config =
  cf_host :: string
  cf_db_port :: int
  cf_name :: string
  cf_user :: string
  cf_password :: string

record ethereum_config =
  cf_rpc_url :: string
  cf_ws_url :: string
  cf_chain_id :: int
  cf_exchange :: string
  cf_protocol_manager :: string
  cf_collection_manager :: string
  cf_royalty_manager :: string
  cf_confirmation_blocks :: int

record auth_config =
  cf_jwt_secret :: string
  cf_jwt_expiry :: int
  cf_challenge_ttl :: int

record config =
  cf_server :: server_config
  cf_database :: database_config
  cf_redis_addr :: string
  cf_ethereum :: ethereum_config
  cf_auth :: auth_config
  cf_migration :: bool

definition dsn :: "database_config \<Rightarrow> string" where
  "dsn d = ''host='' @ cf_host d @ '' port='' @ dec_of_int (cf_db_port d) @ '' user='' @ cf_user d @
     '' password='' @ cf_password d @ '' dbname='' @ cf_name d @ '' sslmode=disable''"

definition migration_url :: "database_config \<Rightarrow> string" where
  "migration_url d = ''postgres://'' @ cf_user d @ '':'' @ cf_password d @ ''@'' @ cf_host d @ '':'' @
     dec_of_int (cf_db_port d) @ ''/'' @ cf_name d @ ''?sslmode=disable''"

text \<open>\<open>config.Load\<close>: reading the file and filling the record are viper's.\<close>

definition load_config :: "unit result \<Rightarrow> config result \<Rightarrow> config result" where
  "load_config readFile unmarshal =
     bind_result (wrap_err ''read config'' readFile) (\<lambda>_. wrap_err ''unmarshal config'' unmarshal)"

text \<open>The level, and what is written to standard error for a level that is not known.\<close>

definition parse_level :: "string \<Rightarrow> log_level \<times> string list" where
  "parse_level s =
     (let l = to_lower s in
      if l = ''debug'' then (DebugLevel, [])
      else if l = ''info'' \<or> l = [] then (InfoLevel, [])
      else if l = ''warn'' then (WarnLevel, [])
      else if l = ''error'' then (ErrorLevel, [])
      else (InfoLevel, [''log: unknown level '' @ go_quote s @ '', defaulting to info'' @ [CHR 0x0A]]))"

lemma parse_level_case: "equal_fold s t \<Longrightarrow> fst (parse_level s) = fst (parse_level t)"
  by (simp add: parse_level_def equal_fold_def Let_def)

end
