(* ===== verification/MetadataFacts.thy ===== *)
theory MetadataFacts
  imports Metadata
begin

section \<open>What the metadata fetcher guarantees\<close>

text \<open>
  The decoder of contract answers reads the ABI encoding of a string, for every string; on other
  answers it can panic, and it is decided exactly on which.  A fetch that succeeds stores
  what it read under the token; the two calls for the name and the symbol of a collection are one and
  the same call.
\<close>

subsection \<open>The decoder\<close>

text \<open>The ABI encoding of one string: the offset 32, the length, the bytes, zeros up to a full word.\<close>

definition abi_string :: "string \<Rightarrow> bytes" where
  "abi_string t = be_bytes 32 32 @ be_bytes 32 (length t) @ bytes_of t @
     replicate ((32 - length t mod 32) mod 32) 0"

lemma length_bytes_of [simp]: "length (bytes_of t) = length t"
  by (simp add: bytes_of_def)

lemma text_of_bytes_of [simp]: "text_of (bytes_of t) = t"
proof -
  have "unat (of_nat (of_char c) :: byte) = of_char c" for c :: char
    by (simp add: unat_of_nat)
  then show ?thesis
    by (simp add: text_of_def bytes_of_def o_def)
qed

text \<open>
  Whatever string a contract returns in the ABI encoding, the decoder reads that string.
\<close>

theorem decode_abi_string:
  assumes "length t < 2 ^ 62"
  shows "decode_string_result (abi_string t) = Some t"
proof -
  have l: "length t < 256 ^ 32"
    using assms by simp
  have offset: "be_nat (take 32 (abi_string t)) = 32"
    by (simp add: abi_string_def be_nat_be_bytes)
  have len: "be_nat (take 32 (drop 32 (abi_string t))) = length t"
    using l by (simp add: abi_string_def be_nat_be_bytes)
  have size: "64 + length t \<le> length (abi_string t)" "64 \<le> length (abi_string t)"
    by (simp_all add: abi_string_def)
  have "in_int64 (int (length t))" "in_int64 (64 + int (length t))" "in_int64 32"
    using assms by (simp_all add: in_int64_def)
  moreover have "take (length t) (drop 64 (abi_string t)) = bytes_of t"
    by (simp add: abi_string_def)
  moreover have "nat (64 + int (length t)) - 64 = length t"
    by (simp add: nat_add_distrib)
  ultimately show ?thesis
    using size by (auto simp: decode_string_result_def offset len Let_def)
qed

theorem decode_abi_string_witness:
  "decode_string_result (abi_string ''ipfs://Qm/1.json'') = Some ''ipfs://Qm/1.json''"
  by (rule decode_abi_string) simp

lemma decode_string_crashes_iff':
  "decode_string_result data = None \<longleftrightarrow> 64 \<le> length data \<and>
     wrap64 (int (be_nat (take 32 data))) = 32 \<and>
     2 ^ 63 - 64 \<le> wrap64 (int (be_nat (take 32 (drop 32 data))))"
proof -
  let ?ln = "wrap64 (int (be_nat (take 32 (drop 32 data))))"
  have r: "- (2 ^ 63) \<le> ?ln" "?ln < 2 ^ 63"
    using wrap64_range [of "int (be_nat (take 32 (drop 32 data)))"] by (simp_all add: in_int64_def)
  have stop: "wrap64 (64 + ?ln) = (if 2 ^ 63 - 64 \<le> ?ln then 64 + ?ln - 2 ^ 64 else 64 + ?ln)"
  proof (cases "2 ^ 63 - 64 \<le> ?ln")
    case True
    then have "(64 + ?ln + 2 ^ 63) mod 2 ^ 64 = 64 + ?ln + 2 ^ 63 - 2 ^ 64"
      using r by (simp add: mod_pos_geq)
    with True show ?thesis
      by (simp add: wrap64_def [of "64 + ?ln"])
  next
    case False
    then show ?thesis
      using r by (simp add: in_int64_def)
  qed
  show ?thesis
    using r by (auto simp: decode_string_result_def Let_def stop not_le not_less)
qed

text \<open>
  The decoder panics exactly on an answer of at least 64 bytes whose first word is 32 and whose
  second word is within 64 of the largest 64-bit integer, both modulo \<open>2^64\<close>: there the sum \<open>64 + ln\<close>
  wraps below zero and passes the test against the length of the answer.
\<close>

theorem decode_string_crashes_iff:
  "decode_string_result data = None \<longleftrightarrow> 64 \<le> length data \<and>
     wrap64 (int (be_nat (take 32 data))) = 32 \<and>
     2 ^ 63 - 64 \<le> wrap64 (int (be_nat (take 32 (drop 32 data))))"
  by (rule decode_string_crashes_iff')

text \<open>
  One answer of a contract crashes the server: when the call of \<open>tokenURI\<close> is answered with the
  offset 32 and a length close to \<open>2^63\<close>, the worker that fetches the token panics at the first attempt.
\<close>

theorem contract_answer_crashes_worker:
  assumes "nt_call (ms_net ms) (nt_address (ms_net ms) (j_collection job))
      (token_uri_call ms (j_token_id job)) (mt_net s) =
      (Inr (be_bytes 32 32 @ be_bytes 32 n), w)"
    and "2 ^ 63 - 64 \<le> n" and "n < 2 ^ 63"
  shows "fetch_with_retry stopped ms job s = None"
proof -
  have "n < 256 ^ 32"
    by (rule less_le_trans [OF assms(3)]) simp
  moreover have "in_int64 (int n)"
    using assms(3) by (simp add: in_int64_def)
  moreover have "2 ^ 63 - 64 \<le> int n"
    using assms(2) by simp
  ultimately have "decode_string_result (be_bytes 32 32 @ be_bytes 32 n) = None"
    using wrap64_id [of 32] by (simp add: decode_string_crashes_iff' be_nat_be_bytes in_int64_def)
  then have "fetch_one ms (j_collection job) (j_token_id job) s = None"
    by (simp add: fetch_one_def rpc_call_def assms(1))
  then show ?thesis
    by (simp add: fetch_with_retry_def numeral_3_eq_3)
qed

text \<open>A network for the concrete instances: every contract answers \<open>out\<close>, every URL has no body.\<close>

fun hex_prefix :: "string \<Rightarrow> bytes" where
  "hex_prefix (a # b # s) =
     (case (hex_val a, hex_val b) of
        (Some x, Some y) \<Rightarrow> (push_bit 4 x OR y) # hex_prefix s
      | _ \<Rightarrow> [])"
| "hex_prefix _ = []"

definition toy_net :: "bytes \<Rightarrow> json result \<Rightarrow> unit net" where
  "toy_net out page = \<lparr>nt_hex2bytes = hex_prefix, nt_left_pad = (\<lambda>b n. replicate (n - length b) 0 @ b),
     nt_address = (\<lambda>t. [26]), nt_call = (\<lambda>target data w. (Inr out, w)), nt_new_request = (\<lambda>u. Inr ()),
     nt_do = (\<lambda>u w. (Inr ([], None), w)), nt_parse = (\<lambda>b. page)\<rparr>"

definition toy_fetcher :: "bytes \<Rightarrow> json result \<Rightarrow> unit metadata_service" where
  "toy_fetcher out page = new_metadata_service 31337 (toy_net out page) ''https://ipfs.io''"

definition idle :: "db \<Rightarrow> unit meta_state" where
  "idle d = \<lparr>mt_db = d, mt_queue = [], mt_net = ()\<rparr>"

theorem contract_answer_crashes_worker_witness:
  "fetch_with_retry (\<lambda>i. False) (toy_fetcher (be_bytes 32 32 @ be_bytes 32 (2 ^ 63 - 1)) (Inr JNull))
     \<lparr>j_collection = ''0x1a'', j_token_id = 7\<rparr> (idle empty_db) = None"
  by (rule contract_answer_crashes_worker [where n = "2 ^ 63 - 1" and w = "()"])
    (simp_all add: toy_fetcher_def new_metadata_service_def toy_net_def idle_def)

subsection \<open>The name and the symbol\<close>

text \<open>
  \<open>common.Hex2Bytes\<close> returns what \<open>hex.DecodeString\<close> decoded before an error and ignores the error.
\<close>

definition ignores_bad_hex :: "'w net \<Rightarrow> bool" where
  "ignores_bad_hex net \<longleftrightarrow> nt_hex2bytes net = hex_prefix"

text \<open>
  The name and the symbol of a collection are fetched by one and the same call, with no data at
  all: the selectors are written with the prefix \<open>0x\<close>, on which \<open>Hex2Bytes\<close> stops at once; the
  selector of \<open>tokenURI\<close>, written without it, is four bytes.
\<close>

theorem selectors_are_empty:
  assumes "ignores_bad_hex (ms_net ms)"
  shows "call_string ms target name_selector s = call_string ms target symbol_selector s \<and>
    nt_hex2bytes (ms_net ms) name_selector = [] \<and>
    nt_hex2bytes (ms_net ms) tokenURI_selector = [0xc8, 0x7b, 0x56, 0xdd]"
proof -
  have "hex_prefix name_selector = []" "hex_prefix symbol_selector = []"
    "hex_prefix tokenURI_selector = [0xc8, 0x7b, 0x56, 0xdd]"
    by code_simp+
  with assms show ?thesis
    by (simp add: call_string_def ignores_bad_hex_def)
qed

theorem selectors_are_empty_witness:
  "nt_hex2bytes (ms_net (toy_fetcher [] (Inr JNull))) name_selector = []"
proof -
  have "ignores_bad_hex (ms_net (toy_fetcher [] (Inr JNull)))"
    by (simp add: ignores_bad_hex_def toy_fetcher_def new_metadata_service_def toy_net_def)
  from selectors_are_empty [OF this, of "[26]" "idle empty_db"] show ?thesis by simp
qed

subsection \<open>A successful fetch\<close>

lemma token_record_simps [simp]:
  "m_collection (token_record ms c i doc) = c" "m_token_id (token_record ms c i doc) = Some i"
  "m_name (token_record ms c i doc) = tk_name doc" "m_description (token_record ms c i doc) = tk_description doc"
  "m_attributes (token_record ms c i doc) = tk_attributes doc"
  "m_image_url (token_record ms c i doc) = resolve_uri ms (tk_image doc)"
  by (simp_all add: token_record_def)

lemma upsert_nft_rows:
  assumes "healthy d" and "upsert_nft_metadata m d = (Inr (), d')" and "m_token_id m = Some i"
  obtains b where "hex_decode (m_collection m) = Inr (Some b)"
    and "d' = d\<lparr>t_nfts := t_nfts d'\<rparr>"
    and "filter (nft_at (Some b) i) (t_nfts d') \<noteq> []"
    and "\<forall>r \<in> set (filter (nft_at (Some b) i) (t_nfts d')). scan_nft_metadata r =
      m\<lparr>m_collection := ''0x'' @ hex_encode_to_string b, m_synced_at := db_now d\<rparr>"
proof -
  from assms obtain a where a: "hex_decode (m_collection m) = Inr a"
    and st: "upsert_nft_stmt m a d = Inr ((), d')"
    by (auto simp: upsert_nft_metadata_def db_exec_healthy split: sum.splits prod.splits)
  have tok: "fst (big_set_string (big_int_str (m_token_id m))) = i"
    using assms(3) by (simp add: big_int_str_def)
  from st obtain b where b: "a = Some b"
    by (cases a) (simp_all add: upsert_nft_stmt_def Let_def)
  let ?u = "\<lambda>r :: nft_row. r\<lparr>n_name := m_name m, n_description := m_description m,
    n_image_url := m_image_url m, n_attributes := m_attributes m, n_synced_at := db_now d\<rparr>"
  let ?new = "\<lparr>n_collection = Some b, n_token_id = i, n_name = m_name m,
    n_description = m_description m, n_image_url = m_image_url m,
    n_attributes = m_attributes m, n_synced_at = db_now d\<rparr>"
  have d': "d' = d\<lparr>t_nfts := if \<exists>r \<in> set (t_nfts d). nft_at (Some b) i r
      then map (\<lambda>r. if nft_at (Some b) i r then ?u r else r) (t_nfts d) else t_nfts d @ [?new]\<rparr>"
    using st by (auto simp: upsert_nft_stmt_def tok b Let_def split: if_splits)
  have m: "m\<lparr>m_collection := ''0x'' @ hex_encode_to_string b, m_synced_at := db_now d\<rparr> =
      \<lparr>m_collection = ''0x'' @ hex_encode_to_string b, m_token_id = Some i, m_name = m_name m,
       m_description = m_description m, m_image_url = m_image_url m,
       m_attributes = m_attributes m, m_synced_at = db_now d\<rparr>"
    using assms(3) by (cases m) simp
  define P where "P = nft_at (Some b) i"
  define u where "u = ?u"
  define new where "new = ?new"
  have facts: "P (u r) = P r" "P new" for r
    by (simp_all add: P_def u_def new_def nft_at_def)
  have scans: "scan_nft_metadata new =
      m\<lparr>m_collection := ''0x'' @ hex_encode_to_string b, m_synced_at := db_now d\<rparr>"
    unfolding m new_def by (simp add: scan_nft_metadata_def scan_big_int_def)
  have scanu: "scan_nft_metadata (u r) =
      m\<lparr>m_collection := ''0x'' @ hex_encode_to_string b, m_synced_at := db_now d\<rparr>" if "P r" for r
    using that unfolding m u_def P_def by (simp add: scan_nft_metadata_def nft_at_def scan_big_int_def)
  have rows: "t_nfts d' = (if \<exists>r \<in> set (t_nfts d). P r
      then map (\<lambda>r. if P r then u r else r) (t_nfts d) else t_nfts d @ [new])"
    using arg_cong [OF d', of t_nfts] by (simp add: P_def u_def new_def)
  have "filter P (t_nfts d') \<noteq> []"
  proof (cases "\<exists>r \<in> set (t_nfts d). P r")
    case True
    then obtain r where "r \<in> set (t_nfts d)" "P r" by blast
    with True have "u r \<in> set (t_nfts d')"
      unfolding rows by auto
    with \<open>P r\<close> facts(1) show ?thesis
      by (auto simp: filter_empty_conv)
  qed (simp add: rows facts)
  moreover have "\<forall>r \<in> set (filter P (t_nfts d')). scan_nft_metadata r =
      m\<lparr>m_collection := ''0x'' @ hex_encode_to_string b, m_synced_at := db_now d\<rparr>"
  proof
    fix r
    assume "r \<in> set (filter P (t_nfts d'))"
    then have "r = new \<or> (\<exists>r'. r = u r' \<and> P r')"
      using facts unfolding rows by (auto split: if_splits)
    then show "scan_nft_metadata r =
        m\<lparr>m_collection := ''0x'' @ hex_encode_to_string b, m_synced_at := db_now d\<rparr>"
      using scans scanu by blast
  qed
  moreover have "d' = d\<lparr>t_nfts := t_nfts d'\<rparr>"
    unfolding d' by simp
  ultimately show thesis
    using that [of b] a b unfolding P_def by blast
qed

text \<open>
  A fetch that succeeds makes the token's metadata known: it is then read back under the token,
  with the name, the description and the attributes of the document and its image resolved through
  the gateway.
\<close>

theorem fetched_metadata_is_found:
  assumes "fetch_one ms collection tokenID s = Some (Inr (), s')" and "healthy (mt_db s)"
  shows "\<exists>doc m. fst (get_nft_metadata collection (Some tokenID) (mt_db s')) = Inr (Some m) \<and>
    m_name m = tk_name doc \<and> m_description m = tk_description doc \<and> m_attributes m = tk_attributes doc \<and>
    m_image_url m = resolve_uri ms (tk_image doc) \<and> m_synced_at m = db_now (mt_db s) \<and>
    (\<exists>body. doc = read_token_meta (nt_parse (ms_net ms) body))"
proof -
  obtain r1 s1 where call: "rpc_call ms (nt_address (ms_net ms) collection) (token_uri_call ms tokenID) s = (r1, s1)"
    by fastforce
  with assms(1) obtain out where out: "r1 = Inr out"
    by (cases r1) (simp_all add: fetch_one_def)
  with call assms(1) obtain uri where uri: "decode_string_result out = Some uri" "uri \<noteq> []"
    by (cases "decode_string_result out") (auto simp: fetch_one_def split: if_splits)
  obtain r2 s2 where fetch: "fetch_body ms (resolve_uri ms uri) s1 = (r2, s2)"
    by fastforce
  with call out uri assms(1) obtain body where "r2 = Inr body"
    by (cases r2) (simp_all add: fetch_one_def)
  with call out uri fetch assms(1)
  have up: "upsert_nft_metadata (token_record ms collection tokenID
      (read_token_meta (nt_parse (ms_net ms) body))) (mt_db s2) = (Inr (), mt_db s')"
    by (auto simp: fetch_one_def split: prod.splits)
  have "mt_db s1 = mt_db s"
    using call by (auto simp: rpc_call_def split: prod.splits)
  with fetch have "mt_db s2 = mt_db s"
    by (auto simp: fetch_body_def split: prod.splits sum.splits)
  let ?doc = "read_token_meta (nt_parse (ms_net ms) body)"
  let ?m = "token_record ms collection tokenID ?doc"
  from up assms(2) \<open>mt_db s2 = mt_db s\<close>
  have h: "healthy (mt_db s)" and up': "upsert_nft_metadata ?m (mt_db s) = (Inr (), mt_db s')"
    by simp_all
  have "m_token_id ?m = Some tokenID"
    by (simp add: token_record_def)
  from upsert_nft_rows [OF h up' this] obtain b where
    b: "hex_decode collection = Inr (Some b)" and d': "mt_db s' = mt_db s\<lparr>t_nfts := t_nfts (mt_db s')\<rparr>"
    and ne: "filter (nft_at (Some b) tokenID) (t_nfts (mt_db s')) \<noteq> []"
    and rows: "\<forall>r \<in> set (filter (nft_at (Some b) tokenID) (t_nfts (mt_db s'))). scan_nft_metadata r =
      ?m\<lparr>m_collection := ''0x'' @ hex_encode_to_string b, m_synced_at := db_now (mt_db s)\<rparr>"
    by (metis token_record_simps(1))
  have h': "healthy (mt_db s')"
    using h arg_cong [OF d', of db_outcomes] by (simp add: healthy_def)
  from ne obtain r rs where r: "filter (nft_at (Some b) tokenID) (t_nfts (mt_db s')) = r # rs"
    by (cases "filter (nft_at (Some b) tokenID) (t_nfts (mt_db s'))") simp_all
  with rows have "scan_nft_metadata r =
      ?m\<lparr>m_collection := ''0x'' @ hex_encode_to_string b, m_synced_at := db_now (mt_db s)\<rparr>" by simp
  then have "fst (get_nft_metadata collection (Some tokenID) (mt_db s')) = Inr (Some
      (?m\<lparr>m_collection := ''0x'' @ hex_encode_to_string b, m_synced_at := db_now (mt_db s)\<rparr>))"
    by (simp add: get_nft_metadata_def b db_exec_healthy [OF h'] select_nft_stmt_def big_int_str_def r)
  then show ?thesis
    by (auto simp: token_record_def)
qed

definition image_page :: json where
  "image_page = JObj [(''name'', JStr ''Ape #7''), (''image'', JStr ''ipfs://Qm/7.png'')]"

theorem fetched_metadata_is_found_witness:
  "\<exists>m. fst (get_nft_metadata ''0x1a'' (Some 7)
      (mt_db (snd (the (fetch_one (toy_fetcher (abi_string ''ipfs://Qm/7'') (Inr image_page)) ''0x1a'' 7
        (idle empty_db)))))) = Inr (Some m)"
proof -
  let ?ms = "toy_fetcher (abi_string ''ipfs://Qm/7'') (Inr image_page)"
  have "decode_string_result (abi_string ''ipfs://Qm/7'') = Some ''ipfs://Qm/7''"
    by (rule decode_abi_string) simp
  moreover have "hex_decode ''0x1a'' = Inr (Some [26])"
    by code_simp
  moreover have "fst (big_set_string (big_int_str (Some 7))) = 7"
    by (simp add: big_int_str_def)
  ultimately have "\<exists>s'. fetch_one ?ms ''0x1a'' 7 (idle empty_db) = Some (Inr (), s')"
    by (simp add: fetch_one_def rpc_call_def fetch_body_def read_limited_def toy_fetcher_def
        new_metadata_service_def toy_net_def idle_def upsert_nft_metadata_def db_exec_healthy
        healthy_def empty_db_def upsert_nft_stmt_def numeric78_ok_def)
  then obtain s' where s': "fetch_one ?ms ''0x1a'' 7 (idle empty_db) = Some (Inr (), s')"
    by blast
  moreover have "healthy (mt_db (idle empty_db))"
    by (simp add: idle_def healthy_def empty_db_def)
  ultimately show ?thesis
    using fetched_metadata_is_found [OF s'] by auto
qed

end
