(* ===== verification/EventRepo.thy ===== *)
theory EventRepo
  imports OrderRepoFacts
begin

section \<open>internal/repository/event.go\<close>

text \<open>
  \<open>EventRepo\<close>: the log of contract events, keyed by block, transaction index and log index, and the
  cursor of the last synchronised block.  The lemmas show that an insertion is idempotent and
  give the contract \<open>event_log\<close> that the watcher relies on.
\<close>

subsection \<open>Parameters\<close>

text \<open>
  An unsigned parameter with its high bit set is refused by \<open>database/sql\<close>; one that does not fit an
  \<open>INTEGER\<close> column is refused by the server.
\<close>

definition bigint_param :: "uint64 \<Rightarrow> int result" where
  "bigint_param u =
     (if uint u \<ge> 2 ^ 63
      then Inl (ErrText ''sql: converting argument: uint64 values with high bit set are not supported'')
      else Inr (uint u))"

definition integer_param :: "uint64 \<Rightarrow> int result" where
  "integer_param u =
     bind_result (bigint_param u) (\<lambda>i.
       if int4_ok i then Inr i else Inl (pq_error ''value out of range for type integer''))"

definition event_key :: "uint64 \<Rightarrow> uint64 \<Rightarrow> uint64 \<Rightarrow> (int \<times> int \<times> int) result" where
  "event_key block tx lg =
     bind_result (bigint_param block) (\<lambda>b. bind_result (integer_param tx) (\<lambda>t.
     bind_result (integer_param lg) (\<lambda>l. Inr (b, t, l))))"

definition at_key :: "event_row \<Rightarrow> int \<times> int \<times> int \<Rightarrow> bool" where
  "at_key r k \<longleftrightarrow> (v_block_number r, v_tx_index r, v_log_index r) = k"

subsection \<open>Statements and methods\<close>

definition insert_event_stmt :: "contract_event \<Rightarrow> bytes option \<Rightarrow> unit stmt" where
  "insert_event_stmt e txHash d =
     bind_result (event_key (e_block_number e) (e_tx_index e) (e_log_index e)) (\<lambda>(b, t, l).
     if txHash = None
     then Inl (pq_error ''null value in column tx_hash violates not-null constraint'')
     else if \<exists>r \<in> set (t_events d). at_key r (b, t, l)
     then Inr ((), d\<lparr>t_event_seq := t_event_seq d + 1\<rparr>)
     else
       let r = \<lparr>v_id = t_event_seq d, v_block_number = b, v_tx_hash = txHash, v_tx_index = t,
                v_log_index = l, v_event_name = e_event_name e, v_event_data = e_event_data e,
                v_removed = e_removed e, v_created_at = db_now d\<rparr>
       in Inr ((), d\<lparr>t_events := t_events d @ [r], t_event_seq := t_event_seq d + 1\<rparr>))"

definition insert_event :: "contract_event \<Rightarrow> db \<Rightarrow> unit result \<times> db" where
  "insert_event e d =
     (case wrap_err ''decode tx_hash'' (hex_decode (e_tx_hash e)) of
        Inl x \<Rightarrow> (Inl x, d)
      | Inr txHash \<Rightarrow> db_exec ''insert event'' (insert_event_stmt e txHash) d)"

definition event_exists_stmt :: "uint64 \<Rightarrow> uint64 \<Rightarrow> uint64 \<Rightarrow> bool stmt" where
  "event_exists_stmt block tx lg d =
     bind_result (event_key block tx lg) (\<lambda>k. Inr (\<exists>r \<in> set (t_events d). at_key r k, d))"

definition event_exists :: "uint64 \<Rightarrow> uint64 \<Rightarrow> uint64 \<Rightarrow> db \<Rightarrow> bool result \<times> db" where
  "event_exists block tx lg d = db_exec ''check event exists'' (event_exists_stmt block tx lg) d"

definition mark_removed_stmt :: "uint64 \<Rightarrow> uint64 \<Rightarrow> uint64 \<Rightarrow> unit stmt" where
  "mark_removed_stmt block tx lg d =
     bind_result (event_key block tx lg) (\<lambda>k.
       Inr ((), d\<lparr>t_events := map (\<lambda>r. if at_key r k then r\<lparr>v_removed := True\<rparr> else r) (t_events d)\<rparr>))"

definition mark_removed :: "uint64 \<Rightarrow> uint64 \<Rightarrow> uint64 \<Rightarrow> db \<Rightarrow> unit result \<times> db" where
  "mark_removed block tx lg d = db_exec ''mark event removed'' (mark_removed_stmt block tx lg) d"

definition delete_events_stmt :: "uint64 \<Rightarrow> unit stmt" where
  "delete_events_stmt block d =
     bind_result (bigint_param block) (\<lambda>b.
       Inr ((), d\<lparr>t_events := filter (\<lambda>r. \<not> b \<le> v_block_number r) (t_events d)\<rparr>))"

definition delete_events_above_block :: "uint64 \<Rightarrow> db \<Rightarrow> unit result \<times> db" where
  "delete_events_above_block block d = db_exec ''delete events above block'' (delete_events_stmt block) d"

definition cursor_stmt :: "int \<Rightarrow> int list stmt" where
  "cursor_stmt chain d =
     Inr (map s_last_synced_block (filter (\<lambda>r. s_chain_id r = chain) (t_cursor d)), d)"

text \<open>No row is \<open>sql.ErrNoRows\<close>; a negative block does not scan into a \<open>uint64\<close>.\<close>

definition get_last_synced_block :: "int \<Rightarrow> db \<Rightarrow> uint64 result \<times> db" where
  "get_last_synced_block chain d =
     (case db_exec ''get last synced block'' (cursor_stmt chain) d of
        (Inl e, d1) \<Rightarrow> (Inl e, d1)
      | (Inr [], d1) \<Rightarrow> (Inr 0, d1)
      | (Inr (b # _), d1) \<Rightarrow>
          (if b < 0 then (Inl (ErrWrap ''get last synced block'' (ErrText ''sql: Scan error'')), d1)
           else (Inr (word_of_int b), d1)))"

definition update_cursor_stmt :: "int \<Rightarrow> uint64 \<Rightarrow> unit stmt" where
  "update_cursor_stmt chain block d =
     bind_result (bigint_param block) (\<lambda>b.
     if \<not> int4_ok chain then Inl (pq_error ''value out of range for type integer'')
     else if \<exists>r \<in> set (t_cursor d). s_chain_id r = chain
     then Inr ((), d\<lparr>t_cursor := map (\<lambda>r. if s_chain_id r = chain
                       then r\<lparr>s_last_synced_block := b, s_updated_at := db_now d\<rparr> else r) (t_cursor d)\<rparr>)
     else Inr ((), d\<lparr>t_cursor := t_cursor d @
                [\<lparr>s_chain_id = chain, s_last_synced_block = b, s_updated_at = db_now d\<rparr>]\<rparr>))"

definition update_last_synced_block :: "int \<Rightarrow> uint64 \<Rightarrow> db \<Rightarrow> unit result \<times> db" where
  "update_last_synced_block chain block d =
     db_exec ''update last synced block'' (update_cursor_stmt chain block) d"

definition scan_event :: "event_row \<Rightarrow> contract_event" where
  "scan_event r = \<lparr>e_id = v_id r, e_block_number = word_of_int (v_block_number r),
     e_tx_hash = ''0x'' @ (case v_tx_hash r of None \<Rightarrow> [] | Some b \<Rightarrow> hex_encode_to_string b),
     e_tx_index = word_of_int (v_tx_index r), e_log_index = word_of_int (v_log_index r),
     e_event_name = v_event_name r, e_event_data = v_event_data r, e_removed = v_removed r\<rparr>"

text \<open>\<open>ORDER BY block_number DESC, tx_index DESC, log_index DESC\<close>.\<close>

definition latest_first :: "event_row list \<Rightarrow> event_row list" where
  "latest_first rows = sort_key (\<lambda>r. - v_block_number r) (sort_key (\<lambda>r. - v_tx_index r)
     (sort_key (\<lambda>r. - v_log_index r) rows))"

definition is_activity_of :: "string \<Rightarrow> event_row \<Rightarrow> bool" where
  "is_activity_of addr r \<longleftrightarrow> v_event_name r = ''OrderFulfilled'' \<and>
     (json_text ''maker'' (v_event_data r) = Some addr \<or> json_text ''taker'' (v_event_data r) = Some addr)"

definition activity_stmt :: "string \<Rightarrow> int \<Rightarrow> event_row list stmt" where
  "activity_stmt addr limit d =
     Inr (take (nat limit) (latest_first (filter (is_activity_of addr) (t_events d))), d)"

definition get_user_activity :: "string \<Rightarrow> int \<Rightarrow> db \<Rightarrow> contract_event list result \<times> db" where
  "get_user_activity address limit0 d =
     (let limit = (if limit0 \<le> 0 then 20 else limit0) in
      case wrap_err ''decode address'' (hex_decode address) of
        Inl e \<Rightarrow> (Inl e, d)
      | Inr _ \<Rightarrow>
          (case db_exec ''get user activity'' (activity_stmt (to_lower address) limit) d of
             (Inl e, d1) \<Rightarrow> (Inl e, d1)
           | (Inr rows, d1) \<Rightarrow> (Inr (map scan_event rows), d1)))"

subsection \<open>The event log\<close>

text \<open>No two recorded events have the same position, and positions are in range.\<close>

definition events_ok :: "event_row list \<Rightarrow> bool" where
  "events_ok rows \<longleftrightarrow> distinct (map (\<lambda>r. (v_block_number r, v_tx_index r, v_log_index r)) rows) \<and>
     (\<forall>r \<in> set rows. 0 \<le> v_block_number r \<and> v_block_number r < 2 ^ 63 \<and>
        0 \<le> v_tx_index r \<and> 0 \<le> v_log_index r)"

definition recorded :: "uint64 \<Rightarrow> uint64 \<Rightarrow> uint64 \<Rightarrow> db \<Rightarrow> bool" where
  "recorded block tx lg d \<longleftrightarrow> (\<exists>r \<in> set (t_events d). at_key r (uint block, uint tx, uint lg))"

lemma event_key_Inr: "event_key b t l = Inr k \<Longrightarrow> k = (uint b, uint t, uint l) \<and> uint b < 2 ^ 63"
  by (auto simp: event_key_def integer_param_def bigint_param_def bind_result_Inr split: if_splits)

lemma event_exists_healthy:
  assumes "healthy d" and "event_key b t l = Inr k"
  shows "event_exists b t l d = (Inr (recorded b t l d), d)"
  using assms event_key_Inr [OF assms(2)]
  by (simp add: event_exists_def db_exec_healthy event_exists_stmt_def recorded_def)

lemma insert_event_healthy:
  assumes "healthy d" and "insert_event e d = (Inr u, d')"
  obtains k h where "event_key (e_block_number e) (e_tx_index e) (e_log_index e) = Inr k"
    and "hex_decode (e_tx_hash e) = Inr (Some h)"
    and "t_events d' = (if recorded (e_block_number e) (e_tx_index e) (e_log_index e) d then t_events d
       else t_events d @ [\<lparr>v_id = t_event_seq d, v_block_number = uint (e_block_number e),
         v_tx_hash = Some h, v_tx_index = uint (e_tx_index e), v_log_index = uint (e_log_index e),
         v_event_name = e_event_name e, v_event_data = e_event_data e,
         v_removed = e_removed e, v_created_at = db_now d\<rparr>])"
    and "d' = d\<lparr>t_events := t_events d', t_event_seq := t_event_seq d + 1\<rparr>"
proof -
  from assms obtain h where h: "hex_decode (e_tx_hash e) = Inr h"
    and st: "db_exec ''insert event'' (insert_event_stmt e h) d = (Inr u, d')"
    by (auto simp: insert_event_def split: sum.splits)
  from st assms(1) have st: "insert_event_stmt e h d = Inr (u, d')"
    by (auto simp: db_exec_healthy split: sum.splits prod.splits)
  then obtain k where k: "event_key (e_block_number e) (e_tx_index e) (e_log_index e) = Inr k"
    by (auto simp: insert_event_stmt_def bind_result_Inr)
  note key = event_key_Inr [OF k]
  from st k obtain hb where hb: "h = Some hb"
    by (cases h) (auto simp: insert_event_stmt_def split: prod.splits)
  show thesis
    using that [of k hb] h hb st k key
    by (auto simp: insert_event_stmt_def recorded_def Let_def split: if_splits)
qed

lemma insert_event_stores:
  assumes "healthy d" and "event_key (e_block_number e) (e_tx_index e) (e_log_index e) = Inr k"
    and "hex_decode (e_tx_hash e) = Inr (Some h)"
    and "\<not> recorded (e_block_number e) (e_tx_index e) (e_log_index e) d"
  obtains d' r where "insert_event e d = (Inr (), d')" and "at_key r k"
    and "v_event_name r = e_event_name e" and "v_event_data r = e_event_data e"
    and "d' = d\<lparr>t_events := t_events d @ [r], t_event_seq := t_event_seq d + 1\<rparr>"
proof -
  let ?r = "\<lparr>v_id = t_event_seq d, v_block_number = uint (e_block_number e), v_tx_hash = Some h,
     v_tx_index = uint (e_tx_index e), v_log_index = uint (e_log_index e), v_event_name = e_event_name e,
     v_event_data = e_event_data e, v_removed = e_removed e, v_created_at = db_now d\<rparr>"
  from event_key_Inr [OF assms(2)] have k: "k = (uint (e_block_number e), uint (e_tx_index e), uint (e_log_index e))"
    by simp
  with assms have "insert_event e d =
      (Inr (), d\<lparr>t_events := t_events d @ [?r], t_event_seq := t_event_seq d + 1\<rparr>)"
    by (auto simp: insert_event_def db_exec_healthy insert_event_stmt_def recorded_def Let_def)
  then show ?thesis
    by (rule that) (simp_all add: at_key_def k)
qed


lemma recorded_after_insert:
  assumes "healthy d" and "insert_event e d = (Inr u, d')"
  shows "recorded b t l d' \<longleftrightarrow> recorded b t l d \<or>
    (b, t, l) = (e_block_number e, e_tx_index e, e_log_index e)"
proof -
  from assms obtain k h where ev: "t_events d' = (if recorded (e_block_number e) (e_tx_index e) (e_log_index e) d then t_events d
       else t_events d @ [\<lparr>v_id = t_event_seq d, v_block_number = uint (e_block_number e),
         v_tx_hash = Some h, v_tx_index = uint (e_tx_index e), v_log_index = uint (e_log_index e),
         v_event_name = e_event_name e, v_event_data = e_event_data e,
         v_removed = e_removed e, v_created_at = db_now d\<rparr>])"
    by (rule insert_event_healthy)
  show ?thesis
    using ev by (auto simp: recorded_def at_key_def word_uint_eq_iff split: if_splits)
qed

definition position :: "contract_event \<Rightarrow> uint64 \<times> uint64 \<times> uint64" where
  "position e = (e_block_number e, e_tx_index e, e_log_index e)"

text \<open>What the watcher relies on.\<close>

locale event_log =
  fixes record_op :: "contract_event \<Rightarrow> 's \<Rightarrow> unit result \<times> 's"
    and seen_op :: "uint64 \<Rightarrow> uint64 \<Rightarrow> uint64 \<Rightarrow> 's \<Rightarrow> bool result \<times> 's"
    and ready :: "'s \<Rightarrow> bool"
    and has :: "'s \<Rightarrow> uint64 \<times> uint64 \<times> uint64 \<Rightarrow> bool"
  assumes record_ready: "ready s \<Longrightarrow> record_op e s = (Inr u, s') \<Longrightarrow> ready s'"
    and record_has: "ready s \<Longrightarrow> record_op e s = (Inr u, s') \<Longrightarrow> has s' k \<longleftrightarrow> has s k \<or> k = position e"
    and seen_exact: "ready s \<Longrightarrow> seen_op b t l s = (Inr x, s') \<Longrightarrow> s' = s \<and> x = has s (b, t, l)"
begin

fun record_all :: "contract_event list \<Rightarrow> 's \<Rightarrow> unit result \<times> 's" where
  "record_all [] s = (Inr (), s)"
| "record_all (e # es) s =
     (case record_op e s of (Inl x, s') \<Rightarrow> (Inl x, s') | (Inr _, s') \<Rightarrow> record_all es s')"

lemma record_all_has:
  assumes "ready s" and "record_all es s = (Inr u, s')"
  shows "ready s' \<and> (has s' k \<longleftrightarrow> has s k \<or> k \<in> position ` set es)"
  using assms
proof (induction es arbitrary: s)
  case (Cons e es)
  from Cons.prems(2) obtain s1 where s1: "record_op e s = (Inr (), s1)" "record_all es s1 = (Inr u, s')"
    by (auto split: prod.splits sum.splits)
  from Cons.IH [OF record_ready [OF Cons.prems(1) s1(1)] s1(2)] record_has [OF Cons.prems(1) s1(1)]
  show ?case by auto
qed simp

lemma seen_after_record:
  assumes "ready s" and "record_op e s = (Inr u, s')"
    and "seen_op (e_block_number e) (e_tx_index e) (e_log_index e) s' = (Inr x, s'')"
  shows "x"
  using assms by (metis position_def record_has record_ready seen_exact)

end

interpretation log: event_log insert_event event_exists healthy "\<lambda>d (b, t, l). recorded b t l d"
proof unfold_locales
  fix d d' and e :: contract_event and u
  assume a: "healthy d" "insert_event e d = (Inr u, d')"
  then obtain ev where "d' = d\<lparr>t_events := ev, t_event_seq := t_event_seq d + 1\<rparr>"
    by (rule insert_event_healthy)
  with a(1) show "healthy d'" by (simp add: healthy_def)
  fix k
  show "(case k of (b, t, l) \<Rightarrow> recorded b t l d') \<longleftrightarrow>
      (case k of (b, t, l) \<Rightarrow> recorded b t l d) \<or> k = position e"
    using recorded_after_insert [OF a] by (cases k) (simp add: position_def)
next
  fix b t l d x d'
  assume a: "healthy d" "event_exists b t l d = (Inr x, d')"
  then have "event_exists_stmt b t l d = Inr (x, d')"
    by (auto simp: event_exists_def db_exec_healthy split: sum.splits prod.splits)
  then show "d' = d \<and> x = (case (b, t, l) of (b, t, l) \<Rightarrow> recorded b t l d)"
    by (auto simp: event_exists_stmt_def bind_result_Inr recorded_def dest!: event_key_Inr)
qed

text \<open>
  Recording an event is idempotent: once a block, transaction index and log index are recorded,
  recording an event at that position again succeeds without changing the log, whatever else the
  event says; and the position is known from then on.
\<close>

theorem insert_event_idempotent:
  assumes "healthy d" and "insert_event e d = (Inr (), d1)" and "insert_event e' d1 = (Inr (), d2)"
    and "position e' = position e"
  shows "t_events d2 = t_events d1 \<and>
    event_exists (e_block_number e) (e_tx_index e) (e_log_index e) d2 = (Inr True, d2)"
proof -
  have rec: "recorded (e_block_number e) (e_tx_index e) (e_log_index e) d1"
    using recorded_after_insert [OF assms(1,2)] by simp
  have h1: "healthy d1"
    using assms(1,2) by (rule log.record_ready)
  have pos: "e_block_number e' = e_block_number e" "e_tx_index e' = e_tx_index e" "e_log_index e' = e_log_index e"
    using assms(4) by (simp_all add: position_def)
  from h1 assms(3) obtain k where k: "event_key (e_block_number e) (e_tx_index e) (e_log_index e) = Inr k"
    and ev: "t_events d2 = t_events d1"
    by (rule insert_event_healthy) (simp add: pos rec)
  have "healthy d2"
    using h1 assms(3) by (rule log.record_ready)
  with k ev rec show ?thesis
    by (simp add: event_exists_healthy recorded_def)
qed

definition sample_event :: contract_event where
  "sample_event = \<lparr>e_id = 0, e_block_number = 7, e_tx_hash = ''0xab'', e_tx_index = 1, e_log_index = 2,
     e_event_name = EventOrderCancelled,
     e_event_data = marshal_order_cancelled \<lparr>c_maker = ''0x1A'', c_salt = ''1''\<rparr>, e_removed = False\<rparr>"

lemma sample_event_recorded:
  "\<exists>d. insert_event sample_event empty_db = (Inr (), d) \<and>
     (\<exists>d2. insert_event (sample_event\<lparr>e_removed := True\<rparr>) d = (Inr (), d2) \<and> length (t_events d) = 1)"
proof -
  have "hex_decode ''0xab'' = Inr (Some [171])"
    by code_simp
  moreover have "event_key 7 1 2 = Inr (7, 1, 2)"
    by (simp add: event_key_def bigint_param_def integer_param_def int4_ok_def)
  ultimately show ?thesis
    by (simp add: insert_event_def sample_event_def db_exec_def run_stmt_def insert_event_stmt_def
        empty_db_def at_key_def)
qed

theorem insert_event_idempotent_witness:
  "\<exists>d1 d2. insert_event sample_event empty_db = (Inr (), d1) \<and>
     insert_event (sample_event\<lparr>e_removed := True\<rparr>) d1 = (Inr (), d2) \<and>
     length (t_events d2) = 1 \<and> event_exists 7 1 2 d2 = (Inr True, d2)"
proof -
  from sample_event_recorded obtain d1 d2 where d1: "insert_event sample_event empty_db = (Inr (), d1)"
    and d2: "insert_event (sample_event\<lparr>e_removed := True\<rparr>) d1 = (Inr (), d2)" "length (t_events d1) = 1"
    by blast
  have "healthy empty_db" "position (sample_event\<lparr>e_removed := True\<rparr>) = position sample_event"
    by (simp_all add: healthy_def empty_db_def position_def)
  from insert_event_idempotent [OF this(1) d1 d2(1) this(2)] d1 d2 show ?thesis
    by (intro exI [of _ d1] exI [of _ d2]) (simp add: sample_event_def)
qed

subsection \<open>Activity of a user\<close>

lemma set_latest_first [simp]: "set (latest_first rows) = set rows"
  by (simp add: latest_first_def)

text \<open>
  \<open>GetUserActivity\<close> cannot return an event whose maker and taker are not written in lower case,
  for any address and any limit; the watcher writes them in checksum case, which mixes cases.
\<close>

theorem user_activity_needs_lower_case:
  assumes "healthy d" and "fst (get_user_activity addr limit d) = Inr es"
    and "\<forall>r \<in> set (t_events d). \<forall>n \<in> {''maker'', ''taker''}. \<forall>t. json_text n (v_event_data r) = Some t \<longrightarrow>
      to_lower t \<noteq> t"
  shows "es = []"
proof -
  have none: "filter (is_activity_of (to_lower addr)) (t_events d) = []"
    using assms(3) by (auto simp: filter_empty_conv is_activity_of_def)
  have "latest_first [] = []"
    by (simp add: latest_first_def)
  with none assms(1,2) show ?thesis
    by (auto simp: get_user_activity_def db_exec_healthy activity_stmt_def Let_def split: sum.splits)
qed

definition sale_db :: db where
  "sale_db = empty_db\<lparr>t_events := [\<lparr>v_id = 1, v_block_number = 7, v_tx_hash = Some [171],
     v_tx_index = 1, v_log_index = 2, v_event_name = ''OrderFulfilled'',
     v_event_data = JObj [(''maker'', JStr ''0x1A''), (''taker'', JStr ''0x2B'')],
     v_removed = False, v_created_at = 0\<rparr>]\<rparr>"

theorem user_activity_needs_lower_case_witness:
  "fst (get_user_activity ''0x1A'' 10 sale_db) = Inr [] \<and> length (t_events sale_db) = 1"
proof -
  have h: "healthy sale_db"
    by (simp add: healthy_def sale_db_def empty_db_def)
  have "hex_decode ''0x1A'' = Inr (Some [26])"
    by code_simp
  then have "\<exists>es. fst (get_user_activity ''0x1A'' 10 sale_db) = Inr es"
    using h by (simp add: get_user_activity_def db_exec_healthy activity_stmt_def)
  then obtain es where es: "fst (get_user_activity ''0x1A'' 10 sale_db) = Inr es"
    by blast
  have low: "to_lower ''0x1A'' \<noteq> ''0x1A''" "to_lower ''0x2B'' \<noteq> ''0x2B''"
    by code_simp+
  have "es = []"
    by (rule user_activity_needs_lower_case [OF h es])
      (use low in \<open>simp add: sale_db_def empty_db_def json_text_def\<close>)
  with es show ?thesis
    by (simp add: sale_db_def)
qed

subsection \<open>Integrity of the log\<close>

lemma events_ok_filter: "events_ok rows \<Longrightarrow> events_ok (filter P rows)"
  by (auto simp: events_ok_def intro: distinct_map_filter)

lemma events_ok_mark:
  assumes "events_ok rows"
  shows "events_ok (map (\<lambda>r. if at_key r k then r\<lparr>v_removed := True\<rparr> else r) rows)"
proof -
  have "map (\<lambda>r. (v_block_number r, v_tx_index r, v_log_index r))
      (map (\<lambda>r. if at_key r k then r\<lparr>v_removed := True\<rparr> else r) rows) =
    map (\<lambda>r. (v_block_number r, v_tx_index r, v_log_index r)) rows"
    by simp
  with assms show ?thesis
    unfolding events_ok_def by (simp only:) auto
qed

lemma db_exec_events:
  assumes "events_ok (t_events d)"
    and "\<And>d1 x d2. t_events d1 = t_events d \<Longrightarrow> st d1 = Inr (x, d2) \<Longrightarrow> events_ok (t_events d2)"
  shows "events_ok (t_events (snd (db_exec msg st d)))"
proof (rule run_stmt_cases [of st d])
  fix e d1 assume "run_stmt st d = (Inl e, d1)" "same_tables d d1"
  then show ?thesis
    using assms(1) by (cases d; cases d1) (auto simp: db_exec_def same_tables_def)
next
  fix x d1 d2 r assume "run_stmt st d = (r, d2)" "same_tables d d1" "st d1 = Inr (x, d2)"
  moreover from this(2) have "t_events d1 = t_events d"
    by (cases d; cases d1) (auto simp: same_tables_def)
  ultimately show ?thesis
    using assms(2) by (simp add: db_exec_def)
qed

lemma insert_event_events_ok [preserved]:
  assumes "events_ok (t_events d)"
  shows "events_ok (t_events (snd (insert_event e d)))"
proof (cases "wrap_err ''decode tx_hash'' (hex_decode (e_tx_hash e))")
  case (Inr h)
  have "events_ok (t_events (snd (db_exec ''insert event'' (insert_event_stmt e h) d)))"
  proof (rule db_exec_events [OF assms])
    fix d1 :: db and x d2
    assume same: "t_events d1 = t_events d" and st: "insert_event_stmt e h d1 = Inr (x, d2)"
    from st obtain k where k: "event_key (e_block_number e) (e_tx_index e) (e_log_index e) = Inr k"
      by (auto simp: insert_event_stmt_def bind_result_Inr)
    show "events_ok (t_events d2)"
      using st k event_key_Inr [OF k] assms same
      by (auto simp: insert_event_stmt_def events_ok_def at_key_def Let_def split: if_splits) blast
  qed
  with Inr show ?thesis by (simp add: insert_event_def)
qed (simp add: insert_event_def assms)

lemma mark_removed_events_ok [preserved]:
  "events_ok (t_events d) \<Longrightarrow> events_ok (t_events (snd (mark_removed b t l d)))"
  unfolding mark_removed_def
  by (rule db_exec_events) (auto simp: mark_removed_stmt_def bind_result_Inr intro: events_ok_mark)

lemma delete_events_events_ok [preserved]:
  "events_ok (t_events d) \<Longrightarrow> events_ok (t_events (snd (delete_events_above_block b d)))"
  unfolding delete_events_above_block_def
  by (rule db_exec_events) (auto simp: delete_events_stmt_def bind_result_Inr intro: events_ok_filter)

subsection \<open>The cursor\<close>

text \<open>
  The cursor is a register per chain: after a block was saved for a chain, that block is read back
  for it, and every other chain reads what it read before.
\<close>

theorem cursor_read_after_write:
  assumes "healthy d" and "update_last_synced_block chain b d = (Inr (), d')"
  shows "get_last_synced_block chain d' = (Inr b, d') \<and>
    (\<forall>c. c \<noteq> chain \<longrightarrow> fst (get_last_synced_block c d') = fst (get_last_synced_block c d))"
proof -
  from assms have st: "update_cursor_stmt chain b d = Inr ((), d')"
    by (auto simp: update_last_synced_block_def db_exec_healthy split: sum.splits prod.splits)
  then have b: "bigint_param b = Inr (uint b)"
    by (auto simp: update_cursor_stmt_def bind_result_Inr bigint_param_def split: if_splits)
  have h': "healthy d'"
    using st assms(1) by (auto simp: update_cursor_stmt_def bind_result_Inr healthy_def split: if_splits)
  have rows: "map s_last_synced_block (filter (\<lambda>r. s_chain_id r = c) (map (\<lambda>r. if s_chain_id r = chain
      then r\<lparr>s_last_synced_block := uint b, s_updated_at := t\<rparr> else r) rs)) =
    (if c = chain then map (\<lambda>_. uint b) (filter (\<lambda>r. s_chain_id r = c) rs)
     else map s_last_synced_block (filter (\<lambda>r. s_chain_id r = c) rs))" for c t and rs :: "cursor_row list"
    by (induction rs) auto
  have tc: "t_cursor d' = (if \<exists>r \<in> set (t_cursor d). s_chain_id r = chain
      then map (\<lambda>r. if s_chain_id r = chain
        then r\<lparr>s_last_synced_block := uint b, s_updated_at := db_now d\<rparr> else r) (t_cursor d)
      else t_cursor d @ [\<lparr>s_chain_id = chain, s_last_synced_block = uint b, s_updated_at = db_now d\<rparr>])"
    using st b by (auto simp: update_cursor_stmt_def split: if_splits)
  have own: "\<exists>xs. map s_last_synced_block (filter (\<lambda>r. s_chain_id r = chain) (t_cursor d')) = uint b # xs"
  proof (cases "\<exists>r \<in> set (t_cursor d). s_chain_id r = chain")
    case True
    then have "filter (\<lambda>r. s_chain_id r = chain) (t_cursor d) \<noteq> []"
      by (auto simp: filter_empty_conv)
    with True show ?thesis
      by (cases "filter (\<lambda>r. s_chain_id r = chain) (t_cursor d)") (simp_all add: tc rows)
  next
    case False
    then have "filter (\<lambda>r. s_chain_id r = chain) (t_cursor d) = []"
      by (auto simp: filter_empty_conv)
    with False show ?thesis
      by (simp add: tc)
  qed
  have other: "c \<noteq> chain \<Longrightarrow> map s_last_synced_block (filter (\<lambda>r. s_chain_id r = c) (t_cursor d')) =
      map s_last_synced_block (filter (\<lambda>r. s_chain_id r = c) (t_cursor d))" for c
    by (simp add: tc rows)
  from own h' have "get_last_synced_block chain d' = (Inr b, d')"
    by (auto simp: get_last_synced_block_def db_exec_healthy cursor_stmt_def)
  moreover have "fst (get_last_synced_block c d') = fst (get_last_synced_block c d)" if "c \<noteq> chain" for c
    using other [OF that] h' assms(1)
    by (simp add: get_last_synced_block_def db_exec_healthy cursor_stmt_def split: list.splits)
  ultimately show ?thesis by blast
qed

theorem cursor_read_after_write_witness:
  "\<exists>d. update_last_synced_block 31337 9 empty_db = (Inr (), d) \<and>
     get_last_synced_block 31337 d = (Inr 9, d)"
proof -
  have "update_cursor_stmt 31337 9 empty_db = Inr ((), empty_db\<lparr>t_cursor :=
      [\<lparr>s_chain_id = 31337, s_last_synced_block = 9, s_updated_at = 0\<rparr>]\<rparr>)"
    by (simp add: update_cursor_stmt_def bigint_param_def int4_ok_def empty_db_def)
  moreover have h: "healthy empty_db"
    by (simp add: healthy_def empty_db_def)
  ultimately have "\<exists>d. update_last_synced_block 31337 9 empty_db = (Inr (), d)"
    by (simp add: update_last_synced_block_def db_exec_healthy)
  then obtain d where "update_last_synced_block 31337 9 empty_db = (Inr (), d)"
    by blast
  with cursor_read_after_write [OF h this] show ?thesis by blast
qed

end
