(* ===== verification/StoreRuns.thy ===== *)
theory StoreRuns
  imports EventService EventRepo
begin

section \<open>Every part of the server as a run of the repositories\<close>

text \<open>
  The parts of the server share one database.  A step of it is a write of the order repository (\<open>repo_step\<close>) or a change
  elsewhere that keeps the event log in order.  Here the operations of the event log and the handlers of the event
  service are shown to be runs of such steps; the watcher, the HTTP server and the background services follow in their
  theories.  What \<open>repo_step\<close> guarantees then holds of the whole server.
\<close>

inductive store_step :: "int \<Rightarrow> db \<Rightarrow> db \<Rightarrow> bool" for chain where
  book: "repo_step chain d d' \<Longrightarrow> store_step chain d d'"
| other: "t_orders d' = t_orders d \<Longrightarrow> t_order_seq d' = t_order_seq d \<Longrightarrow> db_now d' = db_now d \<Longrightarrow>
    (events_ok (t_events d) \<Longrightarrow> events_ok (t_events d')) \<Longrightarrow> store_step chain d d'"

abbreviation store_run :: "int \<Rightarrow> db \<Rightarrow> db \<Rightarrow> bool" where
  "store_run chain \<equiv> (store_step chain)\<^sup>*\<^sup>*"

subsection \<open>What a run keeps\<close>

definition db_ok :: "db \<Rightarrow> bool" where
  "db_ok d \<longleftrightarrow> repo_inv d \<and> events_ok (t_events d)"

lemma db_ok_empty: "db_ok empty_db"
  by (simp add: db_ok_def repo_inv_empty) (simp add: events_ok_def empty_db_def)

lemma same_but_orders_events: "same_but_orders d d' \<Longrightarrow> t_events d' = t_events d"
  unfolding same_but_orders_def by (drule arg_cong [where f = t_events]) simp

lemma insert_order_events: "t_events (snd (insert_order chain od d)) = t_events d"
  by (cases rule: insert_order_cases [of chain od d]) (simp_all add: same_but_orders_events)

lemma closes_events: "closes_orders st d d' \<Longrightarrow> t_events d' = t_events d"
  by (simp add: closes_orders_def same_but_orders_events)

lemma repo_step_events: "repo_step chain d d' \<Longrightarrow> t_events d' = t_events d"
  by (induction rule: repo_step.induct)
    (simp_all add: insert_order_events closes_events [OF upd.closes] closes_events [OF by_salt.closes]
      closes_events [OF by_counter.closes] closes_events [OF by_collection.closes]
      closes_events [OF expiry.closes])

lemma store_step_ok: "store_step chain d d' \<Longrightarrow> db_ok d \<Longrightarrow> db_ok d'"
  by (induction rule: store_step.induct) (auto simp: db_ok_def repo_step_events repo_inv_def dest: repo_step_inv)

lemma store_run_ok: "store_run chain d d' \<Longrightarrow> db_ok d \<Longrightarrow> db_ok d'"
  by (induction rule: rtranclp_induct) (auto intro: store_step_ok)

lemma store_run_closed:
  "store_run chain d d' \<Longrightarrow> r \<in> set (t_orders d) \<Longrightarrow> r_status r \<noteq> Active \<Longrightarrow> r \<in> set (t_orders d')"
proof (induction rule: rtranclp_induct)
  case (step y z)
  then show ?case
    by (cases rule: store_step.cases [OF step.hyps(2)]) (auto dest: repo_step_closed)
qed

lemma unique_by_hash_distinct: "unique_by same_hash rows \<Longrightarrow> distinct (map r_order_hash rows)"
  by (induction rows) (auto simp: unique_by_def same_hash_def)

lemma db_ok_distinct:
  assumes "db_ok d"
  shows "distinct (map (\<lambda>r. (v_block_number r, v_tx_index r, v_log_index r)) (t_events d))"
    and "distinct (map r_order_hash (t_orders d))"
  using assms by (simp_all add: db_ok_def repo_inv_def orders_ok_def events_ok_def unique_by_hash_distinct)

subsection \<open>Operations that are runs\<close>

text \<open>An operation that makes a run of the database, whatever it answers.\<close>

definition stores :: "int \<Rightarrow> (db \<Rightarrow> 'a \<times> db) \<Rightarrow> bool" where
  "stores chain f \<longleftrightarrow> (\<forall>d. store_run chain d (snd (f d)))"

lemma storesD: "stores chain f \<Longrightarrow> f d = (x, d') \<Longrightarrow> store_run chain d d'"
  by (metis snd_conv stores_def)

lemma storesI: "(\<And>d x d'. f d = (x, d') \<Longrightarrow> store_run chain d d') \<Longrightarrow> stores chain f"
  unfolding stores_def by (metis prod.collapse)

lemma stores_step: "(\<And>d. store_step chain d (snd (f d))) \<Longrightarrow> stores chain f"
  by (simp add: stores_def r_into_rtranclp)

lemma same_tables_step: "same_tables d d' \<Longrightarrow> store_step chain d d'"
  by (erule same_tablesE) (auto intro: store_step.other)

lemma stores_db_exec:
  assumes "\<And>d x d'. st d = Inr (x, d') \<Longrightarrow> store_step chain d d'"
  shows "stores chain (db_exec msg st)"
proof (rule storesI)
  fix d y d'
  assume run: "db_exec msg st d = (y, d')"
  show "store_run chain d d'"
  proof (rule run_stmt_cases [of st d])
    fix e d1 assume "run_stmt st d = (Inl e, d1)" "same_tables d d1"
    with run show ?thesis
      by (auto simp: db_exec_def intro: same_tables_step)
  next
    fix x d1 d2 r assume "run_stmt st d = (r, d2)" "same_tables d d1" "st d1 = Inr (x, d2)"
    moreover from this assms have "store_step chain d1 d2" by blast
    ultimately show ?thesis
      using run by (auto simp: db_exec_def intro: rtranclp_trans [OF r_into_rtranclp r_into_rtranclp] same_tables_step)
  qed
qed

lemma stores_book:
  "stores chain (insert_order chain od)" "stores chain (update_status h st)"
  "stores chain (cancel_by_maker_salt m x)" "stores chain (cancel_by_maker_counter m x)"
  "stores chain (cancel_by_collection c)" "stores chain expire_orders"
  by (rule stores_step, rule store_step.book, rule repo_step.intros)+

lemma stores_read:
  assumes "stores chain g" and "\<And>d. snd (f d) = d \<or> snd (f d) = snd (g d)"
  shows "stores chain f"
  using assms unfolding stores_def by (metis rtranclp.rtrancl_refl)

lemma stores_reads:
  "stores chain (find_by_hash h)" "stores chain (get_maker_active_collections m)"
  "stores chain (get_last_synced_block c)"
proof -
  have "stores chain (db_exec msg (select_stmt P))" for msg P
    by (rule stores_db_exec) (auto simp: select_stmt_def intro: store_step.other)
  then show "stores chain (find_by_hash h)"
    unfolding find_by_hash_def by (intro storesI)
      (auto split: sum.splits prod.splits list.splits dest: storesD)
  have "stores chain (db_exec msg (maker_collections_stmt b))" for msg b
    by (rule stores_db_exec) (auto simp: maker_collections_stmt_def intro: store_step.other)
  then show "stores chain (get_maker_active_collections m)"
    unfolding get_maker_active_collections_def by (intro storesI)
      (auto split: sum.splits prod.splits dest: storesD)
  have "stores chain (db_exec msg (cursor_stmt c))" for msg
    by (rule stores_db_exec) (auto simp: cursor_stmt_def intro: store_step.other)
  then show "stores chain (get_last_synced_block c)"
    unfolding get_last_synced_block_def by (intro storesI)
      (auto split: sum.splits prod.splits list.splits if_splits dest: storesD)
qed

lemma insert_event_stmt_events_ok:
  assumes "events_ok (t_events d)" and "insert_event_stmt e h d = Inr (x, d')"
  shows "events_ok (t_events d')"
proof -
  from assms(2) obtain k where k: "event_key (e_block_number e) (e_tx_index e) (e_log_index e) = Inr k"
    by (auto simp: insert_event_stmt_def bind_result_Inr)
  show ?thesis
    using assms(2) k event_key_Inr [OF k] assms(1)
    by (auto simp: insert_event_stmt_def events_ok_def at_key_def Let_def split: if_splits) blast
qed

lemma stores_events:
  "stores chain (insert_event e)" "stores chain (event_exists b t l)" "stores chain (mark_removed b t l)"
  "stores chain (delete_events_above_block b)" "stores chain (update_last_synced_block c b)"
proof -
  have "stores chain (db_exec msg (insert_event_stmt e h))" for msg h
    by (rule stores_db_exec, rule store_step.other,
        (auto simp: insert_event_stmt_def bind_result_Inr Let_def split: if_splits) [3], rule insert_event_stmt_events_ok)
  then show "stores chain (insert_event e)"
    by (intro storesI) (auto simp: insert_event_def split: sum.splits dest: storesD)
  show "stores chain (event_exists b t l)"
    unfolding event_exists_def
    by (rule stores_db_exec, rule store_step.other) (auto simp: event_exists_stmt_def bind_result_Inr)
  show "stores chain (mark_removed b t l)"
    unfolding mark_removed_def
    by (rule stores_db_exec, rule store_step.other)
      (auto simp: mark_removed_stmt_def bind_result_Inr intro: events_ok_mark)
  show "stores chain (delete_events_above_block b)"
    unfolding delete_events_above_block_def
    by (rule stores_db_exec, rule store_step.other)
      (auto simp: delete_events_stmt_def bind_result_Inr intro: events_ok_filter)
  show "stores chain (update_last_synced_block c b)"
    unfolding update_last_synced_block_def
    by (rule stores_db_exec, rule store_step.other)
      (auto simp: update_cursor_stmt_def bind_result_Inr split: if_splits)
qed

subsection \<open>The event service\<close>

lemma on_db_run: "stores chain f \<Longrightarrow> on_db f s = (x, s') \<Longrightarrow> store_run chain (sy_db s) (sy_db s')"
  by (auto simp: on_db_simps stores_def)

lemma notified_db: "map_option g (send_message es c t p s) = Some (r, s') \<Longrightarrow>
    (\<And>x. g x = (Inr (), x)) \<Longrightarrow> sy_db s' = sy_db s"
  by (cases "send_message es c t p s") (auto dest: send_message_db)

lemma fulfilled_run:
  assumes "handle_order_fulfilled es e s = Some (r, s')"
  shows "store_run chain (sy_db s) (sy_db s')"
proof (cases "unmarshal_order_fulfilled (e_event_data e)")
  case (Inl x)
  with assms show ?thesis by (simp add: handle_order_fulfilled_def)
next
  case (Inr data)
  obtain x s1 where u: "on_db (update_status (d_order_hash data) Filled) s = (x, s1)"
    by fastforce
  obtain y s2 where f: "on_db (find_by_hash (d_order_hash data)) s1 = (y, s2)"
    by fastforce
  note run1 = on_db_run [OF stores_book(2) u]
  note run2 = rtranclp_trans [OF run1 on_db_run [OF stores_reads(1) f]]
  have "sy_db s' = sy_db s1 \<or> sy_db s' = sy_db s2"
    using assms Inr u f
    by (cases x; cases y) (auto simp: handle_order_fulfilled_def split: option.splits dest!: notified_db)
  with run1 run2 show ?thesis by metis
qed

lemma listed_run:
  assumes "listed_collections m s = (cs, s1)"
  shows "store_run chain (sy_db s) (sy_db s1)"
proof -
  obtain y s2 where f: "on_db (get_maker_active_collections m) s = (y, s2)"
    by fastforce
  then have "s1 = s2"
    using assms by (cases y) (auto simp: listed_collections_def)
  with on_db_run [OF stores_reads(2) f] show ?thesis by simp
qed

lemma cancelled_run:
  assumes "handle_order_cancelled es e s = Some (r, s')"
  shows "store_run chain (sy_db s) (sy_db s')"
proof (cases "unmarshal_order_cancelled (e_event_data e)")
  case (Inl x)
  with assms show ?thesis by (simp add: handle_order_cancelled_def)
next
  case (Inr data)
  obtain cs s1 where l: "listed_collections (c_maker data) s = (cs, s1)"
    by fastforce
  obtain x s2 where u: "on_db (cancel_by_maker_salt (c_maker data) (fst (big_set_string (c_salt data)))) s1 = (x, s2)"
    by fastforce
  have "sy_db s' = sy_db s2"
    using assms Inr l u
    by (cases x) (auto simp: handle_order_cancelled_def dest: notify_cancelled_db)
  with rtranclp_trans [OF listed_run [OF l] on_db_run [OF stores_book(3) u]] show ?thesis by simp
qed

lemma counter_run:
  assumes "handle_counter_incremented es e s = Some (r, s')"
  shows "store_run chain (sy_db s) (sy_db s')"
proof (cases "unmarshal_counter_incremented (e_event_data e)")
  case (Inl x)
  with assms show ?thesis by (simp add: handle_counter_incremented_def)
next
  case (Inr data)
  obtain cs s1 where l: "listed_collections (i_maker data) s = (cs, s1)"
    by fastforce
  obtain x s2 where u: "on_db (cancel_by_maker_counter (i_maker data) (fst (big_set_string (i_counter data)))) s1 = (x, s2)"
    by fastforce
  have "sy_db s' = sy_db s2"
    using assms Inr l u
    by (cases x) (auto simp: handle_counter_incremented_def dest!: notified_db)
  with rtranclp_trans [OF listed_run [OF l] on_db_run [OF stores_book(4) u]] show ?thesis by simp
qed

lemma collection_run:
  assumes "handle_collection_updated es e s = Some (r, s')"
  shows "store_run chain (sy_db s) (sy_db s')"
proof (cases "unmarshal_collection_updated (e_event_data e)")
  case (Inl x)
  with assms show ?thesis by (simp add: handle_collection_updated_def)
next
  case (Inr cb)
  obtain c b where cb: "cb = (c, b)" by fastforce
  obtain x s1 where u: "on_db (cancel_by_collection c) s = (x, s1)"
    by fastforce
  have "sy_db s' = sy_db s \<or> sy_db s' = sy_db s1"
    using assms Inr cb u
    by (cases x; cases b) (auto simp: handle_collection_updated_def dest!: notified_db)
  with on_db_run [OF stores_book(5) u] show ?thesis by (metis rtranclp.rtrancl_refl)
qed

lemma handle_run: "handle es e s = Some (r, s') \<Longrightarrow> store_run chain (sy_db s) (sy_db s')"
  using fulfilled_run cancelled_run counter_run collection_run
  unfolding handle_def by (metis option.inject prod.inject rtranclp.rtrancl_refl)

end
