(* ===== verification/Watcher.thy ===== *)
theory Watcher
  imports StoreRuns
begin

section \<open>internal/watcher/watcher.go\<close>

text \<open>
  The watcher: parsing of contract logs, the handling of one log with its confirmation wait and its
  reorganisation branch, the polling loop and the cursor.  A result \<open>None\<close> is a Go panic in the
  handling goroutine, which ends the process.  The answers of the node are a list that the
  definitions consume; its end is the cancellation of the context.
\<close>

subsection \<open>Logs\<close>

record eth_log =
  lg_block :: uint64
  lg_tx_hash :: bytes
  lg_tx_index :: uint64
  lg_index :: uint64
  lg_topics :: "bytes list"
  lg_data :: bytes
  lg_removed :: bool

text \<open>The functions of go-ethereum used here: \<open>Keccak256Hash(..).Hex\<close>, \<open>Hash.Hex\<close> and \<open>BytesToAddress(..).Hex\<close>.\<close>

record log_lib =
  keccak_hex :: "string \<Rightarrow> string"
  hash_hex :: "bytes \<Rightarrow> string"
  bytes_address :: "bytes \<Rightarrow> string"

definition topic_order_fulfilled :: "log_lib \<Rightarrow> string" where
  "topic_order_fulfilled lib = keccak_hex lib ''OrderFulfilled(bytes32,uint256,address,address,address,address,uint8,uint8,address,uint256,uint256,address,uint128,uint256,uint256)''"

definition topic_order_cancelled :: "log_lib \<Rightarrow> string" where
  "topic_order_cancelled lib = keccak_hex lib ''OrderCancelled(address,uint256)''"

definition topic_counter_incremented :: "log_lib \<Rightarrow> string" where
  "topic_counter_incremented lib = keccak_hex lib ''CounterIncremented(address,uint256)''"

definition topic_collection_updated :: "log_lib \<Rightarrow> string" where
  "topic_collection_updated lib = keccak_hex lib ''CollectionUpdated(address,bool,bool)''"

text \<open>\<open>xs[i]\<close> panics out of range; a slice \<open>data[i:j]\<close> of a long enough slice.\<close>

definition index :: "'a list \<Rightarrow> nat \<Rightarrow> 'a option" where
  "index xs i = (if i < length xs then Some (xs ! i) else None)"

definition bytes_between :: "bytes \<Rightarrow> nat \<Rightarrow> nat \<Rightarrow> bytes" where
  "bytes_between b i j = take (j - i) (drop i b)"

definition big_string :: "bytes \<Rightarrow> string" where
  "big_string b = dec_of_int (int (be_nat b))"

definition parse_order_fulfilled :: "log_lib \<Rightarrow> eth_log \<Rightarrow> order_fulfilled_data option" where
  "parse_order_fulfilled lib l =
     (case index (lg_topics l) 1 of None \<Rightarrow> None | Some t1 \<Rightarrow>
      (case index (lg_topics l) 3 of None \<Rightarrow> None | Some t3 \<Rightarrow>
       (let data = lg_data l; long = length data \<ge> 384;
            addr = (\<lambda>i j. if long then bytes_address lib (bytes_between data i j) else []);
            num = (\<lambda>i j. if long then big_string (bytes_between data i j) else [])
        in Some \<lparr>d_order_hash = hash_hex lib t1, d_maker = bytes_address lib t3,
             d_taker = addr 0 32, d_seller = addr 32 64, d_buyer = addr 64 96,
             d_collection = addr 160 192, d_token_id = num 192 224, d_amount = num 224 256,
             d_payment_token = addr 256 288, d_price = num 288 320,
             d_protocol_fee = num 320 352, d_royalty_fee = num 352 384\<rparr>)))"

definition parse_order_cancelled :: "log_lib \<Rightarrow> eth_log \<Rightarrow> order_cancelled_data option" where
  "parse_order_cancelled lib l =
     (case index (lg_topics l) 1 of None \<Rightarrow> None | Some t1 \<Rightarrow>
      (case index (lg_topics l) 2 of None \<Rightarrow> None | Some t2 \<Rightarrow>
        Some \<lparr>c_maker = bytes_address lib t1, c_salt = big_string t2\<rparr>))"

definition parse_counter_incremented :: "log_lib \<Rightarrow> eth_log \<Rightarrow> counter_incremented_data option" where
  "parse_counter_incremented lib l =
     (case index (lg_topics l) 1 of None \<Rightarrow> None | Some t1 \<Rightarrow>
        Some \<lparr>i_maker = bytes_address lib t1,
          i_counter = (if length (lg_data l) \<ge> 32 then big_string (bytes_between (lg_data l) 0 32) else [])\<rparr>)"

definition parse_collection_updated :: "log_lib \<Rightarrow> eth_log \<Rightarrow> collection_updated_data option" where
  "parse_collection_updated lib l =
     (case index (lg_topics l) 1 of None \<Rightarrow> None | Some t1 \<Rightarrow>
        Some \<lparr>u_collection = bytes_address lib t1,
          u_allowed = (length (lg_data l) \<ge> 64 \<and> be_nat (bytes_between (lg_data l) 0 32) = 1),
          u_blocked = (length (lg_data l) \<ge> 64 \<and> be_nat (bytes_between (lg_data l) 32 64) = 1)\<rparr>)"

text \<open>The name and the data of the event; \<open>Some None\<close> for a log of another kind.\<close>

definition parse_data :: "log_lib \<Rightarrow> eth_log \<Rightarrow> (string \<times> json) option option" where
  "parse_data lib l =
     (case lg_topics l of [] \<Rightarrow> Some None | t0 # _ \<Rightarrow>
       (let topic0 = to_lower (hash_hex lib t0) in
        if topic0 = to_lower (topic_order_fulfilled lib)
        then map_option (\<lambda>d. Some (EventOrderFulfilled, marshal_order_fulfilled d)) (parse_order_fulfilled lib l)
        else if topic0 = to_lower (topic_order_cancelled lib)
        then map_option (\<lambda>d. Some (EventOrderCancelled, marshal_order_cancelled d)) (parse_order_cancelled lib l)
        else if topic0 = to_lower (topic_counter_incremented lib)
        then map_option (\<lambda>d. Some (EventCounterIncremented, marshal_counter_incremented d)) (parse_counter_incremented lib l)
        else if topic0 = to_lower (topic_collection_updated lib)
        then map_option (\<lambda>d. Some (EventCollectionUpdated, marshal_collection_updated d)) (parse_collection_updated lib l)
        else Some None))"

definition parse_event :: "log_lib \<Rightarrow> eth_log \<Rightarrow> contract_event option option" where
  "parse_event lib l = map_option (map_option (\<lambda>(name, data).
     \<lparr>e_id = 0, e_block_number = lg_block l, e_tx_hash = hash_hex lib (lg_tx_hash l),
      e_tx_index = lg_tx_index l, e_log_index = lg_index l, e_event_name = name,
      e_event_data = data, e_removed = lg_removed l\<rparr>)) (parse_data lib l)"

subsection \<open>The watcher\<close>

text \<open>The configuration, and the state: the system, the cursor, and the block numbers the node will answer.\<close>

record 'r watcher =
  wc_lib :: log_lib
  wc_services :: "'r services"
  wc_chain :: int
  wc_confirmations :: uint64
  wc_logs :: "uint64 \<Rightarrow> uint64 \<Rightarrow> eth_log list result"

record 'r watch_state =
  wt_system :: "'r system"
  wt_cursor :: uint64
  wt_answers :: "uint64 result list"

definition context_canceled :: go_error where
  "context_canceled = ErrText ''context canceled''"

text \<open>\<open>rpc.BlockNumber\<close>.\<close>

definition block_number :: "'r watch_state \<Rightarrow> uint64 result \<times> 'r watch_state" where
  "block_number s = (case wt_answers s of
      [] \<Rightarrow> (Inl context_canceled, s)
    | a # as \<Rightarrow> (a, s\<lparr>wt_answers := as\<rparr>))"

fun wait_answers :: "uint64 \<Rightarrow> uint64 result list \<Rightarrow> unit result \<times> uint64 result list" where
  "wait_answers target [] = (Inl (ErrWrap ''get block number'' context_canceled), [])"
| "wait_answers target (Inl e # as) = (Inl (ErrWrap ''get block number'' e), as)"
| "wait_answers target (Inr latest # as) =
     (if latest \<ge> target then (Inr (), as)
      else if as = [] then (Inl context_canceled, [])
      else wait_answers target as)"

definition wait_confirmations :: "'r watcher \<Rightarrow> uint64 \<Rightarrow> 'r watch_state \<Rightarrow> unit result \<times> 'r watch_state" where
  "wait_confirmations w block s =
     (case wait_answers (block + wc_confirmations w) (wt_answers s) of
        (r, as) \<Rightarrow> (r, s\<lparr>wt_answers := as\<rparr>))"

definition watch_db :: "(db \<Rightarrow> 'a \<times> db) \<Rightarrow> 'r watch_state \<Rightarrow> 'a \<times> 'r watch_state" where
  "watch_db f s = (case on_db f (wt_system s) of (x, sys) \<Rightarrow> (x, s\<lparr>wt_system := sys\<rparr>))"

definition reorg_block :: "uint64 \<Rightarrow> uint64" where
  "reorg_block b = (if b > 12 then b - 12 else 0)"

definition handle_removed :: "eth_log \<Rightarrow> 'r watch_state \<Rightarrow> 'r watch_state" where
  "handle_removed l s =
     (let s1 = snd (watch_db (mark_removed (lg_block l) (lg_tx_index l) (lg_index l)) s);
          b = reorg_block (lg_block l);
          s2 = s1\<lparr>wt_cursor := b\<rparr>
      in snd (watch_db (delete_events_above_block b) s2))"

definition handle_new :: "'r watcher \<Rightarrow> eth_log \<Rightarrow> contract_event \<Rightarrow> 'r watch_state \<Rightarrow> 'r watch_state option" where
  "handle_new w l e s =
     (case watch_db (insert_event e) s of
        (Inl _, s1) \<Rightarrow> Some s1
      | (Inr _, s1) \<Rightarrow>
          (case handle (wc_services w) e (wt_system s1) of
             None \<Rightarrow> None
           | Some (_, sys) \<Rightarrow>
               Some (s1\<lparr>wt_system := sys,
                  wt_cursor := (if lg_block l > wt_cursor s1 then lg_block l else wt_cursor s1)\<rparr>)))"

definition handle_log :: "'r watcher \<Rightarrow> eth_log \<Rightarrow> 'r watch_state \<Rightarrow> 'r watch_state option" where
  "handle_log w l s =
     (case parse_event (wc_lib w) l of
        None \<Rightarrow> None
      | Some None \<Rightarrow> Some s
      | Some (Some e) \<Rightarrow>
          (case watch_db (event_exists (lg_block l) (lg_tx_index l) (lg_index l)) s of
             (Inl _, s1) \<Rightarrow> Some s1
           | (Inr True, s1) \<Rightarrow> Some s1
           | (Inr False, s1) \<Rightarrow>
               (case wait_confirmations w (lg_block l) s1 of
                  (Inl _, s2) \<Rightarrow> Some s2
                | (Inr _, s2) \<Rightarrow>
                    if lg_removed l then Some (handle_removed l s2) else handle_new w l e s2)))"

fun handle_logs :: "'r watcher \<Rightarrow> eth_log list \<Rightarrow> 'r watch_state \<Rightarrow> 'r watch_state option" where
  "handle_logs w [] s = Some s"
| "handle_logs w (l # ls) s =
     (case handle_log w l s of None \<Rightarrow> None | Some s' \<Rightarrow> handle_logs w ls s')"

subsection \<open>The loops\<close>

definition next_block :: "'r watch_state \<Rightarrow> uint64" where
  "next_block s = wt_cursor s + 1"

definition poll :: "'r watcher \<Rightarrow> 'r watch_state \<Rightarrow> (unit result \<times> 'r watch_state) option" where
  "poll w s =
     (case block_number s of
        (Inl e, s1) \<Rightarrow> Some (Inl (ErrWrap ''get block number'' e), s1)
      | (Inr latest, s1) \<Rightarrow>
          (let fromBlock = next_block s1 in
           if fromBlock + wc_confirmations w > latest then Some (Inr (), s1)
           else
             let toBlock = latest - wc_confirmations w in
             (case wc_logs w fromBlock toBlock of
                Inl e \<Rightarrow> Some (Inl (ErrWrap ''filter logs'' e), s1)
              | Inr logs \<Rightarrow>
                  map_option (\<lambda>s2. (Inr (), if toBlock > wt_cursor s2 then s2\<lparr>wt_cursor := toBlock\<rparr> else s2))
                    (handle_logs w logs s1))))"

text \<open>\<open>pollLoop\<close> polls when nothing arrived for 60 seconds.\<close>

definition poll_due :: "instant \<Rightarrow> instant \<Rightarrow> bool" where
  "poll_due now lastActivity \<longleftrightarrow> now - lastActivity > 60 * second"

text \<open>\<open>processLoop\<close> saves the cursor.\<close>

definition save_cursor :: "'r watcher \<Rightarrow> 'r watch_state \<Rightarrow> 'r watch_state" where
  "save_cursor w s = snd (watch_db (update_last_synced_block (wc_chain w) (wt_cursor s)) s)"

text \<open>\<open>Run\<close>: where to start.\<close>

definition initial_cursor :: "'r watcher \<Rightarrow> 'r watch_state \<Rightarrow> 'r watch_state" where
  "initial_cursor w s =
     (case watch_db (get_last_synced_block (wc_chain w)) s of (r, s1) \<Rightarrow>
       (let cursor = (case r of Inl _ \<Rightarrow> 0 | Inr b \<Rightarrow> b) in
        if cursor = 0
        then (case block_number s1 of (a, s2) \<Rightarrow>
               (let latest = (case a of Inl _ \<Rightarrow> 0 | Inr b \<Rightarrow> b)
                in s2\<lparr>wt_cursor := (if latest > 100 then latest - 100 else 0)\<rparr>))
        else s1\<lparr>wt_cursor := cursor\<rparr>))"

text \<open>The handler slots of \<open>subscribeLoop\<close>.\<close>

definition handler_slots :: nat where
  "handler_slots = 64"

subsection \<open>Parsing\<close>

text \<open>How many topics the parser of a log reads, by its first topic.\<close>

definition topics_needed :: "log_lib \<Rightarrow> bytes \<Rightarrow> nat" where
  "topics_needed lib t0 =
     (let k = to_lower (hash_hex lib t0) in
      if k = to_lower (topic_order_fulfilled lib) then 4
      else if k = to_lower (topic_order_cancelled lib) then 3
      else if k = to_lower (topic_counter_incremented lib) then 2
      else if k = to_lower (topic_collection_updated lib) then 2
      else 0)"

lemma index_None: "index xs i = None \<longleftrightarrow> length xs \<le> i"
  by (simp add: index_def)

lemma parse_None:
  "parse_order_fulfilled lib l = None \<longleftrightarrow> length (lg_topics l) < 4"
  "parse_order_cancelled lib l = None \<longleftrightarrow> length (lg_topics l) < 3"
  "parse_counter_incremented lib l = None \<longleftrightarrow> length (lg_topics l) < 2"
  "parse_collection_updated lib l = None \<longleftrightarrow> length (lg_topics l) < 2"
  by (auto simp: parse_order_fulfilled_def parse_order_cancelled_def parse_counter_incremented_def
      parse_collection_updated_def index_def Let_def split: option.splits if_splits)

text \<open>
  The parser crashes the process exactly on a log of a known kind with fewer topics than the kind
  has indexed fields; it never looks at the count itself.
\<close>

theorem parse_crashes_iff:
  "parse_event lib l = None \<longleftrightarrow>
     lg_topics l \<noteq> [] \<and> length (lg_topics l) < topics_needed lib (hd (lg_topics l))"
  by (cases "lg_topics l")
    (simp_all add: parse_event_def parse_data_def topics_needed_def parse_None Let_def)

text \<open>An event that the service can read.\<close>

definition readable :: "contract_event \<Rightarrow> bool" where
  "readable e \<longleftrightarrow>
     e_event_name e = EventOrderFulfilled \<and> (\<exists>d. unmarshal_order_fulfilled (e_event_data e) = Inr d) \<or>
     e_event_name e = EventOrderCancelled \<and> (\<exists>d. unmarshal_order_cancelled (e_event_data e) = Inr d) \<or>
     e_event_name e = EventCounterIncremented \<and> (\<exists>d. unmarshal_counter_incremented (e_event_data e) = Inr d) \<or>
     e_event_name e = EventCollectionUpdated \<and> (\<exists>d. unmarshal_collection_updated (e_event_data e) = Inr d)"

text \<open>
  What the watcher writes the service can read: every event parsed from a log has the position of
  the log and data of its kind's format, so handling it never fails to unmarshal.
\<close>

theorem parsed_event_readable:
  assumes "parse_event lib l = Some (Some e)"
  shows "readable e \<and> position e = (lg_block l, lg_tx_index l, lg_index l) \<and> e_removed e = lg_removed l"
  using assms by (cases "lg_topics l")
    (auto simp: parse_event_def parse_data_def readable_def position_def Let_def split: if_splits)

text \<open>A library and the log of a cancellation, for the concrete instances.\<close>

definition toy_lib :: log_lib where
  "toy_lib = \<lparr>keccak_hex = (\<lambda>s. if take 8 s = ''OrderFul'' then ''0x01'' else if take 8 s = ''OrderCan'' then ''0x02''
       else if take 8 s = ''CounterI'' then ''0x03'' else ''0x04''),
     hash_hex = (\<lambda>b. ''0x'' @ hex_encode_to_string b), bytes_address = (\<lambda>b. ''0x'' @ hex_encode_to_string b)\<rparr>"

definition cancel_log :: eth_log where
  "cancel_log = \<lparr>lg_block = 20, lg_tx_hash = [171], lg_tx_index = 1, lg_index = 2,
     lg_topics = [[2], [26], [1]], lg_data = [], lg_removed = False\<rparr>"

definition log_event :: contract_event where
  "log_event = \<lparr>e_id = 0, e_block_number = 20, e_tx_hash = ''0xab'', e_tx_index = 1, e_log_index = 2,
     e_event_name = EventOrderCancelled,
     e_event_data = marshal_order_cancelled \<lparr>c_maker = ''0x1a'', c_salt = ''1''\<rparr>, e_removed = False\<rparr>"

lemma parse_cancel_log: "parse_event toy_lib cancel_log = Some (Some log_event)"
  by code_simp

theorem parsed_event_readable_witness:
  "readable log_event \<and> position log_event = (20, 1, 2)"
  using parsed_event_readable [OF parse_cancel_log] by (simp add: cancel_log_def)

subsection \<open>One log\<close>

lemma watch_db_simps:
  "watch_db f s = (fst (f (sy_db (wt_system s))),
     s\<lparr>wt_system := (wt_system s)\<lparr>sy_db := snd (f (sy_db (wt_system s)))\<rparr>\<rparr>)"
  by (simp add: watch_db_def on_db_simps)

lemma watch_db_same:
  assumes "f (sy_db (wt_system s)) = (x, sy_db (wt_system s))"
  shows "watch_db f s = (x, s)"
  using assms by (simp add: watch_db_simps)

definition log_recorded :: "eth_log \<Rightarrow> 'r watch_state \<Rightarrow> bool" where
  "log_recorded l s \<longleftrightarrow> recorded (lg_block l) (lg_tx_index l) (lg_index l) (sy_db (wt_system s))"

definition position_ok :: "eth_log \<Rightarrow> bool" where
  "position_ok l \<longleftrightarrow> uint (lg_block l) < 2 ^ 63 \<and> uint (lg_tx_index l) < 2 ^ 31 \<and> uint (lg_index l) < 2 ^ 31"

lemma position_ok_key:
  "position_ok l \<Longrightarrow> event_key (lg_block l) (lg_tx_index l) (lg_index l) =
     Inr (uint (lg_block l), uint (lg_tx_index l), uint (lg_index l))"
  by (simp add: position_ok_def event_key_def bigint_param_def integer_param_def int4_ok_def
      order_trans [OF _ uint_ge_0])

lemma exists_check:
  assumes "healthy (sy_db (wt_system s))" and "position_ok l"
  shows "watch_db (event_exists (lg_block l) (lg_tx_index l) (lg_index l)) s = (Inr (log_recorded l s), s)"
  using event_exists_healthy [OF assms(1) position_ok_key [OF assms(2)]]
  by (intro watch_db_same) (simp add: log_recorded_def)

text \<open>
  A log whose position is already recorded changes nothing, whether it is new or says that the
  event was removed: the reorganisation branch is never reached for an event that was recorded,
  and an event whose handling failed after it was recorded is not handled again.
\<close>

theorem recorded_log_is_ignored:
  assumes "healthy (sy_db (wt_system s))" and "position_ok l" and "log_recorded l s"
    and "parse_event (wc_lib w) l \<noteq> None"
  shows "handle_log w l s = Some s"
proof -
  from assms(3) have "log_recorded l s = True" by simp
  with assms(4) exists_check [OF assms(1,2)] show ?thesis
    by (auto simp: handle_log_def split: option.split)
qed

definition toy_watcher :: "(string \<Rightarrow> json option) watcher" where
  "toy_watcher = \<lparr>wc_lib = toy_lib, wc_services = sample_services, wc_chain = 31337,
     wc_confirmations = 6, wc_logs = (\<lambda>a b. Inr [cancel_log])\<rparr>"

definition recorded_row :: event_row where
  "recorded_row = \<lparr>v_id = 1, v_block_number = 20, v_tx_hash = Some [171],
     v_tx_index = 1, v_log_index = 2, v_event_name = EventOrderCancelled, v_event_data = JNull,
     v_removed = False, v_created_at = 0\<rparr>"

definition recorded_state :: "(string \<Rightarrow> json option) watch_state" where
  "recorded_state = \<lparr>wt_system = sample_system\<lparr>sy_db := sample_db\<lparr>t_events := [recorded_row]\<rparr>\<rparr>,
     wt_cursor = 19, wt_answers = []\<rparr>"

theorem recorded_log_is_ignored_witness:
  "handle_log toy_watcher (cancel_log\<lparr>lg_removed := True\<rparr>) recorded_state = Some recorded_state"
proof (rule recorded_log_is_ignored)
  show "parse_event (wc_lib toy_watcher) (cancel_log\<lparr>lg_removed := True\<rparr>) \<noteq> None"
    by code_simp
qed (simp_all add: recorded_state_def recorded_row_def sample_system_def sample_db_def empty_db_def
    healthy_def position_ok_def cancel_log_def log_recorded_def recorded_def at_key_def)

subsection \<open>Reorganisations\<close>

lemma mark_removed_healthy:
  assumes "healthy d" and "event_key b t l = Inr k"
  shows "mark_removed b t l d =
    (Inr (), d\<lparr>t_events := map (\<lambda>r. if at_key r k then r\<lparr>v_removed := True\<rparr> else r) (t_events d)\<rparr>)"
  using assms by (simp add: mark_removed_def db_exec_healthy mark_removed_stmt_def)

lemma delete_events_healthy:
  assumes "healthy d" and "uint b < 2 ^ 63"
  shows "delete_events_above_block b d =
    (Inr (), d\<lparr>t_events := filter (\<lambda>r. \<not> uint b \<le> v_block_number r) (t_events d)\<rparr>)"
  using assms by (simp add: delete_events_above_block_def db_exec_healthy delete_events_stmt_def bigint_param_def)

lemma reorg_block_le: "uint (reorg_block b) \<le> uint b"
proof (cases "12 < uint b")
  case True
  then have "uint (b - 12) = uint b - 12"
    using uint_lt2p [of b] by (simp add: uint_word_ariths)
  with True show ?thesis by (simp add: reorg_block_def)
next
  case False
  then have "\<not> 12 < b" by (simp add: word_less_def)
  then show ?thesis by (simp add: reorg_block_def)
qed

lemma reorg_block_small: "uint b < 2 ^ 63 \<Longrightarrow> uint (reorg_block b) < 2 ^ 63"
  using reorg_block_le [of b] by simp

lemma handle_removed_healthy:
  assumes "healthy (sy_db (wt_system s))" and "position_ok l"
  shows "wt_cursor (handle_removed l s) = reorg_block (lg_block l)"
    and "t_events (sy_db (wt_system (handle_removed l s))) =
      filter (\<lambda>r. v_block_number r < uint (reorg_block (lg_block l))) (t_events (sy_db (wt_system s)))"
proof -
  let ?d = "sy_db (wt_system s)" and ?b = "reorg_block (lg_block l)"
  let ?k = "(uint (lg_block l), uint (lg_tx_index l), uint (lg_index l))"
  let ?d1 = "?d\<lparr>t_events := map (\<lambda>r. if at_key r ?k then r\<lparr>v_removed := True\<rparr> else r) (t_events ?d)\<rparr>"
  have m: "mark_removed (lg_block l) (lg_tx_index l) (lg_index l) ?d = (Inr (), ?d1)"
    by (rule mark_removed_healthy [OF assms(1) position_ok_key [OF assms(2)]])
  have b: "uint ?b < 2 ^ 63"
    using assms(2) reorg_block_small [of "lg_block l"] by (simp add: position_ok_def)
  have "healthy ?d1"
    using assms(1) by (simp add: healthy_def)
  note del = delete_events_healthy [OF this b]
  have "filter (\<lambda>r. \<not> uint ?b \<le> v_block_number r)
      (map (\<lambda>r. if at_key r ?k then r\<lparr>v_removed := True\<rparr> else r) rs) =
    filter (\<lambda>r. v_block_number r < uint ?b) rs" for rs :: "event_row list"
    using reorg_block_le [of "lg_block l"] by (induction rs) (auto simp: at_key_def)
  then show "t_events (sy_db (wt_system (handle_removed l s))) =
      filter (\<lambda>r. v_block_number r < uint ?b) (t_events ?d)"
    by (simp add: handle_removed_def watch_db_simps m del Let_def)
  show "wt_cursor (handle_removed l s) = ?b"
    by (simp add: handle_removed_def watch_db_simps Let_def)
qed

text \<open>The node answers at once that the block has enough confirmations.\<close>

definition confirmed :: "'r watcher \<Rightarrow> eth_log \<Rightarrow> 'r watch_state \<Rightarrow> bool" where
  "confirmed w l s \<longleftrightarrow> (case wt_answers s of Inr n # _ \<Rightarrow> lg_block l + wc_confirmations w \<le> n | _ \<Rightarrow> False)"

lemma confirmed_wait:
  "confirmed w l s \<Longrightarrow> wait_confirmations w (lg_block l) s = (Inr (), s\<lparr>wt_answers := tl (wt_answers s)\<rparr>)"
  by (auto simp: confirmed_def wait_confirmations_def split: list.splits sum.splits)

lemma handle_log_unrecorded:
  assumes "healthy (sy_db (wt_system s))" and "position_ok l" and "\<not> log_recorded l s"
    and "parse_event (wc_lib w) l = Some (Some e)" and "confirmed w l s"
  shows "handle_log w l s =
    (let s' = s\<lparr>wt_answers := tl (wt_answers s)\<rparr>
     in if lg_removed l then Some (handle_removed l s') else handle_new w l e s')"
proof -
  from assms(3) have "log_recorded l s = False" by simp
  with exists_check [OF assms(1,2)] confirmed_wait [OF assms(5)] assms(4) show ?thesis
    by (simp add: handle_log_def Let_def)
qed

text \<open>
  A reorganisation that is acted upon leaves a gap of one block: the events from the rollback block
  on are deleted and the next poll asks for the blocks after it, so the events of the rollback
  block itself are neither kept nor fetched again.
\<close>

theorem reorg_leaves_gap:
  assumes "healthy (sy_db (wt_system s))" and "position_ok l" and "\<not> log_recorded l s"
    and "parse_event (wc_lib w) l = Some (Some e)" and "confirmed w l s" and "lg_removed l"
  shows "\<exists>s'. handle_log w l s = Some s' \<and> next_block s' = reorg_block (lg_block l) + 1 \<and>
    t_events (sy_db (wt_system s')) =
      filter (\<lambda>r. v_block_number r < uint (reorg_block (lg_block l))) (t_events (sy_db (wt_system s)))"
proof -
  let ?s = "s\<lparr>wt_answers := tl (wt_answers s)\<rparr>"
  have "handle_log w l s = Some (handle_removed l ?s)"
    using handle_log_unrecorded [OF assms(1-5)] assms(6) by simp
  moreover have "healthy (sy_db (wt_system ?s))"
    using assms(1) by simp
  from handle_removed_healthy [OF this assms(2)]
  have "next_block (handle_removed l ?s) = reorg_block (lg_block l) + 1"
    "t_events (sy_db (wt_system (handle_removed l ?s))) =
      filter (\<lambda>r. v_block_number r < uint (reorg_block (lg_block l))) (t_events (sy_db (wt_system s)))"
    by (simp_all add: next_block_def)
  ultimately show ?thesis by blast
qed

theorem reorg_leaves_gap_witness:
  "\<exists>s'. handle_log toy_watcher (cancel_log\<lparr>lg_removed := True, lg_block := 32\<rparr>)
       (recorded_state\<lparr>wt_answers := [Inr 100]\<rparr>) = Some s' \<and>
     next_block s' = 21 \<and> t_events (sy_db (wt_system s')) = []"
proof -
  let ?l = "cancel_log\<lparr>lg_removed := True, lg_block := 32\<rparr>"
  let ?s = "recorded_state\<lparr>wt_answers := [Inr 100]\<rparr>"
  have "parse_event (wc_lib toy_watcher) ?l \<noteq> None" "parse_event (wc_lib toy_watcher) ?l \<noteq> Some None"
    by code_simp+
  then obtain e where e: "parse_event (wc_lib toy_watcher) ?l = Some (Some e)"
    by auto
  have pre: "healthy (sy_db (wt_system ?s))" "position_ok ?l" "\<not> log_recorded ?l ?s" "confirmed toy_watcher ?l ?s"
    by (simp_all add: recorded_state_def recorded_row_def sample_system_def sample_db_def empty_db_def
        healthy_def position_ok_def cancel_log_def log_recorded_def recorded_def at_key_def confirmed_def
        toy_watcher_def)
  have b: "reorg_block 32 = 20"
    by (simp add: reorg_block_def)
  from reorg_leaves_gap [OF pre(1-3) e pre(4)] show ?thesis
    by (simp add: b) (simp add: recorded_state_def recorded_row_def)
qed

subsection \<open>The effect of a new log\<close>

text \<open>
  C9: A new log takes effect exactly once: when the database and the hub are in order, a confirmed log of
  the exchange whose position is not recorded is appended to the event log, closes exactly the orders
  its event is about, moves the cursor to its block at least, and changes nothing when it arrives again.
\<close>

theorem log_takes_effect:
  assumes "enumerates (es_order (wc_services w))" and "system_ok (wt_system s)"
    and "position_ok l" and "\<not> log_recorded l s" and "\<not> lg_removed l" and "confirmed w l s"
    and "parse_event (wc_lib w) l = Some (Some e)" and "hex_decode (e_tx_hash e) = Inr (Some h)"
  shows "\<exists>s' r. handle_log w l s = Some s' \<and> handle_log w l s' = Some s' \<and>
    wt_cursor s' = max (wt_cursor s) (lg_block l) \<and>
    t_events (sy_db (wt_system s')) = t_events (sy_db (wt_system s)) @ [r] \<and>
    v_event_name r = e_event_name e \<and> v_event_data r = e_event_data e \<and>
    t_orders (sy_db (wt_system s')) = (case event_closes e of None \<Rightarrow> t_orders (sy_db (wt_system s))
      | Some (st, P) \<Rightarrow> map (update_active st (db_now (sy_db (wt_system s))) P) (t_orders (sy_db (wt_system s))))"
proof -
  let ?s = "s\<lparr>wt_answers := tl (wt_answers s)\<rparr>" and ?d = "sy_db (wt_system s)"
  let ?k = "(uint (lg_block l), uint (lg_tx_index l), uint (lg_index l))"
  have d: "healthy ?d"
    using assms(2) by (simp add: system_ok_def)
  have pos: "e_block_number e = lg_block l" "e_tx_index e = lg_tx_index l" "e_log_index e = lg_index l"
    using assms(7) by (auto simp: parse_event_def)
  have "event_key (e_block_number e) (e_tx_index e) (e_log_index e) = Inr ?k"
    by (simp only: pos position_ok_key [OF assms(3)])
  from insert_event_stores [OF d this assms(8)] assms(4) obtain d1 r where
    i: "insert_event e ?d = (Inr (), d1)" and r: "at_key r ?k" "v_event_name r = e_event_name e"
      "v_event_data r = e_event_data e"
    and d1: "d1 = ?d\<lparr>t_events := t_events ?d @ [r], t_event_seq := t_event_seq ?d + 1\<rparr>"
    by (auto simp: pos log_recorded_def)
  let ?sys = "(wt_system s)\<lparr>sy_db := d1\<rparr>"
  have ok: "system_ok ?sys"
    using assms(2) by (simp add: system_ok_def d1 healthy_def)
  obtain x sys where h: "handle (wc_services w) e ?sys = Some (x, sys)" "system_ok sys"
    and sys: "sy_db sys = (case event_closes e of None \<Rightarrow> sy_db ?sys | Some (st, P) \<Rightarrow> close_rows st P (sy_db ?sys))"
    by (rule handle_exact [OF assms(1) ok, of e])
  then have db: "sy_db sys = (case event_closes e of None \<Rightarrow> d1 | Some (st, P) \<Rightarrow> close_rows st P d1)"
    by (cases "event_closes e") auto
  let ?s' = "?s\<lparr>wt_system := sys, wt_cursor := max (wt_cursor s) (lg_block l)\<rparr>"
  have run: "handle_log w l s = Some ?s'"
    using handle_log_unrecorded [OF d assms(3,4,7,6)] assms(5) i h(1)
    by (auto simp: handle_new_def watch_db_simps Let_def max_def not_less)
  have ev: "t_events (sy_db sys) = t_events ?d @ [r]"
    by (simp add: db d1 split: option.split prod.split)
  have "handle_log w l ?s' = Some ?s'"
  proof (rule recorded_log_is_ignored)
    show "healthy (sy_db (wt_system ?s'))"
      using h(2) by (simp add: system_ok_def)
    show "log_recorded l ?s'"
      using ev r(1) by (simp add: log_recorded_def recorded_def)
  qed (simp_all add: assms(3,7))
  with run ev r(2,3) show ?thesis
    by (intro exI [of _ ?s'] exI [of _ r])
      (auto simp: db d1 close_rows_def split: option.split prod.split)
qed

theorem log_takes_effect_witness:
  "\<exists>s'. handle_log toy_watcher cancel_log (recorded_state\<lparr>wt_system := sample_system, wt_answers := [Inr 100]\<rparr>) = Some s' \<and>
     wt_cursor s' = 20 \<and> length (t_events (sy_db (wt_system s'))) = 1 \<and>
     map r_status (t_orders (sy_db (wt_system s'))) = [Cancelled]"
proof -
  let ?s = "recorded_state\<lparr>wt_system := sample_system, wt_answers := [Inr 100]\<rparr>"
  have "enumerates (es_order (wc_services toy_watcher))"
    by (simp add: enumerates_def toy_watcher_def sample_services_def)
  moreover have "system_ok (wt_system ?s)"
    by (simp add: system_ok_def sample_system_def sample_db_def empty_db_def healthy_def new_hub_def hub_ok_def subscribers_def)
  moreover have "position_ok cancel_log" "\<not> log_recorded cancel_log ?s" "\<not> lg_removed cancel_log"
    "confirmed toy_watcher cancel_log ?s"
    by (simp_all add: sample_system_def sample_db_def empty_db_def
        position_ok_def cancel_log_def log_recorded_def recorded_def confirmed_def toy_watcher_def)
  moreover have "parse_event (wc_lib toy_watcher) cancel_log = Some (Some log_event)"
    using parse_cancel_log by (simp add: toy_watcher_def)
  moreover have "hex_decode (e_tx_hash log_event) = Inr (Some [171])"
    by code_simp
  moreover have "event_closes log_event = Some (Cancelled, \<lambda>r. r_maker r = Some [26] \<and> r_salt r = 1)"
  proof -
    have "hex_decode ''0x1a'' = Inr (Some [26])" "big_set_string ''1'' = (1, True)"
      by code_simp+
    then show ?thesis
      using event_names_distinct by (simp add: event_closes_def log_event_def closes_where_def)
  qed
  ultimately show ?thesis
    using log_takes_effect [of toy_watcher ?s cancel_log log_event "[171]"]
    by (auto simp: recorded_state_def cancel_log_def sample_system_def sample_db_def empty_db_def
        sample_row_def update_active_def)
qed

subsection \<open>Integrity in every run\<close>

abbreviation wt_db :: "'r watch_state \<Rightarrow> db" where
  "wt_db s \<equiv> sy_db (wt_system s)"

lemma watch_db_run: "stores chain f \<Longrightarrow> watch_db f s = (x, s') \<Longrightarrow> store_run chain (wt_db s) (wt_db s')"
  by (auto simp: watch_db_simps stores_def)

lemmas watch_db_runs = watch_db_run [OF _ prod.collapse [symmetric]]

lemma handle_removed_run: "store_run chain (wt_db s) (wt_db (handle_removed l s))"
proof -
  let ?s1 = "snd (watch_db (mark_removed (lg_block l) (lg_tx_index l) (lg_index l)) s)"
  have "store_run chain (wt_db s) (wt_db ?s1)"
    by (rule watch_db_runs [OF stores_events(3)])
  moreover have "store_run chain (wt_db ?s1) (wt_db (handle_removed l s))"
    unfolding handle_removed_def Let_def
    using watch_db_runs [OF stores_events(4), of chain "?s1\<lparr>wt_cursor := reorg_block (lg_block l)\<rparr>"] by simp
  ultimately show ?thesis by (rule rtranclp_trans)
qed

lemma handle_new_run:
  assumes "handle_new w l e s = Some s'"
  shows "store_run chain (wt_db s) (wt_db s')"
proof -
  obtain x s1 where i: "watch_db (insert_event e) s = (x, s1)"
    by fastforce
  note run = watch_db_run [OF stores_events(1) i]
  show ?thesis
  proof (cases x)
    case (Inl y)
    with assms i run show ?thesis by (simp add: handle_new_def)
  next
    case (Inr u)
    with assms i obtain r sys where h: "handle (wc_services w) e (wt_system s1) = Some (r, sys)"
      and "wt_db s' = sy_db sys"
      by (auto simp: handle_new_def split: option.splits)
    with rtranclp_trans [OF run handle_run [OF h]] show ?thesis by simp
  qed
qed

lemma handle_log_run:
  assumes "handle_log w l s = Some s'"
  shows "store_run chain (wt_db s) (wt_db s')"
proof -
  obtain x s1 where e: "watch_db (event_exists (lg_block l) (lg_tx_index l) (lg_index l)) s = (x, s1)"
    by fastforce
  note run = watch_db_run [OF stores_events(2) e]
  obtain y s2 where c: "wait_confirmations w (lg_block l) s1 = (y, s2)"
    by fastforce
  then have "wt_db s2 = wt_db s1"
    by (auto simp: wait_confirmations_def split: prod.splits)
  with run have run2: "store_run chain (wt_db s) (wt_db s2)" by simp
  have "s' = s1 \<or> s' = s2 \<or> s' = handle_removed l s2 \<or> (\<exists>e. handle_new w l e s2 = Some s') \<or> s' = s"
    using assms e c by (auto simp: handle_log_def split: option.splits sum.splits bool.splits if_splits)
  then show ?thesis
    using run run2 rtranclp_trans [OF run2 handle_removed_run] rtranclp_trans [OF run2 handle_new_run] by blast
qed

lemma handle_logs_run: "handle_logs w ls s = Some s' \<Longrightarrow> store_run chain (wt_db s) (wt_db s')"
proof (induction ls arbitrary: s)
  case (Cons l ls)
  then obtain s1 where "handle_log w l s = Some s1" "handle_logs w ls s1 = Some s'"
    by (auto split: option.splits)
  with Cons.IH handle_log_run show ?case by (blast intro: rtranclp_trans)
qed auto

lemma block_number_db: "block_number s = (a, s1) \<Longrightarrow> wt_db s1 = wt_db s"
  by (auto simp: block_number_def split: list.splits)

lemma poll_run:
  assumes "poll w s = Some (r, s')"
  shows "store_run chain (wt_db s) (wt_db s')"
proof -
  obtain a s1 where b: "block_number s = (a, s1)"
    by fastforce
  show ?thesis
    using assms b block_number_db [OF b]
    by (auto simp: poll_def Let_def split: sum.splits if_splits dest: handle_logs_run [where chain = chain])
qed

lemma save_cursor_run: "store_run chain (wt_db s) (wt_db (save_cursor w s))"
  unfolding save_cursor_def by (rule watch_db_runs [OF stores_events(5)])

lemma initial_cursor_run: "store_run chain (wt_db s) (wt_db (initial_cursor w s))"
proof -
  obtain x s1 where g: "watch_db (get_last_synced_block (wc_chain w)) s = (x, s1)"
    by fastforce
  have "wt_db (initial_cursor w s) = wt_db s1"
    using g by (auto simp: initial_cursor_def Let_def split: prod.splits dest: block_number_db)
  with watch_db_run [OF stores_reads(3) g] show ?thesis by simp
qed

text \<open>
  Everything that may happen to the state while the watcher runs: a log arrives, a poll, the cursor is
  saved or read at the start, another part of the server writes to the order book, the clock and
  the database's failures move on, the node has news, the hub works.
\<close>

inductive watch_step :: "'r watcher \<Rightarrow> 'r watch_state \<Rightarrow> 'r watch_state \<Rightarrow> bool" for w where
  log: "handle_log w l s = Some s' \<Longrightarrow> watch_step w s s'"
| poll: "poll w s = Some (r, s') \<Longrightarrow> watch_step w s s'"
| save: "watch_step w s (save_cursor w s)"
| begin_at: "watch_step w s (initial_cursor w s)"
| book: "repo_step chain (sy_db (wt_system s)) d \<Longrightarrow>
    watch_step w s (s\<lparr>wt_system := (wt_system s)\<lparr>sy_db := d\<rparr>\<rparr>)"
| node: "watch_step w s (s\<lparr>wt_answers := answers\<rparr>)"
| push: "watch_step w s (s\<lparr>wt_system := (wt_system s)\<lparr>sy_hub := h\<rparr>\<rparr>)"

lemma watch_step_ok:
  assumes "watch_step w s s'" and "db_ok (wt_db s)"
  shows "db_ok (wt_db s')"
  using assms
proof (cases rule: watch_step.cases)
  case (book chain d)
  with assms(2) store_step_ok [OF store_step.book] show ?thesis by simp
qed (auto intro: store_run_ok handle_log_run poll_run save_cursor_run initial_cursor_run)

text \<open>
  In every run of the watcher and the rest of the server on one database, with any failures, no
  position of the chain is recorded twice in the event log and no order hash occurs twice in the
  book.
\<close>

theorem watcher_keeps_integrity:
  assumes "(watch_step w)\<^sup>*\<^sup>* s s'" and "sy_db (wt_system s) = empty_db"
  shows "distinct (map (\<lambda>r. (v_block_number r, v_tx_index r, v_log_index r)) (t_events (sy_db (wt_system s')))) \<and>
    distinct (map r_order_hash (t_orders (sy_db (wt_system s'))))"
proof -
  from assms(1) have "db_ok (wt_db s')"
    by (induction rule: rtranclp_induct) (auto intro: watch_step_ok simp: assms(2) db_ok_empty)
  then show ?thesis by (simp add: db_ok_distinct)
qed

definition fresh_state :: "(string \<Rightarrow> json option) watch_state" where
  "fresh_state = \<lparr>wt_system = sample_system\<lparr>sy_db := empty_db\<rparr>, wt_cursor = 0, wt_answers = [Inr 100]\<rparr>"

theorem watcher_keeps_integrity_witness:
  "\<exists>s'. handle_log toy_watcher cancel_log fresh_state = Some s' \<and>
     distinct (map (\<lambda>r. (v_block_number r, v_tx_index r, v_log_index r)) (t_events (sy_db (wt_system s'))))"
proof -
  have "handle_log toy_watcher cancel_log fresh_state \<noteq> None"
    by code_simp
  then obtain s' where s': "handle_log toy_watcher cancel_log fresh_state = Some s'"
    by blast
  then have "(watch_step toy_watcher)\<^sup>*\<^sup>* fresh_state s'"
    by (intro r_into_rtranclp watch_step.log)
  moreover have "sy_db (wt_system fresh_state) = empty_db"
    by (simp add: fresh_state_def)
  ultimately show ?thesis
    using watcher_keeps_integrity s' by blast
qed

subsection \<open>Waiting for confirmations\<close>

lemma wait_answers_rising:
  "\<forall>x \<in> set hs. x < target \<Longrightarrow> target \<le> h \<Longrightarrow> wait_answers target (map Inr hs @ Inr h # rest) = (Inr (), rest)"
  by (induction hs) auto

text \<open>
  C38: The wait for confirmations ends: while the node answers, and once its head is at the block of the log
  plus the confirmations, \<open>waitConfirmations\<close> returns without an error, after exactly the queries up to that
  answer; before it, it does not return.
\<close>

theorem wait_confirmations_returns:
  assumes "wt_answers s = map Inr hs @ Inr h # rest"
    and "\<forall>x \<in> set hs. x < block + wc_confirmations w" and "block + wc_confirmations w \<le> h"
  shows "wait_confirmations w block s = (Inr (), s\<lparr>wt_answers := rest\<rparr>)"
  using wait_answers_rising [OF assms(2,3)] by (simp add: wait_confirmations_def assms(1))

theorem wait_confirmations_returns_witness:
  "wait_confirmations (toy_watcher\<lparr>wc_confirmations := 12\<rparr>) 100 (fresh_state\<lparr>wt_answers := [Inr 105, Inr 111, Inr 112, Inr 113]\<rparr>) =
    (Inr (), fresh_state\<lparr>wt_answers := [Inr 113]\<rparr>)"
  using wait_confirmations_returns [of "fresh_state\<lparr>wt_answers := [Inr 105, Inr 111, Inr 112, Inr 113]\<rparr>" "[105, 111]" 112
      "[Inr 113]" 100 "toy_watcher\<lparr>wc_confirmations := 12\<rparr>"]
  by simp

end
