(* ===== verification/Rpc.thy ===== *)
theory Rpc
  imports Watcher
begin

section \<open>internal/rpc/client.go\<close>

text \<open>
  The RPC client: the connection to the node with the contracts whose logs are asked for.  The calls of
  go-ethereum are the components of \<open>eth_client\<close>; \<open>ethclient.Dial\<close> is a parameter.
\<close>

record filter_query =
  fq_from :: "int option"
  fq_to :: "int option"
  fq_addresses :: "bytes list"

record eth_client =
  ec_filter_logs :: "filter_query \<Rightarrow> eth_log list result"
  ec_subscribe :: "filter_query \<Rightarrow> unit result"
  ec_call :: "bytes option \<Rightarrow> bytes \<Rightarrow> bytes result"
  ec_chain_id :: "int result"

record rpc_client =
  rc_eth :: eth_client
  rc_chain_id :: int
  rc_addrs :: "bytes list"

definition new_client :: "(string \<Rightarrow> eth_client result) \<Rightarrow> string \<Rightarrow> int \<Rightarrow> rpc_client result" where
  "new_client dial url chain =
     bind_result (dial url) (\<lambda>eth. Inr \<lparr>rc_eth = eth, rc_chain_id = chain, rc_addrs = []\<rparr>)"

definition set_contract_addresses :: "bytes \<Rightarrow> bytes \<Rightarrow> bytes \<Rightarrow> bytes \<Rightarrow> rpc_client \<Rightarrow> rpc_client" where
  "set_contract_addresses exchange protocol collections royalties c =
     c\<lparr>rc_addrs := [exchange, protocol, collections, royalties]\<rparr>"

definition filter_logs :: "rpc_client \<Rightarrow> uint64 \<Rightarrow> uint64 \<Rightarrow> eth_log list result" where
  "filter_logs c a b = ec_filter_logs (rc_eth c)
     \<lparr>fq_from = Some (uint a), fq_to = Some (uint b), fq_addresses = rc_addrs c\<rparr>"

definition filter_logs_query :: "rpc_client \<Rightarrow> filter_query \<Rightarrow> eth_log list result" where
  "filter_logs_query c q = ec_filter_logs (rc_eth c)
     (if fq_addresses q = [] then q\<lparr>fq_addresses := rc_addrs c\<rparr> else q)"

definition subscribe_logs :: "rpc_client \<Rightarrow> unit result" where
  "subscribe_logs c = ec_subscribe (rc_eth c) \<lparr>fq_from = None, fq_to = None, fq_addresses = rc_addrs c\<rparr>"

definition call_contract :: "rpc_client \<Rightarrow> bytes \<Rightarrow> bytes \<Rightarrow> bytes result" where
  "call_contract c target data = ec_call (rc_eth c) (Some target) data"

definition chain_id :: "rpc_client \<Rightarrow> int result" where
  "chain_id c = ec_chain_id (rc_eth c)"

subsection \<open>The watcher on a client\<close>

text \<open>\<open>NewWatcher\<close>, with the query that \<open>poll\<close> makes.\<close>

definition new_watcher :: "log_lib \<Rightarrow> rpc_client \<Rightarrow> 'r services \<Rightarrow> int \<Rightarrow> uint64 \<Rightarrow> 'r watcher" where
  "new_watcher lib c es chain confirmations =
     \<lparr>wc_lib = lib, wc_services = es, wc_chain = chain, wc_confirmations = confirmations,
      wc_logs = (\<lambda>a b. filter_logs_query c
        \<lparr>fq_from = Some (uint a), fq_to = Some (uint b), fq_addresses = []\<rparr>)\<rparr>"

lemma new_watcher_logs: "wc_logs (new_watcher lib c es chain k) = filter_logs c"
  by (simp add: new_watcher_def filter_logs_query_def filter_logs_def fun_eq_iff)

text \<open>A watcher on a configured client asks for the logs of the four contracts and of no other.\<close>

lemma watcher_asks_contracts:
  "wc_logs (new_watcher lib (set_contract_addresses x p q r c) es chain k) a b =
     ec_filter_logs (rc_eth c) \<lparr>fq_from = Some (uint a), fq_to = Some (uint b), fq_addresses = [x, p, q, r]\<rparr>"
  by (simp add: new_watcher_logs filter_logs_def set_contract_addresses_def)

text \<open>
  A poll reads exactly the blocks after the cursor that have their confirmations: when it asks, the range
  starts at the block after the cursor, ends below the head by the confirmations, and is not empty.
\<close>

lemma poll_range:
  assumes "block_number s = (Inr latest, s1)" and "\<not> next_block s1 + wc_confirmations w > latest"
    and "uint (next_block s1) + uint (wc_confirmations w) < 2 ^ 64"
  shows "next_block s1 \<le> latest - wc_confirmations w"
    and "uint (latest - wc_confirmations w) = uint latest - uint (wc_confirmations w)"
proof -
  have "uint (next_block s1 + wc_confirmations w) = uint (next_block s1) + uint (wc_confirmations w)"
    using assms(3) by (simp add: uint_word_ariths)
  with assms(2) have le: "uint (next_block s1) + uint (wc_confirmations w) \<le> uint latest"
    by (simp add: not_less word_le_def)
  have "0 \<le> uint (next_block s1)" by simp
  with le have "0 \<le> uint latest - uint (wc_confirmations w)" by linarith
  moreover have "uint latest - uint (wc_confirmations w) < 2 ^ 64"
  proof -
    have "uint latest < 2 ^ 64"
      using uint_lt2p [of latest] by simp
    with uint_ge_0 [of "wc_confirmations w"] show ?thesis by linarith
  qed
  ultimately show eq: "uint (latest - wc_confirmations w) = uint latest - uint (wc_confirmations w)"
    by (simp add: uint_word_ariths)
  show "next_block s1 \<le> latest - wc_confirmations w"
    using le eq by (simp add: word_le_def)
qed

end
