(* ===== verification/Startup.thy ===== *)
theory Startup
  imports Server Config MetadataFacts Rpc
begin

section \<open>cmd/api/main.go: starting and stopping\<close>

text \<open>
  \<open>main\<close> up to the listener, and what follows the signal.  Every call that leaves the program is an \<open>action\<close>; what
  the outside answers to it is a field of \<open>outside\<close>.  \<open>Logger.Fatal\<close> ends the process, so a start is the list of
  actions that were made with either the message it ended with and its error, or the installation that was built.  The panic for a logger that cannot
  be built ends it in the same way.
\<close>

datatype background = HubLoop | WatcherLoops | MetadataWorkers | SchedulerLoop

datatype action =
    WriteStderr string | BuildLogger log_level | ReadConfig string | OpenDatabase string | PingDatabase | InitMigrations string string | RunMigrations
  | PingRedis string | DialNode string | LogInfo string | Go background | Listen string
  | CancelContext | ShutdownServer | CloseDatabase | CloseNode | SyncLog

text \<open>\<open>m.Up()\<close>: \<open>migrate.ErrNoChange\<close> is an error value of its own.\<close>

datatype migrated = Migrated | NoChange | MigrationError go_error

record ('r, 'w) outside =
  ob_log_level :: string
  ob_logger :: "log_level \<Rightarrow> unit result"
  ob_read_config :: "unit result"
  ob_unmarshal :: "config result"
  ob_open :: "string \<Rightarrow> unit result"
  ob_ping :: "unit result"
  ob_migrations :: "string \<Rightarrow> string \<Rightarrow> unit result"
  ob_up :: migrated
  ob_redis :: "string \<Rightarrow> 'r redis"
  ob_dial :: "string \<Rightarrow> eth_client result"
  ob_auth :: auth_lib
  ob_logs :: log_lib
  ob_net :: "'w net"
  ob_order :: "nat set \<Rightarrow> nat list"
  ob_time :: "instant \<Rightarrow> string"
  ob_now :: "nat \<Rightarrow> instant"
  ob_gql :: gql_lib
  ob_match :: "route list \<Rightarrow> string \<Rightarrow> string \<Rightarrow> (route \<times> (string \<Rightarrow> string)) option"
  ob_parse :: "http_request \<Rightarrow> operation + http_response"
  ob_reply :: "field_value \<Rightarrow> http_response"
  ob_page :: "endpoint \<Rightarrow> http_request \<Rightarrow> http_response"
  ob_handshake :: "http_request \<Rightarrow> bool \<Rightarrow> nat result"

text \<open>What \<open>main\<close> has built when it listens.\<close>

record ('r, 'w) installation =
  in_app :: "'r app"
  in_hub :: hub
  in_watcher :: "'r watcher"
  in_metadata :: "'w metadata_service"
  in_node :: rpc_client
  in_redis :: 'r
  in_addr :: string

subsection \<open>A start as actions and an outcome\<close>

type_synonym 'a boot = "action list \<times> (string \<times> go_error + 'a)"

definition perform :: "action \<Rightarrow> 'a boot \<Rightarrow> 'a boot" where
  "perform a b = (a # fst b, snd b)"

definition step :: "action \<Rightarrow> string \<Rightarrow> 'a result \<Rightarrow> ('a \<Rightarrow> 'b boot) \<Rightarrow> 'b boot" where
  "step a msg r rest = perform a (case r of Inl e \<Rightarrow> ([], Inl (msg, e)) | Inr x \<Rightarrow> rest x)"

text \<open>\<open>Init\<close> of \<open>log/log.go\<close>, with the level of the environment.\<close>

definition init_log :: "('r, 'w) outside \<Rightarrow> 'a boot \<Rightarrow> 'a boot" where
  "init_log ob rest =
     (case parse_level (ob_log_level ob) of (lvl, warnings) \<Rightarrow>
       (let logger = step (BuildLogger lvl) ''failed to initialize logger: '' (ob_logger ob lvl) (\<lambda>_. rest)
        in (map WriteStderr warnings @ fst logger, snd logger)))"

text \<open>\<open>NewCacheService\<close> of \<open>service/cache.go\<close>.\<close>

definition new_cache_service :: "(string \<Rightarrow> 'r redis) \<Rightarrow> string \<Rightarrow> 'r \<Rightarrow> ('r redis \<times> 'r) result" where
  "new_cache_service connect addr r = (let rd = connect addr in
     case rd_ping rd r of
       (Inl e, r') \<Rightarrow> Inl (ErrWrap ''redis ping'' e)
     | (Inr _, r') \<Rightarrow> Inr (rd, r'))"

definition migrate :: "('r, 'w) outside \<Rightarrow> config \<Rightarrow> 'a boot \<Rightarrow> 'a boot" where
  "migrate ob cfg rest =
     (if cf_migration cfg
      then (let source = ''file://migrations''; target = migration_url (cf_database cfg) in
        perform (LogInfo ''running database migrations'')
          (step (InitMigrations source target) ''migration init failed'' (ob_migrations ob source target) (\<lambda>_.
           step RunMigrations ''migration failed''
             (case ob_up ob of MigrationError e \<Rightarrow> Inl e | _ \<Rightarrow> Inr ()) (\<lambda>_.
           perform (LogInfo ''migrations complete'') rest))))
      else rest)"

subsection \<open>The parts and how they are connected\<close>

definition build :: "('r, 'w) outside \<Rightarrow> config \<Rightarrow> 'r redis \<Rightarrow> 'r \<Rightarrow> rpc_client \<Rightarrow> ('r, 'w) installation" where
  "build ob cfg rd r client =
     (let eth = al_eth (ob_auth ob); ec = cf_ethereum cfg; chain = cf_chain_id ec;
          origins = cf_allowed_origins (cf_server cfg);
          node = set_contract_addresses (hex_to_address eth (cf_exchange ec))
            (hex_to_address eth (cf_protocol_manager ec)) (hex_to_address eth (cf_collection_manager ec))
            (hex_to_address eth (cf_royalty_manager ec)) client;
          sigSvc = new_signature_service eth chain (cf_exchange ec);
          authSvc = new_auth_service (ob_auth ob) rd (cf_jwt_secret (cf_auth cfg)) (cf_jwt_expiry (cf_auth cfg))
            (cf_challenge_ttl (cf_auth cfg));
          orderSvc = new_order_service eth sigSvc chain;
          eventSvc = \<lparr>es_redis = rd, es_order = ob_order ob\<rparr>
      in \<lparr>in_app = \<lparr>ap_orders = \<lparr>oh_svc = orderSvc, oh_order = ob_order ob, oh_time = ob_time ob\<rparr>,
            ap_auth = authSvc, ap_origins = origins,
            ap_resolver = \<lparr>rs_order_svc = orderSvc, rs_now = ob_now ob, rs_rfc = al_rfc3339 (ob_auth ob)\<rparr>,
            ap_gql = ob_gql ob, ap_match = ob_match ob, ap_parse = ob_parse ob, ap_reply = ob_reply ob,
            ap_page = ob_page ob, ap_handshake = ob_handshake ob\<rparr>,
          in_hub = new_hub origins,
          in_watcher = new_watcher (ob_logs ob) node eventSvc chain (word_of_int (cf_confirmation_blocks ec)),
          in_metadata = new_metadata_service chain
            ((ob_net ob)\<lparr>nt_call := (\<lambda>target data w. (call_contract node target data, w))\<rparr>) ''https://ipfs.io'',
          in_node = node, in_redis = r, in_addr = '':'' @ dec_of_int (cf_port (cf_server cfg))\<rparr>)"

definition start :: "('r, 'w) outside \<Rightarrow> 'r \<Rightarrow> ('r, 'w) installation boot" where
  "start ob r = init_log ob
    (step (ReadConfig ''config/config.yaml'') ''config load failed'' (load_config (ob_read_config ob) (ob_unmarshal ob)) (\<lambda>cfg.
     (let source = dsn (cf_database cfg); addr = cf_redis_addr cfg; url = cf_rpc_url (cf_ethereum cfg) in
      step (OpenDatabase source) ''database open failed'' (ob_open ob source) (\<lambda>_.
      step PingDatabase ''database ping failed'' (ob_ping ob) (\<lambda>_.
      perform (LogInfo ''database connected'')
      (migrate ob cfg
      (step (PingRedis addr) ''redis connect failed'' (new_cache_service (ob_redis ob) addr r) (\<lambda>(rd, r').
       perform (LogInfo ''redis connected'')
      (step (DialNode url) ''rpc client failed'' (new_client (ob_dial ob) url (cf_chain_id (cf_ethereum cfg))) (\<lambda>client.
       let inst = build ob cfg rd r' client in
       ([Go HubLoop, Go WatcherLoops, Go MetadataWorkers, Go SchedulerLoop, LogInfo ''api listening'',
         Listen (in_addr inst)], Inr inst)))))))))))"

text \<open>
  After the start the process ends by a signal, or by an error of the listener, which is fatal in its goroutine:
  then none of the deferred calls is made.
\<close>

datatype ending = Signalled | ListenerFailed go_error

definition finish :: "ending \<Rightarrow> action list \<times> (string \<times> go_error) option" where
  "finish e = (case e of
      Signalled \<Rightarrow> ([LogInfo ''shutting down...'', CancelContext, ShutdownServer, CloseDatabase,
        CancelContext, CloseNode, SyncLog], None)
    | ListenerFailed x \<Rightarrow> ([], Some (''server failed'', x)))"

subsection \<open>All or nothing\<close>

text \<open>What a start needs from the outside, and the actions of a complete start.\<close>

definition dependencies_answer :: "('r, 'w) outside \<Rightarrow> 'r \<Rightarrow> bool" where
  "dependencies_answer ob r =
     (ob_logger ob (fst (parse_level (ob_log_level ob))) = Inr () \<and>
      (case load_config (ob_read_config ob) (ob_unmarshal ob) of Inl _ \<Rightarrow> False | Inr cfg \<Rightarrow>
        ob_open ob (dsn (cf_database cfg)) = Inr () \<and> ob_ping ob = Inr () \<and>
        (cf_migration cfg \<longrightarrow> ob_migrations ob ''file://migrations'' (migration_url (cf_database cfg)) = Inr () \<and>
           ob_up ob \<in> {Migrated, NoChange}) \<and>
        fst (rd_ping (ob_redis ob (cf_redis_addr cfg)) r) = Inr () \<and>
        (case ob_dial ob (cf_rpc_url (cf_ethereum cfg)) of Inl _ \<Rightarrow> False | Inr _ \<Rightarrow> True)))"

definition checks :: "string \<Rightarrow> config \<Rightarrow> action list" where
  "checks lvl cfg =
     map WriteStderr (snd (parse_level lvl)) @
     [BuildLogger (fst (parse_level lvl)), ReadConfig ''config/config.yaml'', OpenDatabase (dsn (cf_database cfg)), PingDatabase,
      LogInfo ''database connected''] @
     (if cf_migration cfg
      then [LogInfo ''running database migrations'',
        InitMigrations ''file://migrations'' (migration_url (cf_database cfg)), RunMigrations,
        LogInfo ''migrations complete'']
      else []) @
     [PingRedis (cf_redis_addr cfg), LogInfo ''redis connected'', DialNode (cf_rpc_url (cf_ethereum cfg))]"

definition running :: "config \<Rightarrow> action list" where
  "running cfg = [Go HubLoop, Go WatcherLoops, Go MetadataWorkers, Go SchedulerLoop, LogInfo ''api listening'',
     Listen ('':'' @ dec_of_int (cf_port (cf_server cfg)))]"

lemma step_simps:
  "fst (step a msg r rest) = a # (case r of Inl e \<Rightarrow> [] | Inr x \<Rightarrow> fst (rest x))"
  "snd (step a msg r rest) = (case r of Inl e \<Rightarrow> Inl (msg, e) | Inr x \<Rightarrow> snd (rest x))"
  by (simp_all add: step_def perform_def split: sum.split)

lemma perform_simps: "fst (perform a b) = a # fst b" "snd (perform a b) = snd b"
  by (simp_all add: perform_def)

lemmas start_simps = start_def init_log_def migrate_def step_simps perform_simps new_cache_service_def new_client_def Let_def

lemma started_complete:
  assumes "dependencies_answer ob r" and "load_config (ob_read_config ob) (ob_unmarshal ob) = Inr cfg"
  shows "\<exists>client r'. start ob r =
    (checks (ob_log_level ob) cfg @ running cfg, Inr (build ob cfg (ob_redis ob (cf_redis_addr cfg)) r' client))"
  using assms
  by (auto simp: prod_eq_iff start_simps dependencies_answer_def checks_def running_def build_def bind_result_Inr
      split: sum.splits prod.splits migrated.splits)

text \<open>A start that fails has made only checks.\<close>

definition inert :: "action \<Rightarrow> bool" where
  "inert a \<longleftrightarrow> a \<notin> range Go \<union> range Listen"

definition quiet :: "'a boot \<Rightarrow> bool" where
  "quiet b \<longleftrightarrow> (\<forall>f. snd b = Inl f \<longrightarrow> list_all inert (fst b))"

lemma quiet_rules:
  "quiet (as, Inr x)"
  "inert a \<Longrightarrow> quiet b \<Longrightarrow> quiet (perform a b)"
  "inert a \<Longrightarrow> (\<And>x. r = Inr x \<Longrightarrow> quiet (rest x)) \<Longrightarrow> quiet (step a msg r rest)"
  by (auto simp: quiet_def perform_simps step_simps split: sum.splits)

lemma inert_checks [simp]:
  "inert (WriteStderr c)" "inert (BuildLogger l)" "inert (ReadConfig c)" "inert (OpenDatabase c)" "inert PingDatabase" "inert (InitMigrations c t)"
  "inert RunMigrations" "inert (PingRedis c)" "inert (DialNode c)" "inert (LogInfo c)"
  by (auto simp: inert_def)

lemma quiet_init_log: "quiet rest \<Longrightarrow> quiet (init_log ob rest)"
  by (auto simp: init_log_def quiet_def step_simps Let_def list_all_iff split: prod.splits sum.splits)

lemma start_quiet: "quiet (start ob r)"
  by (auto simp: start_def migrate_def Let_def split: prod.split intro!: quiet_init_log quiet_rules)

lemma started_dependencies: "snd (start ob r) = Inr inst \<Longrightarrow> dependencies_answer ob r"
  by (auto simp: start_simps dependencies_answer_def bind_result_Inr split: sum.splits prod.splits migrated.splits if_splits)

lemma start_incomplete:
  assumes "\<not> dependencies_answer ob r"
  shows "\<exists>f. snd (start ob r) = Inl f \<and> set (fst (start ob r)) \<inter> (range Go \<union> range Listen) = {}"
proof -
  from assms started_dependencies obtain f where "snd (start ob r) = Inl f"
    by (metis sum.exhaust)
  with start_quiet [of ob r] show ?thesis
    by (auto simp: quiet_def inert_def list_all_iff)
qed

text \<open>
  C14: a start is all or nothing.  If the logger, the configuration, the database, the migrations (when enabled; \<open>ErrNoChange\<close>
  counts as success), Redis and the node answer, \<open>main\<close> makes the checks in their order and only then starts the four
  background loops and the listener; if one of them does not, it ends with a fatal message and has started none.
\<close>

theorem start_all_or_nothing:
  "if dependencies_answer ob r
   then \<exists>cfg inst. load_config (ob_read_config ob) (ob_unmarshal ob) = Inr cfg \<and>
     start ob r = (checks (ob_log_level ob) cfg @ running cfg, Inr inst)
   else (\<exists>message e. snd (start ob r) = Inl (message, e)) \<and>
     set (fst (start ob r)) \<inter> (range Go \<union> range Listen) = {}"
proof (cases "dependencies_answer ob r")
  case True
  then obtain cfg where "load_config (ob_read_config ob) (ob_unmarshal ob) = Inr cfg"
    by (auto simp: dependencies_answer_def split: sum.splits)
  with True started_complete show ?thesis
    by fastforce
next
  case False
  then show ?thesis
    using start_incomplete by fastforce
qed

subsection \<open>What is connected to what\<close>

lemma startedD:
  assumes "snd (start ob r) = Inr inst"
  obtains cfg client r' where "load_config (ob_read_config ob) (ob_unmarshal ob) = Inr cfg"
    and "inst = build ob cfg (ob_redis ob (cf_redis_addr cfg)) r' client"
    and "ob_dial ob (cf_rpc_url (cf_ethereum cfg)) = Inr (rc_eth client)"
proof -
  from assms show thesis
    using that by (auto simp: start_simps bind_result_Inr split: sum.splits prod.splits migrated.splits if_splits)
qed

lemma build_simps:
  "ap_auth (in_app (build ob cfg rd r client)) = new_auth_service (ob_auth ob) rd (cf_jwt_secret (cf_auth cfg))
     (cf_jwt_expiry (cf_auth cfg)) (cf_challenge_ttl (cf_auth cfg))"
  "ap_match (in_app (build ob cfg rd r client)) = ob_match ob"
  "oh_svc (ap_orders (in_app (build ob cfg rd r client))) = new_order_service (al_eth (ob_auth ob))
     (new_signature_service (al_eth (ob_auth ob)) (cf_chain_id (cf_ethereum cfg)) (cf_exchange (cf_ethereum cfg)))
     (cf_chain_id (cf_ethereum cfg))"
  "wc_chain (in_watcher (build ob cfg rd r client)) = cf_chain_id (cf_ethereum cfg)"
  by (simp_all add: build_def Let_def new_watcher_def)

text \<open>The WebSocket address of the node is read and not used: the watcher subscribes over the address for calls.\<close>

lemma ws_url_unused:
  "build ob (cfg\<lparr>cf_ethereum := (cf_ethereum cfg)\<lparr>cf_ws_url := u\<rparr>\<rparr>) rd r client = build ob cfg rd r client"
  by (simp add: build_def Let_def)

lemma insert_order_chain: "row \<in> set (t_orders (snd (insert_order chain od d))) \<Longrightarrow>
    row \<in> set (t_orders d) \<or> r_chain_id row = chain"
proof (cases rule: insert_order_cases [of chain od d])
  case (2 p r)
  then have "r_chain_id r = chain"
    by (auto simp: encode_order_def bind_result_Inr split: prod.splits)
  then show "row \<in> set (t_orders (snd (insert_order chain od d))) \<Longrightarrow> ?thesis"
    using 2 by auto
qed auto

text \<open>
  C15: the parts of a started server speak of one chain and one exchange.  An order that it accepts carries a signature
  made for the exchange contract and the chain of the configuration and is stored under that chain; the watcher keeps
  its cursor for the same chain and asks the node for the logs of the same contract, first among its four.
\<close>

theorem one_chain_one_exchange:
  assumes "snd (start ob r) = Inr inst"
    and "submit (oh_svc (ap_orders (in_app inst))) (now, created, updated) q d = (Inr od, d')"
  shows "\<exists>cfg eth more. load_config (ob_read_config ob) (ob_unmarshal ob) = Inr cfg \<and>
    ob_dial ob (cf_rpc_url (cf_ethereum cfg)) = Inr eth \<and>
    (let chain = cf_chain_id (cf_ethereum cfg);
         exchange = hex_to_address (al_eth (ob_auth ob)) (cf_exchange (cf_ethereum cfg)) in
     verify (al_eth (ob_auth ob)) \<lparr>ss_chain_id = chain, ss_contract = exchange\<rparr> (request_to_order q created updated) =
       Inr (o_order_hash od) \<and>
     set (t_orders d') - set (t_orders d) \<subseteq> {row. r_chain_id row = chain} \<and>
     wc_chain (in_watcher inst) = chain \<and>
     wc_logs (in_watcher inst) = (\<lambda>a b. ec_filter_logs eth
       \<lparr>fq_from = Some (uint a), fq_to = Some (uint b), fq_addresses = exchange # more\<rparr>))"
proof -
  from startedD [OF assms(1)] obtain cfg client r' where
    cfg: "load_config (ob_read_config ob) (ob_unmarshal ob) = Inr cfg"
    and inst: "inst = build ob cfg (ob_redis ob (cf_redis_addr cfg)) r' client"
    and dial: "ob_dial ob (cf_rpc_url (cf_ethereum cfg)) = Inr (rc_eth client)"
    by blast
  let ?eth = "al_eth (ob_auth ob)" and ?ec = "cf_ethereum cfg"
  from assms(2) have sub: "verify ?eth (new_signature_service ?eth (cf_chain_id ?ec) (cf_exchange ?ec))
      (request_to_order q created updated) = Inr (o_order_hash od)"
    "insert_order (cf_chain_id ?ec) od d = (Inr (), d')"
    by (simp_all add: inst build_simps submit_Inr new_order_service_def)
  have rows: "set (t_orders d') - set (t_orders d) \<subseteq> {row. r_chain_id row = cf_chain_id ?ec}"
    using insert_order_chain [of _ "cf_chain_id ?ec" od d] sub(2) by auto
  have logs: "wc_logs (in_watcher inst) = (\<lambda>a b. ec_filter_logs (rc_eth client)
      \<lparr>fq_from = Some (uint a), fq_to = Some (uint b), fq_addresses = hex_to_address ?eth (cf_exchange ?ec) #
         [hex_to_address ?eth (cf_protocol_manager ?ec), hex_to_address ?eth (cf_collection_manager ?ec),
          hex_to_address ?eth (cf_royalty_manager ?ec)]\<rparr>)"
    by (simp add: inst build_def Let_def watcher_asks_contracts fun_eq_iff)
  have "wc_chain (in_watcher inst) = cf_chain_id ?ec"
    by (simp add: inst build_simps)
  with cfg dial sub(1) rows logs show ?thesis
    unfolding Let_def new_signature_service_def by blast
qed

subsection \<open>The traffic of a started server\<close>

text \<open>The requests in the order in which they are served; a panic ends the run.\<close>

fun serve_all :: "'r app \<Rightarrow> (request_env \<times> http_request) list \<Rightarrow> 'r server \<Rightarrow> 'r server option" where
  "serve_all ap [] st = Some st"
| "serve_all ap ((en, rq) # rqs) st =
     (case serve ap en rq st of None \<Rightarrow> None | Some (_, st') \<Rightarrow> serve_all ap rqs st')"

definition first_server :: "('r, 'w) installation \<Rightarrow> db \<Rightarrow> 'r server" where
  "first_server inst d = \<lparr>sr_shop = \<lparr>sh_store = d, sh_hub = in_hub inst, sh_queue = [], sh_submitted = 0\<rparr>,
     sr_redis = in_redis inst, sr_buckets = [], sr_log = [], sr_metrics = []\<rparr>"

definition accepted_token :: "'r app \<Rightarrow> request_env \<times> http_request \<Rightarrow> bool" where
  "accepted_token ap x = (case authenticate (ap_auth ap) (en_now (fst x)) (snd x) of Inl _ \<Rightarrow> False | Inr _ \<Rightarrow> True)"

lemma serve_all_tables:
  assumes "oh_svc (ap_orders ap) = new_order_service eth svc chain" and "router_ok (ap_match ap)"
  shows "serve_all ap rqs st = Some st' \<Longrightarrow> \<not> list_ex (accepted_token ap) rqs \<Longrightarrow>
    same_tables (store_of st) (store_of st')"
proof (induction rqs arbitrary: st)
  case Nil
  then show ?case by simp
next
  case (Cons x rqs)
  obtain en rq where x: "x = (en, rq)" by fastforce
  from Cons.prems(1) obtain reply st1 where st1: "serve ap en rq st = Some (reply, st1)" "serve_all ap rqs st1 = Some st'"
    by (auto simp: x split: option.splits)
  from Cons.prems(2) have "\<nexists>a. authenticate (ap_auth ap) (en_now en) rq = Inr a"
    by (auto simp: x accepted_token_def)
  with serve_writes [OF assms st1(1)] have "same_tables (store_of st) (store_of st1)"
    by blast
  with Cons.IH [OF st1(2)] Cons.prems(2) show ?case
    by (auto intro: same_tables_trans)
qed

text \<open>
  C8: traffic without a token leaves the tables of a started server as they were.  From the first request on, in any
  number and order, to any route: if no request carries a token that the service built from the configured secret
  accepts, no row of any table has changed at the end.
\<close>

theorem tokenless_traffic_harmless:
  assumes "snd (start ob r) = Inr inst" and "router_ok (ob_match ob)"
    and "serve_all (in_app inst) rqs (first_server inst d) = Some st'"
    and "\<not> list_ex (accepted_token (in_app inst)) rqs"
  shows "same_tables d (store_of st')"
proof -
  from startedD [OF assms(1)] obtain cfg client r' where
    "inst = build ob cfg (ob_redis ob (cf_redis_addr cfg)) r' client"
    by blast
  then have "same_tables (store_of (first_server inst d)) (store_of st')"
    using serve_all_tables [OF _ _ assms(3,4)] assms(2) by (simp add: build_simps)
  then show ?thesis
    by (simp add: first_server_def store_of_def)
qed

subsection \<open>Instances\<close>

text \<open>The configuration of a local network, and an outside that answers.\<close>

definition toy_config :: config where
  "toy_config = \<lparr>cf_server = \<lparr>cf_port = 8080, cf_allowed_origins = []\<rparr>,
     cf_database = \<lparr>cf_host = ''localhost'', cf_db_port = 5432, cf_name = ''nft'', cf_user = ''nft'', cf_password = []\<rparr>,
     cf_redis_addr = ''localhost:6379'',
     cf_ethereum = \<lparr>cf_rpc_url = ''http://localhost:8545'', cf_ws_url = [], cf_chain_id = 31337, cf_exchange = [],
       cf_protocol_manager = [], cf_collection_manager = [], cf_royalty_manager = [], cf_confirmation_blocks = 6\<rparr>,
     cf_auth = \<lparr>cf_jwt_secret = ''secret'', cf_jwt_expiry = 86400 * second, cf_challenge_ttl = 300 * second\<rparr>,
     cf_migration = True\<rparr>"

definition toy_node :: eth_client where
  "toy_node = \<lparr>ec_filter_logs = (\<lambda>q. Inr [cancel_log]), ec_subscribe = (\<lambda>q. Inr ()),
     ec_call = (\<lambda>target data. Inr []), ec_chain_id = Inr 31337\<rparr>"

definition toy_outside :: "(string \<Rightarrow> json option, unit) outside" where
  "toy_outside = \<lparr>ob_log_level = ''verbose'', ob_logger = (\<lambda>l. Inr ()), ob_read_config = Inr (), ob_unmarshal = Inr toy_config, ob_open = (\<lambda>s. Inr ()), ob_ping = Inr (),
     ob_migrations = (\<lambda>s t. Inr ()), ob_up = NoChange, ob_redis = (\<lambda>a. map_redis), ob_dial = (\<lambda>u. Inr toy_node),
     ob_auth = toy_auth_lib, ob_logs = toy_lib, ob_net = toy_net [] (Inr JNull), ob_order = (\<lambda>S. []),
     ob_time = (\<lambda>t. []), ob_now = (\<lambda>i. 0), ob_gql = toy_gql, ob_match = exact_match,
     ob_parse = (\<lambda>rq. Inr not_found), ob_reply = (\<lambda>v. respond 200 (fst v)), ob_page = (\<lambda>e rq. respond 200 JNull),
     ob_handshake = (\<lambda>rq ok. if ok then Inr 1 else Inl (ErrText []))\<rparr>"

definition toy_installation :: "(string \<Rightarrow> json option, unit) installation" where
  "toy_installation = build toy_outside toy_config map_redis (\<lambda>k. None)
     \<lparr>rc_eth = toy_node, rc_chain_id = 31337, rc_addrs = []\<rparr>"

lemma toy_started: "snd (start toy_outside (\<lambda>k. None)) = Inr toy_installation"
  by (simp add: start_simps toy_outside_def load_config_def toy_installation_def map_redis_def toy_config_def split: prod.split)

lemma toy_installation_service: "oh_svc (ap_orders (in_app toy_installation)) = toy_desk"
proof -
  have "hex_to_address toy_eth [] = []"
    by code_simp
  then show ?thesis
    by (simp add: toy_installation_def build_simps toy_outside_def toy_auth_lib_def toy_config_def
        new_signature_service_def toy_service_def)
qed

text \<open>It is the installation of the examples of Server.\<close>

lemma toy_installation_app: "in_app toy_installation = toy_app"
proof -
  have "in_app toy_installation = \<lparr>ap_orders = toy_handler\<lparr>oh_svc := oh_svc (ap_orders (in_app toy_installation))\<rparr>,
     ap_auth = toy_auth, ap_origins = [],
     ap_resolver = (toy_resolver (\<lambda>t. ''1970-01-01T00:00:00Z''))\<lparr>rs_order_svc := oh_svc (ap_orders (in_app toy_installation))\<rparr>,
     ap_gql = toy_gql, ap_match = exact_match, ap_parse = (\<lambda>rq. Inr not_found), ap_reply = (\<lambda>v. respond 200 (fst v)),
     ap_page = (\<lambda>e rq. respond 200 JNull), ap_handshake = (\<lambda>rq ok. if ok then Inr 1 else Inl (ErrText []))\<rparr>"
    by (simp add: toy_installation_def build_def Let_def toy_outside_def toy_config_def toy_handler_def toy_resolver_def
        toy_auth_def toy_auth_lib_def)
  then show ?thesis
    by (simp add: toy_installation_service) (simp add: toy_app_def toy_handler_def toy_resolver_def)
qed

lemma toy_first_server: "first_server toy_installation empty_db = toy_server"
  by (simp add: first_server_def toy_server_def toy_shop_def toy_installation_def build_def Let_def toy_outside_def
      toy_config_def)

theorem one_chain_one_exchange_witness:
  "set (t_orders auction_db) - set (t_orders empty_db) \<subseteq> {row. r_chain_id row = 31337} \<and>
   wc_chain (in_watcher toy_installation) = 31337"
proof -
  have cfg: "load_config (ob_read_config toy_outside) (ob_unmarshal toy_outside) = Inr toy_config"
    by (simp add: load_config_def toy_outside_def)
  have "submit (oh_svc (ap_orders (in_app toy_installation))) (unix_instant 1200, 0, 0) auction_request empty_db =
      (Inr auction_order, auction_db)"
    by (simp add: toy_installation_service auction_accepted)
  from one_chain_one_exchange [OF toy_started this] show ?thesis
    by (simp add: cfg Let_def) (simp add: toy_config_def, blast)
qed

theorem tokenless_traffic_harmless_witness:
  "\<exists>st'. serve_all (in_app toy_installation) [(toy_env, post_request auction_body)]
      (first_server toy_installation empty_db) = Some st' \<and> same_tables empty_db (store_of st')"
proof -
  let ?rq = "post_request auction_body"
  have auth: "authenticate (ap_auth (in_app toy_installation)) 1 ?rq = Inl e \<Longrightarrow>
      \<not> list_ex (accepted_token (in_app toy_installation)) [(toy_env, ?rq)]" for e
    by (simp add: accepted_token_def toy_env_def)
  obtain e where e: "authenticate (ap_auth (in_app toy_installation)) 1 ?rq = Inl e"
    by (simp add: authenticate_def post_request_def get_request_def)
  have r: "exact_match routes ''POST'' ''/api/v1/orders'' =
      Some (route_of ''POST'' ''/api/v1/orders'' SubmitOrder True, \<lambda>k. [])"
    by (simp add: exact_match_def routes_def route_of_def)
  have "ap_match (in_app toy_installation) = exact_match" "ap_origins (in_app toy_installation) = []"
    by (simp_all add: toy_installation_def build_def Let_def toy_outside_def toy_config_def)
  with e have "\<exists>st'. serve_all (in_app toy_installation) [(toy_env, ?rq)] (first_server toy_installation empty_db) = Some st'"
    by (simp add: serve_def toy_env_def post_request_def get_request_def r Let_def cors_def rate_limit_def charge_def
        refill_def first_server_def run_route_def route_of_def seconds_def)
  then obtain st' where st': "serve_all (in_app toy_installation) [(toy_env, ?rq)]
      (first_server toy_installation empty_db) = Some st'" by blast
  have "router_ok (ob_match toy_outside)"
    by (simp add: toy_outside_def exact_match_ok)
  from tokenless_traffic_harmless [OF toy_started this st' auth [OF e]] st' show ?thesis
    by blast
qed

end
