(* ===== verification/WatcherLoops.thy ===== *)
theory WatcherLoops
  imports Watcher
begin

section \<open>internal/watcher/watcher.go: the loops side by side\<close>

text \<open>
  \<open>Run\<close> starts \<open>subscribeLoop\<close>, \<open>pollLoop\<close> and \<open>processLoop\<close>, and \<open>subscribeLoop\<close> starts a goroutine for every log.
  They share the cursor, the database and the node.  A goroutine that handles a log is the log with the place it has
  reached (\<open>phase\<close>): one step is the code up to the next call that another goroutine can see.  \<open>Watcher.handle_log\<close> is
  such a goroutine with nobody else running.
\<close>

datatype phase =
    Checking | Waiting contract_event | Inserting contract_event | Handling contract_event | Advancing
  | Marking | Rewinding | Deleting

text \<open>The next place, or none when \<open>handleLog\<close> has returned; \<open>None\<close> is a panic.\<close>

definition handler_step ::
  "'r watcher \<Rightarrow> eth_log \<Rightarrow> phase \<Rightarrow> 'r watch_state \<Rightarrow> (phase option \<times> 'r watch_state) option" where
  "handler_step w l ph s =
     (case ph of
        Checking \<Rightarrow>
          (case parse_event (wc_lib w) l of
             None \<Rightarrow> None
           | Some None \<Rightarrow> Some (None, s)
           | Some (Some e) \<Rightarrow>
               (case watch_db (event_exists (lg_block l) (lg_tx_index l) (lg_index l)) s of
                  (Inr False, s1) \<Rightarrow> Some (Some (Waiting e), s1)
                | (_, s1) \<Rightarrow> Some (None, s1)))
      | Waiting e \<Rightarrow>
          (case block_number s of
             (Inl _, s1) \<Rightarrow> Some (None, s1)
           | (Inr latest, s1) \<Rightarrow>
               if latest \<ge> lg_block l + wc_confirmations w
               then Some (Some (if lg_removed l then Marking else Inserting e), s1)
               else Some (Some (Waiting e), s1))
      | Inserting e \<Rightarrow>
          (case watch_db (insert_event e) s of
             (Inl _, s1) \<Rightarrow> Some (None, s1)
           | (Inr _, s1) \<Rightarrow> Some (Some (Handling e), s1))
      | Handling e \<Rightarrow>
          map_option (\<lambda>(_, sys). (Some Advancing, s\<lparr>wt_system := sys\<rparr>)) (handle (wc_services w) e (wt_system s))
      | Advancing \<Rightarrow>
          Some (None, if lg_block l > wt_cursor s then s\<lparr>wt_cursor := lg_block l\<rparr> else s)
      | Marking \<Rightarrow> Some (Some Rewinding, snd (watch_db (mark_removed (lg_block l) (lg_tx_index l) (lg_index l)) s))
      | Rewinding \<Rightarrow> Some (Some Deleting, s\<lparr>wt_cursor := reorg_block (lg_block l)\<rparr>)
      | Deleting \<Rightarrow> Some (None, snd (watch_db (delete_events_above_block (reorg_block (lg_block l))) s)))"

text \<open>\<open>poll\<close>: it has asked for the head, has chosen a range, or works through the logs of the range up to a block.\<close>

datatype polling =
    Resting | Asked uint64 | Ranged uint64 uint64 | Reading uint64 "eth_log list" "(eth_log \<times> phase) option"

definition poll_step :: "'r watcher \<Rightarrow> polling \<Rightarrow> 'r watch_state \<Rightarrow> (polling \<times> 'r watch_state) option" where
  "poll_step w p s =
     (case p of
        Resting \<Rightarrow> (case block_number s of (Inl _, s1) \<Rightarrow> Some (Resting, s1) | (Inr latest, s1) \<Rightarrow> Some (Asked latest, s1))
      | Asked latest \<Rightarrow>
          (let fromBlock = next_block s in
           Some (if fromBlock + wc_confirmations w > latest then Resting
             else Ranged fromBlock (latest - wc_confirmations w), s))
      | Ranged fromBlock toBlock \<Rightarrow>
          (case wc_logs w fromBlock toBlock of
             Inl _ \<Rightarrow> Some (Resting, s)
           | Inr logs \<Rightarrow> Some (Reading toBlock logs None, s))
      | Reading toBlock logs (Some (l, ph)) \<Rightarrow>
          map_option (\<lambda>(ph', s'). (Reading toBlock logs (map_option (Pair l) ph'), s')) (handler_step w l ph s)
      | Reading toBlock (l # logs) None \<Rightarrow> Some (Reading toBlock logs (Some (l, Checking)), s)
      | Reading toBlock [] None \<Rightarrow>
          Some (Resting, if toBlock > wt_cursor s then s\<lparr>wt_cursor := toBlock\<rparr> else s))"

subsection \<open>All goroutines\<close>

text \<open>
  The shared state; the channel of the subscription; the running handlers, the handlers that have returned but not yet
  given their slot of the semaphore back, and the slots taken; the poll; the cursor that \<open>processLoop\<close> has read and not
  yet saved.
\<close>

record 'r loops =
  lp_state :: "'r watch_state"
  lp_subscribed :: bool
  lp_channel :: "eth_log list"
  lp_running :: "(eth_log \<times> phase) list"
  lp_leaving :: nat
  lp_slots :: nat
  lp_activity :: instant
  lp_poll :: polling
  lp_saving :: "uint64 option"

definition channel_size :: nat where
  "channel_size = 100"

text \<open>One log out of the channel: to a new goroutine if a slot is free, dropped if not.\<close>

definition receive_log :: "instant \<Rightarrow> 'r loops \<Rightarrow> 'r loops" where
  "receive_log now s =
     (case lp_channel s of
        [] \<Rightarrow> s
      | l # ls \<Rightarrow>
          let s1 = s\<lparr>lp_channel := ls, lp_activity := now\<rparr> in
          if lp_slots s1 < handler_slots
          then s1\<lparr>lp_slots := Suc (lp_slots s1), lp_running := lp_running s1 @ [(l, Checking)]\<rparr>
          else s1)"

definition move_handler :: "'r watcher \<Rightarrow> nat \<Rightarrow> 'r loops \<Rightarrow> 'r loops option" where
  "move_handler w i s =
     (if i < length (lp_running s)
      then (case lp_running s ! i of (l, ph) \<Rightarrow>
        (case handler_step w l ph (lp_state s) of
           None \<Rightarrow> None
         | Some (Some ph', st) \<Rightarrow> Some (s\<lparr>lp_state := st, lp_running := (lp_running s)[i := (l, ph')]\<rparr>)
         | Some (None, st) \<Rightarrow>
             Some (s\<lparr>lp_state := st, lp_running := take i (lp_running s) @ drop (Suc i) (lp_running s),
               lp_leaving := Suc (lp_leaving s)\<rparr>)))
      else Some s)"

definition move_poll :: "'r watcher \<Rightarrow> instant \<Rightarrow> 'r loops \<Rightarrow> 'r loops option" where
  "move_poll w now s =
     (if lp_poll s = Resting \<and> \<not> poll_due now (lp_activity s) then Some s
      else map_option (\<lambda>(p, st). s\<lparr>lp_poll := p, lp_state := st\<rparr>) (poll_step w (lp_poll s) (lp_state s)))"

text \<open>\<open>processLoop\<close>: the cursor is read under the lock and saved after it.\<close>

definition move_save :: "'r watcher \<Rightarrow> 'r loops \<Rightarrow> 'r loops" where
  "move_save w s =
     (case lp_saving s of
        None \<Rightarrow> s\<lparr>lp_saving := Some (wt_cursor (lp_state s))\<rparr>
      | Some c \<Rightarrow> s\<lparr>lp_saving := None, lp_state := snd (watch_db (update_last_synced_block (wc_chain w) c) (lp_state s))\<rparr>)"

text \<open>
  The moves of the program and of the node.  A move that is not possible changes nothing; \<open>None\<close> is a panic in a
  goroutine, which ends the process.
\<close>

datatype move =
    Subscribe | SubscriptionError | Arrive eth_log | Receive instant | Handler nat | Release
  | PollTick instant | SaveTick

definition do_move :: "'r watcher \<Rightarrow> move \<Rightarrow> 'r loops \<Rightarrow> 'r loops option" where
  "do_move w m s =
     (case m of
        Subscribe \<Rightarrow> Some (if lp_subscribed s then s else s\<lparr>lp_subscribed := True, lp_channel := []\<rparr>)
      | SubscriptionError \<Rightarrow> Some (s\<lparr>lp_subscribed := False\<rparr>)
      | Arrive l \<Rightarrow> Some (if lp_subscribed s \<and> length (lp_channel s) < channel_size
          then s\<lparr>lp_channel := lp_channel s @ [l]\<rparr> else s)
      | Receive now \<Rightarrow> Some (if lp_subscribed s then receive_log now s else s)
      | Handler i \<Rightarrow> move_handler w i s
      | Release \<Rightarrow> Some (if lp_leaving s = 0 then s
          else s\<lparr>lp_leaving := lp_leaving s - 1, lp_slots := lp_slots s - 1\<rparr>)
      | PollTick now \<Rightarrow> move_poll w now s
      | SaveTick \<Rightarrow> Some (move_save w s))"

definition run_moves :: "'r watcher \<Rightarrow> move list \<Rightarrow> 'r loops \<Rightarrow> 'r loops option" where
  "run_moves w ms s = fold (\<lambda>m r. Option.bind r (do_move w m)) ms (Some s)"

text \<open>A step is a move, or something another part of the server does to the shared state.\<close>

inductive loop_step :: "'r watcher \<Rightarrow> 'r loops \<Rightarrow> 'r loops \<Rightarrow> bool" for w where
  move: "do_move w m s = Some s' \<Longrightarrow> loop_step w s s'"
| book: "repo_step chain (sy_db (wt_system (lp_state s))) d \<Longrightarrow>
    loop_step w s (s\<lparr>lp_state := (lp_state s)\<lparr>wt_system := (wt_system (lp_state s))\<lparr>sy_db := d\<rparr>\<rparr>\<rparr>)"
| node: "loop_step w s (s\<lparr>lp_state := (lp_state s)\<lparr>wt_answers := answers\<rparr>\<rparr>)"
| push: "loop_step w s (s\<lparr>lp_state := (lp_state s)\<lparr>wt_system := (wt_system (lp_state s))\<lparr>sy_hub := h\<rparr>\<rparr>\<rparr>)"

inductive_cases loop_stepE: "loop_step w s s'"

text \<open>The loops as \<open>Run\<close> starts them; the zero value of a \<open>time.Time\<close> is the first of January of the year 1.\<close>

definition go_zero_time :: instant where
  "go_zero_time = - 62135596800 * second"

definition started_loops :: "'r watcher \<Rightarrow> 'r watch_state \<Rightarrow> 'r loops" where
  "started_loops w s = \<lparr>lp_state = initial_cursor w s, lp_subscribed = False, lp_channel = [], lp_running = [],
     lp_leaving = 0, lp_slots = 0, lp_activity = go_zero_time, lp_poll = Resting, lp_saving = None\<rparr>"

lemma run_moves_reach: "run_moves w ms s = Some s' \<Longrightarrow> (loop_step w)\<^sup>*\<^sup>* s s'"
proof -
  have "fold (\<lambda>m r. Option.bind r (do_move w m)) ms r = Some s' \<Longrightarrow> \<exists>s. r = Some s \<and> (loop_step w)\<^sup>*\<^sup>* s s'" for r
  proof (induction ms arbitrary: r)
    case (Cons m ms)
    from Cons.IH [of "Option.bind r (do_move w m)"] Cons.prems obtain s s1 where
      "r = Some s" "do_move w m s = Some s1" "(loop_step w)\<^sup>*\<^sup>* s1 s'"
      by (auto simp: bind_eq_Some_conv)
    then show ?case
      by (auto intro: converse_rtranclp_into_rtranclp loop_step.move)
  qed auto
  then show "run_moves w ms s = Some s' \<Longrightarrow> (loop_step w)\<^sup>*\<^sup>* s s'"
    by (auto simp: run_moves_def)
qed

subsection \<open>A handler alone\<close>

text \<open>The steps of one handler with nobody else running; a place without a phase is a handler that has returned.\<close>

inductive alone :: "'r watcher \<Rightarrow> eth_log \<Rightarrow> phase option \<times> 'r watch_state \<Rightarrow> phase option \<times> 'r watch_state \<Rightarrow> bool"
  for w l where
  "handler_step w l ph s = Some r \<Longrightarrow> alone w l (Some ph, s) r"

inductive_simps alone_simps [simp]: "alone w l (Some ph, s) r" "alone w l (None, s) r"

text \<open>A handler alone has one way to go, so it ends in one state.\<close>

lemma alone_unique:
  assumes "(alone w l)\<^sup>*\<^sup>* x y" and "(alone w l)\<^sup>*\<^sup>* x z" and "\<And>r. \<not> alone w l y r" and "\<And>r. \<not> alone w l z r"
  shows "y = z"
  using assms(1,2)
proof (induction rule: converse_rtranclp_induct)
  case base
  with assms(3) show ?case
    by (auto elim: converse_rtranclpE)
next
  case (step x x')
  from step.hyps(1) obtain ph s where x: "x = (Some ph, s)" "handler_step w l ph s = Some x'"
    by (auto elim: alone.cases)
  moreover have "z \<noteq> x"
    using step.hyps(1) assms(4) by blast
  ultimately have "(alone w l)\<^sup>*\<^sup>* x' z"
    using step.prems by (auto elim: converse_rtranclpE)
  then show ?case by (rule step.IH)
qed

lemma alone_step: "handler_step w l ph s = Some (p', s1) \<Longrightarrow> (alone w l)\<^sup>*\<^sup>* (p', s1) r \<Longrightarrow> (alone w l)\<^sup>*\<^sup>* (Some ph, s) r"
  by (rule converse_rtranclp_into_rtranclp) auto

text \<open>Waiting consumes the answers of the node one by one.\<close>

lemma waits:
  assumes "wait_answers (lg_block l + wc_confirmations w) answers = (r, rest)"
  shows "(alone w l)\<^sup>*\<^sup>* (Some (Waiting e), s\<lparr>wt_answers := answers\<rparr>)
    (case r of Inl _ \<Rightarrow> None | Inr _ \<Rightarrow> Some (if lg_removed l then Marking else Inserting e), s\<lparr>wt_answers := rest\<rparr>)"
  using assms
proof (induction "lg_block l + wc_confirmations w" answers arbitrary: r rest rule: wait_answers.induct)
  case 1
  then show ?case
    by (auto intro!: r_into_rtranclp simp: handler_step_def block_number_def)
next
  case (2 x as)
  then show ?case
    by (auto intro!: r_into_rtranclp simp: handler_step_def block_number_def)
next
  case (3 latest as)
  have last: "(alone w l)\<^sup>*\<^sup>* (Some (Waiting e), s\<lparr>wt_answers := []\<rparr>) (None, s\<lparr>wt_answers := []\<rparr>)"
    by (auto intro!: r_into_rtranclp simp: handler_step_def block_number_def)
  show ?case
  proof (cases "lg_block l + wc_confirmations w \<le> latest")
    case True
    with 3 show ?thesis
      by (auto intro!: r_into_rtranclp simp: handler_step_def block_number_def)
  next
    case False
    then have go: "handler_step w l (Waiting e) (s\<lparr>wt_answers := Inr latest # as\<rparr>) =
        Some (Some (Waiting e), s\<lparr>wt_answers := as\<rparr>)"
      by (simp add: handler_step_def block_number_def)
    show ?thesis
    proof (cases "as = []")
      case True
      with 3 False last show ?thesis
        by (intro alone_step [OF go]) auto
    next
      case more: False
      with 3 False have "wait_answers (lg_block l + wc_confirmations w) as = (r, rest)" by simp
      from 3(1) [OF _ more this] False show ?thesis
        by (intro alone_step [OF go]) auto
    qed
  qed
qed

lemma removing_alone:
  "(alone w l)\<^sup>*\<^sup>* (Some Marking, s) (None, handle_removed l s)"
proof -
  let ?s1 = "snd (watch_db (mark_removed (lg_block l) (lg_tx_index l) (lg_index l)) s)"
  have "handler_step w l Marking s = Some (Some Rewinding, ?s1)"
    "handler_step w l Rewinding ?s1 = Some (Some Deleting, ?s1\<lparr>wt_cursor := reorg_block (lg_block l)\<rparr>)"
    "handler_step w l Deleting (?s1\<lparr>wt_cursor := reorg_block (lg_block l)\<rparr>) = Some (None, handle_removed l s)"
    by (simp_all add: handler_step_def handle_removed_def Let_def)
  then show ?thesis
    by (blast intro: alone_step)
qed

lemma new_alone:
  "case handle_new w l e s of
     Some s' \<Rightarrow> (alone w l)\<^sup>*\<^sup>* (Some (Inserting e), s) (None, s')
   | None \<Rightarrow> \<exists>st. (alone w l)\<^sup>*\<^sup>* (Some (Inserting e), s) (Some (Handling e), st) \<and> handler_step w l (Handling e) st = None"
proof -
  obtain x s1 where i: "watch_db (insert_event e) s = (x, s1)"
    by fastforce
  show ?thesis
  proof (cases x)
    case (Inl y)
    then show ?thesis
      using i by (auto simp: handle_new_def handler_step_def intro!: r_into_rtranclp)
  next
    case (Inr u)
    then have go: "handler_step w l (Inserting e) s = Some (Some (Handling e), s1)"
      using i by (simp add: handler_step_def)
    show ?thesis
    proof (cases "handle (wc_services w) e (wt_system s1)")
      case None
      with i Inr have "handle_new w l e s = None" "handler_step w l (Handling e) s1 = None"
        by (simp_all add: handle_new_def handler_step_def)
      with alone_step [OF go rtranclp.rtrancl_refl] show ?thesis
        by auto
    next
      case (Some a)
      obtain r sys where a: "a = (r, sys)" by fastforce
      let ?s2 = "s1\<lparr>wt_system := sys\<rparr>"
      have "handler_step w l (Handling e) s1 = Some (Some Advancing, ?s2)"
        "handler_step w l Advancing ?s2 = Some (None, if lg_block l > wt_cursor s1 then ?s2\<lparr>wt_cursor := lg_block l\<rparr> else ?s2)"
        using Some a by (simp_all add: handler_step_def)
      with go have "(alone w l)\<^sup>*\<^sup>* (Some (Inserting e), s)
          (None, if lg_block l > wt_cursor s1 then ?s2\<lparr>wt_cursor := lg_block l\<rparr> else ?s2)"
        by (blast intro: alone_step)
      moreover have "handle_new w l e s = Some (if lg_block l > wt_cursor s1 then ?s2\<lparr>wt_cursor := lg_block l\<rparr> else ?s2)"
        using i Inr Some a by (simp add: handle_new_def)
      ultimately show ?thesis by simp
    qed
  qed
qed

lemma handler_runs:
  "case handle_log w l s of
     Some s' \<Rightarrow> (alone w l)\<^sup>*\<^sup>* (Some Checking, s) (None, s')
   | None \<Rightarrow> \<exists>ph st. (alone w l)\<^sup>*\<^sup>* (Some Checking, s) (Some ph, st) \<and> handler_step w l ph st = None"
proof (cases "parse_event (wc_lib w) l")
  case None
  then have "handle_log w l s = None" "handler_step w l Checking s = None"
    by (simp_all add: handle_log_def handler_step_def)
  then show ?thesis
    by auto
next
  case (Some pe)
  show ?thesis
  proof (cases pe)
    case None
    with Some show ?thesis
      by (auto simp: handle_log_def handler_step_def intro!: r_into_rtranclp)
  next
    case ev: (Some e)
    obtain x s1 where ex: "watch_db (event_exists (lg_block l) (lg_tx_index l) (lg_index l)) s = (x, s1)"
      by fastforce
    show ?thesis
    proof (cases "x = Inr False")
      case False
      with Some ev ex show ?thesis
        by (cases x) (auto simp: handle_log_def handler_step_def split: bool.splits intro!: r_into_rtranclp)
    next
      case True
      obtain r rest where wa: "wait_answers (lg_block l + wc_confirmations w) (wt_answers s1) = (r, rest)"
        by fastforce
      let ?s2 = "s1\<lparr>wt_answers := rest\<rparr>"
      have check: "handler_step w l Checking s = Some (Some (Waiting e), s1)"
        using Some ev ex True by (simp add: handler_step_def)
      note wait = waits [OF wa, of e s1, simplified]
      have log: "handle_log w l s = (case r of Inl _ \<Rightarrow> Some ?s2 | Inr _ \<Rightarrow>
          if lg_removed l then Some (handle_removed l ?s2) else handle_new w l e ?s2)"
        using Some ev ex True wa by (simp add: handle_log_def wait_confirmations_def split: sum.split)
      note first = alone_step [OF check]
      show ?thesis
      proof (cases r)
        case (Inl y)
        with wait log show ?thesis
          by (auto intro: first)
      next
        case (Inr u)
        show ?thesis
        proof (cases "lg_removed l")
          case True
          with Inr wait log removing_alone [of w l ?s2] show ?thesis
            by (auto intro: first rtranclp_trans)
        next
          case False
          with Inr wait have start: "(alone w l)\<^sup>*\<^sup>* (Some Checking, s) (Some (Inserting e), ?s2)"
            by (auto intro: first)
          from False Inr log have "handle_log w l s = handle_new w l e ?s2" by simp
          then show ?thesis
            using new_alone [of w l e ?s2] start
            by (auto split: option.splits intro: rtranclp_trans)
        qed
      qed
    qed
  qed
qed


text \<open>The same for a poll: its steps with nobody else running come back to rest in the state that \<open>poll\<close> computes.\<close>

inductive poll_alone :: "'r watcher \<Rightarrow> polling \<times> 'r watch_state \<Rightarrow> polling \<times> 'r watch_state \<Rightarrow> bool" for w where
  "poll_step w p s = Some r \<Longrightarrow> poll_alone w (p, s) r"

lemma poll_alone_step: "poll_step w p s = Some r \<Longrightarrow> (poll_alone w)\<^sup>*\<^sup>* r r' \<Longrightarrow> (poll_alone w)\<^sup>*\<^sup>* (p, s) r'"
  by (rule converse_rtranclp_into_rtranclp) (auto intro: poll_alone.intros)

lemma poll_step_reading: "poll_step w (Reading b ls (Some (l, ph))) s =
    map_option (\<lambda>(ph', s'). (Reading b ls (map_option (Pair l) ph'), s')) (handler_step w l ph s)"
  by (cases ls) (simp_all add: poll_step_def)

lemma reading_handler:
  assumes "(alone w l)\<^sup>*\<^sup>* x y"
  shows "(poll_alone w)\<^sup>*\<^sup>* (Reading b ls (map_option (Pair l) (fst x)), snd x)
    (Reading b ls (map_option (Pair l) (fst y)), snd y)"
  using assms
proof (induction rule: converse_rtranclp_induct)
  case (step x x')
  from step.hyps(1) obtain ph s where "x = (Some ph, s)" "handler_step w l ph s = Some x'"
    by (auto elim: alone.cases)
  then have "poll_step w (Reading b ls (map_option (Pair l) (fst x))) (snd x) =
      Some (Reading b ls (map_option (Pair l) (fst x')), snd x')"
    by (simp add: poll_step_reading split: prod.split)
  then show ?case
    using step.IH by (rule poll_alone_step)
qed auto

lemma reading_logs:
  "handle_logs w ls s = Some s' \<Longrightarrow> (poll_alone w)\<^sup>*\<^sup>* (Reading b ls None, s) (Reading b [] None, s')"
proof (induction ls arbitrary: s)
  case (Cons l ls)
  from Cons.prems obtain s1 where s1: "handle_log w l s = Some s1" "handle_logs w ls s1 = Some s'"
    by (auto split: option.splits)
  have "(alone w l)\<^sup>*\<^sup>* (Some Checking, s) (None, s1)"
    using s1(1) handler_runs [of w l s] by simp
  from reading_handler [OF this] have "(poll_alone w)\<^sup>*\<^sup>* (Reading b ls (Some (l, Checking)), s) (Reading b ls None, s1)"
    by simp
  moreover have "poll_step w (Reading b (l # ls) None) s = Some (Reading b ls (Some (l, Checking)), s)"
    by (simp add: poll_step_def)
  ultimately show ?case
    using Cons.IH [OF s1(2)] by (blast intro: poll_alone_step rtranclp_trans)
qed auto

lemma poll_runs:
  assumes "poll w s = Some (r, s')"
  shows "(poll_alone w)\<^sup>+\<^sup>+ (Resting, s) (Resting, s')"
proof -
  obtain a s1 where a: "block_number s = (a, s1)" by fastforce
  show ?thesis
  proof (cases a)
    case (Inl e)
    with assms a have "poll_step w Resting s = Some (Resting, s')"
      by (simp add: poll_def poll_step_def)
    then show ?thesis by (blast intro: poll_alone.intros)
  next
    case (Inr latest)
    with a have "poll_step w Resting s = Some (Asked latest, s1)"
      by (simp add: poll_step_def)
    then have start: "poll_alone w (Resting, s) (Asked latest, s1)"
      by (rule poll_alone.intros)
    have "(poll_alone w)\<^sup>*\<^sup>* (Asked latest, s1) (Resting, s')"
    proof (cases "next_block s1 + wc_confirmations w > latest")
      case True
      with assms a Inr show ?thesis
        by (intro poll_alone_step) (auto simp: poll_def poll_step_def Let_def)
    next
      case False
      let ?a = "next_block s1" and ?b = "latest - wc_confirmations w"
      have ranged: "poll_step w (Asked latest) s1 = Some (Ranged ?a ?b, s1)"
        using False by (simp add: poll_step_def Let_def)
      show ?thesis
      proof (cases "wc_logs w ?a ?b")
        case (Inl e)
        with assms a Inr False show ?thesis
          by (intro poll_alone_step [OF ranged] poll_alone_step) (auto simp: poll_def poll_step_def Let_def)
      next
        case logs: (Inr ls)
        with assms a Inr False obtain s2 where s2: "handle_logs w ls s1 = Some s2"
          "s' = (if ?b > wt_cursor s2 then s2\<lparr>wt_cursor := ?b\<rparr> else s2)"
          by (auto simp: poll_def Let_def)
        have "poll_step w (Ranged ?a ?b) s1 = Some (Reading ?b ls None, s1)"
          "poll_step w (Reading ?b [] None) s2 = Some (Resting, s')"
          using logs s2(2) by (simp_all add: poll_step_def)
        then show ?thesis
          using reading_logs [OF s2(1)] by (blast intro: poll_alone_step [OF ranged] poll_alone_step rtranclp_trans)
      qed
    qed
    with start show ?thesis by (rule rtranclp_into_tranclp2)
  qed
qed

subsection \<open>Every interleaving\<close>

lemma handler_step_run:
  assumes "handler_step w l ph s = Some (p', s')"
  shows "store_run chain (wt_db s) (wt_db s')"
proof (cases ph)
  case Checking
  obtain x s1 where "watch_db (event_exists (lg_block l) (lg_tx_index l) (lg_index l)) s = (x, s1)"
    by fastforce
  with watch_db_run [OF stores_events(2) this] assms Checking show ?thesis
    by (auto simp: handler_step_def split: option.splits sum.splits bool.splits)
next
  case (Waiting e)
  with assms show ?thesis
    by (auto simp: handler_step_def split: prod.splits sum.splits if_splits dest: block_number_db)
next
  case (Inserting e)
  obtain x s1 where "watch_db (insert_event e) s = (x, s1)"
    by fastforce
  with watch_db_run [OF stores_events(1) this] assms Inserting show ?thesis
    by (auto simp: handler_step_def split: sum.splits)
next
  case (Handling e)
  with assms show ?thesis
    by (auto simp: handler_step_def dest: handle_run)
next
  case Marking
  with assms watch_db_runs [OF stores_events(3)] show ?thesis
    by (auto simp: handler_step_def)
next
  case Deleting
  with assms watch_db_runs [OF stores_events(4)] show ?thesis
    by (auto simp: handler_step_def)
qed (use assms in \<open>auto simp: handler_step_def\<close>)

lemma poll_step_run:
  assumes "poll_step w p s = Some (p', s')"
  shows "store_run chain (wt_db s) (wt_db s')"
  using assms
  by (auto simp: poll_step_def Let_def split: polling.splits prod.splits sum.splits list.splits option.splits if_splits
      dest: block_number_db handler_step_run)

lemma move_handler_run: "move_handler w i s = Some s' \<Longrightarrow> store_run chain (wt_db (lp_state s)) (wt_db (lp_state s'))"
  by (auto simp: move_handler_def split: if_splits prod.splits option.splits dest: handler_step_run)

text \<open>A move of the watcher is a run of the store.\<close>

lemma do_move_run:
  assumes "do_move w m s = Some s'"
  shows "store_run chain (wt_db (lp_state s)) (wt_db (lp_state s'))"
proof (cases m)
  case (Handler i)
  with assms show ?thesis
    by (simp add: do_move_def move_handler_run)
next
  case (PollTick now)
  with assms show ?thesis
    by (auto simp: do_move_def move_poll_def split: if_splits dest: poll_step_run)
next
  case SaveTick
  have "store_run chain (wt_db (lp_state s)) (wt_db (snd (watch_db (update_last_synced_block (wc_chain w) c) (lp_state s))))" for c
    by (rule watch_db_runs [OF stores_events(5)])
  with SaveTick assms show ?thesis
    by (auto simp: do_move_def move_save_def split: option.splits)
qed (use assms in \<open>auto simp: do_move_def receive_log_def Let_def split: list.splits if_splits\<close>)

text \<open>The slots taken are those of the handlers that run or are leaving; the data stays in order.\<close>

definition slots_ok :: "'r loops \<Rightarrow> bool" where
  "slots_ok s \<longleftrightarrow> lp_slots s = length (lp_running s) + lp_leaving s \<and> lp_slots s \<le> handler_slots \<and>
     length (lp_channel s) \<le> channel_size"

lemma slots_ok_started: "slots_ok (started_loops w s)"
  by (simp add: slots_ok_def started_loops_def)

lemma do_move_slots:
  assumes "do_move w m s = Some s'" and "slots_ok s"
  shows "slots_ok s'"
  using assms
  by (cases m) (auto simp: do_move_def receive_log_def move_handler_def move_poll_def move_save_def slots_ok_def Let_def
      split: list.splits if_splits prod.splits option.splits)

lemma loop_step_ok:
  assumes "loop_step w s s'" and "slots_ok s \<and> db_ok (wt_db (lp_state s))"
  shows "slots_ok s' \<and> db_ok (wt_db (lp_state s'))"
  using assms
proof (induction rule: loop_step.induct)
  case (move m s s')
  then show ?case
    using do_move_slots store_run_ok [OF do_move_run] by blast
next
  case (book chain s d)
  then show ?case
    using store_step_ok [OF store_step.book [OF book.hyps]] by (simp add: slots_ok_def)
qed (simp_all add: slots_ok_def)

text \<open>
  C7: in every interleaving of the watcher's goroutines with each other and with the rest of the server, with any
  failures: at most 64 handlers of subscribed logs run at once and at most 100 logs wait in the channel, no position of
  the chain is recorded twice, and no order hash occurs twice, although two goroutines may handle one log at a time.
\<close>

theorem loops_keep_integrity:
  assumes "(loop_step w)\<^sup>*\<^sup>* (started_loops w s) s'" and "sy_db (wt_system s) = empty_db"
  shows "length (lp_running s') \<le> 64 \<and> length (lp_channel s') \<le> 100 \<and>
    distinct (map (\<lambda>r. (v_block_number r, v_tx_index r, v_log_index r)) (t_events (sy_db (wt_system (lp_state s'))))) \<and>
    distinct (map r_order_hash (t_orders (sy_db (wt_system (lp_state s')))))"
proof -
  have "slots_ok (started_loops w s) \<and> db_ok (wt_db (lp_state (started_loops w s)))"
  proof (rule conjI [OF slots_ok_started])
    have "db_ok (wt_db (initial_cursor w s))"
      using store_run_ok [OF initial_cursor_run] assms(2) db_ok_empty by metis
    then show "db_ok (wt_db (lp_state (started_loops w s)))"
      by (simp add: started_loops_def)
  qed
  with assms(1) have "slots_ok s' \<and> db_ok (wt_db (lp_state s'))"
    by (induction rule: rtranclp_induct) (assumption, rule loop_step_ok)
  then show ?thesis
    by (simp add: slots_ok_def handler_slots_def channel_size_def db_ok_distinct)
qed

subsection \<open>What the interleaving costs\<close>

text \<open>Two logs of the same kind in the blocks 20 and 30, the second confirmed and handled before the first.\<close>

definition later_log :: eth_log where
  "later_log = cancel_log\<lparr>lg_block := 30\<rparr>"

definition overtaking :: "move list" where
  "overtaking = [Subscribe, Arrive cancel_log, Arrive later_log, Receive 0, Receive 0, Handler 0, Handler 1, Handler 1,
     Handler 1, Handler 1, Handler 1, SaveTick, SaveTick]"

definition fresh_loops :: "(string \<Rightarrow> json option) loops" where
  "fresh_loops = started_loops toy_watcher (fresh_state\<lparr>wt_answers := [Inr 10, Inr 100]\<rparr>)"

lemma overtaking_run:
  "case run_moves toy_watcher overtaking fresh_loops of
     None \<Rightarrow> False
   | Some s \<Rightarrow> lp_running s = [(cancel_log, Waiting log_event)] \<and> \<not> log_recorded cancel_log (lp_state s) \<and>
       next_block (initial_cursor toy_watcher (lp_state s)) = 31"
  by code_simp


text \<open>
  One log delivered twice is handled twice: both handlers pass the check before either records the event, and the
  second insertion is a success that changes nothing.
\<close>

definition twice :: "move list" where
  "twice = [Subscribe, Arrive cancel_log, Arrive cancel_log, Receive 0, Receive 0, Handler 0, Handler 1, Handler 0,
     Handler 1, Handler 0, Handler 1]"

lemma twice_run:
  "case run_moves toy_watcher twice (started_loops toy_watcher (fresh_state\<lparr>wt_answers := [Inr 10, Inr 100, Inr 100]\<rparr>)) of
     None \<Rightarrow> False
   | Some s \<Rightarrow> lp_running s = [(cancel_log, Handling log_event), (cancel_log, Handling log_event)] \<and>
       length (t_events (sy_db (wt_system (lp_state s)))) = 1"
  by code_simp

lemma log_handled_twice:
  "\<exists>s0 s. (loop_step toy_watcher)\<^sup>*\<^sup>* (started_loops toy_watcher s0) s \<and> length (t_events (sy_db (wt_system (lp_state s)))) = 1 \<and>
     lp_running s = [(cancel_log, Handling log_event), (cancel_log, Handling log_event)]"
  using twice_run by (auto split: option.splits dest: run_moves_reach)

text \<open>The bounds and the integrity in the run of the example.\<close>

theorem loops_keep_integrity_witness:
  "\<exists>s. run_moves toy_watcher overtaking fresh_loops = Some s \<and> length (lp_running s) \<le> 64 \<and>
     distinct (map r_order_hash (t_orders (sy_db (wt_system (lp_state s)))))"
proof -
  from overtaking_run obtain s where run: "run_moves toy_watcher overtaking fresh_loops = Some s"
    by (auto split: option.splits)
  have "sy_db (wt_system (fresh_state\<lparr>wt_answers := [Inr 10, Inr 100]\<rparr>)) = empty_db"
    by (simp add: fresh_state_def)
  with loops_keep_integrity [OF run_moves_reach [OF run, unfolded fresh_loops_def]] run show ?thesis
    by (simp add: fresh_loops_def)
qed

end
