(* ===== verification/Site.thy ===== *)
theory Site
  imports Startup WatcherLoops
begin

section \<open>The running site\<close>

text \<open>
  Everything that \<open>main\<close> starts, on one database, one Redis, one hub and one metadata queue: the HTTP server, the
  watcher's loops, the metadata workers and the scheduler.  A step is a request, a move of the watcher, a job of a worker, a
  tick of the scheduler, or the outside.  Requests and jobs are single steps: each statement they send to the database is a
  step of the store by itself (\<open>StoreRuns\<close>), so cutting them finer gives no other databases.
\<close>

record ('r, 'w) site =
  st_server :: "'r server"
  st_loops :: "'r loops"
  st_net :: 'w

subsection \<open>The shared state\<close>

text \<open>The server's state holds what is shared; the others see it and write it back.\<close>

definition shared :: "'r server \<Rightarrow> 'r system" where
  "shared sr = \<lparr>sy_db = sh_store (sr_shop sr), sy_cache = sr_redis sr, sy_hub = sh_hub (sr_shop sr)\<rparr>"

definition see_loops :: "('r, 'w) site \<Rightarrow> 'r loops" where
  "see_loops s = (st_loops s)\<lparr>lp_state := (lp_state (st_loops s))\<lparr>wt_system := shared (st_server s)\<rparr>\<rparr>"

definition keep_loops :: "'r loops \<Rightarrow> ('r, 'w) site \<Rightarrow> ('r, 'w) site" where
  "keep_loops lp s = (let sys = wt_system (lp_state lp); sr = st_server s in
     s\<lparr>st_loops := lp, st_server := sr\<lparr>sr_redis := sy_cache sys,
       sr_shop := (sr_shop sr)\<lparr>sh_store := sy_db sys, sh_hub := sy_hub sys\<rparr>\<rparr>\<rparr>)"

definition see_meta :: "('r, 'w) site \<Rightarrow> 'w meta_state" where
  "see_meta s = \<lparr>mt_db = sh_store (sr_shop (st_server s)), mt_queue = sh_queue (sr_shop (st_server s)),
     mt_net = st_net s\<rparr>"

definition keep_meta :: "'w meta_state \<Rightarrow> ('r, 'w) site \<Rightarrow> ('r, 'w) site" where
  "keep_meta m s = (let sr = st_server s in
     s\<lparr>st_net := mt_net m,
       st_server := sr\<lparr>sr_shop := (sr_shop sr)\<lparr>sh_store := mt_db m, sh_queue := mt_queue m\<rparr>\<rparr>\<rparr>)"

definition site_db :: "('r, 'w) site \<Rightarrow> db" where
  "site_db s = store_of (st_server s)"

definition set_db :: "db \<Rightarrow> ('r, 'w) site \<Rightarrow> ('r, 'w) site" where
  "set_db d s = (let sr = st_server s in s\<lparr>st_server := sr\<lparr>sr_shop := (sr_shop sr)\<lparr>sh_store := d\<rparr>\<rparr>\<rparr>)"

lemma site_db_simps [simp]:
  "site_db (keep_loops lp s) = wt_db (lp_state lp)" "wt_db (lp_state (see_loops s)) = site_db s"
  "site_db (keep_meta m s) = mt_db m" "mt_db (see_meta s) = site_db s" "site_db (set_db d s) = d"
  by (simp_all add: site_db_def keep_loops_def see_loops_def keep_meta_def see_meta_def set_db_def shared_def
      store_of_def Let_def)

text \<open>The site as \<open>main\<close> leaves it: no log has arrived, no job is queued, the watcher has read its cursor.\<close>

definition first_site :: "('r, 'w) installation \<Rightarrow> uint64 result list \<Rightarrow> 'w \<Rightarrow> db \<Rightarrow> ('r, 'w) site" where
  "first_site inst answers net d =
     (let sr = first_server inst d;
          lp = started_loops (in_watcher inst) \<lparr>wt_system = shared sr, wt_cursor = 0, wt_answers = answers\<rparr>
      in keep_loops lp \<lparr>st_server = sr, st_loops = lp, st_net = net\<rparr>)"

subsection \<open>Steps\<close>

inductive site_step :: "('r, 'w) installation \<Rightarrow> ('r, 'w) site \<Rightarrow> ('r, 'w) site \<Rightarrow> bool" for inst where
  request: "serve (in_app inst) en rq (st_server s) = Some (reply, sr) \<Longrightarrow> site_step inst s (s\<lparr>st_server := sr\<rparr>)"
| watch: "do_move (in_watcher inst) m (see_loops s) = Some lp \<Longrightarrow> site_step inst s (keep_loops lp s)"
| work: "work_one stopped (in_metadata inst) (see_meta s) = Some m \<Longrightarrow> site_step inst s (keep_meta m s)"
| refresh: "metadata_refresh_tick (in_metadata inst) (see_meta s) = Some m \<Longrightarrow> site_step inst s (keep_meta m s)"
| expire: "site_step inst s (keep_meta (expire_orders_tick (see_meta s)) s)"
| node: "site_step inst s (s\<lparr>st_loops := (st_loops s)\<lparr>lp_state := (lp_state (st_loops s))\<lparr>wt_answers := answers\<rparr>\<rparr>\<rparr>)"
| hub: "site_step inst s (s\<lparr>st_server := (st_server s)\<lparr>sr_shop := (sr_shop (st_server s))\<lparr>sh_hub := h\<rparr>\<rparr>\<rparr>)"
| net: "site_step inst s (s\<lparr>st_net := w\<rparr>)"
| clock: "db_now (site_db s) \<le> t \<Longrightarrow> site_step inst s (set_db ((site_db s)\<lparr>db_now := t\<rparr>) s)"
| outcomes: "site_step inst s (set_db ((site_db s)\<lparr>db_outcomes := os\<rparr>) s)"

inductive_cases site_stepE: "site_step inst s s'"

subsection \<open>Requests are runs of the store\<close>

lemma stores_read_only: "read_only f \<Longrightarrow> stores chain f"
  by (rule storesI) (auto intro: same_tables_step dest: read_onlyD)

lemma stores_map_answer: "stores chain m \<Longrightarrow> stores chain (\<lambda>d. map_answer f (m d))"
  by (auto simp: stores_def map_answer_def split: prod.split sum.split dest: storesD intro!: storesI) (metis snd_conv)+

lemma stores_submit: "stores chain (submit (new_order_service eth svc chain) clk q)"
proof (rule storesI)
  fix d x d'
  assume "submit (new_order_service eth svc chain) clk q d = (x, d')"
  moreover obtain now c u where "clk = (now, c, u)" by (cases clk) auto
  ultimately show "store_run chain d d'"
    by (auto simp: submit_def new_order_service_def Let_def split: sum.splits prod.splits dest: storesD [OF stores_book(1)])
qed

lemma stores_field_answer:
  assumes "\<And>a. stores chain (resolve a)"
  shows "stores chain (field_answer raw args resolve marshal)"
  by (rule storesI) (auto simp: field_answer_def split: sum.splits prod.splits option.splits dest: assms [THEN storesD])

lemma stores_run_fields:
  assumes "\<And>f. stores chain (field f)"
  shows "stores chain (run_fields field required fs)"
proof (rule storesI)
  fix d x d'
  show "run_fields field required fs d = (x, d') \<Longrightarrow> store_run chain d d'"
  proof (induction fs arbitrary: d x)
    case (Cons f fs)
    obtain v es d1 where f: "field f d = ((v, es), d1)" by (metis prod.exhaust)
    obtain y d2 where fs: "run_fields field required fs d1 = (y, d2)" by fastforce
    have "d2 = d'"
      using Cons.prems by (auto simp: f fs split: prod.splits)
    with storesD [OF assms f] Cons.IH [of d1 y] fs show ?case by auto
  qed simp
qed

lemma stores_root: "stores chain g \<Longrightarrow> stores chain (\<lambda>d. root_object (g d))"
  by (auto simp: stores_def root_object_def split: prod.split) (metis snd_conv)

lemma stores_exec:
  assumes "rs_order_svc r = new_order_service eth svc chain"
  shows "stores chain (exec L r scan clock op)"
proof (cases op)
  case (Query sels)
  have "stores chain (\<lambda>d. root_object (run_fields (query_field L r scan) query_required sels d))"
    by (rule stores_root, rule stores_run_fields, rule stores_read_only, rule query_field_reads [OF assms])
  with Query show ?thesis
    by (simp add: exec_def [abs_def] query_object_def)
next
  case (Mutation sels)
  have "stores chain (mutation_field L r clock f)" for f
  proof -
    have "stores chain (resolve_submit_order r clock i)" for i
      unfolding resolve_submit_order_def assms by (rule stores_map_answer, rule stores_submit)
    note field = stores_field_answer [of chain "resolve_submit_order r clock", OF this]
    then show ?thesis
      by (auto simp: mutation_field_def stores_def)
  qed
  then have "stores chain (\<lambda>d. root_object (run_fields (mutation_field L r clock) (\<lambda>name. name = ''submitOrder'') sels d))"
    by (intro stores_root stores_run_fields)
  with Mutation show ?thesis
    by (simp add: exec_def [abs_def] mutation_object_def)
qed (simp add: exec_def [abs_def] stores_def)

definition shop_stores :: "int \<Rightarrow> ('s \<Rightarrow> db) \<Rightarrow> ('s \<Rightarrow> (http_response \<times> 's) option) \<Rightarrow> bool" where
  "shop_stores chain db m \<longleftrightarrow> (\<forall>s p s'. m s = Some (p, s') \<longrightarrow> store_run chain (db s) (db s'))"

lemma keeps_stores: "keeps db m \<Longrightarrow> shop_stores chain db m"
  by (auto simp: keeps_def shop_stores_def intro!: r_into_rtranclp same_tables_step)

lemma submit_order_stores:
  assumes "oh_svc oh = new_order_service eth svc chain"
  shows "shop_stores chain sh_store (submit_order oh clock rq)"
  unfolding shop_stores_def
proof (intro allI impI)
  fix s p s'
  assume run: "submit_order oh clock rq s = Some (p, s')"
  show "store_run chain (sh_store s) (sh_store s')"
  proof (cases "bind_submit_request (rq_body rq)")
    case (Inl e)
    with run show ?thesis by (simp add: submit_order_def)
  next
    case (Inr q)
    obtain x d1 where d1: "submit (oh_svc oh) clock q (sh_store s) = (x, d1)" by fastforce
    have "sh_store s' = d1"
      using run Inr d1 by (auto simp: submit_order_def on_store_def announce_def split: sum.splits option.splits)
    with storesD [OF stores_submit d1 [unfolded assms]] show ?thesis by simp
  qed
qed

lemma endpoint_stores:
  assumes "oh_svc (ap_orders ap) = new_order_service eth svc chain"
    and "rs_order_svc (ap_resolver ap) = new_order_service eth svc chain"
  shows "shop_stores chain store_of (run_endpoint ap en e rq)"
proof -
  have "stores chain (handle_graphql ap en rq)"
    by (rule storesI) (auto simp: handle_graphql_def split: sum.splits prod.splits dest: storesD [OF stores_exec [OF assms(2)]])
  then have graphql: "shop_stores chain store_of (with_db (handle_graphql ap en rq))"
    by (auto simp: shop_stores_def with_db_def with_shop_def on_store_def store_of_def split: prod.splits dest: storesD)
  have submit: "shop_stores chain store_of (with_shop (submit_order (ap_orders ap) (en_clock en) rq))"
    using submit_order_stores [OF assms(1), of "en_clock en" rq]
    by (auto simp: shop_stores_def with_shop_def store_of_def)
  show ?thesis
  proof (cases "e \<in> {SubmitOrder, Graphql}")
    case True
    with graphql submit show ?thesis
      by (auto simp: run_endpoint_def [abs_def] Let_def)
  next
    case False
    show ?thesis
      by (rule keeps_stores, rule endpoint_reads [OF assms(1) False])
  qed
qed

lemma serve_stores:
  assumes "oh_svc (ap_orders ap) = new_order_service eth svc chain"
    and "rs_order_svc (ap_resolver ap) = new_order_service eth svc chain"
    and "serve ap en rq st = Some (reply, st')"
  shows "store_run chain (store_of st) (store_of st')"
proof -
  let ?found = "ap_match ap routes (rq_method rq) (rq_path rq)"
  obtain ok bs where lim: "rate_limit 10 20 (en_limit en) (rq_ip rq) (sr_buckets st) = (ok, bs)"
    by fastforce
  have route: "run_route ap en ?found rq st1 = Some (p, st2) \<Longrightarrow> store_run chain (store_of st1) (store_of st2)" for st1 p st2
    using endpoint_stores [OF assms(1,2)]
    by (auto simp: run_route_def Let_def shop_stores_def split: option.splits prod.splits if_splits sum.splits)
  from assms(3) have "store_of st' = store_of st \<or>
      (\<exists>p st2. store_of st' = store_of st2 \<and> run_route ap en ?found rq (st\<lparr>sr_buckets := bs\<rparr>) = Some (p, st2))"
    by (auto simp: serve_def Let_def lim store_of_def split: prod.splits if_splits)
  moreover have "store_of (st\<lparr>sr_buckets := bs\<rparr>) = store_of st"
    by (simp add: store_of_def)
  ultimately show ?thesis
    using route [of "st\<lparr>sr_buckets := bs\<rparr>"] by auto
qed

subsection \<open>The background services are runs of the store\<close>

lemma stores_collections:
  "stores chain (upsert_nft_metadata m)" "stores chain (upsert_collection c col)"
  "stores chain (get_stale_collections n)" "stores chain (get_stale_metadata n)"
proof -
  have up: "stores chain (db_exec msg (upsert_nft_stmt m coll))" "stores chain (db_exec msg (upsert_collection_stmt c col addr))"
    for msg coll addr
    by (rule stores_db_exec, rule store_step.other;
        auto simp: upsert_nft_stmt_def upsert_collection_stmt_def Let_def split: if_splits)+
  show "stores chain (upsert_nft_metadata m)" "stores chain (upsert_collection c col)"
    by (auto intro!: storesI simp: upsert_nft_metadata_def upsert_collection_def split: sum.splits
        dest: storesD [OF up(1)] storesD [OF up(2)])
  have stale: "stores chain (db_exec msg (stale_collections_stmt n))" "stores chain (db_exec msg (stale_nft_stmt n))" for msg n
    by (rule stores_db_exec, rule store_step.other; auto simp: stale_collections_stmt_def stale_nft_stmt_def)+
  show "stores chain (get_stale_collections n)" "stores chain (get_stale_metadata n)"
    by (auto intro!: storesI simp: get_stale_collections_def get_stale_metadata_def split: sum.splits prod.splits
        dest: storesD [OF stale(1)] storesD [OF stale(2)])
qed

lemma rpc_call_db: "rpc_call ms target data s = (r, s') \<Longrightarrow> mt_db s' = mt_db s"
  by (auto simp: rpc_call_def split: prod.splits)

lemma fetch_body_db: "fetch_body ms uri s = (r, s') \<Longrightarrow> mt_db s' = mt_db s"
  by (auto simp: fetch_body_def split: sum.splits prod.splits)

lemma fetch_one_run: "fetch_one ms c i s = Some (r, s') \<Longrightarrow> store_run chain (mt_db s) (mt_db s')"
  by (auto simp: fetch_one_def split: prod.splits sum.splits option.splits if_splits
      dest!: rpc_call_db fetch_body_db dest: storesD [OF stores_collections(1)])

lemma attempts_run: "attempts n i stopped ms job s = Some s' \<Longrightarrow> store_run chain (mt_db s) (mt_db s')"
proof (induction n arbitrary: i s)
  case (Suc n)
  then obtain r s1 where f: "fetch_one ms (j_collection job) (j_token_id job) s = Some (r, s1)"
    "s' = s1 \<or> attempts n (Suc i) stopped ms job s1 = Some s'"
    by (auto split: option.splits sum.splits prod.splits if_splits)
  from fetch_one_run [OF f(1), of chain] f(2) Suc.IH show ?case
    by (auto intro: rtranclp_trans)
qed simp

lemma work_one_run: "work_one stopped ms s = Some s' \<Longrightarrow> store_run chain (mt_db s) (mt_db s')"
  by (auto simp: work_one_def fetch_with_retry_def split: list.splits dest: attempts_run [where chain = chain])

lemma call_string_db: "call_string ms target selector s = Some (r, s') \<Longrightarrow> mt_db s' = mt_db s"
  by (auto simp: call_string_def split: prod.splits sum.splits dest: rpc_call_db)

lemma fetch_collection_run: "fetch_collection ms a s = Some (r, s') \<Longrightarrow> store_run chain (mt_db s) (mt_db s')"
  by (auto simp: fetch_collection_def Let_def split: option.splits prod.splits
      dest!: call_string_db dest: storesD [OF stores_collections(2)])

lemma fetch_collections_run: "fetch_collections ms cs s = Some s' \<Longrightarrow> store_run chain (mt_db s) (mt_db s')"
proof (induction cs arbitrary: s)
  case (Cons c cs)
  then obtain r s1 where "fetch_collection ms (l_address c) s = Some (r, s1)" "fetch_collections ms cs s1 = Some s'"
    by (auto split: option.splits)
  with fetch_collection_run Cons.IH show ?case
    by (blast intro: rtranclp_trans)
qed simp

lemma refresh_run:
  assumes "metadata_refresh_tick ms s = Some s'"
  shows "store_run chain (mt_db s) (mt_db s')"
proof -
  obtain x d where g: "get_stale_collections 100 (mt_db s) = (x, d)" by fastforce
  note run1 = storesD [OF stores_collections(3) g, of chain]
  show ?thesis
  proof (cases x)
    case (Inl e)
    with assms g run1 show ?thesis
      by (auto simp: metadata_refresh_tick_def refresh_stale_def)
  next
    case (Inr cs)
    with assms g obtain s1 where s1: "fetch_collections ms cs (s\<lparr>mt_db := d\<rparr>) = Some s1"
      "\<exists>y d2. get_stale_metadata 100 (mt_db s1) = (y, d2) \<and> mt_db s' = d2"
      by (auto simp: metadata_refresh_tick_def refresh_stale_def split: option.splits prod.splits sum.splits)
    from fetch_collections_run [OF s1(1), of chain] run1 s1(2) show ?thesis
      by (auto intro: rtranclp_trans dest!: storesD [OF stores_collections(4), where chain = chain])
  qed
qed

subsection \<open>The site is a run of the store\<close>

lemma site_step_run:
  assumes "snd (start ob r) = Inr inst" and "site_step inst s s'"
  shows "\<exists>chain. store_run chain (site_db s) (site_db s')"
proof -
  from startedD [OF assms(1)] obtain cfg client r' where
    inst: "inst = build ob cfg (ob_redis ob (cf_redis_addr cfg)) r' client"
    by blast
  let ?chain = "cf_chain_id (cf_ethereum cfg)"
  from assms(2) have "store_run ?chain (site_db s) (site_db s')"
  proof (cases rule: site_step.cases)
    case (request en rq reply sr)
    have "rs_order_svc (ap_resolver (in_app inst)) = oh_svc (ap_orders (in_app inst))"
      by (simp add: inst build_def Let_def)
    with serve_stores [OF _ _ request(2)] show ?thesis
      by (simp add: inst build_simps request(1) site_db_def)
  next
    case (watch m lp)
    with do_move_run [OF watch(2), of ?chain] show ?thesis by simp
  next
    case (work stopped m)
    with work_one_run [OF work(2), of ?chain] show ?thesis by simp
  next
    case (refresh m)
    with refresh_run [OF refresh(2), of ?chain] show ?thesis by simp
  next
    case expire
    have "store_run ?chain (site_db s) (snd (expire_orders (site_db s)))"
      using stores_book(6) by (simp add: stores_def)
    with expire show ?thesis
      by (simp add: expire_orders_tick_def)
  next
    case (clock t)
    then show ?thesis
      by (auto intro: store_step.book repo_step.tick)
  next
    case (outcomes os)
    then show ?thesis
      by (auto intro: store_step.book repo_step.environment)
  qed (simp_all add: site_db_def store_of_def)
  then show ?thesis by blast
qed

lemma site_runs_ok:
  assumes "snd (start ob r) = Inr inst" and "(site_step inst)\<^sup>*\<^sup>* s s'" and "db_ok (site_db s)"
  shows "db_ok (site_db s')"
  using assms(2)
proof (induction rule: rtranclp_induct)
  case base
  show ?case by (rule assms(3))
next
  case (step y z)
  from site_step_run [OF assms(1) step.hyps(2)] step.IH show ?case
    by (auto intro: store_run_ok)
qed

lemma first_site_db: "store_run chain d (site_db (first_site inst answers net d))"
proof -
  let ?st = "\<lparr>wt_system = shared (first_server inst d), wt_cursor = 0, wt_answers = answers\<rparr>"
  have "store_run chain (wt_db ?st) (wt_db (initial_cursor (in_watcher inst) ?st))"
    by (rule initial_cursor_run)
  then show ?thesis
    by (simp add: first_site_def started_loops_def Let_def shared_def first_server_def)
qed

text \<open>
  C6: the whole site keeps its data in order.  From the first start on an empty database, through any requests to any
  route, any interleaving of the watcher, the metadata workers and the scheduler, and any failures of the database, the
  node and the network: no position of the chain is recorded twice and no order hash occurs twice.
\<close>

theorem site_keeps_integrity:
  assumes "snd (start ob r) = Inr inst" and "(site_step inst)\<^sup>*\<^sup>* (first_site inst answers net empty_db) s"
  shows "distinct (map (\<lambda>r. (v_block_number r, v_tx_index r, v_log_index r)) (t_events (site_db s))) \<and>
    distinct (map r_order_hash (t_orders (site_db s)))"
proof -
  have "db_ok (site_db (first_site inst answers net empty_db))"
    using store_run_ok [OF first_site_db db_ok_empty] .
  with site_runs_ok [OF assms] show ?thesis
    by (simp add: db_ok_distinct)
qed

text \<open>
  C3: a filled, cancelled or expired order is final in the whole site: whatever is requested, whatever the watcher
  sees, also reorganisations and the same event again, and whatever the scheduler does, its row stays as it is.
\<close>

theorem closed_order_final_in_site:
  assumes "snd (start ob r) = Inr inst" and "(site_step inst)\<^sup>*\<^sup>* s s'"
    and "row \<in> set (t_orders (site_db s))" and "r_status row \<noteq> Active"
  shows "row \<in> set (t_orders (site_db s'))"
  using assms(2)
proof (induction rule: rtranclp_induct)
  case base
  show ?case by (rule assms(3))
next
  case (step y z)
  from site_step_run [OF assms(1) step.hyps(2)] obtain chain where "store_run chain (site_db y) (site_db z)"
    by blast
  then show ?case
    using step.IH assms(4) by (rule store_run_closed)
qed

subsection \<open>Instances\<close>

text \<open>The first site of the example, and a request to it that stores an order.\<close>

definition toy_site :: "(string \<Rightarrow> json option, unit) site" where
  "toy_site = first_site toy_installation [Inr 100] () empty_db"

lemma cursor_of_empty: "snd (get_last_synced_block c empty_db) = empty_db"
  by (simp add: get_last_synced_block_def db_exec_healthy healthy_def cursor_stmt_def empty_db_def)

lemma toy_site_server: "st_server toy_site = toy_server"
proof -
  have "wt_system (initial_cursor w s) = wt_system s" if "wt_db s = empty_db" for w :: "(string \<Rightarrow> json option) watcher" and s
  proof -
    have "(wt_system s)\<lparr>sy_db := empty_db\<rparr> = wt_system s"
      using that by simp
    with that show ?thesis
      by (auto simp: initial_cursor_def watch_db_simps cursor_of_empty block_number_def Let_def
          split: list.split sum.split prod.split)
  qed
  moreover have "toy_server\<lparr>sr_redis := sr_redis toy_server, sr_shop := (sr_shop toy_server)
      \<lparr>sh_store := sh_store (sr_shop toy_server), sh_hub := sh_hub (sr_shop toy_server)\<rparr>\<rparr> = toy_server"
    by simp
  ultimately show ?thesis
    by (simp add: toy_site_def first_site_def Let_def keep_loops_def started_loops_def toy_first_server shared_def)
      (simp add: toy_server_def toy_shop_def)
qed

theorem site_keeps_integrity_witness:
  "\<exists>s. site_step toy_installation toy_site s \<and> site_db s = auction_db \<and>
     distinct (map r_order_hash (t_orders (site_db s)))"
proof -
  from signed_post_served obtain reply st' where st': "serve toy_app toy_env signed_post toy_server = Some (reply, st')"
    "store_of st' = auction_db" by blast
  then have step: "site_step toy_installation toy_site (toy_site\<lparr>st_server := st'\<rparr>)"
    by (intro site_step.request) (simp add: toy_installation_app toy_site_server)
  then have "(site_step toy_installation)\<^sup>*\<^sup>* (first_site toy_installation [Inr 100] () empty_db) (toy_site\<lparr>st_server := st'\<rparr>)"
    unfolding toy_site_def by (rule r_into_rtranclp)
  from site_keeps_integrity [OF toy_started this] step st'(2) show ?thesis
    by (intro exI [of _ "toy_site\<lparr>st_server := st'\<rparr>"]) (simp add: site_db_def)
qed

theorem closed_order_final_in_site_witness:
  "\<exists>row. r_status row = Filled \<and> row \<in> set (t_orders (snd (expire_orders (snd (update_status ''0x01'' Filled sample_db)))))"
proof -
  let ?d = "snd (update_status ''0x01'' Filled sample_db)" and ?s = "set_db (snd (update_status ''0x01'' Filled sample_db)) toy_site"
  have "hex_decode ''0x01'' = Inr (Some [1])"
    by code_simp
  then have "map r_status (t_orders ?d) = [Filled]"
    by (simp add: update_status_def exec_update_def db_exec_healthy update_active_stmt_def
        update_active_def sql_eq_def sample_row_def)
  then obtain row where row: "row \<in> set (t_orders (site_db ?s))" "r_status row = Filled"
    by (cases "t_orders ?d") auto
  have "(site_step toy_installation)\<^sup>*\<^sup>* ?s (keep_meta (expire_orders_tick (see_meta ?s)) ?s)"
    by (rule r_into_rtranclp) (rule site_step.expire)
  from closed_order_final_in_site [OF toy_started this row(1)] row(2) show ?thesis
    by (auto simp: expire_orders_tick_def)
qed

end
