(* ===== verification/IntrospectionFacts.thy ===== *)
theory IntrospectionFacts
  imports GraphQLSchema
begin

section \<open>internal/graphql/generated.go: introspection is answered\<close>

text \<open>
  The objects of introspection answer every selection that the schema accepts.  Each lemma goes from the field contexts
  of GraphQLSchema to the values of Introspection; the mutual recursion is closed by induction on the selection.
\<close>

text \<open>A value that is there, and a field that has one.\<close>

definition is_value :: "object_value \<Rightarrow> bool" where
  "is_value v \<longleftrightarrow> v \<noteq> None"

definition has_value :: "member \<Rightarrow> bool" where
  "has_value m \<longleftrightarrow> (\<exists>r v. m = Some (r, v) \<and> is_value v)"

lemma has_value_some [simp]: "has_value (Some (r, v)) \<longleftrightarrow> is_value v" "\<not> has_value None"
  by (simp_all add: has_value_def)

lemma is_value_shown [simp]: "is_value (shown j)" "is_value (shown_text t)"
  by (simp_all add: is_value_def shown_def shown_text_def)

lemma is_value_collect [simp]:
  "is_value (collect ty (map (\<lambda>s. (s, f s)) sels)) \<longleftrightarrow> (\<forall>s \<in> set sels. sel_name s = ''__typename'' \<or> has_value (f s))"
proof -
  have "collect_members ty (map (\<lambda>s. (s, f s)) sels) \<noteq> None \<longleftrightarrow>
      (\<forall>s \<in> set sels. sel_name s = ''__typename'' \<or> has_value (f s))"
    by (induction sels) (auto simp: has_value_def is_value_def shown_def split: option.splits)
  then show ?thesis
    by (simp add: collect_def is_value_def)
qed

lemma is_value_list [simp]: "is_value (list_value vs) \<longleftrightarrow> (\<forall>v \<in> set vs. is_value v)"
proof -
  have "items_of vs \<noteq> None \<longleftrightarrow> (\<forall>v \<in> set vs. is_value v)"
    by (induction vs) (auto simp: is_value_def split: option.splits)
  then show ?thesis
    by (simp add: list_value_def is_value_def)
qed

lemma is_value_list_or_null [simp]: "is_value (list_or_null vs) \<longleftrightarrow> (case vs of None \<Rightarrow> True | Some x \<Rightarrow> \<forall>v \<in> set x. is_value v)"
  by (cases vs) (simp_all add: list_or_null_def)

lemma is_value_or_null [simp]:
  "is_value (or_null_value v) \<longleftrightarrow> (case v of None \<Rightarrow> True | Some x \<Rightarrow> is_value x)"
  "is_value (or_null_error v) \<longleftrightarrow> (case v of None \<Rightarrow> True | Some x \<Rightarrow> is_value x)"
  by (simp_all add: or_null_value_def or_null_error_def is_value_def shown_def split: option.split)

lemma is_value_with_args [simp]: "is_value (with_args args f) \<longleftrightarrow> (\<forall>a. args = Inr a \<longrightarrow> is_value (f a))"
  by (cases args) (simp_all add: with_args_def is_value_def)

lemmas intro_child_defs = child_fields_def intro_child_def intro_fields_type_def intro_fields_field_def
  intro_fields_input_value_def intro_fields_enum_value_def intro_fields_directive_def intro_fields_schema_def

lemma intro_tables:
  "child_fields ''__Type'' = intro_fields_type" "child_fields ''__Field'' = intro_fields_field"
  "child_fields ''__InputValue'' = intro_fields_input_value" "child_fields ''__EnumValue'' = intro_fields_enum_value"
  "child_fields ''__Directive'' = intro_fields_directive" "child_fields ''__Schema'' = intro_fields_schema"
  by (simp_all add: child_fields_def fun_eq_iff)

lemma intro_valid:
  assumes "valid_selection ty (Sel al name args sub)" and "child_fields ty = intro_child ty table"
  shows "name = ''__typename'' \<or> (\<exists>im k. (name, im, k) \<in> set table \<and>
    (case k of ScalarChild t \<Rightarrow> True | ObjectChild t \<Rightarrow> \<forall>s \<in> set sub. valid_selection t s))"
proof (cases "name = ''__typename'' \<or> map_of table name = None")
  case True
  with assms show ?thesis
    by (auto simp: intro_child_def)
next
  case False
  then obtain im k where "map_of table name = Some (im, k)"
    by auto
  with False assms have "(name, im, k) \<in> set table \<and>
      (case k of ScalarChild t \<Rightarrow> True | ObjectChild t \<Rightarrow> \<forall>s \<in> set sub. valid_selection t s)"
    by (auto simp: intro_child_def dest: map_of_SomeD split: child_kind.splits)
  then show ?thesis by blast
qed

lemmas type_valid = intro_valid [OF _ intro_tables(1) [unfolded intro_fields_type_def]]
  and field_valid = intro_valid [OF _ intro_tables(2) [unfolded intro_fields_field_def]]
  and input_valid = intro_valid [OF _ intro_tables(3) [unfolded intro_fields_input_value_def]]
  and enum_valid = intro_valid [OF _ intro_tables(4) [unfolded intro_fields_enum_value_def]]
  and directive_valid = intro_valid [OF _ intro_tables(5) [unfolded intro_fields_directive_def]]
  and schema_valid = intro_valid [OF _ intro_tables(6) [unfolded intro_fields_schema_def]]

text \<open>A selection that the schema accepts is answered.\<close>

definition answered :: "string \<Rightarrow> (selection \<Rightarrow> member) \<Rightarrow> selection \<Rightarrow> bool" where
  "answered ty f s \<longleftrightarrow> (valid_selection ty s \<longrightarrow> sel_name s = ''__typename'' \<or> has_value (f s))"

lemma answered_collect:
  "\<lbrakk>\<And>s. s \<in> set sub \<Longrightarrow> answered ty f s; \<forall>s \<in> set sub. valid_selection ty s\<rbrakk> \<Longrightarrow>
    \<forall>s \<in> set sub. sel_name s = ''__typename'' \<or> has_value (f s)"
  by (auto simp: answered_def)

lemma enum_value_answered: "answered ''__EnumValue'' (enum_value_field ev) s"
  using enum_valid [of "sel_alias s" "sel_name s" "sel_args s" "sel_sub s"]
  by (auto simp: answered_def enum_value_field_def Let_def)

definition all_answered :: "gql_lib \<Rightarrow> selection \<Rightarrow> bool" where
  "all_answered L s \<longleftrightarrow> (\<forall>t f iv. answered ''__Type'' (type_field L t) s \<and> answered ''__Field'' (field_field L f) s \<and>
     answered ''__InputValue'' (input_value_field L iv) s)"

lemma subs_answered:
  assumes "\<And>s. s \<in> set sub \<Longrightarrow> all_answered L s"
  shows "\<forall>s \<in> set sub. valid_selection ''__Type'' s \<Longrightarrow>
      \<forall>s \<in> set sub. sel_name s = ''__typename'' \<or> has_value (type_field L t s)"
    and "\<forall>s \<in> set sub. valid_selection ''__Field'' s \<Longrightarrow>
      \<forall>s \<in> set sub. sel_name s = ''__typename'' \<or> has_value (field_field L f s)"
    and "\<forall>s \<in> set sub. valid_selection ''__InputValue'' s \<Longrightarrow>
      \<forall>s \<in> set sub. sel_name s = ''__typename'' \<or> has_value (input_value_field L iv s)"
    and "\<forall>s \<in> set sub. valid_selection ''__EnumValue'' s \<Longrightarrow>
      \<forall>s \<in> set sub. sel_name s = ''__typename'' \<or> has_value (enum_value_field ev s)"
  using assms enum_value_answered unfolding all_answered_def by (meson answered_def)+

lemma type_field_answered:
  assumes "\<And>s. s \<in> set sub \<Longrightarrow> all_answered L s"
  shows "answered ''__Type'' (type_field L t) (Sel al name args sub)"
  unfolding answered_def
proof (rule impI)
  assume v: "valid_selection ''__Type'' (Sel al name args sub)"
  have "name \<in> {''__typename'', ''kind'', ''name'', ''description'', ''specifiedByURL'', ''isOneOf''} \<or>
     name = ''fields'' \<and> (\<forall>s \<in> set sub. valid_selection ''__Field'' s) \<or>
     name \<in> {''interfaces'', ''possibleTypes'', ''ofType''} \<and> (\<forall>s \<in> set sub. valid_selection ''__Type'' s) \<or>
     name = ''enumValues'' \<and> (\<forall>s \<in> set sub. valid_selection ''__EnumValue'' s) \<or>
     name = ''inputFields'' \<and> (\<forall>s \<in> set sub. valid_selection ''__InputValue'' s)"
    using type_valid [OF v] by (simp, elim disjE exE conjE; simp)
  then show "sel_name (Sel al name args sub) = ''__typename'' \<or> has_value (type_field L t (Sel al name args sub))"
    unfolding insert_iff empty_iff
    by (elim disjE conjE FalseE;
        simp add: type_plain_field_def enum_value_object_def subs_answered [OF assms] comp_def split: option.split)
qed

lemma field_field_answered:
  assumes "\<And>s. s \<in> set sub \<Longrightarrow> all_answered L s"
  shows "answered ''__Field'' (field_field L f) (Sel al name args sub)"
  unfolding answered_def
proof (rule impI)
  assume v: "valid_selection ''__Field'' (Sel al name args sub)"
  have "name \<in> {''__typename'', ''name'', ''description'', ''isDeprecated'', ''deprecationReason''} \<or>
     name = ''args'' \<and> (\<forall>s \<in> set sub. valid_selection ''__InputValue'' s) \<or>
     name = ''type'' \<and> (\<forall>s \<in> set sub. valid_selection ''__Type'' s)"
    using field_valid [OF v] by (simp, elim disjE exE conjE; simp)
  then show "sel_name (Sel al name args sub) = ''__typename'' \<or> has_value (field_field L f (Sel al name args sub))"
    unfolding insert_iff empty_iff
    by (elim disjE conjE FalseE; simp add: subs_answered [OF assms] comp_def split: option.split)
qed

lemma input_value_field_answered:
  assumes "\<And>s. s \<in> set sub \<Longrightarrow> all_answered L s"
  shows "answered ''__InputValue'' (input_value_field L iv) (Sel al name args sub)"
  unfolding answered_def
proof (rule impI)
  assume v: "valid_selection ''__InputValue'' (Sel al name args sub)"
  have "name \<in> {''__typename'', ''name'', ''description'', ''defaultValue'', ''isDeprecated'', ''deprecationReason''} \<or>
     name = ''type'' \<and> (\<forall>s \<in> set sub. valid_selection ''__Type'' s)"
    using input_valid [OF v] by (simp, elim disjE exE conjE; simp)
  then show "sel_name (Sel al name args sub) = ''__typename'' \<or> has_value (input_value_field L iv (Sel al name args sub))"
    unfolding insert_iff empty_iff
    by (elim disjE conjE FalseE; simp add: subs_answered [OF assms] comp_def split: option.split)
qed

text \<open>By induction on the selection: types may refer to each other in a cycle, a selection may not.\<close>

lemma selection_answered: "all_answered L s"
proof (induction s)
  case (Sel al name args sub)
  note ih = Sel.IH
  show ?case
    by (simp add: all_answered_def type_field_answered [OF ih] field_field_answered [OF ih]
        input_value_field_answered [OF ih])
qed

lemmas objects_answered = subs_answered [OF selection_answered]

lemma directive_sel_answered: "answered ''__Directive'' (directive_field L di) (Sel al name args sub)"
  unfolding answered_def
proof (rule impI)
  assume v: "valid_selection ''__Directive'' (Sel al name args sub)"
  have "name \<in> {''__typename'', ''name'', ''description'', ''isRepeatable'', ''locations''} \<or>
     name = ''args'' \<and> (\<forall>s \<in> set sub. valid_selection ''__InputValue'' s)"
    using directive_valid [OF v] by (simp, elim disjE exE conjE; simp)
  then show "sel_name (Sel al name args sub) = ''__typename'' \<or> has_value (directive_field L di (Sel al name args sub))"
    unfolding insert_iff empty_iff
    by (elim disjE conjE FalseE; simp add: directive_field_def Let_def input_value_object_def objects_answered)
qed

lemma directive_answered: "answered ''__Directive'' (directive_field L di) s"
  by (cases s) (simp add: directive_sel_answered)

lemma schema_answered: "answered ''__Schema'' (schema_field L sc) (Sel al name args sub)"
  unfolding answered_def
proof (rule impI)
  assume v: "valid_selection ''__Schema'' (Sel al name args sub)"
  have directives: "\<forall>s \<in> set sub. valid_selection ''__Directive'' s \<Longrightarrow>
      \<forall>s \<in> set sub. sel_name s = ''__typename'' \<or> has_value (directive_field L di s)" for di
    by (rule answered_collect [OF directive_answered])
  have "name \<in> {''__typename'', ''description''} \<or>
     name \<in> {''types'', ''queryType'', ''mutationType'', ''subscriptionType''} \<and> (\<forall>s \<in> set sub. valid_selection ''__Type'' s) \<or>
     name = ''directives'' \<and> (\<forall>s \<in> set sub. valid_selection ''__Directive'' s)"
    using schema_valid [OF v] by (simp, elim disjE exE conjE; simp)
  then show "sel_name (Sel al name args sub) = ''__typename'' \<or> has_value (schema_field L sc (Sel al name args sub))"
    unfolding insert_iff empty_iff
    by (elim disjE conjE FalseE; simp add: schema_field_def Let_def type_object_def directive_object_def objects_answered
        directives comp_def split: option.split)
qed

lemma valid_objects:
  "\<forall>s \<in> set sels. valid_selection ''__Type'' s \<Longrightarrow> type_object L sels t \<noteq> None"
  "\<forall>s \<in> set sels. valid_selection ''__Schema'' s \<Longrightarrow> schema_object L sels sc \<noteq> None"
proof -
  assume "\<forall>s \<in> set sels. valid_selection ''__Type'' s"
  then have "is_value (type_object L sels t)"
    by (simp add: type_object_def objects_answered)
  then show "type_object L sels t \<noteq> None"
    by (simp add: is_value_def)
next
  assume "\<forall>s \<in> set sels. valid_selection ''__Schema'' s"
  moreover have "answered ''__Schema'' (schema_field L sc) s" for s
    by (cases s) (simp add: schema_answered)
  ultimately have "is_value (schema_object L sels sc)"
    using answered_collect by (simp add: schema_object_def) blast
  then show "schema_object L sels sc \<noteq> None"
    by (simp add: is_value_def)
qed

text \<open>
  C40: introspection never panics.  Whatever schema the library serves, and however its types refer to each other: a
  selection set that the schema accepts for \<open>__Type\<close> (for \<open>__Schema\<close>) is answered with JSON at any nesting, so that
  \<open>__type\<close> (\<open>__schema\<close>) does not run into the panic for an unknown field.
\<close>

theorem introspection_answered:
  "((\<forall>s \<in> set sels. valid_selection ''__Type'' s) \<longrightarrow> type_object L sels t \<noteq> None) \<and>
   ((\<forall>s \<in> set sels. valid_selection ''__Schema'' s) \<longrightarrow> schema_object L sels sc \<noteq> None)"
  using valid_objects by blast

theorem introspection_answered_witness:
  "type_object toy_gql [Sel ''up'' ''interfaces'' []
     [Sel ''n'' ''name'' [] [], Sel ''up'' ''interfaces'' [] [Sel ''k'' ''kind'' [] []]]] 0 \<noteq> None"
proof -
  let ?sels = "[Sel ''up'' ''interfaces'' []
     [Sel ''n'' ''name'' [] [], Sel ''up'' ''interfaces'' [] [Sel ''k'' ''kind'' [] []]]]"
  have "\<forall>s \<in> set ?sels. valid_selection ''__Type'' s"
    by (simp add: intro_tables intro_child_def intro_fields_type_def)
  then show ?thesis
    using introspection_answered [of ?sels] by blast
qed

end
