(* ===== verification/Spec2Isabelle.thy ===== *)
theory Spec2Isabelle
  imports Swagger Site IntrospectionFacts
begin

text \<open>
  A model of the NFT market backend (Go) and the theorems that make it correct.

  \<^bold>\<open>The program.\<close>  A server keeps a book of signed orders for NFTs.  Makers submit orders over REST or
  GraphQL; the order service checks the EIP-712 signature and the rules and stores them in PostgreSQL.  A
  watcher follows the logs of the exchange contracts and hands them to the event service, which closes
  orders and tells the WebSocket subscribers.  Makers sign in with their wallet and get a JWT for the
  protected routes.  A metadata service fetches names and token metadata, a scheduler expires orders.

  \<^bold>\<open>Theories and sources\<close> (paths under \<open>src/internal\<close> unless said otherwise).
  \<^item> \<open>Prelude\<close>: results, machine integers (\<open>wrap64\<close>, \<open>uint64\<close>), instants, shared lemmas.  \<open>GoText\<close>: strings as
    bytes, hex, decimal, \<open>big.Int.SetString\<close>, \<open>strconv\<close>, errors (\<open>domain/errors.go\<close>).  \<open>GoJson\<close>: JSON as values.
  \<^item> \<open>Domain\<close>: \<open>domain/order.go\<close>, \<open>event.go\<close>; \<open>current_price\<close> with its bounds, its monotonicity, its rounding.
  \<^item> \<open>Database\<close>: the tables of \<open>src/migrations\<close> with their constraints; a statement either fails, or runs, or
    runs and loses its answer, as a schedule (\<open>db_outcomes\<close>) says.
  \<^item> \<open>OrderRepo\<close>, \<open>OrderRepoFacts\<close>, \<open>OrderLifecycle\<close>, \<open>OrderQueries\<close>: \<open>repository/order.go\<close>.  The abstraction is
    \<open>book\<close>, the list of orders; \<open>matching\<close> is the meaning of a filter; the step relation of the repository
    carries the integrity of the table and the finality of closed orders.
  \<^item> \<open>Signature\<close>: \<open>service/signature.go\<close> over a record of go-ethereum functions.  \<open>OrderService\<close>:
    \<open>service/order.go\<close>; the locales \<open>signature_verifier\<close>, \<open>order_store\<close> and \<open>order_desk\<close> are its interfaces, interpreted on
    the verifier and the repository.
  \<^item> \<open>EventRepo\<close>, \<open>CollectionRepo\<close>: \<open>repository/event.go\<close>, \<open>collection.go\<close>.  \<open>Hub\<close>: \<open>ws/hub.go\<close>, \<open>handler/ws.go\<close>, as
    a step relation over every interleaving of its goroutines.  \<open>Cache\<close>: \<open>service/cache.go\<close>.
  \<^item> \<open>EventService\<close>: \<open>service/event.go\<close>, refined to the set of orders that an event closes.  \<open>Watcher\<close>:
    \<open>watcher/watcher.go\<close>, the parsing of logs, the effect of a new log from end to end, and the runs of the
    watcher under failures.  \<open>WatcherLoops\<close>: its three loops and the goroutines of its handlers, in every
    interleaving; a handler alone refines to \<open>Watcher.handle_log\<close>.  \<open>Rpc\<close>: \<open>rpc/client.go\<close>, and the watcher on it.
  \<^item> \<open>Http\<close>, \<open>OrderHandler\<close>, \<open>OrderApi\<close>: \<open>handler/order.go\<close> on requests and responses.  \<open>CollectionHandler\<close>:
    \<open>handler/collection.go\<close>, \<open>health.go\<close>.  \<open>Metadata\<close>, \<open>MetadataFacts\<close>: \<open>service/metadata.go\<close>, \<open>scheduler.go\<close>.
  \<^item> \<open>Auth\<close>, \<open>AuthFacts\<close>: \<open>service/auth.go\<close>, \<open>handler/auth.go\<close>, \<open>middleware/auth.go\<close>.  \<open>Middleware\<close>: the other
    files of \<open>middleware\<close>.  \<open>Config\<close>: \<open>config/config.go\<close>, \<open>log/log.go\<close>.
  \<^item> \<open>GraphQL\<close>: \<open>graphql/models_gen.go\<close>, \<open>scalars.go\<close>, \<open>convert.go\<close>, \<open>schema.resolvers.go\<close>.  Of
    \<open>graphql/generated.go\<close>, \<open>GraphQLArgs\<close> reads the arguments, \<open>Introspection\<close> builds the objects of introspection,
    \<open>GraphQLExec\<close> calls the resolvers and builds the objects of the schema, \<open>GraphQLSchema\<close> has the field contexts,
    complexity and \<open>Exec\<close>; here and in \<open>IntrospectionFacts\<close>: every selection the contexts allow is answered.
  \<^item> \<open>Server\<close>: \<open>src/cmd/api/main.go\<close>, the routes, the middleware chain and the dispatch, composed of the above.
    \<open>StoreRuns\<close> and \<open>Site\<close>: everything that \<open>main\<close> starts, on one database, as runs of the repositories.
    \<open>Startup\<close>: the start of \<open>main\<close> with its checks, what it connects to what, the traffic of a started server, the end.
  \<^item> \<open>Swagger\<close>: \<open>src/docs/docs.go\<close>, the documented operations and schemas as data, compared with the routes and the
    answers of the handlers.

  \<^bold>\<open>How the code is modelled.\<close>  A struct is a record, a pointer that may be nil an option, a \<open>*big.Int\<close> an
  \<open>int\<close>, an enumeration the byte that holds it, a \<open>uint64\<close> a word; Go's \<open>int\<close> and \<open>int64\<close> are \<open>int\<close> with
  \<open>wrap64\<close> where an operation can leave the range.  A function that can fail answers \<open>go_error + 'a\<close>, one
  that can panic an option of it.  State is passed explicitly: the database with its schedule of
  failures, the hub, Redis behind \<open>'r\<close>.  The clock, randomness and answers of the network are arguments.

  \<^bold>\<open>What the theorems show.\<close>  Orders: what is accepted and why not, that an accepted order can be read back
  by service and by HTTP, prices, pages as pages of the abstract book, the finality of closed orders and
  uniqueness in every run of the whole site.  Events: the effect of each handler, replay, no duplicates in
  any interleaving of the watcher, a new log taking effect exactly once, the end of the wait for confirmations.  Hub: consistency and delivery.  Access:
  one token per challenge, who gets a token, the rate, and that only an authenticated POST changes a table, also over
  all the traffic of a started server.  Start: all or nothing, on one chain and one exchange.  The document: which
  routes, statuses and forms it gets right.
  GraphQL: the same submission and the same order as in REST, queries that only read.  Where the code
  departs from its intention the model does too, and a theorem states the departure (a panic on short
  logs, a send on a closed channel, the gap after a reorganisation, a log that a restart skips, the decoder's overflow, and others).

  \<^bold>\<open>Bounds.\<close>  Loops are structural recursions over the data they read, so no fuel is needed: the retry loop
  of a fetch over its three attempts, the wait for confirmations over the node's answers (a list, at whose
  end the context is cancelled).  The endless loops of goroutines are step relations; moves (\<open>WatcherLoops.do_move\<close>) make concrete runs executable.

  \<^bold>\<open>Not modelled.\<close>  Bytes of JSON documents, the text of times and the rounding of \<open>float64\<close> tokens; TLS,
  WebSocket frames, pings and deadlines; connection pools; the histogram of request durations; the descriptions of
  schema members in the Swagger document; gqlgen's queue of deferred selections, which this schema never fills.  A panic in a request is
  the value \<open>None\<close>: what its handler had written before it is lost to the model.  Libraries (go-ethereum, gin, gqlgen,
  go-redis, JWT, viper, zap, migrate) are parameters; what is assumed of them is a named hypothesis with an instance.
\<close>

end
